theory Spec2Isabelle
  imports Complex_Main "HOL-Library.AList"
begin


section \<open>Data model (types.ts)\<close>

text \<open>
  The interfaces of \<^verbatim>\<open>types.ts\<close> as records. A JavaScript \<^verbatim>\<open>number\<close> is modelled as a
  real: the arithmetic of the cost engine is read over exact numbers, so rounding, NaN and
  the infinities of IEEE doubles are outside the model. Field names are those of the
  source; where two interfaces share a field name the field is written with its record's
  name in front (\<open>CostDetail.monthlyCost\<close>, \<open>ResourceChange.resourceId\<close>).
\<close>

datatype confidence = High | Medium | Low | Unknown

record CostDetail =
  component :: string
  quantity :: real
  unitPrice :: real
  monthlyCost :: real
  unit :: string

record UnsupportedResource =
  resourceId :: string
  resourceType :: string
  reason :: string

datatype changeType = Added | Removed | Modified | Unchanged

record ResourceChange =
  resourceId :: string
  resourceType :: string
  changeType :: changeType
  beforeCost :: real
  afterCost :: real
  costDifference :: real

record ResourceCost =
  resourceId :: string
  resourceType :: string
  monthlyCost :: real
  hourlyCost :: real
  unit :: string
  details :: "CostDetail list"
  confidence :: confidence

datatype templateSource = Deployed | Synthesized | Local

record StackCostEstimate =
  stackName :: string
  templateSource :: templateSource
  totalMonthlyCost :: real
  totalHourlyCost :: real
  resources :: "ResourceCost list"
  unsupportedResources :: "UnsupportedResource list"
  timestamp :: string

record CostComparison =
  stackName :: string
  before :: StackCostEstimate
  after :: StackCostEstimate
  costDifference :: real
  percentageChange :: real
  resourceChanges :: "ResourceChange list"


section \<open>Diff engine (diff-calculator.ts)\<close>

text \<open>
  A JavaScript \<^verbatim>\<open>Map\<close> built from a list of entries keeps one entry per key, at the
  position of the key's first insertion and with the value of its last insertion. It is
  modelled as an association list with distinct keys in insertion order.
\<close>

fun Map_set :: "('k \<times> 'v) list \<Rightarrow> 'k \<Rightarrow> 'v \<Rightarrow> ('k \<times> 'v) list" where
  "Map_set [] k v = [(k, v)]"
| "Map_set ((k', v') # m) k v = (if k' = k then (k, v) # m else (k', v') # Map_set m k v)"

definition new_Map :: "('k \<times> 'v) list \<Rightarrow> ('k \<times> 'v) list" where
  "new_Map entries = foldl (\<lambda>m (k, v). Map_set m k v) [] entries"

definition Map_get :: "('k \<times> 'v) list \<Rightarrow> 'k \<Rightarrow> 'v option" where
  "Map_get m k = map_of m k"

definition Map_has :: "('k \<times> 'v) list \<Rightarrow> 'k \<Rightarrow> bool" where
  "Map_has m k = (map_of m k \<noteq> None)"

text \<open>
  The first loop of \<^verbatim>\<open>compareEstimates\<close>: one change per entry of the after map.
\<close>

definition afterChange :: "(string \<times> ResourceCost) list \<Rightarrow> string \<times> ResourceCost \<Rightarrow> ResourceChange" where
  "afterChange beforeResources entry =
     (case entry of (rid, afterResource) \<Rightarrow>
       (case Map_get beforeResources rid of
          None \<Rightarrow>
            \<lparr> ResourceChange.resourceId = rid,
              ResourceChange.resourceType = ResourceCost.resourceType afterResource,
              changeType = Added,
              beforeCost = 0,
              afterCost = ResourceCost.monthlyCost afterResource,
              ResourceChange.costDifference = ResourceCost.monthlyCost afterResource \<rparr>
        | Some beforeResource \<Rightarrow>
            if \<bar>ResourceCost.monthlyCost beforeResource - ResourceCost.monthlyCost afterResource\<bar> > 0.01
            then
              \<lparr> ResourceChange.resourceId = rid,
                ResourceChange.resourceType = ResourceCost.resourceType afterResource,
                changeType = Modified,
                beforeCost = ResourceCost.monthlyCost beforeResource,
                afterCost = ResourceCost.monthlyCost afterResource,
                ResourceChange.costDifference =
                  ResourceCost.monthlyCost afterResource - ResourceCost.monthlyCost beforeResource \<rparr>
            else
              \<lparr> ResourceChange.resourceId = rid,
                ResourceChange.resourceType = ResourceCost.resourceType afterResource,
                changeType = Unchanged,
                beforeCost = ResourceCost.monthlyCost beforeResource,
                afterCost = ResourceCost.monthlyCost afterResource,
                ResourceChange.costDifference = 0 \<rparr>))"

text \<open>The second loop: a removed change for each entry of the before map that the after map lacks.\<close>

definition removedChange :: "string \<times> ResourceCost \<Rightarrow> ResourceChange" where
  "removedChange entry =
     (case entry of (rid, beforeResource) \<Rightarrow>
        \<lparr> ResourceChange.resourceId = rid,
          ResourceChange.resourceType = ResourceCost.resourceType beforeResource,
          changeType = Removed,
          beforeCost = ResourceCost.monthlyCost beforeResource,
          afterCost = 0,
          ResourceChange.costDifference = - ResourceCost.monthlyCost beforeResource \<rparr>)"

text \<open>
  \<^verbatim>\<open>resourceChanges.sort((a, b) => Math.abs(b.costDifference) - Math.abs(a.costDifference))\<close>:
  a stable sort, largest absolute difference first.
\<close>

definition sortChanges :: "ResourceChange list \<Rightarrow> ResourceChange list" where
  "sortChanges cs = sort_key (\<lambda>c. - \<bar>ResourceChange.costDifference c\<bar>) cs"

definition unsortedChanges :: "StackCostEstimate \<Rightarrow> StackCostEstimate \<Rightarrow> ResourceChange list" where
  "unsortedChanges b a =
     (let beforeResources = new_Map (map (\<lambda>r. (ResourceCost.resourceId r, r)) (resources b));
          afterResources = new_Map (map (\<lambda>r. (ResourceCost.resourceId r, r)) (resources a))
      in map (afterChange beforeResources) afterResources
         @ map removedChange (filter (\<lambda>entry. \<not> Map_has afterResources (fst entry)) beforeResources))"

definition compareEstimates :: "StackCostEstimate \<Rightarrow> StackCostEstimate \<Rightarrow> CostComparison" where
  "compareEstimates b a =
     (let resourceChanges = sortChanges (unsortedChanges b a);
          costDifference = totalMonthlyCost a - totalMonthlyCost b;
          percentageChange =
            (if totalMonthlyCost b > 0
             then (costDifference / totalMonthlyCost b) * 100
             else (if costDifference > 0 then 100 else 0))
      in \<lparr> CostComparison.stackName = StackCostEstimate.stackName a,
           before = b,
           after = a,
           CostComparison.costDifference = costDifference,
           percentageChange = percentageChange,
           resourceChanges = resourceChanges \<rparr>)"

text \<open>
  Vocabulary for the properties of the diff: the resource an estimate holds for an
  identifier (the last one in the list, as the \<^verbatim>\<open>Map\<close> built from it keeps), and the
  changes a comparison lists for an identifier.
\<close>

definition resourceOf :: "StackCostEstimate \<Rightarrow> string \<Rightarrow> ResourceCost option" where
  "resourceOf est rid = find (\<lambda>r. ResourceCost.resourceId r = rid) (rev (resources est))"

definition changesOf :: "CostComparison \<Rightarrow> string \<Rightarrow> ResourceChange list" where
  "changesOf cmp rid = filter (\<lambda>c. ResourceChange.resourceId c = rid) (resourceChanges cmp)"

text \<open>Sample estimates, used to instantiate the theorems on the diff.\<close>

definition sampleCost :: "string \<Rightarrow> string \<Rightarrow> real \<Rightarrow> ResourceCost" where
  "sampleCost rid ty m =
     \<lparr> ResourceCost.resourceId = rid, ResourceCost.resourceType = ty,
       ResourceCost.monthlyCost = m, hourlyCost = m / 730, ResourceCost.unit = ''instance'',
       details = [], confidence = High \<rparr>"

definition sampleEstimate :: "ResourceCost list \<Rightarrow> StackCostEstimate" where
  "sampleEstimate rs =
     \<lparr> StackCostEstimate.stackName = ''Stack'', templateSource = Local,
       totalMonthlyCost = sum_list (map ResourceCost.monthlyCost rs),
       totalHourlyCost = sum_list (map hourlyCost rs),
       resources = rs, unsupportedResources = [], timestamp = ''2024-01-01T00:00:00.000Z'' \<rparr>"

definition estimateBefore :: StackCostEstimate where
  "estimateBefore = sampleEstimate
     [sampleCost ''Web'' ''AWS::EC2::Instance'' 10,
      sampleCost ''Db'' ''AWS::RDS::DBInstance'' 50,
      sampleCost ''Old'' ''AWS::EC2::NatGateway'' 37]"

definition estimateAfter :: StackCostEstimate where
  "estimateAfter = sampleEstimate
     [sampleCost ''Web'' ''AWS::EC2::Instance'' (10 + 5 / 1000),
      sampleCost ''Db'' ''AWS::RDS::DBInstance'' 80,
      sampleCost ''New'' ''AWS::EKS::Cluster'' 73]"

definition estimateNegative :: StackCostEstimate where
  "estimateNegative = sampleEstimate [sampleCost ''Vol'' ''AWS::EC2::Volume'' (- 10)]"

definition estimateEmpty :: StackCostEstimate where
  "estimateEmpty = sampleEstimate []"


section \<open>JavaScript values\<close>

text \<open>
  A parsed template is a tree of JSON values, and the parser's functions are typed
  \<^verbatim>\<open>unknown\<close>: they inspect the values at run time. The values are modelled as a datatype,
  with \<^verbatim>\<open>undefined\<close> added, which member access and \<^verbatim>\<open>list[index]\<close> produce. An object is
  the list of its own properties in insertion order; inherited properties of
  \<^verbatim>\<open>Object.prototype\<close> are not modelled.
\<close>

datatype jsval =
    JUndefined
  | JNull
  | JBool bool
  | is_JNum: JNum (the_number: real)
  | is_JStr: JStr (the_string: string)
  | is_JArr: JArr (the_items: "jsval list")
  | is_JObj: JObj (the_fields: "(string \<times> jsval) list")

text \<open>Truthiness, as \<^verbatim>\<open>&&\<close>, \<^verbatim>\<open>||\<close>, \<^verbatim>\<open>!\<close> and \<^verbatim>\<open>?:\<close> test it.\<close>

fun truthy :: "jsval \<Rightarrow> bool" where
  "truthy JUndefined = False"
| "truthy JNull = False"
| "truthy (JBool b) = b"
| "truthy (JNum r) = (r \<noteq> 0)"
| "truthy (JStr s) = (s \<noteq> [])"
| "truthy (JArr xs) = True"
| "truthy (JObj fs) = True"

text \<open>\<^verbatim>\<open>typeof v === 'object'\<close>: objects, arrays and \<^verbatim>\<open>null\<close>.\<close>

fun typeof_object :: "jsval \<Rightarrow> bool" where
  "typeof_object JNull = True"
| "typeof_object (JArr xs) = True"
| "typeof_object (JObj fs) = True"
| "typeof_object v = False"

text \<open>
  An array index as a property key: the decimal numeral of a natural number, without
  leading zeros.
\<close>

definition digit_of :: "char \<Rightarrow> nat option" where
  "digit_of c = map_of (zip ''0123456789'' [0, 1, 2, 3, 4, 5, 6, 7, 8, 9]) c"

fun digits_value :: "nat \<Rightarrow> string \<Rightarrow> nat option" where
  "digits_value acc [] = Some acc"
| "digits_value acc (c # cs) =
     (case digit_of c of None \<Rightarrow> None | Some d \<Rightarrow> digits_value (10 * acc + d) cs)"

definition index_of_key :: "string \<Rightarrow> nat option" where
  "index_of_key k =
     (case k of
        [] \<Rightarrow> None
      | c # cs \<Rightarrow> if c = CHR ''0'' \<and> cs \<noteq> [] then None else digits_value 0 k)"

text \<open>
  \<^verbatim>\<open>list[index]\<close> for a number \<^verbatim>\<open>index\<close>: the element when the index is a natural number
  below the length, \<^verbatim>\<open>undefined\<close> otherwise (a fraction, a negative number, or past the end).
\<close>

definition array_at :: "jsval list \<Rightarrow> real \<Rightarrow> jsval" where
  "array_at xs i =
     (if 0 \<le> i \<and> i = of_int \<lfloor>i\<rfloor> \<and> nat \<lfloor>i\<rfloor> < length xs then xs ! nat \<lfloor>i\<rfloor> else JUndefined)"

text \<open>
  \<^verbatim>\<open>v[key]\<close> and \<^verbatim>\<open>v.key\<close> on a value that is not \<^verbatim>\<open>null\<close> or \<^verbatim>\<open>undefined\<close>: an own
  property of an object, an element or the length of an array or a string, and
  \<^verbatim>\<open>undefined\<close> in every other case. (On \<^verbatim>\<open>null\<close> and \<^verbatim>\<open>undefined\<close> the access throws; the
  callers below test for them first, or use \<^verbatim>\<open>?.\<close>, for which \<open>member\<close> answers
  \<^verbatim>\<open>undefined\<close>.)
\<close>

fun member :: "jsval \<Rightarrow> string \<Rightarrow> jsval" where
  "member (JObj fs) k = (case map_of fs k of None \<Rightarrow> JUndefined | Some v \<Rightarrow> v)"
| "member (JArr xs) k =
     (if k = ''length'' then JNum (of_nat (length xs))
      else (case index_of_key k of
              None \<Rightarrow> JUndefined
            | Some i \<Rightarrow> if i < length xs then xs ! i else JUndefined))"
| "member (JStr s) k =
     (if k = ''length'' then JNum (of_nat (length s))
      else (case index_of_key k of
              None \<Rightarrow> JUndefined
            | Some i \<Rightarrow> if i < length s then JStr [s ! i] else JUndefined))"
| "member v k = JUndefined"

text \<open>\<^verbatim>\<open>key in obj\<close> for an object or an array.\<close>

fun has_key :: "jsval \<Rightarrow> string \<Rightarrow> bool" where
  "has_key (JObj fs) k = (map_of fs k \<noteq> None)"
| "has_key (JArr xs) k =
     (k = ''length'' \<or> (case index_of_key k of None \<Rightarrow> False | Some i \<Rightarrow> i < length xs))"
| "has_key v k = False"

text \<open>
  What the language runtime supplies and the source does not determine: the decimal text of
  a number (\<^verbatim>\<open>String(n)\<close>, template literals), its text in the default locale
  (\<^verbatim>\<open>toLocaleString\<close>), the number a string, an array or an object converts to, and the
  message of the \<^verbatim>\<open>TypeError\<close> raised when a value that is not a function is called (by the
  name of the missing method). They are parameters of the model; every theorem holds for all
  of them. Where JavaScript would convert to NaN, \<open>toNumber\<close> stands for it with some number:
  runs that compute with NaN are not described faithfully, as for all floating-point effects.
\<close>

record runtime =
  numberToString :: "real \<Rightarrow> string"
  toLocaleString :: "real \<Rightarrow> string"
  toNumber :: "jsval \<Rightarrow> real"
  typeErrorMessage :: "string \<Rightarrow> string"

text \<open>\<^verbatim>\<open>Array.prototype.join\<close> of already converted elements.\<close>

fun join :: "string \<Rightarrow> string list \<Rightarrow> string" where
  "join sep [] = []"
| "join sep [s] = s"
| "join sep (s # t # ts) = s @ sep @ join sep (t # ts)"

text \<open>\<^verbatim>\<open>String(v)\<close>, the conversion a template literal applies.\<close>

fun toStringJS :: "runtime \<Rightarrow> jsval \<Rightarrow> string" where
  "toStringJS rt JUndefined = ''undefined''"
| "toStringJS rt JNull = ''null''"
| "toStringJS rt (JBool b) = (if b then ''true'' else ''false'')"
| "toStringJS rt (JNum r) = numberToString rt r"
| "toStringJS rt (JStr s) = s"
| "toStringJS rt (JArr xs) =
     join '','' (map (\<lambda>x. if x = JNull \<or> x = JUndefined then [] else toStringJS rt x) xs)"
| "toStringJS rt (JObj fs) = ''[object Object]''"

text \<open>\<^verbatim>\<open>Number(v)\<close>, the conversion arithmetic and numeric comparison apply.\<close>

definition toNumberJS :: "runtime \<Rightarrow> jsval \<Rightarrow> real" where
  "toNumberJS rt v =
     (case v of
        JNum r \<Rightarrow> r
      | JBool b \<Rightarrow> (if b then 1 else 0)
      | JNull \<Rightarrow> 0
      | _ \<Rightarrow> toNumber rt v)"

text \<open>A thrown value: an \<^verbatim>\<open>Error\<close> with its message, or any other value with its text.\<close>

datatype exn = Error string | Thrown string

text \<open>
  The names of the properties of \<^verbatim>\<open>Object.prototype\<close>, which \<^verbatim>\<open>obj[name]\<close> finds on every
  object that has no entry of its own under the name.
\<close>

definition Object_prototype :: "string list" where
  "Object_prototype =
     [''constructor'', ''__defineGetter__'', ''__defineSetter__'', ''hasOwnProperty'',
      ''__lookupGetter__'', ''__lookupSetter__'', ''isPrototypeOf'', ''propertyIsEnumerable'',
      ''toString'', ''valueOf'', ''__proto__'', ''toLocaleString'']"


section \<open>Template parser (template-parser.ts)\<close>

text \<open>
  Of a template the cost engine reads two sections: \<^verbatim>\<open>Parameters\<close>, an optional record,
  and \<^verbatim>\<open>Resources\<close>, a record whose entries are whatever the parsed document holds.
\<close>

record CloudFormationTemplate =
  Parameters :: "(string \<times> jsval) list option"
  Resources :: "(string \<times> jsval) list"

text \<open>The optional argument \<^verbatim>\<open>context: { parameters?: Record<string, unknown> }\<close>.\<close>

record ResolveContext =
  parameters :: "(string \<times> jsval) list option"

definition emptyContext :: ResolveContext where
  "emptyContext = \<lparr> parameters = None \<rparr>"

text \<open>
  \<^verbatim>\<open>extractResources\<close>: the entries that are objects with a \<^verbatim>\<open>Type\<close> key, in the order of
  \<^verbatim>\<open>Object.entries\<close>.
\<close>

definition extractResources :: "CloudFormationTemplate \<Rightarrow> (string \<times> jsval) list" where
  "extractResources template =
     filter (\<lambda>(logicalId, resource).
               truthy resource \<and> typeof_object resource \<and> has_key resource ''Type'')
       (Resources template)"

text \<open>
  The lookup of a referenced parameter:
  \<^verbatim>\<open>template.Parameters && template.Parameters[refName]\<close>. The lookup of the model finds
  the entries of the record itself. That of the source also finds, under the twelve names
  of \<open>Object_prototype\<close>, what every object inherits; the two agree on every other
  name, and the properties of the resolver are stated for those.
\<close>

definition declaredParameter :: "CloudFormationTemplate \<Rightarrow> string \<Rightarrow> jsval" where
  "declaredParameter template refName =
     (case Parameters template of
        None \<Rightarrow> JUndefined
      | Some ps \<Rightarrow> member (JObj ps) refName)"

text \<open>
  \<^verbatim>\<open>context.parameters && context.parameters[refName] !== undefined\<close>, and the value; on the
  same names as \<open>declaredParameter\<close>.
\<close>

definition contextParameter :: "ResolveContext \<Rightarrow> string \<Rightarrow> jsval" where
  "contextParameter context refName =
     (case parameters context of
        None \<Rightarrow> JUndefined
      | Some ps \<Rightarrow> member (JObj ps) refName)"

definition resolveRef :: "CloudFormationTemplate \<Rightarrow> ResolveContext \<Rightarrow> string \<Rightarrow> jsval" where
  "resolveRef template context refName =
     (let param = declaredParameter template refName in
      if truthy param \<and> contextParameter context refName \<noteq> JUndefined
        then contextParameter context refName
      else if truthy param \<and> member param ''Default'' \<noteq> JUndefined
        then member param ''Default''
      else JStr (''{{Ref:'' @ refName @ ''}}''))"

text \<open>A property value or an array element is smaller than the object or array holding it.\<close>

lemma size_field:
  "(k, v) \<in> set fs \<Longrightarrow> size v < size (JObj fs)"
  by (induction fs) auto

lemma size_item: "x \<in> set xs \<Longrightarrow> size x < size (JArr xs)"
  by (induction xs) auto

lemma size_member_item:
  assumes "is_JArr (member (JObj fs) k)" and "i < length (the_items (member (JObj fs) k))"
  shows "size (the_items (member (JObj fs) k) ! i) < size (JObj fs)"
proof -
  from assms(1) obtain xs where xs: "map_of fs k = Some (JArr xs)"
    by (cases "map_of fs k") (auto simp: is_JArr_def)
  then have "(k, JArr xs) \<in> set fs" by (rule map_of_SomeD)
  then have 1: "size (JArr xs) < size (JObj fs)" by (rule size_field)
  from xs assms(2) have "xs ! i \<in> set xs" by simp
  then have "size (xs ! i) < size (JArr xs)" by (rule size_item)
  with 1 xs show ?thesis by simp
qed

text \<open>
  \<^verbatim>\<open>resolveBasicIntrinsics\<close>. The tests are tried in the order of the source, and a test
  that fails falls through to the next; an object that matches none is resolved property by
  property. The selectors \<open>the_string\<close>, \<open>the_items\<close> and \<open>the_number\<close> are applied only
  under the test that the value is a string, an array or a number.
\<close>

declare conj_cong [fundef_cong]

function resolveBasicIntrinsics ::
  "runtime \<Rightarrow> CloudFormationTemplate \<Rightarrow> jsval \<Rightarrow> ResolveContext \<Rightarrow> jsval" where
  "resolveBasicIntrinsics rt template JUndefined context = JUndefined"
| "resolveBasicIntrinsics rt template JNull context = JNull"
| "resolveBasicIntrinsics rt template (JBool b) context = JBool b"
| "resolveBasicIntrinsics rt template (JNum r) context = JNum r"
| "resolveBasicIntrinsics rt template (JStr s) context = JStr s"
| "resolveBasicIntrinsics rt template (JArr xs) context =
     JArr (map (\<lambda>item. resolveBasicIntrinsics rt template item context) xs)"
| "resolveBasicIntrinsics rt template (JObj fs) context =
     (let obj = JObj fs;
          getAtt = member obj ''Fn::GetAtt'';
          sub = member obj ''Fn::Sub'';
          ifExpr = member obj ''Fn::If'';
          selectExpr = member obj ''Fn::Select''
      in
      if has_key obj ''Ref'' \<and> is_JStr (member obj ''Ref'') then
        resolveRef template context (the_string (member obj ''Ref''))
      else if has_key obj ''Fn::GetAtt'' \<and> is_JArr getAtt \<and> length (the_items getAtt) = 2 then
        JStr (''{{GetAtt:'' @ toStringJS rt (the_items getAtt ! 0) @ ''.''
                @ toStringJS rt (the_items getAtt ! 1) @ ''}}'')
      else if has_key obj ''Fn::Sub'' \<and> is_JStr sub then
        JStr (the_string sub)
      else if has_key obj ''Fn::If'' \<and> is_JArr ifExpr \<and> length (the_items ifExpr) \<ge> 2 then
        resolveBasicIntrinsics rt template (the_items ifExpr ! 1) context
      else if has_key obj ''Fn::Select'' \<and> is_JArr selectExpr \<and> length (the_items selectExpr) = 2
              \<and> is_JNum (the_items selectExpr ! 0)
              \<and> is_JArr (resolveBasicIntrinsics rt template (the_items selectExpr ! 1) context) then
        array_at (the_items (resolveBasicIntrinsics rt template (the_items selectExpr ! 1) context))
          (the_number (the_items selectExpr ! 0))
      else
        JObj (map (\<lambda>(key, val). (key, resolveBasicIntrinsics rt template val context)) fs))"
  by pat_completeness auto
termination
proof (relation "measure (\<lambda>(rt, template, v, ctx). size v)", goal_cases)
  case 1
  show ?case by simp
next
  case (2 rt template xs ctx x)
  then show ?case using size_item [of x xs] by simp
next
  case (3 rt template fs ctx obj getAtt sub ifExpr selectExpr)
  then show ?case
    using size_member_item [of fs "''Fn::If''" 1] by (simp del: member.simps)
next
  case (4 rt template fs ctx obj getAtt sub ifExpr selectExpr)
  then show ?case
    using size_member_item [of fs "''Fn::Select''" 1] by (simp del: member.simps)
next
  case (5 rt template fs ctx obj getAtt sub ifExpr selectExpr)
  then show ?case
    using size_member_item [of fs "''Fn::Select''" 1] by (simp del: member.simps)
next
  case (6 rt template fs ctx obj getAtt sub ifExpr selectExpr kv key val)
  then show ?case
    using size_field [of key val fs] by (simp del: member.simps)
qed

text \<open>\<^verbatim>\<open>propertyPath.split('.')\<close>.\<close>

fun split_dot :: "string \<Rightarrow> string list" where
  "split_dot [] = [[]]"
| "split_dot (c # cs) =
     (if c = CHR ''.'' then [] # split_dot cs
      else (case split_dot cs of [] \<Rightarrow> [[c]] | p # ps \<Rightarrow> (c # p) # ps))"

text \<open>
  The loop of \<^verbatim>\<open>getPropertyValue\<close> over the parts of the path; \<open>None\<close> is its early
  \<^verbatim>\<open>return defaultValue\<close>.
\<close>

fun walkPath :: "jsval \<Rightarrow> string list \<Rightarrow> jsval option" where
  "walkPath v [] = Some v"
| "walkPath v (part # parts) =
     (if v = JNull \<or> v = JUndefined \<or> \<not> typeof_object v then None
      else walkPath (member v part) parts)"

definition getPropertyValue ::
  "runtime \<Rightarrow> CloudFormationTemplate \<Rightarrow> jsval \<Rightarrow> string \<Rightarrow> jsval \<Rightarrow> jsval" where
  "getPropertyValue rt template resource propertyPath defaultValue =
     (let properties = (if truthy (member resource ''Properties'')
                        then member resource ''Properties'' else JObj [])
      in case walkPath properties (split_dot propertyPath) of
           None \<Rightarrow> defaultValue
         | Some v \<Rightarrow>
             if v = JUndefined then defaultValue
             else resolveBasicIntrinsics rt template v emptyContext)"

text \<open>A runtime and templates used to instantiate the theorems.\<close>

definition sampleRuntime :: runtime where
  "sampleRuntime =
     \<lparr> numberToString = (\<lambda>r. ''0''), toLocaleString = (\<lambda>r. ''0''), toNumber = (\<lambda>v. 0),
       typeErrorMessage = (\<lambda>name. name @ '' is not a function'') \<rparr>"

definition templateWithParameters :: CloudFormationTemplate where
  "templateWithParameters =
     \<lparr> Parameters = Some
         [(''InstanceTypeParam'', JObj [(''Type'', JStr ''String''), (''Default'', JStr ''m5.large'')]),
          (''KeyName'', JObj [(''Type'', JStr ''String'')])],
       Resources =
         [(''Server'', JObj [(''Type'', JStr ''AWS::EC2::Instance''),
            (''Properties'', JObj [(''InstanceType'', JObj [(''Ref'', JStr ''InstanceTypeParam'')])])])] \<rparr>"

definition templateWithoutParameters :: CloudFormationTemplate where
  "templateWithoutParameters = \<lparr> Parameters = None, Resources = [] \<rparr>"

definition contextWithOverrides :: ResolveContext where
  "contextWithOverrides =
     \<lparr> parameters = Some [(''InstanceTypeParam'', JStr ''t3.nano''), (''Env'', JStr ''prod'')] \<rparr>"

definition resourceWithSelect :: jsval where
  "resourceWithSelect =
     JObj [(''Type'', JStr ''AWS::EC2::Volume''),
           (''Properties'', JObj
              [(''Size'', JObj [(''Fn::Select'', JArr [JNum 5, JArr [JNum 10, JNum 20]])]),
               (''Iops'', JObj [(''Fn::Select'', JArr [JNum 1, JArr [JNum 4000, JNum 5000]])])])]"


section \<open>Pricing constants (pricing-data.ts)\<close>

definition HOURS_PER_MONTH :: real where
  "HOURS_PER_MONTH = 730"

definition FREE_RESOURCES :: "string list" where
  "FREE_RESOURCES =
     [''AWS::CloudFormation::Stack'',
      ''AWS::CloudFormation::WaitCondition'',
      ''AWS::CloudFormation::WaitConditionHandle'',
      ''AWS::CloudFormation::CustomResource'',
      ''AWS::CloudFormation::Macro'',
      ''Custom::*'',
      ''AWS::IAM::Role'',
      ''AWS::IAM::Policy'',
      ''AWS::IAM::ManagedPolicy'',
      ''AWS::IAM::InstanceProfile'',
      ''AWS::IAM::User'',
      ''AWS::IAM::Group'',
      ''AWS::IAM::AccessKey'',
      ''AWS::IAM::ServiceLinkedRole'',
      ''AWS::EC2::SecurityGroup'',
      ''AWS::EC2::SecurityGroupIngress'',
      ''AWS::EC2::SecurityGroupEgress'',
      ''AWS::EC2::RouteTable'',
      ''AWS::EC2::Route'',
      ''AWS::EC2::SubnetRouteTableAssociation'',
      ''AWS::EC2::NetworkAclEntry'',
      ''AWS::EC2::VPCGatewayAttachment'',
      ''AWS::EC2::InternetGateway'',
      ''AWS::Lambda::Permission'',
      ''AWS::Lambda::EventSourceMapping'',
      ''AWS::Lambda::Alias'',
      ''AWS::Lambda::Version'',
      ''AWS::Lambda::LayerVersion'',
      ''AWS::Lambda::LayerVersionPermission'',
      ''AWS::Logs::LogGroup'',
      ''AWS::Logs::LogStream'',
      ''AWS::Logs::SubscriptionFilter'',
      ''AWS::SNS::Topic'',
      ''AWS::SNS::Subscription'',
      ''AWS::SQS::QueuePolicy'',
      ''AWS::Events::Rule'',
      ''AWS::Events::EventBus'',
      ''AWS::ApplicationAutoScaling::ScalableTarget'',
      ''AWS::ApplicationAutoScaling::ScalingPolicy'',
      ''AWS::AutoScaling::LaunchConfiguration'',
      ''AWS::AutoScaling::ScalingPolicy'',
      ''AWS::AutoScaling::LifecycleHook'',
      ''AWS::SSM::Parameter'',
      ''AWS::CDK::Metadata'']"

definition USAGE_BASED_RESOURCES :: "string list" where
  "USAGE_BASED_RESOURCES =
     [''AWS::Lambda::Function'',
      ''AWS::DynamoDB::Table'',
      ''AWS::S3::Bucket'',
      ''AWS::SNS::Topic'',
      ''AWS::SQS::Queue'',
      ''AWS::ApiGateway::RestApi'',
      ''AWS::ApiGatewayV2::Api'',
      ''AWS::StepFunctions::StateMachine'',
      ''AWS::Kinesis::Stream'',
      ''AWS::Firehose::DeliveryStream'']"

text \<open>\<^verbatim>\<open>Set.prototype.has\<close> on a set of strings, for any value.\<close>

definition Set_has :: "string list \<Rightarrow> jsval \<Rightarrow> bool" where
  "Set_has s v = (case v of JStr k \<Rightarrow> k \<in> set s | _ \<Rightarrow> False)"


section \<open>JavaScript operations used by the calculators\<close>

text \<open>
  The declaration of \<^verbatim>\<open>AWSpricingData\<close>, the type of the pricing
  table the calculators of \<^verbatim>\<open>cost-calculator.ts\<close> read, is not among the sources (only the
  script that generates the table declares it, as a record of \<^verbatim>\<open>any\<close>). The table is a tree
  of records with numbers at the leaves, read by paths of keys. It is modelled by two
  functions of the path: \<open>price\<close> gives the number at a leaf, or \<open>None\<close> where the table has
  none (\<^verbatim>\<open>undefined\<close>); \<open>group\<close> says whether a record stands at the path. The records that the
  calculators read with a plain \<^verbatim>\<open>.\<close> (\<^verbatim>\<open>pricing.natGateway.hourly\<close>) are taken to be present.
\<close>

record AWSpricingData =
  price :: "string list \<Rightarrow> real option"
  group :: "string list \<Rightarrow> bool"

text \<open>\<^verbatim>\<open>x || d\<close> for an optional number \<^verbatim>\<open>x\<close>: zero and \<^verbatim>\<open>undefined\<close> are falsy.\<close>

definition orElse :: "real option \<Rightarrow> real \<Rightarrow> real" where
  "orElse x d = (case x of None \<Rightarrow> d | Some r \<Rightarrow> if r = 0 then d else r)"

text \<open>\<^verbatim>\<open>x || d\<close> for values.\<close>

definition orValue :: "jsval \<Rightarrow> jsval \<Rightarrow> jsval" where
  "orValue x d = (if truthy x then x else d)"

text \<open>
  A field \<^verbatim>\<open>g.field\<close> of a pricing record \<^verbatim>\<open>g\<close> that is present: its number, or what
  \<^verbatim>\<open>undefined\<close> converts to when the record lacks the field.
\<close>

definition fieldOf :: "runtime \<Rightarrow> AWSpricingData \<Rightarrow> string list \<Rightarrow> real" where
  "fieldOf rt pricing path =
     (case price pricing path of None \<Rightarrow> toNumberJS rt JUndefined | Some r \<Rightarrow> r)"

text \<open>
  \<^verbatim>\<open>a + b\<close>: concatenation when an operand is a string, an array or an object (which
  convert to strings), addition of the converted numbers otherwise.
\<close>

definition jsAdd :: "runtime \<Rightarrow> jsval \<Rightarrow> jsval \<Rightarrow> jsval" where
  "jsAdd rt a b =
     (if is_JStr a \<or> is_JArr a \<or> is_JObj a \<or> is_JStr b \<or> is_JArr b \<or> is_JObj b
      then JStr (toStringJS rt a @ toStringJS rt b)
      else JNum (toNumberJS rt a + toNumberJS rt b))"

text \<open>\<^verbatim>\<open>v?.key\<close>: \<^verbatim>\<open>undefined\<close> on \<^verbatim>\<open>null\<close> and \<^verbatim>\<open>undefined\<close>.\<close>

definition qdot :: "jsval \<Rightarrow> string \<Rightarrow> jsval" where
  "qdot v k = (if v = JNull \<or> v = JUndefined then JUndefined else member v k)"

text \<open>\<^verbatim>\<open>v.key\<close>: a \<^verbatim>\<open>TypeError\<close> on \<^verbatim>\<open>null\<close> and \<^verbatim>\<open>undefined\<close>.\<close>

definition dot :: "runtime \<Rightarrow> jsval \<Rightarrow> string \<Rightarrow> exn + jsval" where
  "dot rt v k =
     (if v = JNull \<or> v = JUndefined then Inl (Error (typeErrorMessage rt k))
      else Inr (member v k))"

definition bindE :: "exn + 'a \<Rightarrow> ('a \<Rightarrow> exn + 'b) \<Rightarrow> exn + 'b" where
  "bindE m f = (case m of Inl e \<Rightarrow> Inl e | Inr x \<Rightarrow> f x)"

text \<open>Letter case, for the letters of ASCII.\<close>

definition toLowerChar :: "char \<Rightarrow> char" where
  "toLowerChar c =
     (case map_of (zip ''ABCDEFGHIJKLMNOPQRSTUVWXYZ'' ''abcdefghijklmnopqrstuvwxyz'') c of
        None \<Rightarrow> c | Some d \<Rightarrow> d)"

definition toUpperChar :: "char \<Rightarrow> char" where
  "toUpperChar c =
     (case map_of (zip ''abcdefghijklmnopqrstuvwxyz'' ''ABCDEFGHIJKLMNOPQRSTUVWXYZ'') c of
        None \<Rightarrow> c | Some d \<Rightarrow> d)"

fun startsWith :: "string \<Rightarrow> string \<Rightarrow> bool" where
  "startsWith s [] = True"
| "startsWith [] (c # cs) = False"
| "startsWith (x # xs) (c # cs) = (x = c \<and> startsWith xs cs)"

definition endsWith :: "string \<Rightarrow> string \<Rightarrow> bool" where
  "endsWith s suffix = startsWith (rev s) (rev suffix)"

fun includesString :: "string \<Rightarrow> string \<Rightarrow> bool" where
  "includesString [] needle = (needle = [])"
| "includesString (x # xs) needle = (startsWith (x # xs) needle \<or> includesString xs needle)"

text \<open>
  Method calls on a value typed by a cast (\<^verbatim>\<open>as string\<close>): the string method when the value
  is a string, a \<^verbatim>\<open>TypeError\<close> otherwise. \<^verbatim>\<open>includes\<close> also exists on arrays.
\<close>

definition toLowerCase :: "runtime \<Rightarrow> jsval \<Rightarrow> exn + string" where
  "toLowerCase rt v =
     (case v of JStr s \<Rightarrow> Inr (map toLowerChar s)
      | _ \<Rightarrow> Inl (Error (typeErrorMessage rt ''toLowerCase'')))"

definition js_includes :: "runtime \<Rightarrow> jsval \<Rightarrow> string \<Rightarrow> exn + bool" where
  "js_includes rt v needle =
     (case v of
        JStr s \<Rightarrow> Inr (includesString s needle)
      | JArr xs \<Rightarrow> Inr (JStr needle \<in> set xs)
      | _ \<Rightarrow> Inl (Error (typeErrorMessage rt ''includes'')))"

text \<open>\<^verbatim>\<open>Math.max\<close> of two values.\<close>

definition Math_max :: "runtime \<Rightarrow> jsval \<Rightarrow> real \<Rightarrow> real" where
  "Math_max rt v r = max (toNumberJS rt v) r"

text \<open>The signature \<^verbatim>\<open>ResourceCostCalculator\<close>; \<open>Inl\<close> is a thrown exception.\<close>

type_synonym ResourceCostCalculator =
  "runtime \<Rightarrow> string \<Rightarrow> jsval \<Rightarrow> CloudFormationTemplate \<Rightarrow> AWSpricingData \<Rightarrow> exn + ResourceCost option"


section \<open>The calculator registry (cost-calculator.ts, initializeCalculators)\<close>

text \<open>
  One definition per closure registered by \<^verbatim>\<open>initializeCalculators\<close>, in the order of the
  source. A property read by \<^verbatim>\<open>getPropertyValue\<close> is a value; where the source multiplies,
  subtracts, divides or compares it, the value is converted to a number, and where it uses
  it as a key or in a template literal, to a string.
\<close>

definition calc_EC2_Instance :: ResourceCostCalculator where
  "calc_EC2_Instance rt logicalId resource template pricing =
     (let instanceType = getPropertyValue rt template resource ''InstanceType'' (JStr ''t3.micro'');
          hourlyPrice = orElse (price pricing [''ec2'', ''instances'', toStringJS rt instanceType]) (orElse (price pricing [''ec2'', ''instances'', ''t3.micro'']) 0.0104)
      in Inr (Some
       \<lparr> resourceId = logicalId, resourceType = ''AWS::EC2::Instance'',
         monthlyCost = hourlyPrice * HOURS_PER_MONTH,
         hourlyCost = hourlyPrice,
         unit = ''instance'',
         details =
           [\<lparr> component = ''EC2 '' @ toStringJS rt instanceType, quantity = 1, unitPrice = hourlyPrice,
             CostDetail.monthlyCost = hourlyPrice * HOURS_PER_MONTH, CostDetail.unit = ''hour'' \<rparr>],
         confidence = High \<rparr>))"

definition calc_AutoScaling_AutoScalingGroup :: ResourceCostCalculator where
  "calc_AutoScaling_AutoScalingGroup rt logicalId resource template pricing =
     (let minSize = getPropertyValue rt template resource ''MinSize'' (JNum 1);
          maxSize = getPropertyValue rt template resource ''MaxSize'' (JNum 1);
          desiredCapacity = getPropertyValue rt template resource ''DesiredCapacity'' (minSize);
          instanceType = ''t3.micro'';
          launchTemplate = qdot (member resource ''Properties'') ''LaunchTemplate'';
          launchConfig = qdot (member resource ''Properties'') ''LaunchConfigurationName'';
          instanceCount = toNumberJS rt (if is_JNum desiredCapacity then desiredCapacity else minSize);
          instanceCountText = toStringJS rt (if is_JNum desiredCapacity then desiredCapacity else minSize);
          hourlyPrice = orElse (price pricing [''ec2'', ''instances'', instanceType]) (orElse (price pricing [''ec2'', ''instances'', ''t3.micro'']) 0.0104)
      in Inr (Some
       \<lparr> resourceId = logicalId, resourceType = ''AWS::AutoScaling::AutoScalingGroup'',
         monthlyCost = hourlyPrice * HOURS_PER_MONTH * instanceCount,
         hourlyCost = hourlyPrice * instanceCount,
         unit = ''instances'',
         details =
           [\<lparr> component = ''ASG ('' @ instanceCountText @ '' x '' @ instanceType @ '')'', quantity = instanceCount, unitPrice = hourlyPrice * HOURS_PER_MONTH,
             CostDetail.monthlyCost = hourlyPrice * HOURS_PER_MONTH * instanceCount, CostDetail.unit = ''instance/month'' \<rparr>],
         confidence = (if truthy (orValue launchTemplate launchConfig) then Medium else Low) \<rparr>))"

definition calc_EC2_Volume :: ResourceCostCalculator where
  "calc_EC2_Volume rt logicalId resource template pricing =
     bindE (toLowerCase rt (getPropertyValue rt template resource ''VolumeType'' (JStr ''gp3''))) (\<lambda>volumeType.
     (let size = getPropertyValue rt template resource ''Size'' (JNum 100);
          iops = getPropertyValue rt template resource ''Iops'' (JNum 3000);
          throughput = getPropertyValue rt template resource ''Throughput'' (JNum 125);
          pricePerGB = orElse (price pricing [''ebs'', ''volumes'', volumeType]) (orElse (price pricing [''ebs'', ''volumes'', ''gp3'']) 0.08);
          monthlyCost0 = pricePerGB * toNumberJS rt size;
          details0 = [\<lparr> component = ''EBS '' @ map toUpperChar volumeType @ '' Storage'', quantity = toNumberJS rt size, unitPrice = pricePerGB,
             CostDetail.monthlyCost = pricePerGB * toNumberJS rt size, CostDetail.unit = ''GB/month'' \<rparr>];
          (monthlyCost1, details1) =
            (if volumeType = ''io1'' \<or> volumeType = ''io2'' then
               (let iopsPrice = orElse (price pricing [''ebs'', ''iops'', volumeType]) 0.065;
                    iopsCost = iopsPrice * toNumberJS rt iops
                in (monthlyCost0 + iopsCost,
                    details0 @ [\<lparr> component = ''Provisioned IOPS'', quantity = toNumberJS rt iops, unitPrice = iopsPrice,
             CostDetail.monthlyCost = iopsCost, CostDetail.unit = ''IOPS/month'' \<rparr>]))
             else if volumeType = ''gp3'' \<and> toNumberJS rt iops > 3000 then
               (let additionalIops = toNumberJS rt iops - 3000;
                    iopsPrice = orElse (price pricing [''ebs'', ''iops'', ''gp3'']) 0.005;
                    iopsCost = iopsPrice * additionalIops
                in (monthlyCost0 + iopsCost,
                    details0 @ [\<lparr> component = ''Additional IOPS (above 3000)'', quantity = additionalIops, unitPrice = iopsPrice,
             CostDetail.monthlyCost = iopsCost, CostDetail.unit = ''IOPS/month'' \<rparr>]))
             else (monthlyCost0, details0));
          (monthlyCost, details) =
            (if volumeType = ''gp3'' \<and> toNumberJS rt throughput > 125 then
               (let additionalThroughput = toNumberJS rt throughput - 125;
                    throughputPrice = orElse (price pricing [''ebs'', ''throughput'', ''gp3'']) 0.04;
                    throughputCost = throughputPrice * additionalThroughput
                in (monthlyCost1 + throughputCost,
                    details1 @ [\<lparr> component = ''Additional Throughput (above 125 MBps)'', quantity = additionalThroughput, unitPrice = throughputPrice,
             CostDetail.monthlyCost = throughputCost, CostDetail.unit = ''MBps/month'' \<rparr>]))
             else (monthlyCost1, details1))
      in Inr (Some
       \<lparr> resourceId = logicalId, resourceType = ''AWS::EC2::Volume'',
         monthlyCost = monthlyCost,
         hourlyCost = monthlyCost / HOURS_PER_MONTH,
         unit = ''volume'',
         details =
           details,
         confidence = High \<rparr>)))"

definition calc_RDS_DBInstance :: ResourceCostCalculator where
  "calc_RDS_DBInstance rt logicalId resource template pricing =
     (let instanceClass = getPropertyValue rt template resource ''DBInstanceClass'' (JStr ''db.t3.micro'');
          allocatedStorage = getPropertyValue rt template resource ''AllocatedStorage'' (JNum 20);
          multiAZ = getPropertyValue rt template resource ''MultiAZ'' (JBool False)
      in
      bindE (toLowerCase rt (getPropertyValue rt template resource ''StorageType'' (JStr ''gp2''))) (\<lambda>storageType.
      bindE (toLowerCase rt (getPropertyValue rt template resource ''Engine'' (JStr ''mysql''))) (\<lambda>engine.
      (let enginePricing =
             (if group pricing [''rds'', ''instances'', engine]
                then Some [''rds'', ''instances'', engine]
              else if group pricing [''rds'', ''instances'', ''mysql'']
                then Some [''rds'', ''instances'', ''mysql'']
              else None);
           hourlyPrice =
             (case enginePricing of
                None \<Rightarrow> 0.017
              | Some enginePath \<Rightarrow>
                  orElse (price pricing (enginePath @ [toStringJS rt instanceClass]))
                    (orElse (price pricing (enginePath @ [''db.t3.micro''])) 0.017));
           instanceCost = hourlyPrice * HOURS_PER_MONTH * (if truthy multiAZ then 2 else 1);
           storagePrice = orElse (price pricing [''rds'', ''storage'', storageType]) (orElse (price pricing [''rds'', ''storage'', ''gp2'']) 0.115);
           storageCost = storagePrice * toNumberJS rt allocatedStorage * (if truthy multiAZ then 2 else 1);
           details =
             [\<lparr> component = ''RDS '' @ toStringJS rt instanceClass @ (if truthy multiAZ then '' (Multi-AZ)'' else []), quantity = (if truthy multiAZ then 2 else 1), unitPrice = hourlyPrice * HOURS_PER_MONTH,
             CostDetail.monthlyCost = instanceCost, CostDetail.unit = ''instance/month'' \<rparr>,
              \<lparr> component = ''Storage ('' @ storageType @ '')'', quantity = toNumberJS rt allocatedStorage, unitPrice = storagePrice,
             CostDetail.monthlyCost = storageCost, CostDetail.unit = ''GB/month'' \<rparr>]
       in Inr (Some
       \<lparr> resourceId = logicalId, resourceType = ''AWS::RDS::DBInstance'',
         monthlyCost = instanceCost + storageCost,
         hourlyCost = (instanceCost + storageCost) / HOURS_PER_MONTH,
         unit = ''instance'',
         details =
           details,
         confidence = High \<rparr>)))))"

definition calc_RDS_DBCluster :: ResourceCostCalculator where
  "calc_RDS_DBCluster rt logicalId resource template pricing =
     (let engineMode = getPropertyValue rt template resource ''EngineMode'' (JStr ''provisioned'') in
      if engineMode = JStr ''serverless'' then
        (let minCapacity = getPropertyValue rt template resource ''ScalingConfiguration.MinCapacity'' (JNum 2);
             maxCapacity = getPropertyValue rt template resource ''ScalingConfiguration.MaxCapacity'' (JNum 8);
             avgCapacity = toNumberJS rt (jsAdd rt minCapacity maxCapacity) / 2;
             acuPrice = 0.06;
             monthlyCost = acuPrice * avgCapacity * HOURS_PER_MONTH
         in Inr (Some
       \<lparr> resourceId = logicalId, resourceType = ''AWS::RDS::DBCluster'',
         monthlyCost = monthlyCost,
         hourlyCost = monthlyCost / HOURS_PER_MONTH,
         unit = ''cluster'',
         details =
           [\<lparr> component = ''Aurora Serverless (avg '' @ numberToString rt avgCapacity @ '' ACU)'', quantity = avgCapacity, unitPrice = acuPrice * HOURS_PER_MONTH,
             CostDetail.monthlyCost = monthlyCost, CostDetail.unit = ''ACU/month'' \<rparr>],
         confidence = Medium \<rparr>))
      else
        Inr (Some
       \<lparr> resourceId = logicalId, resourceType = ''AWS::RDS::DBCluster'',
         monthlyCost = 0,
         hourlyCost = 0,
         unit = ''cluster'',
         details =
           [\<lparr> component = ''Aurora Cluster (cost in DB instances)'', quantity = 1, unitPrice = 0,
             CostDetail.monthlyCost = 0, CostDetail.unit = ''cluster'' \<rparr>],
         confidence = High \<rparr>))"

definition calc_ElastiCache_CacheCluster :: ResourceCostCalculator where
  "calc_ElastiCache_CacheCluster rt logicalId resource template pricing =
     (let nodeType = getPropertyValue rt template resource ''CacheNodeType'' (JStr ''cache.t3.micro'');
          numNodes = getPropertyValue rt template resource ''NumCacheNodes'' (JNum 1);
          hourlyPrice = orElse (price pricing [''elasticache'', ''nodes'', toStringJS rt nodeType]) (orElse (price pricing [''elasticache'', ''nodes'', ''cache.t3.micro'']) 0.017);
          monthlyCost = hourlyPrice * HOURS_PER_MONTH * toNumberJS rt numNodes
      in Inr (Some
       \<lparr> resourceId = logicalId, resourceType = ''AWS::ElastiCache::CacheCluster'',
         monthlyCost = monthlyCost,
         hourlyCost = hourlyPrice * toNumberJS rt numNodes,
         unit = ''cluster'',
         details =
           [\<lparr> component = ''ElastiCache '' @ toStringJS rt nodeType, quantity = toNumberJS rt numNodes, unitPrice = hourlyPrice * HOURS_PER_MONTH,
             CostDetail.monthlyCost = monthlyCost, CostDetail.unit = ''node/month'' \<rparr>],
         confidence = High \<rparr>))"

definition calc_ElastiCache_ReplicationGroup :: ResourceCostCalculator where
  "calc_ElastiCache_ReplicationGroup rt logicalId resource template pricing =
     (let nodeType = getPropertyValue rt template resource ''CacheNodeType'' (JStr ''cache.t3.micro'');
          numNodeGroups = getPropertyValue rt template resource ''NumNodeGroups'' (JNum 1);
          replicasPerNodeGroup = getPropertyValue rt template resource ''ReplicasPerNodeGroup'' (JNum 1);
          totalNodes = toNumberJS rt numNodeGroups * toNumberJS rt (jsAdd rt (JNum 1) replicasPerNodeGroup);
          hourlyPrice = orElse (price pricing [''elasticache'', ''nodes'', toStringJS rt nodeType]) (orElse (price pricing [''elasticache'', ''nodes'', ''cache.t3.micro'']) 0.017);
          monthlyCost = hourlyPrice * HOURS_PER_MONTH * totalNodes
      in Inr (Some
       \<lparr> resourceId = logicalId, resourceType = ''AWS::ElastiCache::ReplicationGroup'',
         monthlyCost = monthlyCost,
         hourlyCost = hourlyPrice * totalNodes,
         unit = ''replication group'',
         details =
           [\<lparr> component = ''ElastiCache '' @ toStringJS rt nodeType @ '' ('' @ numberToString rt totalNodes @ '' nodes)'', quantity = totalNodes, unitPrice = hourlyPrice * HOURS_PER_MONTH,
             CostDetail.monthlyCost = monthlyCost, CostDetail.unit = ''node/month'' \<rparr>],
         confidence = High \<rparr>))"

definition calc_EC2_NatGateway :: ResourceCostCalculator where
  "calc_EC2_NatGateway rt logicalId resource template pricing =
     (let hourlyPrice = orElse (price pricing [''natGateway'', ''hourly'']) 0.045;
          monthlyCost = hourlyPrice * HOURS_PER_MONTH;
          estimatedDataGB = 100;
          dataPrice = orElse (price pricing [''natGateway'', ''perGB'']) 0.045;
          dataProcessingCost = dataPrice * estimatedDataGB
      in Inr (Some
       \<lparr> resourceId = logicalId, resourceType = ''AWS::EC2::NatGateway'',
         monthlyCost = monthlyCost + dataProcessingCost,
         hourlyCost = hourlyPrice,
         unit = ''gateway'',
         details =
           [\<lparr> component = ''NAT Gateway Hourly'', quantity = HOURS_PER_MONTH, unitPrice = hourlyPrice,
             CostDetail.monthlyCost = monthlyCost, CostDetail.unit = ''hours'' \<rparr>,
           \<lparr> component = ''Data Processing (est. 100GB)'', quantity = estimatedDataGB, unitPrice = dataPrice,
             CostDetail.monthlyCost = dataProcessingCost, CostDetail.unit = ''GB'' \<rparr>],
         confidence = Medium \<rparr>))"

definition calc_ElasticLoadBalancingV2_LoadBalancer :: ResourceCostCalculator where
  "calc_ElasticLoadBalancingV2_LoadBalancer rt logicalId resource template pricing =
     (let type = getPropertyValue rt template resource ''Type'' (JStr ''application'') in
      bindE (toLowerCase rt type) (\<lambda>typeLower.
      (let isNLB = (typeLower = ''network'');
           lbPricing = (if isNLB then [''loadBalancer'', ''nlb''] else [''loadBalancer'', ''alb'']);
           hourlyPrice = orElse (price pricing (lbPricing @ [''hourly''])) 0.0225;
           lcuHourlyPrice = orElse (price pricing (lbPricing @ [''lcuHourly''])) 0.008;
           baseMonthlyCost = hourlyPrice * HOURS_PER_MONTH;
           estimatedLCU = 10;
           lcuCost = lcuHourlyPrice * HOURS_PER_MONTH * estimatedLCU
       in Inr (Some
       \<lparr> resourceId = logicalId, resourceType = ''AWS::ElasticLoadBalancingV2::LoadBalancer'',
         monthlyCost = baseMonthlyCost + lcuCost,
         hourlyCost = hourlyPrice + (lcuHourlyPrice * estimatedLCU),
         unit = ''load balancer'',
         details =
           [\<lparr> component = (if isNLB then ''NLB'' else ''ALB'') @ '' Hourly'', quantity = HOURS_PER_MONTH, unitPrice = hourlyPrice,
             CostDetail.monthlyCost = baseMonthlyCost, CostDetail.unit = ''hours'' \<rparr>,
           \<lparr> component = ''LCU (est. 10 avg)'', quantity = estimatedLCU * HOURS_PER_MONTH, unitPrice = lcuHourlyPrice,
             CostDetail.monthlyCost = lcuCost, CostDetail.unit = ''LCU-hours'' \<rparr>],
         confidence = Medium \<rparr>))))"

definition calc_ElasticLoadBalancing_LoadBalancer :: ResourceCostCalculator where
  "calc_ElasticLoadBalancing_LoadBalancer rt logicalId resource template pricing =
     (let elbHourlyPrice = orElse (price pricing [''loadBalancer'', ''clb'', ''hourly'']) 0.025;
          monthlyCost = elbHourlyPrice * HOURS_PER_MONTH
      in Inr (Some
       \<lparr> resourceId = logicalId, resourceType = ''AWS::ElasticLoadBalancing::LoadBalancer'',
         monthlyCost = monthlyCost,
         hourlyCost = elbHourlyPrice,
         unit = ''load balancer'',
         details =
           [\<lparr> component = ''Classic ELB'', quantity = HOURS_PER_MONTH, unitPrice = elbHourlyPrice,
             CostDetail.monthlyCost = monthlyCost, CostDetail.unit = ''hours'' \<rparr>],
         confidence = High \<rparr>))"

definition calc_ECS_Service :: ResourceCostCalculator where
  "calc_ECS_Service rt logicalId resource template pricing =
     (let desiredCount = getPropertyValue rt template resource ''DesiredCount'' (JNum 1);
          launchType = getPropertyValue rt template resource ''LaunchType'' (JStr ''FARGATE'')
      in
      if launchType \<noteq> JStr ''FARGATE'' then
        Inr (Some
         \<lparr> resourceId = logicalId, resourceType = ''AWS::ECS::Service'',
         monthlyCost = 0,
         hourlyCost = 0,
         unit = ''service'',
         details =
           [\<lparr> component = ''ECS Service (EC2 - cost in instances)'', quantity = toNumberJS rt desiredCount, unitPrice = 0,
             CostDetail.monthlyCost = 0, CostDetail.unit = ''tasks'' \<rparr>],
         confidence = Medium \<rparr>)
      else
        (let vcpuHourly = orElse (price pricing [''fargate'', ''vcpuHourly'']) 0.04048;
             memoryHourly = orElse (price pricing [''fargate'', ''memoryGBHourly'']) 0.004445;
             vcpuCost = vcpuHourly * 0.5 * HOURS_PER_MONTH;
             memoryCost = memoryHourly * 1 * HOURS_PER_MONTH;
             perTaskCost = vcpuCost + memoryCost
         in Inr (Some
       \<lparr> resourceId = logicalId, resourceType = ''AWS::ECS::Service'',
         monthlyCost = perTaskCost * toNumberJS rt desiredCount,
         hourlyCost = (perTaskCost / HOURS_PER_MONTH) * toNumberJS rt desiredCount,
         unit = ''service'',
         details =
           [\<lparr> component = ''Fargate vCPU (0.5 vCPU est.)'', quantity = toNumberJS rt desiredCount, unitPrice = vcpuCost,
             CostDetail.monthlyCost = vcpuCost * toNumberJS rt desiredCount, CostDetail.unit = ''task/month'' \<rparr>,
           \<lparr> component = ''Fargate Memory (1GB est.)'', quantity = toNumberJS rt desiredCount, unitPrice = memoryCost,
             CostDetail.monthlyCost = memoryCost * toNumberJS rt desiredCount, CostDetail.unit = ''task/month'' \<rparr>],
         confidence = Low \<rparr>)))"

definition calc_EKS_Cluster :: ResourceCostCalculator where
  "calc_EKS_Cluster rt logicalId resource template pricing =
     (let hourlyPrice = orElse (price pricing [''eks'', ''clusterHourly'']) 0.10;
          monthlyCost = hourlyPrice * HOURS_PER_MONTH
      in Inr (Some
       \<lparr> resourceId = logicalId, resourceType = ''AWS::EKS::Cluster'',
         monthlyCost = monthlyCost,
         hourlyCost = hourlyPrice,
         unit = ''cluster'',
         details =
           [\<lparr> component = ''EKS Cluster'', quantity = HOURS_PER_MONTH, unitPrice = hourlyPrice,
             CostDetail.monthlyCost = monthlyCost, CostDetail.unit = ''hours'' \<rparr>],
         confidence = High \<rparr>))"

definition calc_SecretsManager_Secret :: ResourceCostCalculator where
  "calc_SecretsManager_Secret rt logicalId resource template pricing =
     (let secretPrice = orElse (price pricing [''other'', ''secretsManager'', ''secret'']) 0.40;
          monthlyCost = secretPrice
      in Inr (Some
       \<lparr> resourceId = logicalId, resourceType = ''AWS::SecretsManager::Secret'',
         monthlyCost = monthlyCost,
         hourlyCost = monthlyCost / HOURS_PER_MONTH,
         unit = ''secret'',
         details =
           [\<lparr> component = ''Secrets Manager Secret'', quantity = 1, unitPrice = secretPrice,
             CostDetail.monthlyCost = monthlyCost, CostDetail.unit = ''secret/month'' \<rparr>],
         confidence = High \<rparr>))"

definition calc_KMS_Key :: ResourceCostCalculator where
  "calc_KMS_Key rt logicalId resource template pricing =
     (let keyPrice = orElse (price pricing [''other'', ''kms'', ''key'']) 1.00;
          monthlyCost = keyPrice
      in Inr (Some
       \<lparr> resourceId = logicalId, resourceType = ''AWS::KMS::Key'',
         monthlyCost = monthlyCost,
         hourlyCost = monthlyCost / HOURS_PER_MONTH,
         unit = ''key'',
         details =
           [\<lparr> component = ''KMS Customer Managed Key'', quantity = 1, unitPrice = keyPrice,
             CostDetail.monthlyCost = monthlyCost, CostDetail.unit = ''key/month'' \<rparr>],
         confidence = High \<rparr>))"

definition calc_Route53_HostedZone :: ResourceCostCalculator where
  "calc_Route53_HostedZone rt logicalId resource template pricing =
     (let zonePrice = orElse (price pricing [''other'', ''route53'', ''hostedZone'']) 0.50;
          monthlyCost = zonePrice
      in Inr (Some
       \<lparr> resourceId = logicalId, resourceType = ''AWS::Route53::HostedZone'',
         monthlyCost = monthlyCost,
         hourlyCost = monthlyCost / HOURS_PER_MONTH,
         unit = ''hosted zone'',
         details =
           [\<lparr> component = ''Route53 Hosted Zone'', quantity = 1, unitPrice = zonePrice,
             CostDetail.monthlyCost = monthlyCost, CostDetail.unit = ''zone/month'' \<rparr>],
         confidence = High \<rparr>))"

definition calc_CloudWatch_Alarm :: ResourceCostCalculator where
  "calc_CloudWatch_Alarm rt logicalId resource template pricing =
     (let alarmPrice = orElse (price pricing [''other'', ''cloudwatch'', ''alarmStandard'']) 0.10;
          monthlyCost = alarmPrice
      in Inr (Some
       \<lparr> resourceId = logicalId, resourceType = ''AWS::CloudWatch::Alarm'',
         monthlyCost = monthlyCost,
         hourlyCost = monthlyCost / HOURS_PER_MONTH,
         unit = ''alarm'',
         details =
           [\<lparr> component = ''CloudWatch Alarm'', quantity = 1, unitPrice = alarmPrice,
             CostDetail.monthlyCost = monthlyCost, CostDetail.unit = ''alarm/month'' \<rparr>],
         confidence = High \<rparr>))"

definition calc_CloudWatch_Dashboard :: ResourceCostCalculator where
  "calc_CloudWatch_Dashboard rt logicalId resource template pricing =
     (let dashboardPrice = orElse (price pricing [''other'', ''cloudwatch'', ''dashboards'']) 3.00;
          monthlyCost = dashboardPrice
      in Inr (Some
       \<lparr> resourceId = logicalId, resourceType = ''AWS::CloudWatch::Dashboard'',
         monthlyCost = monthlyCost,
         hourlyCost = monthlyCost / HOURS_PER_MONTH,
         unit = ''dashboard'',
         details =
           [\<lparr> component = ''CloudWatch Dashboard'', quantity = 1, unitPrice = dashboardPrice,
             CostDetail.monthlyCost = monthlyCost, CostDetail.unit = ''dashboard/month'' \<rparr>],
         confidence = High \<rparr>))"

definition calc_EC2_EIP :: ResourceCostCalculator where
  "calc_EC2_EIP rt logicalId resource template pricing =
Inr (Some
       \<lparr> resourceId = logicalId, resourceType = ''AWS::EC2::EIP'',
         monthlyCost = 0,
         hourlyCost = 0,
         unit = ''elastic IP'',
         details =
           [\<lparr> component = ''Elastic IP (free when attached)'', quantity = 1, unitPrice = 0,
             CostDetail.monthlyCost = 0, CostDetail.unit = ''IP/month'' \<rparr>],
         confidence = Medium \<rparr>)"


definition calc_EC2_VPCEndpoint :: ResourceCostCalculator where
  "calc_EC2_VPCEndpoint rt logicalId resource template pricing =
     (let endpointType = getPropertyValue rt template resource ''VpcEndpointType'' (JStr ''Interface'') in
      if endpointType = JStr ''Gateway'' then
        Inr (Some
         \<lparr> resourceId = logicalId, resourceType = ''AWS::EC2::VPCEndpoint'',
         monthlyCost = 0,
         hourlyCost = 0,
         unit = ''endpoint'',
         details =
           [\<lparr> component = ''VPC Gateway Endpoint (free)'', quantity = 1, unitPrice = 0,
             CostDetail.monthlyCost = 0, CostDetail.unit = ''endpoint'' \<rparr>],
         confidence = High \<rparr>)
      else
        (let hourlyPrice = orElse (price pricing [''vpcEndpoint'', ''interfaceHourly'']) 0.01;
             subnetIds = getPropertyValue rt template resource ''SubnetIds'' (JArr [])
         in bindE (dot rt subnetIds ''length'') (\<lambda>subnetIdsLength.
            (let azCount = Math_max rt subnetIdsLength 1;
                 monthlyCost = hourlyPrice * HOURS_PER_MONTH * azCount
             in Inr (Some
       \<lparr> resourceId = logicalId, resourceType = ''AWS::EC2::VPCEndpoint'',
         monthlyCost = monthlyCost,
         hourlyCost = hourlyPrice * azCount,
         unit = ''endpoint'',
         details =
           [\<lparr> component = ''VPC Interface Endpoint ('' @ numberToString rt azCount @ '' AZ)'', quantity = azCount * HOURS_PER_MONTH, unitPrice = hourlyPrice,
             CostDetail.monthlyCost = monthlyCost, CostDetail.unit = ''endpoint-hours'' \<rparr>],
         confidence = Medium \<rparr>)))))"

definition calc_EC2_Snapshot :: ResourceCostCalculator where
  "calc_EC2_Snapshot rt logicalId resource template pricing =
     (let estimatedSizeGB = 100;
          snapshotPrice = orElse (price pricing [''ebs'', ''snapshots'']) 0.05;
          monthlyCost = snapshotPrice * estimatedSizeGB
      in Inr (Some
       \<lparr> resourceId = logicalId, resourceType = ''AWS::EC2::Snapshot'',
         monthlyCost = monthlyCost,
         hourlyCost = monthlyCost / HOURS_PER_MONTH,
         unit = ''snapshot'',
         details =
           [\<lparr> component = ''EBS Snapshot Storage (est. 100GB)'', quantity = estimatedSizeGB, unitPrice = snapshotPrice,
             CostDetail.monthlyCost = monthlyCost, CostDetail.unit = ''GB/month'' \<rparr>],
         confidence = Low \<rparr>))"

definition calc_Neptune_DBCluster :: ResourceCostCalculator where
  "calc_Neptune_DBCluster rt logicalId resource template pricing =
     (let estimatedStorageGB = 100;
          storagePrice = orElse (price pricing [''neptune'', ''storage'']) 0.10;
          storageCost = storagePrice * estimatedStorageGB
      in Inr (Some
       \<lparr> resourceId = logicalId, resourceType = ''AWS::Neptune::DBCluster'',
         monthlyCost = storageCost,
         hourlyCost = storageCost / HOURS_PER_MONTH,
         unit = ''cluster'',
         details =
           [\<lparr> component = ''Neptune Storage (est. 100GB)'', quantity = estimatedStorageGB, unitPrice = storagePrice,
             CostDetail.monthlyCost = storageCost, CostDetail.unit = ''GB/month'' \<rparr>],
         confidence = Low \<rparr>))"

definition calc_Neptune_DBInstance :: ResourceCostCalculator where
  "calc_Neptune_DBInstance rt logicalId resource template pricing =
     (let instanceClass = getPropertyValue rt template resource ''DBInstanceClass'' (JStr ''db.r5.large'');
          hourlyPrice = orElse (price pricing [''neptune'', ''instances'', toStringJS rt instanceClass]) (orElse (price pricing [''neptune'', ''instances'', ''db.r5.large'']) 0.348);
          monthlyCost = hourlyPrice * HOURS_PER_MONTH
      in Inr (Some
       \<lparr> resourceId = logicalId, resourceType = ''AWS::Neptune::DBInstance'',
         monthlyCost = monthlyCost,
         hourlyCost = hourlyPrice,
         unit = ''instance'',
         details =
           [\<lparr> component = ''Neptune '' @ toStringJS rt instanceClass, quantity = HOURS_PER_MONTH, unitPrice = hourlyPrice,
             CostDetail.monthlyCost = monthlyCost, CostDetail.unit = ''hours'' \<rparr>],
         confidence = High \<rparr>))"

definition calc_DocDB_DBCluster :: ResourceCostCalculator where
  "calc_DocDB_DBCluster rt logicalId resource template pricing =
     (let estimatedStorageGB = 100;
          storagePrice = orElse (price pricing [''documentdb'', ''storage'']) 0.10;
          storageCost = storagePrice * estimatedStorageGB
      in Inr (Some
       \<lparr> resourceId = logicalId, resourceType = ''AWS::DocDB::DBCluster'',
         monthlyCost = storageCost,
         hourlyCost = storageCost / HOURS_PER_MONTH,
         unit = ''cluster'',
         details =
           [\<lparr> component = ''DocumentDB Storage (est. 100GB)'', quantity = estimatedStorageGB, unitPrice = storagePrice,
             CostDetail.monthlyCost = storageCost, CostDetail.unit = ''GB/month'' \<rparr>],
         confidence = Low \<rparr>))"

definition calc_DocDB_DBInstance :: ResourceCostCalculator where
  "calc_DocDB_DBInstance rt logicalId resource template pricing =
     (let instanceClass = getPropertyValue rt template resource ''DBInstanceClass'' (JStr ''db.r5.large'');
          hourlyPrice = orElse (price pricing [''documentdb'', ''instances'', toStringJS rt instanceClass]) (orElse (price pricing [''documentdb'', ''instances'', ''db.r5.large'']) 0.277);
          monthlyCost = hourlyPrice * HOURS_PER_MONTH
      in Inr (Some
       \<lparr> resourceId = logicalId, resourceType = ''AWS::DocDB::DBInstance'',
         monthlyCost = monthlyCost,
         hourlyCost = hourlyPrice,
         unit = ''instance'',
         details =
           [\<lparr> component = ''DocumentDB '' @ toStringJS rt instanceClass, quantity = HOURS_PER_MONTH, unitPrice = hourlyPrice,
             CostDetail.monthlyCost = monthlyCost, CostDetail.unit = ''hours'' \<rparr>],
         confidence = High \<rparr>))"

definition calc_Redshift_Cluster :: ResourceCostCalculator where
  "calc_Redshift_Cluster rt logicalId resource template pricing =
     (let nodeType = getPropertyValue rt template resource ''NodeType'' (JStr ''dc2.large'');
          numberOfNodes = getPropertyValue rt template resource ''NumberOfNodes'' (JNum 1);
          hourlyPrice = orElse (price pricing [''redshift'', ''instances'', toStringJS rt nodeType]) (orElse (price pricing [''redshift'', ''instances'', ''dc2.large'']) 0.25);
          monthlyCost = hourlyPrice * HOURS_PER_MONTH * toNumberJS rt numberOfNodes
      in Inr (Some
       \<lparr> resourceId = logicalId, resourceType = ''AWS::Redshift::Cluster'',
         monthlyCost = monthlyCost,
         hourlyCost = hourlyPrice * toNumberJS rt numberOfNodes,
         unit = ''cluster'',
         details =
           [\<lparr> component = ''Redshift '' @ toStringJS rt nodeType @ '' ('' @ toStringJS rt numberOfNodes @ '' nodes)'', quantity = toNumberJS rt numberOfNodes * HOURS_PER_MONTH, unitPrice = hourlyPrice,
             CostDetail.monthlyCost = monthlyCost, CostDetail.unit = ''node-hours'' \<rparr>],
         confidence = High \<rparr>))"

definition calc_EC2_VPNConnection :: ResourceCostCalculator where
  "calc_EC2_VPNConnection rt logicalId resource template pricing =
     (let hourlyPrice = orElse (price pricing [''vpnConnection'', ''hourly'']) 0.05;
          monthlyCost = hourlyPrice * HOURS_PER_MONTH
      in Inr (Some
       \<lparr> resourceId = logicalId, resourceType = ''AWS::EC2::VPNConnection'',
         monthlyCost = monthlyCost,
         hourlyCost = hourlyPrice,
         unit = ''connection'',
         details =
           [\<lparr> component = ''Site-to-Site VPN Connection'', quantity = HOURS_PER_MONTH, unitPrice = hourlyPrice,
             CostDetail.monthlyCost = monthlyCost, CostDetail.unit = ''hours'' \<rparr>],
         confidence = High \<rparr>))"

definition calc_EC2_TransitGateway :: ResourceCostCalculator where
  "calc_EC2_TransitGateway rt logicalId resource template pricing =
     (let hourlyPrice = orElse (price pricing [''transitGateway'', ''hourly'']) 0.05;
          monthlyCost = hourlyPrice * HOURS_PER_MONTH
      in Inr (Some
       \<lparr> resourceId = logicalId, resourceType = ''AWS::EC2::TransitGateway'',
         monthlyCost = monthlyCost,
         hourlyCost = hourlyPrice,
         unit = ''transit gateway'',
         details =
           [\<lparr> component = ''Transit Gateway'', quantity = HOURS_PER_MONTH, unitPrice = hourlyPrice,
             CostDetail.monthlyCost = monthlyCost, CostDetail.unit = ''hours'' \<rparr>],
         confidence = High \<rparr>))"

definition calc_EC2_TransitGatewayAttachment :: ResourceCostCalculator where
  "calc_EC2_TransitGatewayAttachment rt logicalId resource template pricing =
     (let hourlyPrice = orElse (price pricing [''transitGateway'', ''hourly'']) 0.05;
          monthlyCost = hourlyPrice * HOURS_PER_MONTH;
          estimatedDataGB = 100;
          dataPrice = orElse (price pricing [''transitGateway'', ''dataProcessed'']) 0.02;
          dataCost = estimatedDataGB * dataPrice
      in Inr (Some
       \<lparr> resourceId = logicalId, resourceType = ''AWS::EC2::TransitGatewayAttachment'',
         monthlyCost = monthlyCost + dataCost,
         hourlyCost = hourlyPrice,
         unit = ''attachment'',
         details =
           [\<lparr> component = ''Transit Gateway Attachment'', quantity = HOURS_PER_MONTH, unitPrice = hourlyPrice,
             CostDetail.monthlyCost = monthlyCost, CostDetail.unit = ''hours'' \<rparr>,
           \<lparr> component = ''Data Processing (est. 100GB)'', quantity = estimatedDataGB, unitPrice = dataPrice,
             CostDetail.monthlyCost = dataCost, CostDetail.unit = ''GB'' \<rparr>],
         confidence = Medium \<rparr>))"

definition calc_DirectConnect_Connection :: ResourceCostCalculator where
  "calc_DirectConnect_Connection rt logicalId resource template pricing =
     (let bandwidth = getPropertyValue rt template resource ''Bandwidth'' (JStr ''1Gbps'');
          portPrice = orElse (price pricing [''directConnect'', ''portHours'', toStringJS rt bandwidth]) (orElse (price pricing [''directConnect'', ''portHours'', ''1Gbps'']) 0.30);
          monthlyCost = portPrice * HOURS_PER_MONTH
      in Inr (Some
       \<lparr> resourceId = logicalId, resourceType = ''AWS::DirectConnect::Connection'',
         monthlyCost = monthlyCost,
         hourlyCost = portPrice,
         unit = ''connection'',
         details =
           [\<lparr> component = ''Direct Connect '' @ toStringJS rt bandwidth, quantity = HOURS_PER_MONTH, unitPrice = portPrice,
             CostDetail.monthlyCost = monthlyCost, CostDetail.unit = ''port-hours'' \<rparr>],
         confidence = High \<rparr>))"

definition calc_GlobalAccelerator_Accelerator :: ResourceCostCalculator where
  "calc_GlobalAccelerator_Accelerator rt logicalId resource template pricing =
     (let hourlyPrice = orElse (price pricing [''globalAccelerator'', ''hourly'']) 0.025;
          monthlyCost = hourlyPrice * HOURS_PER_MONTH
      in Inr (Some
       \<lparr> resourceId = logicalId, resourceType = ''AWS::GlobalAccelerator::Accelerator'',
         monthlyCost = monthlyCost,
         hourlyCost = hourlyPrice,
         unit = ''accelerator'',
         details =
           [\<lparr> component = ''Global Accelerator'', quantity = HOURS_PER_MONTH, unitPrice = hourlyPrice,
             CostDetail.monthlyCost = monthlyCost, CostDetail.unit = ''hours'' \<rparr>],
         confidence = Medium \<rparr>))"

definition calc_AmazonMQ_Broker :: ResourceCostCalculator where
  "calc_AmazonMQ_Broker rt logicalId resource template pricing =
     (let instanceType = getPropertyValue rt template resource ''HostInstanceType'' (JStr ''mq.t3.micro'');
          hourlyPrice = orElse (price pricing [''mq'', ''instanceHourly'', toStringJS rt instanceType]) (orElse (price pricing [''mq'', ''instanceHourly'', ''mq.t3.micro'']) 0.027);
          monthlyCost = hourlyPrice * HOURS_PER_MONTH
      in Inr (Some
       \<lparr> resourceId = logicalId, resourceType = ''AWS::AmazonMQ::Broker'',
         monthlyCost = monthlyCost,
         hourlyCost = hourlyPrice,
         unit = ''broker'',
         details =
           [\<lparr> component = ''Amazon MQ '' @ toStringJS rt instanceType, quantity = HOURS_PER_MONTH, unitPrice = hourlyPrice,
             CostDetail.monthlyCost = monthlyCost, CostDetail.unit = ''hours'' \<rparr>],
         confidence = High \<rparr>))"

definition calc_MSK_Cluster :: ResourceCostCalculator where
  "calc_MSK_Cluster rt logicalId resource template pricing =
     (let instanceType = getPropertyValue rt template resource ''BrokerNodeGroupInfo.InstanceType'' (JStr ''kafka.t3.small'');
          numberOfBrokerNodes = getPropertyValue rt template resource ''NumberOfBrokerNodes'' (JNum 3);
          hourlyPrice = orElse (price pricing [''msk'', ''instanceHourly'', toStringJS rt instanceType]) (orElse (price pricing [''msk'', ''instanceHourly'', ''kafka.t3.small'']) 0.072);
          monthlyCost = hourlyPrice * HOURS_PER_MONTH * toNumberJS rt numberOfBrokerNodes
      in Inr (Some
       \<lparr> resourceId = logicalId, resourceType = ''AWS::MSK::Cluster'',
         monthlyCost = monthlyCost,
         hourlyCost = hourlyPrice * toNumberJS rt numberOfBrokerNodes,
         unit = ''cluster'',
         details =
           [\<lparr> component = ''MSK '' @ toStringJS rt instanceType @ '' ('' @ toStringJS rt numberOfBrokerNodes @ '' brokers)'', quantity = toNumberJS rt numberOfBrokerNodes * HOURS_PER_MONTH, unitPrice = hourlyPrice,
             CostDetail.monthlyCost = monthlyCost, CostDetail.unit = ''broker-hours'' \<rparr>],
         confidence = High \<rparr>))"

definition calc_Kinesis_Stream :: ResourceCostCalculator where
  "calc_Kinesis_Stream rt logicalId resource template pricing =
     (let shardCount = getPropertyValue rt template resource ''ShardCount'' (JNum 1);
          shardHourly = orElse (price pricing [''kinesis'', ''shardHourly'']) 0.015;
          monthlyCost = shardHourly * HOURS_PER_MONTH * toNumberJS rt shardCount
      in Inr (Some
       \<lparr> resourceId = logicalId, resourceType = ''AWS::Kinesis::Stream'',
         monthlyCost = monthlyCost,
         hourlyCost = shardHourly * toNumberJS rt shardCount,
         unit = ''stream'',
         details =
           [\<lparr> component = ''Kinesis Stream ('' @ toStringJS rt shardCount @ '' shards)'', quantity = toNumberJS rt shardCount * HOURS_PER_MONTH, unitPrice = shardHourly,
             CostDetail.monthlyCost = monthlyCost, CostDetail.unit = ''shard-hours'' \<rparr>],
         confidence = High \<rparr>))"

definition calc_KinesisFirehose_DeliveryStream :: ResourceCostCalculator where
  "calc_KinesisFirehose_DeliveryStream rt logicalId resource template pricing =
     (let estimatedDataGB = 100;
          dataPrice = orElse (price pricing [''kinesisFirehose'', ''dataIngested'']) 0.029;
          monthlyCost = estimatedDataGB * dataPrice
      in Inr (Some
       \<lparr> resourceId = logicalId, resourceType = ''AWS::KinesisFirehose::DeliveryStream'',
         monthlyCost = monthlyCost,
         hourlyCost = monthlyCost / HOURS_PER_MONTH,
         unit = ''delivery stream'',
         details =
           [\<lparr> component = ''Kinesis Firehose Data Ingested (est. 100GB)'', quantity = estimatedDataGB, unitPrice = dataPrice,
             CostDetail.monthlyCost = monthlyCost, CostDetail.unit = ''GB'' \<rparr>],
         confidence = Low \<rparr>))"

definition calc_EFS_FileSystem :: ResourceCostCalculator where
  "calc_EFS_FileSystem rt logicalId resource template pricing =
     (let throughputMode = getPropertyValue rt template resource ''ThroughputMode'' (JStr ''bursting'');
          estimatedStorageGB = 100;
          standardPrice = orElse (price pricing [''efs'', ''standard'']) 0.30;
          storageCost0 = estimatedStorageGB * standardPrice;
          details0 = [\<lparr> component = ''EFS Standard Storage (est. 100GB)'', quantity = estimatedStorageGB, unitPrice = standardPrice,
             CostDetail.monthlyCost = storageCost0, CostDetail.unit = ''GB/month'' \<rparr>];
          (storageCost, details) =
            (if throughputMode = JStr ''provisioned'' then
               (let provisionedThroughput = getPropertyValue rt template resource ''ProvisionedThroughputInMibps'' (JNum 0) in
                if toNumberJS rt provisionedThroughput > 0 then
                  (let throughputPrice = orElse (price pricing [''efs'', ''provisionedThroughput'']) 6.00;
                       throughputCost = toNumberJS rt provisionedThroughput * throughputPrice
                   in (storageCost0 + throughputCost,
                       details0 @ [\<lparr> component = ''Provisioned Throughput ('' @ toStringJS rt provisionedThroughput @ '' MiBps)'', quantity = toNumberJS rt provisionedThroughput, unitPrice = throughputPrice,
             CostDetail.monthlyCost = throughputCost, CostDetail.unit = ''MiBps/month'' \<rparr>]))
                else (storageCost0, details0))
             else (storageCost0, details0))
      in Inr (Some
       \<lparr> resourceId = logicalId, resourceType = ''AWS::EFS::FileSystem'',
         monthlyCost = storageCost,
         hourlyCost = storageCost / HOURS_PER_MONTH,
         unit = ''file system'',
         details =
           details,
         confidence = Low \<rparr>))"

definition calc_FSx_FileSystem :: ResourceCostCalculator where
  "calc_FSx_FileSystem rt logicalId resource template pricing =
     (let fileSystemType = getPropertyValue rt template resource ''FileSystemType'' (JStr ''WINDOWS'');
          storageCapacity = getPropertyValue rt template resource ''StorageCapacity'' (JNum 32);
          pricePerGB =
            (if fileSystemType = JStr ''LUSTRE'' then orElse (price pricing [''fsx'', ''lustre'']) 0.14
             else if fileSystemType = JStr ''ONTAP'' then orElse (price pricing [''fsx'', ''ontap'']) 0.25
             else if fileSystemType = JStr ''OPENZFS'' then orElse (price pricing [''fsx'', ''openzfs'']) 0.09
             else orElse (price pricing [''fsx'', ''windows'']) 0.23);
          monthlyCost = toNumberJS rt storageCapacity * pricePerGB
      in Inr (Some
       \<lparr> resourceId = logicalId, resourceType = ''AWS::FSx::FileSystem'',
         monthlyCost = monthlyCost,
         hourlyCost = monthlyCost / HOURS_PER_MONTH,
         unit = ''file system'',
         details =
           [\<lparr> component = ''FSx '' @ toStringJS rt fileSystemType @ '' Storage ('' @ toStringJS rt storageCapacity @ ''GB)'', quantity = toNumberJS rt storageCapacity, unitPrice = pricePerGB,
             CostDetail.monthlyCost = monthlyCost, CostDetail.unit = ''GB/month'' \<rparr>],
         confidence = High \<rparr>))"

definition calc_Backup_BackupVault :: ResourceCostCalculator where
  "calc_Backup_BackupVault rt logicalId resource template pricing =
     (let estimatedStorageGB = 100;
          storagePrice = orElse (price pricing [''backup'', ''storage'']) 0.05;
          monthlyCost = estimatedStorageGB * storagePrice
      in Inr (Some
       \<lparr> resourceId = logicalId, resourceType = ''AWS::Backup::BackupVault'',
         monthlyCost = monthlyCost,
         hourlyCost = monthlyCost / HOURS_PER_MONTH,
         unit = ''vault'',
         details =
           [\<lparr> component = ''AWS Backup Storage (est. 100GB)'', quantity = estimatedStorageGB, unitPrice = storagePrice,
             CostDetail.monthlyCost = monthlyCost, CostDetail.unit = ''GB/month'' \<rparr>],
         confidence = Low \<rparr>))"

definition calc_CloudFront_Distribution :: ResourceCostCalculator where
  "calc_CloudFront_Distribution rt logicalId resource template pricing =
     (let estimatedDataGB = 100;
          estimatedRequests = 1000000;
          dataPrice = orElse (price pricing [''cloudfront'', ''dataTransfer'', ''us'']) 0.085;
          requestPrice = orElse (price pricing [''cloudfront'', ''requests'', ''https'']) 0.01;
          dataCost = estimatedDataGB * dataPrice;
          requestCost = (estimatedRequests / 10000) * requestPrice;
          monthlyCost = dataCost + requestCost
      in Inr (Some
       \<lparr> resourceId = logicalId, resourceType = ''AWS::CloudFront::Distribution'',
         monthlyCost = monthlyCost,
         hourlyCost = monthlyCost / HOURS_PER_MONTH,
         unit = ''distribution'',
         details =
           [\<lparr> component = ''CloudFront Data Transfer (est. 100GB)'', quantity = estimatedDataGB, unitPrice = dataPrice,
             CostDetail.monthlyCost = dataCost, CostDetail.unit = ''GB'' \<rparr>,
           \<lparr> component = ''HTTPS Requests (est. 1M)'', quantity = estimatedRequests / 10000, unitPrice = requestPrice,
             CostDetail.monthlyCost = requestCost, CostDetail.unit = ''10k requests'' \<rparr>],
         confidence = Low \<rparr>))"

definition calc_ACMPCA_CertificateAuthority :: ResourceCostCalculator where
  "calc_ACMPCA_CertificateAuthority rt logicalId resource template pricing =
     (let monthlyPrice = 400
      in Inr (Some
       \<lparr> resourceId = logicalId, resourceType = ''AWS::ACMPCA::CertificateAuthority'',
         monthlyCost = monthlyPrice,
         hourlyCost = monthlyPrice / HOURS_PER_MONTH,
         unit = ''certificate authority'',
         details =
           [\<lparr> component = ''ACM Private Certificate Authority'', quantity = 1, unitPrice = monthlyPrice,
             CostDetail.monthlyCost = monthlyPrice, CostDetail.unit = ''CA/month'' \<rparr>],
         confidence = High \<rparr>))"

definition calc_Config_ConfigRule :: ResourceCostCalculator where
  "calc_Config_ConfigRule rt logicalId resource template pricing =
     (let rulePrice = orElse (price pricing [''config'', ''rules'']) 1.00
      in Inr (Some
       \<lparr> resourceId = logicalId, resourceType = ''AWS::Config::ConfigRule'',
         monthlyCost = rulePrice,
         hourlyCost = rulePrice / HOURS_PER_MONTH,
         unit = ''rule'',
         details =
           [\<lparr> component = ''AWS Config Rule'', quantity = 1, unitPrice = rulePrice,
             CostDetail.monthlyCost = rulePrice, CostDetail.unit = ''rule/month'' \<rparr>],
         confidence = Medium \<rparr>))"

definition calc_CloudTrail_Trail :: ResourceCostCalculator where
  "calc_CloudTrail_Trail rt logicalId resource template pricing =
     (let isMultiRegion = getPropertyValue rt template resource ''IsMultiRegionTrail'' (JBool False);
          estimatedDataEvents = 100000;
          dataEventPrice = orElse (price pricing [''cloudtrail'', ''dataEvents'']) 0.10;
          monthlyCost = (estimatedDataEvents / 100000) * dataEventPrice
      in Inr (Some
       \<lparr> resourceId = logicalId, resourceType = ''AWS::CloudTrail::Trail'',
         monthlyCost = monthlyCost,
         hourlyCost = monthlyCost / HOURS_PER_MONTH,
         unit = ''trail'',
         details =
           [\<lparr> component = ''CloudTrail'' @ (if truthy isMultiRegion then '' (Multi-Region)'' else []) @ '' Data Events (est. 100k)'', quantity = estimatedDataEvents, unitPrice = dataEventPrice / 100000,
             CostDetail.monthlyCost = monthlyCost, CostDetail.unit = ''events'' \<rparr>],
         confidence = Low \<rparr>))"

text \<open>
  The statements after the choice of \<^verbatim>\<open>pricePerMinute\<close> are the function \<open>finish\<close>; with the
  local \<^verbatim>\<open>monthlyCost = estimatedMinutes * pricePerMinute\<close> written out.
\<close>

definition calc_CodeBuild_Project :: ResourceCostCalculator where
  "calc_CodeBuild_Project rt logicalId resource template pricing =
     (let computeType = getPropertyValue rt template resource ''Environment.ComputeType'' (JStr ''BUILD_GENERAL1_SMALL'');
          environmentType = getPropertyValue rt template resource ''Environment.Type'' (JStr ''LINUX_CONTAINER'');
          estimatedMinutes = 100;
          finish = (\<lambda>pricePerMinute.
            Inr (Some
       \<lparr> resourceId = logicalId, resourceType = ''AWS::CodeBuild::Project'',
         monthlyCost = estimatedMinutes * pricePerMinute,
         hourlyCost = (estimatedMinutes * pricePerMinute) / HOURS_PER_MONTH,
         unit = ''project'',
         details =
           [\<lparr> component = ''CodeBuild '' @ toStringJS rt computeType @ '' (est. 100 min)'', quantity = estimatedMinutes, unitPrice = pricePerMinute,
             CostDetail.monthlyCost = estimatedMinutes * pricePerMinute, CostDetail.unit = ''minutes'' \<rparr>],
         confidence = Low \<rparr>))
      in
      if environmentType = JStr ''ARM_CONTAINER'' then
        finish (orElse (price pricing [''codebuild'', ''armLarge'']) 0.015)
      else if environmentType = JStr ''LINUX_GPU_CONTAINER'' then
        finish (orElse (price pricing [''codebuild'', ''gpuLarge'']) 0.18)
      else
        bindE (js_includes rt environmentType ''WINDOWS'') (\<lambda>isWindows.
          if isWindows then
            bindE (js_includes rt computeType ''LARGE'') (\<lambda>isLarge.
              finish (if isLarge then orElse (price pricing [''codebuild'', ''windowsLarge'']) 0.04 else orElse (price pricing [''codebuild'', ''windowsMedium'']) 0.02))
          else if computeType = JStr ''BUILD_GENERAL1_MEDIUM'' then
            finish (orElse (price pricing [''codebuild'', ''linuxMedium'']) 0.01)
          else if computeType = JStr ''BUILD_GENERAL1_LARGE'' then
            finish (orElse (price pricing [''codebuild'', ''linuxLarge'']) 0.02)
          else if computeType = JStr ''BUILD_GENERAL1_2XLARGE'' then
            finish (orElse (price pricing [''codebuild'', ''linux2xlarge'']) 0.04)
          else
            finish (orElse (price pricing [''codebuild'', ''linuxSmall'']) 0.005)))"

definition calc_Glue_Job :: ResourceCostCalculator where
  "calc_Glue_Job rt logicalId resource template pricing =
     (let estimatedDpuHours = 10;
          dpuPrice = orElse (price pricing [''glue'', ''dpuHour'']) 0.44;
          monthlyCost = estimatedDpuHours * dpuPrice
      in Inr (Some
       \<lparr> resourceId = logicalId, resourceType = ''AWS::Glue::Job'',
         monthlyCost = monthlyCost,
         hourlyCost = monthlyCost / HOURS_PER_MONTH,
         unit = ''job'',
         details =
           [\<lparr> component = ''Glue Job (est. 10 DPU-hours)'', quantity = estimatedDpuHours, unitPrice = dpuPrice,
             CostDetail.monthlyCost = monthlyCost, CostDetail.unit = ''DPU-hours'' \<rparr>],
         confidence = Low \<rparr>))"

definition calc_Glue_Crawler :: ResourceCostCalculator where
  "calc_Glue_Crawler rt logicalId resource template pricing =
     (let estimatedDpuHours = 5;
          dpuPrice = orElse (price pricing [''glue'', ''crawlerDpuHour'']) 0.44;
          monthlyCost = estimatedDpuHours * dpuPrice
      in Inr (Some
       \<lparr> resourceId = logicalId, resourceType = ''AWS::Glue::Crawler'',
         monthlyCost = monthlyCost,
         hourlyCost = monthlyCost / HOURS_PER_MONTH,
         unit = ''crawler'',
         details =
           [\<lparr> component = ''Glue Crawler (est. 5 DPU-hours)'', quantity = estimatedDpuHours, unitPrice = dpuPrice,
             CostDetail.monthlyCost = monthlyCost, CostDetail.unit = ''DPU-hours'' \<rparr>],
         confidence = Low \<rparr>))"

definition calc_WAFv2_WebACL :: ResourceCostCalculator where
  "calc_WAFv2_WebACL rt logicalId resource template pricing =
     (let rules = orValue (qdot (member resource ''Properties'') ''Rules'') (JArr []);
          ruleCount = member rules ''length'';
          webAclPrice = orElse (price pricing [''waf'', ''webACL'']) 5.00;
          rulePrice = orElse (price pricing [''waf'', ''rule'']) 1.00;
          monthlyCost = webAclPrice + (toNumberJS rt ruleCount * rulePrice);
          details0 = [\<lparr> component = ''Web ACL'', quantity = 1, unitPrice = webAclPrice,
             CostDetail.monthlyCost = webAclPrice, CostDetail.unit = ''ACL/month'' \<rparr>];
          details =
            (if toNumberJS rt ruleCount > 0 then
               details0 @ [\<lparr> component = ''Rules ('' @ toStringJS rt ruleCount @ '')'', quantity = toNumberJS rt ruleCount, unitPrice = rulePrice,
             CostDetail.monthlyCost = toNumberJS rt ruleCount * rulePrice, CostDetail.unit = ''rules/month'' \<rparr>]
             else details0)
      in Inr (Some
       \<lparr> resourceId = logicalId, resourceType = ''AWS::WAFv2::WebACL'',
         monthlyCost = monthlyCost,
         hourlyCost = monthlyCost / HOURS_PER_MONTH,
         unit = ''web ACL'',
         details =
           details,
         confidence = Medium \<rparr>))"

definition calc_WAF_WebACL :: ResourceCostCalculator where
  "calc_WAF_WebACL rt logicalId resource template pricing =
     (let webAclPrice = orElse (price pricing [''waf'', ''webACL'']) 5.00
      in Inr (Some
       \<lparr> resourceId = logicalId, resourceType = ''AWS::WAF::WebACL'',
         monthlyCost = webAclPrice,
         hourlyCost = webAclPrice / HOURS_PER_MONTH,
         unit = ''web ACL'',
         details =
           [\<lparr> component = ''WAF Web ACL'', quantity = 1, unitPrice = webAclPrice,
             CostDetail.monthlyCost = webAclPrice, CostDetail.unit = ''ACL/month'' \<rparr>],
         confidence = Medium \<rparr>))"


definition calc_OpenSearchService_Domain :: ResourceCostCalculator where
  "calc_OpenSearchService_Domain rt logicalId resource template pricing =
     (let instanceType = getPropertyValue rt template resource ''ClusterConfig.InstanceType'' (JStr ''t3.small.search'');
          instanceCount = getPropertyValue rt template resource ''ClusterConfig.InstanceCount'' (JNum 1);
          hourlyPrice = orElse (price pricing [''opensearch'', ''instances'', toStringJS rt instanceType]) (orElse (price pricing [''opensearch'', ''instances'', ''t3.small.search'']) 0.036);
          monthlyCost = hourlyPrice * HOURS_PER_MONTH * toNumberJS rt instanceCount
      in Inr (Some
       \<lparr> resourceId = logicalId, resourceType = ''AWS::OpenSearchService::Domain'',
         monthlyCost = monthlyCost,
         hourlyCost = hourlyPrice * toNumberJS rt instanceCount,
         unit = ''domain'',
         details =
           [\<lparr> component = ''OpenSearch '' @ toStringJS rt instanceType @ '' ('' @ toStringJS rt instanceCount @ '' instances)'', quantity = toNumberJS rt instanceCount * HOURS_PER_MONTH, unitPrice = hourlyPrice,
             CostDetail.monthlyCost = monthlyCost, CostDetail.unit = ''instance-hours'' \<rparr>],
         confidence = High \<rparr>))"

definition calc_Elasticsearch_Domain :: ResourceCostCalculator where
  "calc_Elasticsearch_Domain rt logicalId resource template pricing =
     (let instanceType = getPropertyValue rt template resource ''ElasticsearchClusterConfig.InstanceType'' (JStr ''t3.small.elasticsearch'');
          instanceCount = getPropertyValue rt template resource ''ElasticsearchClusterConfig.InstanceCount'' (JNum 1);
          hourlyPrice = orElse (price pricing [''elasticsearch'', ''instances'', toStringJS rt instanceType]) (orElse (price pricing [''opensearch'', ''instances'', ''t3.small.search'']) 0.036);
          monthlyCost = hourlyPrice * HOURS_PER_MONTH * toNumberJS rt instanceCount
      in Inr (Some
       \<lparr> resourceId = logicalId, resourceType = ''AWS::Elasticsearch::Domain'',
         monthlyCost = monthlyCost,
         hourlyCost = hourlyPrice * toNumberJS rt instanceCount,
         unit = ''domain'',
         details =
           [\<lparr> component = ''Elasticsearch '' @ toStringJS rt instanceType @ '' ('' @ toStringJS rt instanceCount @ '' instances)'', quantity = toNumberJS rt instanceCount * HOURS_PER_MONTH, unitPrice = hourlyPrice,
             CostDetail.monthlyCost = monthlyCost, CostDetail.unit = ''instance-hours'' \<rparr>],
         confidence = High \<rparr>))"

text \<open>
  The statements after the choice of \<^verbatim>\<open>monthlyPrice\<close> are the function \<open>finish\<close>.
\<close>

definition calc_Lightsail_Instance :: ResourceCostCalculator where
  "calc_Lightsail_Instance rt logicalId resource template pricing =
     (let bundleId = getPropertyValue rt template resource ''BundleId'' (JStr ''nano_2_0'');
          finish = (\<lambda>monthlyPrice.
            Inr (Some
       \<lparr> resourceId = logicalId, resourceType = ''AWS::Lightsail::Instance'',
         monthlyCost = monthlyPrice,
         hourlyCost = monthlyPrice / HOURS_PER_MONTH,
         unit = ''instance'',
         details =
           [\<lparr> component = ''Lightsail '' @ toStringJS rt bundleId, quantity = 1, unitPrice = monthlyPrice,
             CostDetail.monthlyCost = monthlyPrice, CostDetail.unit = ''instance/month'' \<rparr>],
         confidence = High \<rparr>))
      in
      bindE (js_includes rt bundleId ''micro'') (\<lambda>isMicro.
        if isMicro then finish (orElse (price pricing [''lightsail'', ''instances'', ''micro'']) 5.00) else
      bindE (js_includes rt bundleId ''small'') (\<lambda>isSmall.
        if isSmall then finish (orElse (price pricing [''lightsail'', ''instances'', ''small'']) 10.00) else
      bindE (js_includes rt bundleId ''medium'') (\<lambda>isMedium.
        if isMedium then finish (orElse (price pricing [''lightsail'', ''instances'', ''medium'']) 20.00) else
      bindE (js_includes rt bundleId ''large'') (\<lambda>isLarge.
        if isLarge then finish 40.00 else
      bindE (js_includes rt bundleId ''xlarge'') (\<lambda>isXlarge.
        if isXlarge then finish 80.00 else
        finish (orElse (price pricing [''lightsail'', ''instances'', ''nano'']) 3.50)))))))"

definition calc_DMS_ReplicationInstance :: ResourceCostCalculator where
  "calc_DMS_ReplicationInstance rt logicalId resource template pricing =
     (let instanceClass = getPropertyValue rt template resource ''ReplicationInstanceClass'' (JStr ''dms.t3.micro'');
          hourlyPrice = orElse (price pricing [''dms'', ''instances'', toStringJS rt instanceClass]) (orElse (price pricing [''dms'', ''instances'', ''dms.t3.micro'']) 0.018);
          monthlyCost = hourlyPrice * HOURS_PER_MONTH
      in Inr (Some
       \<lparr> resourceId = logicalId, resourceType = ''AWS::DMS::ReplicationInstance'',
         monthlyCost = monthlyCost,
         hourlyCost = hourlyPrice,
         unit = ''instance'',
         details =
           [\<lparr> component = ''DMS '' @ toStringJS rt instanceClass, quantity = HOURS_PER_MONTH, unitPrice = hourlyPrice,
             CostDetail.monthlyCost = monthlyCost, CostDetail.unit = ''hours'' \<rparr>],
         confidence = High \<rparr>))"

definition calc_Transfer_Server :: ResourceCostCalculator where
  "calc_Transfer_Server rt logicalId resource template pricing =
     (let hourlyPrice = orElse (price pricing [''transferFamily'', ''protocols'']) 0.30;
          monthlyCost = hourlyPrice * HOURS_PER_MONTH
      in Inr (Some
       \<lparr> resourceId = logicalId, resourceType = ''AWS::Transfer::Server'',
         monthlyCost = monthlyCost,
         hourlyCost = hourlyPrice,
         unit = ''server'',
         details =
           [\<lparr> component = ''AWS Transfer Family Server'', quantity = HOURS_PER_MONTH, unitPrice = hourlyPrice,
             CostDetail.monthlyCost = monthlyCost, CostDetail.unit = ''hours'' \<rparr>],
         confidence = Medium \<rparr>))"

definition calc_CodePipeline_Pipeline :: ResourceCostCalculator where
  "calc_CodePipeline_Pipeline rt logicalId resource template pricing =
     (let pipelinePrice = orElse (price pricing [''codepipeline'', ''activePipeline'']) 1.00
      in Inr (Some
       \<lparr> resourceId = logicalId, resourceType = ''AWS::CodePipeline::Pipeline'',
         monthlyCost = pipelinePrice,
         hourlyCost = pipelinePrice / HOURS_PER_MONTH,
         unit = ''pipeline'',
         details =
           [\<lparr> component = ''CodePipeline Active Pipeline'', quantity = 1, unitPrice = pipelinePrice,
             CostDetail.monthlyCost = pipelinePrice, CostDetail.unit = ''pipeline/month'' \<rparr>],
         confidence = High \<rparr>))"

definition calc_NetworkFirewall_Firewall :: ResourceCostCalculator where
  "calc_NetworkFirewall_Firewall rt logicalId resource template pricing =
     (let endpointHourly = 0.395;
          subnetMappings = orValue (qdot (member resource ''Properties'') ''SubnetMappings'') (JArr [JObj []]);
          endpointCount = member subnetMappings ''length'';
          baseCost = endpointHourly * HOURS_PER_MONTH * toNumberJS rt endpointCount;
          estimatedDataGB = 100;
          dataPrice = 0.065;
          dataCost = estimatedDataGB * dataPrice
      in Inr (Some
       \<lparr> resourceId = logicalId, resourceType = ''AWS::NetworkFirewall::Firewall'',
         monthlyCost = baseCost + dataCost,
         hourlyCost = endpointHourly * toNumberJS rt endpointCount,
         unit = ''firewall'',
         details =
           [\<lparr> component = ''Network Firewall Endpoints ('' @ toStringJS rt endpointCount @ '')'', quantity = toNumberJS rt endpointCount * HOURS_PER_MONTH, unitPrice = endpointHourly,
             CostDetail.monthlyCost = baseCost, CostDetail.unit = ''endpoint-hours'' \<rparr>,
           \<lparr> component = ''Data Processing (est. 100GB)'', quantity = estimatedDataGB, unitPrice = dataPrice,
             CostDetail.monthlyCost = dataCost, CostDetail.unit = ''GB'' \<rparr>],
         confidence = Medium \<rparr>))"

definition calc_Grafana_Workspace :: ResourceCostCalculator where
  "calc_Grafana_Workspace rt logicalId resource template pricing =
     (let editorPrice = 9.00;
          estimatedEditors = 2;
          monthlyCost = editorPrice * estimatedEditors
      in Inr (Some
       \<lparr> resourceId = logicalId, resourceType = ''AWS::Grafana::Workspace'',
         monthlyCost = monthlyCost,
         hourlyCost = monthlyCost / HOURS_PER_MONTH,
         unit = ''workspace'',
         details =
           [\<lparr> component = ''Managed Grafana Editors (est. 2)'', quantity = estimatedEditors, unitPrice = editorPrice,
             CostDetail.monthlyCost = monthlyCost, CostDetail.unit = ''editors/month'' \<rparr>],
         confidence = Low \<rparr>))"

definition calc_SageMaker_NotebookInstance :: ResourceCostCalculator where
  "calc_SageMaker_NotebookInstance rt logicalId resource template pricing =
     (let instanceType = getPropertyValue rt template resource ''InstanceType'' (JStr ''ml.t3.medium'');
          hourlyPrice = orElse (price pricing [''sagemaker'', ''notebookInstances'', toStringJS rt instanceType]) 0.05;
          monthlyCost = hourlyPrice * HOURS_PER_MONTH
      in Inr (Some
       \<lparr> resourceId = logicalId, resourceType = ''AWS::SageMaker::NotebookInstance'',
         monthlyCost = monthlyCost,
         hourlyCost = hourlyPrice,
         unit = ''notebook instance'',
         details =
           [\<lparr> component = ''SageMaker Notebook '' @ toStringJS rt instanceType, quantity = HOURS_PER_MONTH, unitPrice = hourlyPrice,
             CostDetail.monthlyCost = monthlyCost, CostDetail.unit = ''hours'' \<rparr>],
         confidence = Medium \<rparr>))"

definition calc_DirectoryService_SimpleAD :: ResourceCostCalculator where
  "calc_DirectoryService_SimpleAD rt logicalId resource template pricing =
     (let size = getPropertyValue rt template resource ''Size'' (JStr ''Small'') in
      bindE (toLowerCase rt size) (\<lambda>sizeLower.
      (let hourlyPrice = orElse (price pricing [''directoryService'', ''simpleAD'', sizeLower])
                           (if sizeLower = ''large'' then 0.15 else 0.05);
           monthlyCost = hourlyPrice * HOURS_PER_MONTH
       in Inr (Some
       \<lparr> resourceId = logicalId, resourceType = ''AWS::DirectoryService::SimpleAD'',
         monthlyCost = monthlyCost,
         hourlyCost = hourlyPrice,
         unit = ''directory'',
         details =
           [\<lparr> component = ''Simple AD ('' @ toStringJS rt size @ '')'', quantity = HOURS_PER_MONTH, unitPrice = hourlyPrice,
             CostDetail.monthlyCost = monthlyCost, CostDetail.unit = ''hours'' \<rparr>],
         confidence = High \<rparr>))))"

definition calc_DirectoryService_MicrosoftAD :: ResourceCostCalculator where
  "calc_DirectoryService_MicrosoftAD rt logicalId resource template pricing =
     (let edition = getPropertyValue rt template resource ''Edition'' (JStr ''Standard'') in
      bindE (toLowerCase rt edition) (\<lambda>editionLower.
      (let hourlyPrice = orElse (price pricing [''directoryService'', ''microsoftAD'', editionLower])
                           (if editionLower = ''enterprise'' then 0.40 else 0.12);
           monthlyCost = hourlyPrice * HOURS_PER_MONTH
       in Inr (Some
       \<lparr> resourceId = logicalId, resourceType = ''AWS::DirectoryService::MicrosoftAD'',
         monthlyCost = monthlyCost,
         hourlyCost = hourlyPrice,
         unit = ''directory'',
         details =
           [\<lparr> component = ''Microsoft AD ('' @ toStringJS rt edition @ '')'', quantity = HOURS_PER_MONTH, unitPrice = hourlyPrice,
             CostDetail.monthlyCost = monthlyCost, CostDetail.unit = ''hours'' \<rparr>],
         confidence = High \<rparr>))))"

definition calc_MWAA_Environment :: ResourceCostCalculator where
  "calc_MWAA_Environment rt logicalId resource template pricing =
     (let environmentClass = getPropertyValue rt template resource ''EnvironmentClass'' (JStr ''mw1.small'');
          hourlyPrice = orElse (price pricing [''mwaa'', ''environment'', toStringJS rt environmentClass]) 0.49;
          monthlyCost = hourlyPrice * HOURS_PER_MONTH
      in Inr (Some
       \<lparr> resourceId = logicalId, resourceType = ''AWS::MWAA::Environment'',
         monthlyCost = monthlyCost,
         hourlyCost = hourlyPrice,
         unit = ''environment'',
         details =
           [\<lparr> component = ''MWAA Environment ('' @ toStringJS rt environmentClass @ '')'', quantity = HOURS_PER_MONTH, unitPrice = hourlyPrice,
             CostDetail.monthlyCost = monthlyCost, CostDetail.unit = ''hours'' \<rparr>],
         confidence = High \<rparr>))"

definition calc_KinesisAnalyticsV2_Application :: ResourceCostCalculator where
  "calc_KinesisAnalyticsV2_Application rt logicalId resource template pricing =
     (let kpuHourly = orElse (price pricing [''kinesisAnalytics'', ''kpuHourly'']) 0.11;
          runningKpus = 1;
          monthlyCost = kpuHourly * runningKpus * HOURS_PER_MONTH
      in Inr (Some
       \<lparr> resourceId = logicalId, resourceType = ''AWS::KinesisAnalyticsV2::Application'',
         monthlyCost = monthlyCost,
         hourlyCost = kpuHourly * runningKpus,
         unit = ''application'',
         details =
           [\<lparr> component = ''Kinesis Analytics Application (1 KPU est.)'', quantity = HOURS_PER_MONTH, unitPrice = kpuHourly,
             CostDetail.monthlyCost = monthlyCost, CostDetail.unit = ''KPU-hours'' \<rparr>],
         confidence = Low \<rparr>))"

definition calc_CloudFront_Function :: ResourceCostCalculator where
  "calc_CloudFront_Function rt logicalId resource template pricing =
     (let estimatedInvocations = 2000000;
          pricePerMillion = orElse (price pricing [''cloudfront'', ''functions'']) 0.10;
          monthlyCost = (estimatedInvocations / 1000000) * pricePerMillion
      in Inr (Some
       \<lparr> resourceId = logicalId, resourceType = ''AWS::CloudFront::Function'',
         monthlyCost = monthlyCost,
         hourlyCost = monthlyCost / HOURS_PER_MONTH,
         unit = ''function'',
         details =
           [\<lparr> component = ''CloudFront Function Invocations (est. 2M/mo)'', quantity = estimatedInvocations, unitPrice = pricePerMillion / 1000000,
             CostDetail.monthlyCost = monthlyCost, CostDetail.unit = ''invocations'' \<rparr>],
         confidence = Low \<rparr>))"

definition calc_Route53Resolver_ResolverEndpoint :: ResourceCostCalculator where
  "calc_Route53Resolver_ResolverEndpoint rt logicalId resource template pricing =
     (let ipAddresses = getPropertyValue rt template resource ''IpAddresses'' (JArr []) in
      bindE (dot rt ipAddresses ''length'') (\<lambda>ipAddressesLength.
      (let eniCount = Math_max rt ipAddressesLength 2;
           hourlyPrice = orElse (price pricing [''route53'', ''resolverEndpoint'']) 0.125;
           monthlyCost = hourlyPrice * eniCount * HOURS_PER_MONTH
       in Inr (Some
       \<lparr> resourceId = logicalId, resourceType = ''AWS::Route53Resolver::ResolverEndpoint'',
         monthlyCost = monthlyCost,
         hourlyCost = hourlyPrice * eniCount,
         unit = ''endpoint'',
         details =
           [\<lparr> component = ''Resolver Endpoint ENIs ('' @ numberToString rt eniCount @ '')'', quantity = eniCount * HOURS_PER_MONTH, unitPrice = hourlyPrice,
             CostDetail.monthlyCost = monthlyCost, CostDetail.unit = ''ENI-hours'' \<rparr>],
         confidence = Medium \<rparr>))))"

definition calc_Route53_HealthCheck :: ResourceCostCalculator where
  "calc_Route53_HealthCheck rt logicalId resource template pricing =
     (let monthlyPrice = orElse (price pricing [''route53'', ''healthChecks'', ''basic'']) 0.50
      in Inr (Some
       \<lparr> resourceId = logicalId, resourceType = ''AWS::Route53::HealthCheck'',
         monthlyCost = monthlyPrice,
         hourlyCost = monthlyPrice / HOURS_PER_MONTH,
         unit = ''health check'',
         details =
           [\<lparr> component = ''Route 53 Health Check (Basic)'', quantity = 1, unitPrice = monthlyPrice,
             CostDetail.monthlyCost = monthlyPrice, CostDetail.unit = ''check/month'' \<rparr>],
         confidence = Medium \<rparr>))"

definition calc_EC2_ClientVpnEndpoint :: ResourceCostCalculator where
  "calc_EC2_ClientVpnEndpoint rt logicalId resource template pricing =
     (let hourlyPrice = orElse (price pricing [''vpnConnection'', ''clientVpn'', ''endpointHourly'']) 0.05;
          connectionHourly = orElse (price pricing [''vpnConnection'', ''clientVpn'', ''connectionHourly'']) 0.05;
          estimatedConnections = 1;
          endpointCost = hourlyPrice * HOURS_PER_MONTH;
          connectionCost = connectionHourly * estimatedConnections * HOURS_PER_MONTH;
          monthlyCost = endpointCost + connectionCost
      in Inr (Some
       \<lparr> resourceId = logicalId, resourceType = ''AWS::EC2::ClientVpnEndpoint'',
         monthlyCost = monthlyCost,
         hourlyCost = hourlyPrice + (connectionHourly * estimatedConnections),
         unit = ''endpoint'',
         details =
           [\<lparr> component = ''Client VPN Endpoint'', quantity = HOURS_PER_MONTH, unitPrice = hourlyPrice,
             CostDetail.monthlyCost = endpointCost, CostDetail.unit = ''hours'' \<rparr>,
           \<lparr> component = ''VPN Connection (est. 1)'', quantity = estimatedConnections * HOURS_PER_MONTH, unitPrice = connectionHourly,
             CostDetail.monthlyCost = connectionCost, CostDetail.unit = ''connection-hours'' \<rparr>],
         confidence = Medium \<rparr>))"

definition calc_EC2_TrafficMirrorSession :: ResourceCostCalculator where
  "calc_EC2_TrafficMirrorSession rt logicalId resource template pricing =
     (let hourlyPrice = orElse (price pricing [''trafficMirror'', ''sessionHourly'']) 0.15;
          monthlyCost = hourlyPrice * HOURS_PER_MONTH
      in Inr (Some
       \<lparr> resourceId = logicalId, resourceType = ''AWS::EC2::TrafficMirrorSession'',
         monthlyCost = monthlyCost,
         hourlyCost = hourlyPrice,
         unit = ''session'',
         details =
           [\<lparr> component = ''Traffic Mirror Session'', quantity = HOURS_PER_MONTH, unitPrice = hourlyPrice,
             CostDetail.monthlyCost = monthlyCost, CostDetail.unit = ''hours'' \<rparr>],
         confidence = High \<rparr>))"

definition calc_EC2_TransitGatewayPeeringAttachment :: ResourceCostCalculator where
  "calc_EC2_TransitGatewayPeeringAttachment rt logicalId resource template pricing =
     (let hourlyPrice = orElse (price pricing [''transitGateway'', ''peering'']) 0.05;
          monthlyCost = hourlyPrice * HOURS_PER_MONTH
      in Inr (Some
       \<lparr> resourceId = logicalId, resourceType = ''AWS::EC2::TransitGatewayPeeringAttachment'',
         monthlyCost = monthlyCost,
         hourlyCost = hourlyPrice,
         unit = ''attachment'',
         details =
           [\<lparr> component = ''Transit Gateway Peering Attachment'', quantity = HOURS_PER_MONTH, unitPrice = hourlyPrice,
             CostDetail.monthlyCost = monthlyCost, CostDetail.unit = ''hours'' \<rparr>],
         confidence = High \<rparr>))"

definition calc_EC2_Host :: ResourceCostCalculator where
  "calc_EC2_Host rt logicalId resource template pricing =
     (let instanceType = getPropertyValue rt template resource ''InstanceType'' (JStr ''m5.large'');
          hostPrice = orElse (price pricing [''ec2'', ''hosts'', toStringJS rt instanceType]) ((orElse (price pricing [''ec2'', ''instances'', toStringJS rt instanceType]) 0.096) * 1.1);
          monthlyCost = hostPrice * HOURS_PER_MONTH
      in Inr (Some
       \<lparr> resourceId = logicalId, resourceType = ''AWS::EC2::Host'',
         monthlyCost = monthlyCost,
         hourlyCost = hostPrice,
         unit = ''host'',
         details =
           [\<lparr> component = ''Dedicated Host ('' @ toStringJS rt instanceType @ '')'', quantity = HOURS_PER_MONTH, unitPrice = hostPrice,
             CostDetail.monthlyCost = monthlyCost, CostDetail.unit = ''hours'' \<rparr>],
         confidence = Medium \<rparr>))"

definition calc_EKS_Nodegroup :: ResourceCostCalculator where
  "calc_EKS_Nodegroup rt logicalId resource template pricing =
     (let scalingConfig = qdot (member resource ''Properties'') ''ScalingConfig'';
          desiredSize = orValue (qdot scalingConfig ''DesiredSize'') (orValue (qdot scalingConfig ''MinSize'') (JNum 1));
          instanceTypes = orValue (qdot (member resource ''Properties'') ''InstanceTypes'') (JArr [JStr ''t3.medium'']);
          instanceType = member instanceTypes ''0'';
          hourlyPrice = orElse (price pricing [''ec2'', ''instances'', toStringJS rt instanceType]) (orElse (price pricing [''ec2'', ''instances'', ''t3.medium'']) 0.0416);
          monthlyCost = hourlyPrice * HOURS_PER_MONTH * toNumberJS rt desiredSize
      in Inr (Some
       \<lparr> resourceId = logicalId, resourceType = ''AWS::EKS::Nodegroup'',
         monthlyCost = monthlyCost,
         hourlyCost = hourlyPrice * toNumberJS rt desiredSize,
         unit = ''nodegroup'',
         details =
           [\<lparr> component = ''EKS Node Group ('' @ toStringJS rt desiredSize @ '' x '' @ toStringJS rt instanceType @ '')'', quantity = toNumberJS rt desiredSize * HOURS_PER_MONTH, unitPrice = hourlyPrice,
             CostDetail.monthlyCost = monthlyCost, CostDetail.unit = ''instance-hours'' \<rparr>],
         confidence = Medium \<rparr>))"

definition calc_EKS_FargateProfile :: ResourceCostCalculator where
  "calc_EKS_FargateProfile rt logicalId resource template pricing =
     (let vcpuHourly = orElse (price pricing [''eks'', ''fargateVcpuHourly'']) (orElse (price pricing [''fargate'', ''vcpuHourly'']) 0.04048);
          memoryHourly = orElse (price pricing [''eks'', ''fargateMemoryGBHourly'']) (orElse (price pricing [''fargate'', ''memoryGBHourly'']) 0.004445);
          estimatedVcpu = 0.25;
          estimatedMemory = 0.5;
          hourlyCost = (vcpuHourly * estimatedVcpu) + (memoryHourly * estimatedMemory);
          monthlyCost = hourlyCost * HOURS_PER_MONTH
      in Inr (Some
       \<lparr> resourceId = logicalId, resourceType = ''AWS::EKS::FargateProfile'',
         monthlyCost = monthlyCost,
         hourlyCost = hourlyCost,
         unit = ''profile'',
         details =
           [\<lparr> component = ''Fargate Pods (est. 1 small pod)'', quantity = HOURS_PER_MONTH, unitPrice = hourlyCost,
             CostDetail.monthlyCost = monthlyCost, CostDetail.unit = ''pod-hours'' \<rparr>],
         confidence = Low \<rparr>))"

definition calc_Glue_Database :: ResourceCostCalculator where
  "calc_Glue_Database rt logicalId resource template pricing =
Inr (Some
       \<lparr> resourceId = logicalId, resourceType = ''AWS::Glue::Database'',
         monthlyCost = 0,
         hourlyCost = 0,
         unit = ''database'',
         details =
           [\<lparr> component = ''Glue Database (free tier/negligible)'', quantity = 1, unitPrice = 0,
             CostDetail.monthlyCost = 0, CostDetail.unit = ''database'' \<rparr>],
         confidence = High \<rparr>)"

definition calc_Config_ConfigurationRecorder :: ResourceCostCalculator where
  "calc_Config_ConfigurationRecorder rt logicalId resource template pricing =
     (let itemPrice = orElse (price pricing [''config'', ''configItems'']) 0.003;
          estimatedItems = 1000;
          monthlyCost = estimatedItems * itemPrice
      in Inr (Some
       \<lparr> resourceId = logicalId, resourceType = ''AWS::Config::ConfigurationRecorder'',
         monthlyCost = monthlyCost,
         hourlyCost = monthlyCost / HOURS_PER_MONTH,
         unit = ''recorder'',
         details =
           [\<lparr> component = ''Config Items Recorded (est. 1000/mo)'', quantity = estimatedItems, unitPrice = itemPrice,
             CostDetail.monthlyCost = monthlyCost, CostDetail.unit = ''items'' \<rparr>],
         confidence = Low \<rparr>))"

definition calc_SSM_Activation :: ResourceCostCalculator where
  "calc_SSM_Activation rt logicalId resource template pricing =
Inr (Some
       \<lparr> resourceId = logicalId, resourceType = ''AWS::SSM::Activation'',
         monthlyCost = 0,
         hourlyCost = 0,
         unit = ''activation'',
         details =
           [\<lparr> component = ''SSM Activation (Standard)'', quantity = 1, unitPrice = 0,
             CostDetail.monthlyCost = 0, CostDetail.unit = ''activation'' \<rparr>],
         confidence = Medium \<rparr>)"

text \<open>
  \<^verbatim>\<open>initializeCalculators\<close>: the entries of the \<^verbatim>\<open>Map\<close>, in the order of the calls of
  \<^verbatim>\<open>calculators.set\<close>. No key is set twice.
\<close>

definition initializeCalculators :: "(string \<times> ResourceCostCalculator) list" where
  "initializeCalculators =
     [(''AWS::EC2::Instance'', calc_EC2_Instance),
      (''AWS::AutoScaling::AutoScalingGroup'', calc_AutoScaling_AutoScalingGroup),
      (''AWS::EC2::Volume'', calc_EC2_Volume),
      (''AWS::RDS::DBInstance'', calc_RDS_DBInstance),
      (''AWS::RDS::DBCluster'', calc_RDS_DBCluster),
      (''AWS::ElastiCache::CacheCluster'', calc_ElastiCache_CacheCluster),
      (''AWS::ElastiCache::ReplicationGroup'', calc_ElastiCache_ReplicationGroup),
      (''AWS::EC2::NatGateway'', calc_EC2_NatGateway),
      (''AWS::ElasticLoadBalancingV2::LoadBalancer'', calc_ElasticLoadBalancingV2_LoadBalancer),
      (''AWS::ElasticLoadBalancing::LoadBalancer'', calc_ElasticLoadBalancing_LoadBalancer),
      (''AWS::ECS::Service'', calc_ECS_Service),
      (''AWS::EKS::Cluster'', calc_EKS_Cluster),
      (''AWS::SecretsManager::Secret'', calc_SecretsManager_Secret),
      (''AWS::KMS::Key'', calc_KMS_Key),
      (''AWS::Route53::HostedZone'', calc_Route53_HostedZone),
      (''AWS::CloudWatch::Alarm'', calc_CloudWatch_Alarm),
      (''AWS::CloudWatch::Dashboard'', calc_CloudWatch_Dashboard),
      (''AWS::EC2::EIP'', calc_EC2_EIP),
      (''AWS::EC2::VPCEndpoint'', calc_EC2_VPCEndpoint),
      (''AWS::EC2::Snapshot'', calc_EC2_Snapshot),
      (''AWS::Neptune::DBCluster'', calc_Neptune_DBCluster),
      (''AWS::Neptune::DBInstance'', calc_Neptune_DBInstance),
      (''AWS::DocDB::DBCluster'', calc_DocDB_DBCluster),
      (''AWS::DocDB::DBInstance'', calc_DocDB_DBInstance),
      (''AWS::Redshift::Cluster'', calc_Redshift_Cluster),
      (''AWS::EC2::VPNConnection'', calc_EC2_VPNConnection),
      (''AWS::EC2::TransitGateway'', calc_EC2_TransitGateway),
      (''AWS::EC2::TransitGatewayAttachment'', calc_EC2_TransitGatewayAttachment),
      (''AWS::DirectConnect::Connection'', calc_DirectConnect_Connection),
      (''AWS::GlobalAccelerator::Accelerator'', calc_GlobalAccelerator_Accelerator),
      (''AWS::AmazonMQ::Broker'', calc_AmazonMQ_Broker),
      (''AWS::MSK::Cluster'', calc_MSK_Cluster),
      (''AWS::Kinesis::Stream'', calc_Kinesis_Stream),
      (''AWS::KinesisFirehose::DeliveryStream'', calc_KinesisFirehose_DeliveryStream),
      (''AWS::EFS::FileSystem'', calc_EFS_FileSystem),
      (''AWS::FSx::FileSystem'', calc_FSx_FileSystem),
      (''AWS::Backup::BackupVault'', calc_Backup_BackupVault),
      (''AWS::CloudFront::Distribution'', calc_CloudFront_Distribution),
      (''AWS::ACMPCA::CertificateAuthority'', calc_ACMPCA_CertificateAuthority),
      (''AWS::Config::ConfigRule'', calc_Config_ConfigRule),
      (''AWS::CloudTrail::Trail'', calc_CloudTrail_Trail),
      (''AWS::CodeBuild::Project'', calc_CodeBuild_Project),
      (''AWS::Glue::Job'', calc_Glue_Job),
      (''AWS::Glue::Crawler'', calc_Glue_Crawler),
      (''AWS::WAFv2::WebACL'', calc_WAFv2_WebACL),
      (''AWS::WAF::WebACL'', calc_WAF_WebACL),
      (''AWS::OpenSearchService::Domain'', calc_OpenSearchService_Domain),
      (''AWS::Elasticsearch::Domain'', calc_Elasticsearch_Domain),
      (''AWS::Lightsail::Instance'', calc_Lightsail_Instance),
      (''AWS::DMS::ReplicationInstance'', calc_DMS_ReplicationInstance),
      (''AWS::Transfer::Server'', calc_Transfer_Server),
      (''AWS::CodePipeline::Pipeline'', calc_CodePipeline_Pipeline),
      (''AWS::NetworkFirewall::Firewall'', calc_NetworkFirewall_Firewall),
      (''AWS::Grafana::Workspace'', calc_Grafana_Workspace),
      (''AWS::SageMaker::NotebookInstance'', calc_SageMaker_NotebookInstance),
      (''AWS::DirectoryService::SimpleAD'', calc_DirectoryService_SimpleAD),
      (''AWS::DirectoryService::MicrosoftAD'', calc_DirectoryService_MicrosoftAD),
      (''AWS::MWAA::Environment'', calc_MWAA_Environment),
      (''AWS::KinesisAnalyticsV2::Application'', calc_KinesisAnalyticsV2_Application),
      (''AWS::CloudFront::Function'', calc_CloudFront_Function),
      (''AWS::Route53Resolver::ResolverEndpoint'', calc_Route53Resolver_ResolverEndpoint),
      (''AWS::Route53::HealthCheck'', calc_Route53_HealthCheck),
      (''AWS::EC2::ClientVpnEndpoint'', calc_EC2_ClientVpnEndpoint),
      (''AWS::EC2::TrafficMirrorSession'', calc_EC2_TrafficMirrorSession),
      (''AWS::EC2::TransitGatewayPeeringAttachment'', calc_EC2_TransitGatewayPeeringAttachment),
      (''AWS::EC2::Host'', calc_EC2_Host),
      (''AWS::EKS::Nodegroup'', calc_EKS_Nodegroup),
      (''AWS::EKS::FargateProfile'', calc_EKS_FargateProfile),
      (''AWS::Glue::Database'', calc_Glue_Database),
      (''AWS::Config::ConfigurationRecorder'', calc_Config_ConfigurationRecorder),
      (''AWS::SSM::Activation'', calc_SSM_Activation)]"


section \<open>The cost calculator (cost-calculator.ts, class CostCalculator)\<close>

text \<open>
  The fields of the class. \<^verbatim>\<open>calculators\<close> is the \<^verbatim>\<open>Map\<close> that the constructor builds with
  \<^verbatim>\<open>initializeCalculators\<close>; \<^verbatim>\<open>pricing\<close> is the table that it gets from
  \<^verbatim>\<open>getRegionalPricing(region)\<close>, here an argument of the constructor.
\<close>

record CostCalculator =
  pricing :: AWSpricingData
  region :: string
  calculators :: "(string \<times> ResourceCostCalculator) list"

definition new_CostCalculator :: "AWSpricingData \<Rightarrow> string \<Rightarrow> CostCalculator" where
  "new_CostCalculator regionalPricing regionName =
     \<lparr> pricing = regionalPricing, region = regionName, calculators = new_Map initializeCalculators \<rparr>"

text \<open>
  A field of a pricing record that is replaced by a literal when the table lacks the record:
  \<^verbatim>\<open>const g = this.pricing.other?.name || { field: d, ... }\<close> and then \<^verbatim>\<open>g.field\<close>.
\<close>

definition groupField :: "runtime \<Rightarrow> AWSpricingData \<Rightarrow> string list \<Rightarrow> string \<Rightarrow> real \<Rightarrow> real" where
  "groupField rt table path field d =
     (if group table path then fieldOf rt table (path @ [field]) else d)"

text \<open>The usage-based estimators: the private methods that \<^verbatim>\<open>calculateUsageBasedResource\<close> calls.\<close>

definition calculateLambdaCost :: "runtime \<Rightarrow> CostCalculator \<Rightarrow> string \<Rightarrow> jsval \<Rightarrow> CloudFormationTemplate \<Rightarrow> exn + ResourceCost option" where
  "calculateLambdaCost rt this logicalId resource template =
     (let memorySize = getPropertyValue rt template resource ''MemorySize'' (JNum 128);
          timeout = getPropertyValue rt template resource ''Timeout'' (JNum 3);
          estimatedInvocations = 100000;
          avgDurationMs = toNumberJS rt timeout * 500;
          requestPrice = orElse (price (pricing this) [''lambda'', ''requests'']) 0.20;
          durationPrice = orElse (price (pricing this) [''lambda'', ''duration'']) 0.0000166667;
          freeDuration = 400000;
          gbSeconds = (toNumberJS rt memorySize / 1024) * (avgDurationMs / 1000) * estimatedInvocations;
          requestCost = (estimatedInvocations / 1000000) * requestPrice;
          computeCost = max 0 (gbSeconds - freeDuration) * durationPrice
      in Inr (Some
       \<lparr> resourceId = logicalId, resourceType = ''AWS::Lambda::Function'',
         monthlyCost = requestCost + computeCost,
         hourlyCost = (requestCost + computeCost) / HOURS_PER_MONTH,
         unit = ''function'',
         details =
           [\<lparr> component = ''Lambda Requests (est. '' @ toLocaleString rt estimatedInvocations @ ''/mo)'', quantity = estimatedInvocations, unitPrice = requestPrice / 1000000,
             CostDetail.monthlyCost = requestCost, CostDetail.unit = ''requests'' \<rparr>,
           \<lparr> component = ''Lambda Compute ('' @ toStringJS rt memorySize @ ''MB, '' @ numberToString rt avgDurationMs @ ''ms avg)'', quantity = gbSeconds, unitPrice = durationPrice,
             CostDetail.monthlyCost = computeCost, CostDetail.unit = ''GB-seconds'' \<rparr>],
         confidence = Low \<rparr>))"

definition calculateDynamoDBCost :: "runtime \<Rightarrow> CostCalculator \<Rightarrow> string \<Rightarrow> jsval \<Rightarrow> CloudFormationTemplate \<Rightarrow> exn + ResourceCost option" where
  "calculateDynamoDBCost rt this logicalId resource template =
     (let billingMode = getPropertyValue rt template resource ''BillingMode'' (JStr ''PROVISIONED'');
          dynamo_readCapacity = groupField rt (pricing this) [''other'', ''dynamodb''] ''readCapacity'' 0.00013;
          dynamo_writeCapacity = groupField rt (pricing this) [''other'', ''dynamodb''] ''writeCapacity'' 0.00065;
          dynamo_onDemandRead = groupField rt (pricing this) [''other'', ''dynamodb''] ''onDemandRead'' 0.25;
          dynamo_onDemandWrite = groupField rt (pricing this) [''other'', ''dynamodb''] ''onDemandWrite'' 1.25
      in
      if billingMode = JStr ''PAY_PER_REQUEST'' then
        (let estimatedWrites = 1000000;
             estimatedReads = 5000000;
             writeCost = (estimatedWrites / 1000000) * dynamo_onDemandWrite;
             readCost = (estimatedReads / 1000000) * dynamo_onDemandRead
         in Inr (Some
       \<lparr> resourceId = logicalId, resourceType = ''AWS::DynamoDB::Table'',
         monthlyCost = writeCost + readCost,
         hourlyCost = (writeCost + readCost) / HOURS_PER_MONTH,
         unit = ''table'',
         details =
           [\<lparr> component = ''DynamoDB On-Demand Writes (est. 1M/mo)'', quantity = estimatedWrites, unitPrice = dynamo_onDemandWrite / 1000000,
             CostDetail.monthlyCost = writeCost, CostDetail.unit = ''writes'' \<rparr>,
           \<lparr> component = ''DynamoDB On-Demand Reads (est. 5M/mo)'', quantity = estimatedReads, unitPrice = dynamo_onDemandRead / 1000000,
             CostDetail.monthlyCost = readCost, CostDetail.unit = ''reads'' \<rparr>],
         confidence = Low \<rparr>))
      else
        (let throughput = qdot (member resource ''Properties'') ''ProvisionedThroughput'';
             readCapacity = orValue (qdot throughput ''ReadCapacityUnits'') (JNum 5);
             writeCapacity = orValue (qdot throughput ''WriteCapacityUnits'') (JNum 5);
             readCost = toNumberJS rt readCapacity * dynamo_readCapacity * HOURS_PER_MONTH;
             writeCost = toNumberJS rt writeCapacity * dynamo_writeCapacity * HOURS_PER_MONTH
         in Inr (Some
       \<lparr> resourceId = logicalId, resourceType = ''AWS::DynamoDB::Table'',
         monthlyCost = readCost + writeCost,
         hourlyCost = (readCost + writeCost) / HOURS_PER_MONTH,
         unit = ''table'',
         details =
           [\<lparr> component = ''DynamoDB Read Capacity ('' @ toStringJS rt readCapacity @ '' RCU)'', quantity = toNumberJS rt readCapacity, unitPrice = dynamo_readCapacity * HOURS_PER_MONTH,
             CostDetail.monthlyCost = readCost, CostDetail.unit = ''RCU/month'' \<rparr>,
           \<lparr> component = ''DynamoDB Write Capacity ('' @ toStringJS rt writeCapacity @ '' WCU)'', quantity = toNumberJS rt writeCapacity, unitPrice = dynamo_writeCapacity * HOURS_PER_MONTH,
             CostDetail.monthlyCost = writeCost, CostDetail.unit = ''WCU/month'' \<rparr>],
         confidence = Medium \<rparr>)))"

definition calculateS3Cost :: "runtime \<Rightarrow> CostCalculator \<Rightarrow> string \<Rightarrow> jsval \<Rightarrow> CloudFormationTemplate \<Rightarrow> exn + ResourceCost option" where
  "calculateS3Cost rt this logicalId resource template =
     (let s3Pricing_standardStorage = groupField rt (pricing this) [''other'', ''s3''] ''standardStorage'' 0.023;
          estimatedStorageGB = 100;
          storageCost = estimatedStorageGB * s3Pricing_standardStorage
      in Inr (Some
       \<lparr> resourceId = logicalId, resourceType = ''AWS::S3::Bucket'',
         monthlyCost = storageCost,
         hourlyCost = storageCost / HOURS_PER_MONTH,
         unit = ''bucket'',
         details =
           [\<lparr> component = ''S3 Storage (est. 100GB)'', quantity = estimatedStorageGB, unitPrice = s3Pricing_standardStorage,
             CostDetail.monthlyCost = storageCost, CostDetail.unit = ''GB/month'' \<rparr>],
         confidence = Low \<rparr>))"

definition calculateSQSCost :: "runtime \<Rightarrow> CostCalculator \<Rightarrow> string \<Rightarrow> jsval \<Rightarrow> CloudFormationTemplate \<Rightarrow> exn + ResourceCost option" where
  "calculateSQSCost rt this logicalId resource template =
     (let sqsPricing_standard = groupField rt (pricing this) [''other'', ''sqs''] ''standard'' 0.40;
          sqsPricing_fifo = groupField rt (pricing this) [''other'', ''sqs''] ''fifo'' 0.50;
          queueName = qdot (member resource ''Properties'') ''QueueName''
      in
      bindE (if queueName = JNull \<or> queueName = JUndefined then Inr JUndefined
             else (case queueName of
                     JStr s \<Rightarrow> Inr (JBool (endsWith s ''.fifo''))
                   | _ \<Rightarrow> Inl (Error (typeErrorMessage rt ''endsWith'')))) (\<lambda>nameIsFifo.
      (let isFifo = truthy (orValue nameIsFifo
                      (JBool (qdot (member resource ''Properties'') ''FifoQueue'' = JBool True)));
           estimatedRequests = 1000000;
           pricePerMillion = (if isFifo then sqsPricing_fifo else sqsPricing_standard);
           requestCost = (estimatedRequests / 1000000) * pricePerMillion
       in Inr (Some
       \<lparr> resourceId = logicalId, resourceType = ''AWS::SQS::Queue'',
         monthlyCost = requestCost,
         hourlyCost = requestCost / HOURS_PER_MONTH,
         unit = ''queue'',
         details =
           [\<lparr> component = ''SQS '' @ (if isFifo then ''FIFO'' else ''Standard'') @ '' Requests (est. 1M/mo)'', quantity = estimatedRequests, unitPrice = pricePerMillion / 1000000,
             CostDetail.monthlyCost = requestCost, CostDetail.unit = ''requests'' \<rparr>],
         confidence = Low \<rparr>))))"

definition calculateApiGatewayCost :: "runtime \<Rightarrow> CostCalculator \<Rightarrow> string \<Rightarrow> jsval \<Rightarrow> CloudFormationTemplate \<Rightarrow> exn + ResourceCost option" where
  "calculateApiGatewayCost rt this logicalId resource template =
     (let apiPricing_rest = groupField rt (pricing this) [''other'', ''apiGateway''] ''rest'' 3.50;
          apiPricing_http = groupField rt (pricing this) [''other'', ''apiGateway''] ''http'' 1.00;
          isHttpApi = (member resource ''Type'' = JStr ''AWS::ApiGatewayV2::Api'');
          estimatedRequests = 1000000;
          pricePerMillion = (if isHttpApi then apiPricing_http else apiPricing_rest);
          requestCost = (estimatedRequests / 1000000) * pricePerMillion
      in Inr (Some
       \<lparr> resourceId = logicalId, resourceType = toStringJS rt (member resource ''Type''),
         monthlyCost = requestCost,
         hourlyCost = requestCost / HOURS_PER_MONTH,
         unit = ''API'',
         details =
           [\<lparr> component = (if isHttpApi then ''HTTP'' else ''REST'') @ '' API Requests (est. 1M/mo)'', quantity = estimatedRequests, unitPrice = pricePerMillion / 1000000,
             CostDetail.monthlyCost = requestCost, CostDetail.unit = ''requests'' \<rparr>],
         confidence = Low \<rparr>))"

definition calculateStepFunctionsCost :: "runtime \<Rightarrow> CostCalculator \<Rightarrow> string \<Rightarrow> jsval \<Rightarrow> CloudFormationTemplate \<Rightarrow> exn + ResourceCost option" where
  "calculateStepFunctionsCost rt this logicalId resource template =
     (let sfPricing_standard = groupField rt (pricing this) [''other'', ''stepFunctions''] ''standard'' 25.00;
          sfPricing_express = groupField rt (pricing this) [''other'', ''stepFunctions''] ''express'' 1.00;
          type = getPropertyValue rt template resource ''StateMachineType'' (JStr ''STANDARD'');
          estimatedExecutions = 10000;
          transitionsPerExecution = 5;
          totalTransitions = estimatedExecutions * transitionsPerExecution;
          pricePerMillion = (if type = JStr ''EXPRESS'' then sfPricing_express else sfPricing_standard);
          cost = (totalTransitions / 1000000) * pricePerMillion
      in Inr (Some
       \<lparr> resourceId = logicalId, resourceType = ''AWS::StepFunctions::StateMachine'',
         monthlyCost = cost,
         hourlyCost = cost / HOURS_PER_MONTH,
         unit = ''state machine'',
         details =
           [\<lparr> component = ''Step Functions '' @ toStringJS rt type @ '' (est. '' @ toLocaleString rt totalTransitions @ '' transitions/mo)'', quantity = totalTransitions, unitPrice = pricePerMillion / 1000000,
             CostDetail.monthlyCost = cost, CostDetail.unit = ''transitions'' \<rparr>],
         confidence = Low \<rparr>))"

definition calculateSNSCost :: "runtime \<Rightarrow> CostCalculator \<Rightarrow> string \<Rightarrow> jsval \<Rightarrow> CloudFormationTemplate \<Rightarrow> exn + ResourceCost option" where
  "calculateSNSCost rt this logicalId resource template =
     (let snsPricing_publish = groupField rt (pricing this) [''other'', ''sns''] ''publish'' 0.50;
          estimatedPublishes = 1000000;
          publishCost = (estimatedPublishes / 1000000) * snsPricing_publish
      in Inr (Some
       \<lparr> resourceId = logicalId, resourceType = ''AWS::SNS::Topic'',
         monthlyCost = publishCost,
         hourlyCost = publishCost / HOURS_PER_MONTH,
         unit = ''topic'',
         details =
           [\<lparr> component = ''SNS Publishes (est. 1M/mo)'', quantity = estimatedPublishes, unitPrice = snsPricing_publish / 1000000,
             CostDetail.monthlyCost = publishCost, CostDetail.unit = ''publishes'' \<rparr>],
         confidence = Low \<rparr>))"

definition calculateCloudWatchLogsCost :: "runtime \<Rightarrow> CostCalculator \<Rightarrow> string \<Rightarrow> jsval \<Rightarrow> CloudFormationTemplate \<Rightarrow> exn + ResourceCost option" where
  "calculateCloudWatchLogsCost rt this logicalId resource template =
     (let cwPricing_logsIngestion = groupField rt (pricing this) [''other'', ''cloudwatch''] ''logsIngestion'' 0.50;
          cwPricing_logsStorage = groupField rt (pricing this) [''other'', ''cloudwatch''] ''logsStorage'' 0.03;
          estimatedIngestionGB = 10;
          estimatedStorageGB = 50;
          ingestionCost = estimatedIngestionGB * cwPricing_logsIngestion;
          storageCost = estimatedStorageGB * cwPricing_logsStorage;
          totalCost = ingestionCost + storageCost
      in Inr (Some
       \<lparr> resourceId = logicalId, resourceType = ''AWS::Logs::LogGroup'',
         monthlyCost = totalCost,
         hourlyCost = totalCost / HOURS_PER_MONTH,
         unit = ''log group'',
         details =
           [\<lparr> component = ''Log Data Ingestion (est. 10GB/mo)'', quantity = estimatedIngestionGB, unitPrice = cwPricing_logsIngestion,
             CostDetail.monthlyCost = ingestionCost, CostDetail.unit = ''GB'' \<rparr>,
           \<lparr> component = ''Log Storage (est. 50GB)'', quantity = estimatedStorageGB, unitPrice = cwPricing_logsStorage,
             CostDetail.monthlyCost = storageCost, CostDetail.unit = ''GB'' \<rparr>],
         confidence = Low \<rparr>))"

definition calculateSSMParameterCost :: "runtime \<Rightarrow> CostCalculator \<Rightarrow> string \<Rightarrow> jsval \<Rightarrow> CloudFormationTemplate \<Rightarrow> exn + ResourceCost option" where
  "calculateSSMParameterCost rt this logicalId resource template =
     (let tier = getPropertyValue rt template resource ''Tier'' (JStr ''Standard'');
          isAdvanced = (tier = JStr ''Advanced'');
          estimatedApiCalls = 10000;
          apiCallCost = (estimatedApiCalls / 10000) * 0.05;
          parameterCost = (if isAdvanced then 0.05 else 0);
          totalCost = apiCallCost + parameterCost;
          details0 =
            (if parameterCost > 0 then
               [\<lparr> component = ''Advanced Parameter Storage'', quantity = 1, unitPrice = parameterCost,
             CostDetail.monthlyCost = parameterCost, CostDetail.unit = ''parameter/month'' \<rparr>]
             else []);
          details = details0 @ [\<lparr> component = ''API Calls (est. 10k/mo)'', quantity = estimatedApiCalls, unitPrice = 0.05 / 10000,
             CostDetail.monthlyCost = apiCallCost, CostDetail.unit = ''calls'' \<rparr>]
      in Inr (Some
       \<lparr> resourceId = logicalId, resourceType = ''AWS::SSM::Parameter'',
         monthlyCost = totalCost,
         hourlyCost = totalCost / HOURS_PER_MONTH,
         unit = ''parameter'',
         details =
           details,
         confidence = Low \<rparr>))"

definition calculateECRCost :: "runtime \<Rightarrow> CostCalculator \<Rightarrow> string \<Rightarrow> jsval \<Rightarrow> CloudFormationTemplate \<Rightarrow> exn + ResourceCost option" where
  "calculateECRCost rt this logicalId resource template =
     (let ecrPricing_storage = groupField rt (pricing this) [''other'', ''ecr''] ''storage'' 0.10;
          estimatedStorageGB = 10;
          storageCost = estimatedStorageGB * ecrPricing_storage
      in Inr (Some
       \<lparr> resourceId = logicalId, resourceType = ''AWS::ECR::Repository'',
         monthlyCost = storageCost,
         hourlyCost = storageCost / HOURS_PER_MONTH,
         unit = ''repository'',
         details =
           [\<lparr> component = ''ECR Storage (est. 10GB)'', quantity = estimatedStorageGB, unitPrice = ecrPricing_storage,
             CostDetail.monthlyCost = storageCost, CostDetail.unit = ''GB/month'' \<rparr>],
         confidence = Low \<rparr>))"

definition calculateRoute53RecordSetCost :: "runtime \<Rightarrow> CostCalculator \<Rightarrow> string \<Rightarrow> jsval \<Rightarrow> CloudFormationTemplate \<Rightarrow> exn + ResourceCost option" where
  "calculateRoute53RecordSetCost rt this logicalId resource template =
     (let queriesPrice = orElse (price (pricing this) [''route53'', ''queries'']) 0.40;
          estimatedQueries = 1000000;
          monthlyCost = (estimatedQueries / 1000000) * queriesPrice
      in Inr (Some
       \<lparr> resourceId = logicalId, resourceType = ''AWS::Route53::RecordSet'',
         monthlyCost = monthlyCost,
         hourlyCost = monthlyCost / HOURS_PER_MONTH,
         unit = ''record set'',
         details =
           [\<lparr> component = ''DNS Queries (est. 1M/mo)'', quantity = estimatedQueries, unitPrice = queriesPrice / 1000000,
             CostDetail.monthlyCost = monthlyCost, CostDetail.unit = ''queries'' \<rparr>],
         confidence = Low \<rparr>))"

text \<open>\<^verbatim>\<open>calculateUsageBasedResource\<close>: the \<^verbatim>\<open>switch\<close> on the resource type; \<open>None\<close> is \<^verbatim>\<open>null\<close>.\<close>

definition calculateUsageBasedResource :: "runtime \<Rightarrow> CostCalculator \<Rightarrow> string \<Rightarrow> jsval \<Rightarrow> CloudFormationTemplate \<Rightarrow> exn + ResourceCost option" where
  "calculateUsageBasedResource rt this logicalId resource template =
     (let resourceType = member resource ''Type'' in
      if resourceType = JStr ''AWS::Lambda::Function'' then
        calculateLambdaCost rt this logicalId resource template
      else if resourceType = JStr ''AWS::DynamoDB::Table'' then
        calculateDynamoDBCost rt this logicalId resource template
      else if resourceType = JStr ''AWS::S3::Bucket'' then
        calculateS3Cost rt this logicalId resource template
      else if resourceType = JStr ''AWS::SQS::Queue'' then
        calculateSQSCost rt this logicalId resource template
      else if resourceType = JStr ''AWS::ApiGateway::RestApi'' then
        calculateApiGatewayCost rt this logicalId resource template
      else if resourceType = JStr ''AWS::ApiGatewayV2::Api'' then
        calculateApiGatewayCost rt this logicalId resource template
      else if resourceType = JStr ''AWS::StepFunctions::StateMachine'' then
        calculateStepFunctionsCost rt this logicalId resource template
      else if resourceType = JStr ''AWS::SNS::Topic'' then
        calculateSNSCost rt this logicalId resource template
      else if resourceType = JStr ''AWS::Logs::LogGroup'' then
        calculateCloudWatchLogsCost rt this logicalId resource template
      else if resourceType = JStr ''AWS::SSM::Parameter'' then
        calculateSSMParameterCost rt this logicalId resource template
      else if resourceType = JStr ''AWS::ECR::Repository'' then
        calculateECRCost rt this logicalId resource template
      else if resourceType = JStr ''AWS::Route53::RecordSet'' then
        calculateRoute53RecordSetCost rt this logicalId resource template
      else Inr None)"


section \<open>Stack cost aggregation (cost-calculator.ts, calculateStackCost)\<close>

text \<open>
  \<^verbatim>\<open>isFreeResource\<close>. The argument is \<^verbatim>\<open>resource.Type\<close>, whatever the template holds there:
  \<^verbatim>\<open>FREE_RESOURCES.has\<close> answers \<^verbatim>\<open>false\<close> for a value that is not a string, and
  \<^verbatim>\<open>resourceType.startsWith\<close> then throws.
\<close>

definition isFreeResource :: "runtime \<Rightarrow> jsval \<Rightarrow> exn + bool" where
  "isFreeResource rt typeValue =
     (if Set_has FREE_RESOURCES typeValue then Inr True
      else (case typeValue of
              JStr s \<Rightarrow> Inr (startsWith s ''Custom::'')
            | _ \<Rightarrow> Inl (Error (typeErrorMessage rt ''startsWith''))))"

text \<open>\<^verbatim>\<open>this.calculators.get(resourceType)\<close>.\<close>

definition calculators_get :: "CostCalculator \<Rightarrow> jsval \<Rightarrow> ResourceCostCalculator option" where
  "calculators_get this typeValue =
     (case typeValue of JStr k \<Rightarrow> Map_get (calculators this) k | _ \<Rightarrow> None)"

text \<open>\<^verbatim>\<open>error instanceof Error ? error.message : String(error)\<close>.\<close>

definition errorText :: "exn \<Rightarrow> string" where
  "errorText e = (case e of Error message \<Rightarrow> message | Thrown text \<Rightarrow> text)"

text \<open>
  One iteration of the loop of \<^verbatim>\<open>calculateStackCost\<close>: what it pushes on \<^verbatim>\<open>resources\<close> and
  on \<^verbatim>\<open>unsupportedResources\<close>, or the exception that leaves it. The call of a registered
  calculator stands in the \<^verbatim>\<open>try\<close> block; the test of the type and the call of
  \<^verbatim>\<open>calculateUsageBasedResource\<close> stand outside.
\<close>

definition processEntry ::
  "runtime \<Rightarrow> CostCalculator \<Rightarrow> CloudFormationTemplate \<Rightarrow> string \<times> jsval
     \<Rightarrow> exn + (ResourceCost list \<times> UnsupportedResource list)" where
  "processEntry rt this template entry =
     (case entry of (logicalId, resource) \<Rightarrow>
      (let resourceType = member resource ''Type'' in
       bindE (isFreeResource rt resourceType) (\<lambda>free.
         if free then Inr ([], [])
         else
           (case calculators_get this resourceType of
              Some calculator \<Rightarrow>
                (case calculator rt logicalId resource template (pricing this) of
                   Inr cost \<Rightarrow>
                     (case cost of Some c \<Rightarrow> Inr ([c], []) | None \<Rightarrow> Inr ([], []))
                 | Inl error \<Rightarrow>
                     Inr ([], [\<lparr> UnsupportedResource.resourceId = logicalId,
                                 UnsupportedResource.resourceType = toStringJS rt resourceType,
                                 reason = ''Calculation error: '' @ errorText error \<rparr>]))
            | None \<Rightarrow>
                if Set_has USAGE_BASED_RESOURCES resourceType then
                  bindE (calculateUsageBasedResource rt this logicalId resource template) (\<lambda>cost.
                    (case cost of Some c \<Rightarrow> Inr ([c], []) | None \<Rightarrow> Inr ([], [])))
                else
                  Inr ([], [\<lparr> UnsupportedResource.resourceId = logicalId,
                              UnsupportedResource.resourceType = toStringJS rt resourceType,
                              reason = ''No pricing calculator available for this resource type'' \<rparr>])))))"

text \<open>The loop, over the entries that remain, with the two lists built so far.\<close>

fun processResources ::
  "runtime \<Rightarrow> CostCalculator \<Rightarrow> CloudFormationTemplate \<Rightarrow> (string \<times> jsval) list
     \<Rightarrow> ResourceCost list \<times> UnsupportedResource list
     \<Rightarrow> exn + (ResourceCost list \<times> UnsupportedResource list)" where
  "processResources rt this template [] acc = Inr acc"
| "processResources rt this template (entry # rest) acc =
     bindE (processEntry rt this template entry) (\<lambda>pushed.
       processResources rt this template rest (fst acc @ fst pushed, snd acc @ snd pushed))"

text \<open>
  \<^verbatim>\<open>calculateStackCost\<close>. The time stamp \<^verbatim>\<open>new Date().toISOString()\<close> is the argument
  \<open>now\<close>. \<^verbatim>\<open>reduce\<close> is a left fold from 0.
\<close>

definition calculateStackCost ::
  "runtime \<Rightarrow> CostCalculator \<Rightarrow> string \<Rightarrow> CloudFormationTemplate \<Rightarrow> templateSource \<Rightarrow> string
     \<Rightarrow> exn + StackCostEstimate" where
  "calculateStackCost rt this name template source now =
     (let templateResources = extractResources template in
      bindE (processResources rt this template templateResources ([], [])) (\<lambda>lists.
        (let resourceList = fst lists;
             unsupportedList = snd lists;
             totalMonthly = foldl (\<lambda>sum r. sum + ResourceCost.monthlyCost r) 0 resourceList;
             totalHourly = foldl (\<lambda>sum r. sum + hourlyCost r) 0 resourceList
         in Inr \<lparr> StackCostEstimate.stackName = name,
                  templateSource = source,
                  totalMonthlyCost = totalMonthly,
                  totalHourlyCost = totalHourly,
                  resources = resourceList,
                  unsupportedResources = unsupportedList,
                  timestamp = now \<rparr>)))"

text \<open>
  Vocabulary for the properties of a cost record: the sum of the monthly costs of its detail
  lines, and the agreement of its hourly cost with its monthly cost.
\<close>

definition detailsTotal :: "ResourceCost \<Rightarrow> real" where
  "detailsTotal rc = sum_list (map CostDetail.monthlyCost (details rc))"

definition hourlyConsistent :: "ResourceCost \<Rightarrow> bool" where
  "hourlyConsistent rc = (hourlyCost rc = ResourceCost.monthlyCost rc / HOURS_PER_MONTH)"

text \<open>
  The typing that the cast \<^verbatim>\<open>resource.Properties?.Rules as unknown[]\<close> of the WAFv2 calculator
  asserts: the property is an array, or absent (or another falsy value, which \<^verbatim>\<open>|| []\<close>
  replaces).
\<close>

definition rulesIsArray :: "jsval \<Rightarrow> bool" where
  "rulesIsArray resource =
     (let rules = qdot (member resource ''Properties'') ''Rules''
      in \<not> truthy rules \<or> is_JArr rules)"

text \<open>
  What the properties below say of a calculator registered for the type \<open>k\<close>: a cost record
  it returns carries the logical identifier; its monthly cost is the sum of its detail lines
  (for the WAFv2 calculator, when \<^verbatim>\<open>Rules\<close> is typed as cast); and its hourly cost agrees
  with the monthly cost, for every type but the three with a data-processing charge.
\<close>

definition dataProcessingTypes :: "string list" where
  "dataProcessingTypes =
     [''AWS::EC2::NatGateway'', ''AWS::EC2::TransitGatewayAttachment'', ''AWS::NetworkFirewall::Firewall'']"

definition soundCalculator :: "string \<Rightarrow> ResourceCostCalculator \<Rightarrow> bool" where
  "soundCalculator k c =
     (\<forall>rt logicalId resource template table rc.
        c rt logicalId resource template table = Inr (Some rc) \<longrightarrow>
          ResourceCost.resourceId rc = logicalId
          \<and> ((k = ''AWS::WAFv2::WebACL'' \<longrightarrow> rulesIsArray resource) \<longrightarrow>
                ResourceCost.monthlyCost rc = detailsTotal rc)
          \<and> (k \<notin> set dataProcessingTypes \<longrightarrow> hourlyConsistent rc))"

text \<open>What one iteration of the loop pushes; nothing when an exception leaves it.\<close>

definition pushedBy ::
  "runtime \<Rightarrow> CostCalculator \<Rightarrow> CloudFormationTemplate \<Rightarrow> string \<times> jsval
     \<Rightarrow> ResourceCost list \<times> UnsupportedResource list" where
  "pushedBy rt this template entry =
     (case processEntry rt this template entry of Inl e \<Rightarrow> ([], []) | Inr pushed \<Rightarrow> pushed)"

text \<open>A pricing table and templates used to instantiate the theorems.\<close>

definition samplePricing :: AWSpricingData where
  "samplePricing =
     \<lparr> price = (\<lambda>path.
           if path = [''natGateway'', ''hourly''] then Some 0.045
           else if path = [''natGateway'', ''perGB''] then Some 0.045
           else if path = [''ec2'', ''instances'', ''t3.micro''] then Some 0.0104
           else None),
       group = (\<lambda>path. False) \<rparr>"

definition sampleCalculator :: CostCalculator where
  "sampleCalculator = new_CostCalculator samplePricing ''us-east-1''"

definition natGatewayResource :: jsval where
  "natGatewayResource =
     JObj [(''Type'', JStr ''AWS::EC2::NatGateway''),
           (''Properties'', JObj [(''SubnetId'', JStr ''subnet-12345'')])]"

definition brokenVolumeResource :: jsval where
  "brokenVolumeResource =
     JObj [(''Type'', JStr ''AWS::EC2::Volume''),
           (''Properties'', JObj [(''VolumeType'', JNum 5), (''Size'', JNum 100)])]"

definition topicResource :: jsval where
  "topicResource = JObj [(''Type'', JStr ''AWS::SNS::Topic''), (''Properties'', JObj [])]"


definition sampleTemplate :: CloudFormationTemplate where
  "sampleTemplate =
     \<lparr> Parameters = None,
       Resources =
         [(''Nat'', natGatewayResource),
          (''Topic'', topicResource),
          (''Vol'', brokenVolumeResource),
          (''Mystery'', JObj [(''Type'', JStr ''AWS::Foo::Bar'')])] \<rparr>"


text \<open>What the code computes for these templates, at the sample prices.\<close>

definition natGatewayCost :: ResourceCost where
  "natGatewayCost =
     \<lparr> resourceId = ''Nat'', resourceType = ''AWS::EC2::NatGateway'',
       monthlyCost = 37.35, hourlyCost = 0.045, unit = ''gateway'',
       details =
         [\<lparr> component = ''NAT Gateway Hourly'', quantity = 730, unitPrice = 0.045,
            CostDetail.monthlyCost = 32.85, CostDetail.unit = ''hours'' \<rparr>,
          \<lparr> component = ''Data Processing (est. 100GB)'', quantity = 100, unitPrice = 0.045,
            CostDetail.monthlyCost = 4.5, CostDetail.unit = ''GB'' \<rparr>],
       confidence = Medium \<rparr>"

definition brokenVolumeRecord :: UnsupportedResource where
  "brokenVolumeRecord =
     \<lparr> UnsupportedResource.resourceId = ''Vol'',
       UnsupportedResource.resourceType = ''AWS::EC2::Volume'',
       reason = ''Calculation error: toLowerCase is not a function'' \<rparr>"

definition mysteryRecord :: UnsupportedResource where
  "mysteryRecord =
     \<lparr> UnsupportedResource.resourceId = ''Mystery'',
       UnsupportedResource.resourceType = ''AWS::Foo::Bar'',
       reason = ''No pricing calculator available for this resource type'' \<rparr>"

definition sampleStackEstimate :: StackCostEstimate where
  "sampleStackEstimate =
     \<lparr> StackCostEstimate.stackName = ''sample'', templateSource = Local,
       totalMonthlyCost = 37.35, totalHourlyCost = 0.045,
       resources = [natGatewayCost],
       unsupportedResources = [brokenVolumeRecord, mysteryRecord],
       timestamp = ''2024-01-01T00:00:00.000Z'' \<rparr>"



text \<open>
  A template whose volume makes its calculator throw and whose queue is named by a reference:
  \<^verbatim>\<open>calculateSQSCost\<close> calls \<^verbatim>\<open>endsWith\<close> on the object \<^verbatim>\<open>{ Ref: 'QueueNameParam' }\<close>.
\<close>

definition queueResource :: jsval where
  "queueResource =
     JObj [(''Type'', JStr ''AWS::SQS::Queue''),
           (''Properties'', JObj [(''QueueName'', JObj [(''Ref'', JStr ''QueueNameParam'')])])]"

definition throwingTemplate :: CloudFormationTemplate where
  "throwingTemplate =
     \<lparr> Parameters = None,
       Resources = [(''Vol'', brokenVolumeResource), (''Queue'', queueResource)] \<rparr>"


section \<open>The types that the casts of the calculators assert\<close>

text \<open>
  The calculators read property values typed \<^verbatim>\<open>unknown\<close> and cast them: \<^verbatim>\<open>as number\<close> where
  they compute with them, \<^verbatim>\<open>as string\<close> where they use them as keys of the pricing table.
  The costs of this model are real numbers: it describes the runs in which the casts hold.
  Where a value cast to a number is not one, the source computes with \<^verbatim>\<open>NaN\<close>; where a key is
  a name that every object inherits from \<^verbatim>\<open>Object.prototype\<close>, the table lookup finds a
  function and not a price. The definitions below say, for a resource, that neither happens.
\<close>








section \<open>Regional pricing (pricing-data.ts)\<close>

text \<open>
  \<^verbatim>\<open>getRegionalPricing\<close> returns either the object \<^verbatim>\<open>US_EAST_1_PRICING\<close> itself or an object
  that \<^verbatim>\<open>applyMultiplier\<close> builds and then updates in place. Objects therefore live in a store:
  an object is a cell holding its own properties in insertion order, and a value is a
  primitive or the address of a cell. \<^verbatim>\<open>fresh\<close> is the next address the allocator hands out.
  A number is a real or \<^verbatim>\<open>NaN\<close>. The pricing tables hold no arrays, and the store has none.
\<close>

type_synonym addr = nat

datatype heapval = HNum real | HNaN | HStr string | HBool bool | HNull | HRef addr

record store =
  cells :: "addr \<Rightarrow> (string \<times> heapval) list option"
  fresh :: addr

definition emptyStore :: store where
  "emptyStore = \<lparr> cells = (\<lambda>a. None), fresh = 0 \<rparr>"

definition allocate :: "(string \<times> heapval) list \<Rightarrow> store \<Rightarrow> addr \<times> store" where
  "allocate props h =
     (fresh h, h \<lparr> cells := (cells h)(fresh h \<mapsto> props), fresh := Suc (fresh h) \<rparr>)"

text \<open>\<^verbatim>\<open>Object.keys(obj)\<close>, \<^verbatim>\<open>obj[key]\<close> (\<open>None\<close> is \<^verbatim>\<open>undefined\<close>) and \<^verbatim>\<open>obj[key] = v\<close>.\<close>

definition Object_keys :: "store \<Rightarrow> addr \<Rightarrow> string list" where
  "Object_keys h obj = (case cells h obj of None \<Rightarrow> [] | Some props \<Rightarrow> map fst props)"

definition getProp :: "store \<Rightarrow> addr \<Rightarrow> string \<Rightarrow> heapval option" where
  "getProp h obj key = (case cells h obj of None \<Rightarrow> None | Some props \<Rightarrow> map_of props key)"

definition setProp :: "store \<Rightarrow> addr \<Rightarrow> string \<Rightarrow> heapval \<Rightarrow> store" where
  "setProp h obj key v =
     (case cells h obj of
        None \<Rightarrow> h
      | Some props \<Rightarrow> h \<lparr> cells := (cells h)(obj \<mapsto> AList.update key v props) \<rparr>)"

text \<open>
  An object literal, and a JSON text, as the tree it denotes. No JSON text denotes \<^verbatim>\<open>NaN\<close>:
  \<^verbatim>\<open>JSON.stringify\<close> writes \<^verbatim>\<open>null\<close> for it.
\<close>

datatype tree = Tnum real | Tnan | Tstr string | Tbool bool | Tnull
  | Tobj "(string \<times> tree) list"

text \<open>
  The evaluation of an object literal, and \<^verbatim>\<open>JSON.parse\<close>: every object of the tree gets a
  cell of its own, at a fresh address.
\<close>

primrec construct :: "tree \<Rightarrow> store \<Rightarrow> heapval \<times> store"
  and construct_fields :: "(string \<times> tree) list \<Rightarrow> store \<Rightarrow> (string \<times> heapval) list \<times> store"
  and construct_field :: "string \<times> tree \<Rightarrow> store \<Rightarrow> (string \<times> heapval) \<times> store" where
  "construct (Tnum x) h = (HNum x, h)"
| "construct Tnan h = (HNaN, h)"
| "construct (Tstr s) h = (HStr s, h)"
| "construct (Tbool b) h = (HBool b, h)"
| "construct Tnull h = (HNull, h)"
| "construct (Tobj fs) h =
     (case construct_fields fs h of (props, h1) \<Rightarrow>
        (case allocate props h1 of (a, h2) \<Rightarrow> (HRef a, h2)))"
| "construct_fields [] h = ([], h)"
| "construct_fields (f # fs) h =
     (case construct_field f h of (p, h1) \<Rightarrow>
        (case construct_fields fs h1 of (ps, h2) \<Rightarrow> (p # ps, h2)))"
| "construct_field (k, t) h = (case construct t h of (v, h1) \<Rightarrow> ((k, v), h1))"

definition JSON_parse :: "tree \<Rightarrow> store \<Rightarrow> heapval \<times> store" where
  "JSON_parse text h = construct text h"

text \<open>
  \<^verbatim>\<open>JSON.stringify\<close>. The recursion follows the references of the store, so it carries fuel:
  \<open>None\<close> is fuel exhausted (on a cyclic object the source throws).
\<close>

function JSON_stringify :: "nat \<Rightarrow> store \<Rightarrow> heapval \<Rightarrow> tree option"
  and stringify_props :: "nat \<Rightarrow> store \<Rightarrow> (string \<times> heapval) list \<Rightarrow> (string \<times> tree) list option" where
  "JSON_stringify n h (HNum x) = Some (Tnum x)"
| "JSON_stringify n h HNaN = Some Tnull"
| "JSON_stringify n h (HStr s) = Some (Tstr s)"
| "JSON_stringify n h (HBool b) = Some (Tbool b)"
| "JSON_stringify n h HNull = Some Tnull"
| "JSON_stringify 0 h (HRef a) = None"
| "JSON_stringify (Suc n) h (HRef a) =
     (case cells h a of
        None \<Rightarrow> None
      | Some props \<Rightarrow> map_option Tobj (stringify_props n h props))"
| "stringify_props n h [] = Some []"
| "stringify_props n h ((k, v) # ps) =
     (case JSON_stringify n h v of
        None \<Rightarrow> None
      | Some t \<Rightarrow> map_option ((#) (k, t)) (stringify_props n h ps))"
  by pat_completeness auto

termination
  by (relation "measures
        [\<lambda>x. case x of Inl (n, h, v) \<Rightarrow> n | Inr (n, h, ps) \<Rightarrow> n,
         \<lambda>x. case x of Inl (n, h, v) \<Rightarrow> 0 | Inr (n, h, ps) \<Rightarrow> Suc (length ps)]")
     auto

text \<open>
  The right operand of \<^verbatim>\<open>value * multiplier\<close>: a number, or a value that is not one and
  whose numeric conversion is \<^verbatim>\<open>NaN\<close> (an object or a function).
\<close>

datatype operand = Numeric real | NonNumeric

fun multiply :: "heapval \<Rightarrow> operand \<Rightarrow> heapval" where
  "multiply (HNum x) (Numeric m) = HNum (x * m)"
| "multiply v m = HNaN"

text \<open>
  \<^verbatim>\<open>applyToObject\<close>, the closure of \<^verbatim>\<open>applyMultiplier\<close>, and its loop over
  \<^verbatim>\<open>Object.keys(obj)\<close>. \<^verbatim>\<open>typeof value === 'number'\<close> holds of \<^verbatim>\<open>NaN\<close> too;
  \<^verbatim>\<open>typeof value === 'object' && value !== null\<close> holds of the references.
\<close>

function applyToObject :: "nat \<Rightarrow> operand \<Rightarrow> addr \<Rightarrow> store \<Rightarrow> store option"
  and applyToKeys :: "nat \<Rightarrow> operand \<Rightarrow> addr \<Rightarrow> string list \<Rightarrow> store \<Rightarrow> store option" where
  "applyToObject 0 multiplier obj h = None"
| "applyToObject (Suc n) multiplier obj h = applyToKeys n multiplier obj (Object_keys h obj) h"
| "applyToKeys n multiplier obj [] h = Some h"
| "applyToKeys n multiplier obj (key # keys) h =
     (case getProp h obj key of
        Some (HNum x) \<Rightarrow>
          applyToKeys n multiplier obj keys (setProp h obj key (multiply (HNum x) multiplier))
      | Some HNaN \<Rightarrow>
          applyToKeys n multiplier obj keys (setProp h obj key (multiply HNaN multiplier))
      | Some (HRef b) \<Rightarrow>
          (case applyToObject n multiplier b h of
             None \<Rightarrow> None
           | Some h1 \<Rightarrow> applyToKeys n multiplier obj keys h1)
      | _ \<Rightarrow> applyToKeys n multiplier obj keys h)"
  by pat_completeness auto

termination
  by (relation "measures
        [\<lambda>x. case x of Inl (n, m, obj, h) \<Rightarrow> n | Inr (n, m, obj, keys, h) \<Rightarrow> n,
         \<lambda>x. case x of Inl (n, m, obj, h) \<Rightarrow> 0 | Inr (n, m, obj, keys, h) \<Rightarrow> Suc (length keys)]")
     auto

text \<open>
  \<^verbatim>\<open>applyMultiplier\<close>. \<^verbatim>\<open>Object.keys\<close> throws on \<^verbatim>\<open>null\<close> and answers no key for another
  primitive that is no string.
\<close>

definition applyMultiplier ::
  "nat \<Rightarrow> heapval \<Rightarrow> operand \<Rightarrow> store \<Rightarrow> (exn + heapval \<times> store) option" where
  "applyMultiplier fuel table multiplier h =
     (case JSON_stringify fuel h table of
        None \<Rightarrow> None
      | Some text \<Rightarrow>
          (case JSON_parse text h of (result, h1) \<Rightarrow>
             (case result of
                HRef a \<Rightarrow> map_option (\<lambda>h2. Inr (result, h2)) (applyToObject fuel multiplier a h1)
              | HNull \<Rightarrow> Some (Inl (Error ''Cannot convert undefined or null to object''))
              | _ \<Rightarrow> Some (Inr (result, h1)))))"


text \<open>
  \<^verbatim>\<open>US_EAST_1_PRICING\<close>, the object literal of pricing-data.ts: the services in the order
  of the source, each with its entries.
\<close>

definition US_EAST_1_PRICING :: tree where
  "US_EAST_1_PRICING = Tobj
     [(''ec2'', Tobj
         [(''t3.nano'', Tnum 0.0052), (''t3.micro'', Tnum 0.0104), (''t3.small'', Tnum 0.0208),
          (''t3.medium'', Tnum 0.0416), (''t3.large'', Tnum 0.0832),
          (''t3.xlarge'', Tnum 0.1664), (''t3.2xlarge'', Tnum 0.3328),
          (''t3a.nano'', Tnum 0.0047), (''t3a.micro'', Tnum 0.0094),
          (''t3a.small'', Tnum 0.0188), (''t3a.medium'', Tnum 0.0376),
          (''t3a.large'', Tnum 0.0752), (''t3a.xlarge'', Tnum 0.1504),
          (''t3a.2xlarge'', Tnum 0.3008), (''m5.large'', Tnum 0.096),
          (''m5.xlarge'', Tnum 0.192), (''m5.2xlarge'', Tnum 0.384),
          (''m5.4xlarge'', Tnum 0.768), (''m5.8xlarge'', Tnum 1.536),
          (''m5.12xlarge'', Tnum 2.304), (''m5.16xlarge'', Tnum 3.072),
          (''m5.24xlarge'', Tnum 4.608), (''m6i.large'', Tnum 0.096),
          (''m6i.xlarge'', Tnum 0.192), (''m6i.2xlarge'', Tnum 0.384),
          (''m6i.4xlarge'', Tnum 0.768), (''m6i.8xlarge'', Tnum 1.536),
          (''m7i.large'', Tnum 0.1008), (''m7i.xlarge'', Tnum 0.2016),
          (''m7i.2xlarge'', Tnum 0.4032), (''c5.large'', Tnum 0.085), (''c5.xlarge'', Tnum 0.17),
          (''c5.2xlarge'', Tnum 0.34), (''c5.4xlarge'', Tnum 0.68), (''c5.9xlarge'', Tnum 1.53),
          (''c6i.large'', Tnum 0.085), (''c6i.xlarge'', Tnum 0.17), (''c6i.2xlarge'', Tnum 0.34),
          (''c7i.large'', Tnum 0.0893), (''c7i.xlarge'', Tnum 0.1785),
          (''r5.large'', Tnum 0.126), (''r5.xlarge'', Tnum 0.252), (''r5.2xlarge'', Tnum 0.504),
          (''r5.4xlarge'', Tnum 1.008), (''r6i.large'', Tnum 0.126),
          (''r6i.xlarge'', Tnum 0.252), (''r7i.large'', Tnum 0.1323), (''i3.large'', Tnum 0.156),
          (''i3.xlarge'', Tnum 0.312), (''i3.2xlarge'', Tnum 0.624), (''t4g.nano'', Tnum 0.0042),
          (''t4g.micro'', Tnum 0.0084), (''t4g.small'', Tnum 0.0168),
          (''t4g.medium'', Tnum 0.0336), (''t4g.large'', Tnum 0.0672),
          (''t4g.xlarge'', Tnum 0.1344), (''m6g.large'', Tnum 0.077),
          (''m6g.xlarge'', Tnum 0.154), (''m6g.2xlarge'', Tnum 0.308),
          (''m7g.large'', Tnum 0.0816), (''m7g.xlarge'', Tnum 0.1632),
          (''c6g.large'', Tnum 0.068), (''c6g.xlarge'', Tnum 0.136),
          (''c7g.large'', Tnum 0.0725), (''r6g.large'', Tnum 0.1008),
          (''r6g.xlarge'', Tnum 0.2016), (''r7g.large'', Tnum 0.107)]),
      (''ebs'', Tobj
         [(''gp2'', Tnum 0.10), (''gp3'', Tnum 0.08), (''io1'', Tnum 0.125),
          (''io2'', Tnum 0.125), (''st1'', Tnum 0.045), (''sc1'', Tnum 0.015),
          (''standard'', Tnum 0.05)]),
      (''rds'', Tobj
         [(''db.t3.micro'', Tnum 0.017), (''db.t3.small'', Tnum 0.034),
          (''db.t3.medium'', Tnum 0.068), (''db.t3.large'', Tnum 0.136),
          (''db.t3.xlarge'', Tnum 0.272), (''db.t3.2xlarge'', Tnum 0.544),
          (''db.t4g.micro'', Tnum 0.016), (''db.t4g.small'', Tnum 0.032),
          (''db.t4g.medium'', Tnum 0.065), (''db.t4g.large'', Tnum 0.129),
          (''db.m5.large'', Tnum 0.171), (''db.m5.xlarge'', Tnum 0.342),
          (''db.m5.2xlarge'', Tnum 0.684), (''db.m5.4xlarge'', Tnum 1.368),
          (''db.m6i.large'', Tnum 0.171), (''db.m6i.xlarge'', Tnum 0.342),
          (''db.m6g.large'', Tnum 0.154), (''db.m6g.xlarge'', Tnum 0.308),
          (''db.r5.large'', Tnum 0.24), (''db.r5.xlarge'', Tnum 0.48),
          (''db.r5.2xlarge'', Tnum 0.96), (''db.r6i.large'', Tnum 0.24),
          (''db.r6g.large'', Tnum 0.216), (''db.r6g.xlarge'', Tnum 0.432),
          (''db.serverless'', Tnum 0.06)]),
      (''lambda'', Tobj
         [(''requestPrice'', Tnum 0.20), (''durationPrice'', Tnum 0.0000166667),
          (''freeRequests'', Tnum 1000000), (''freeDuration'', Tnum 400000)]),
      (''s3'', Tobj
         [(''storage'', Tnum 0.023), (''requests'', Tnum 0.0004)]),
      (''dynamodb'', Tobj
         [(''writeCapacityUnit'', Tnum (0.00065 * 730)),
          (''readCapacityUnit'', Tnum (0.00013 * 730)), (''storagePerGB'', Tnum 0.25),
          (''onDemandWrite'', Tnum 1.25), (''onDemandRead'', Tnum 0.25)]),
      (''elasticache'', Tobj
         [(''cache.t3.micro'', Tnum 0.017), (''cache.t3.small'', Tnum 0.034),
          (''cache.t3.medium'', Tnum 0.068), (''cache.t4g.micro'', Tnum 0.016),
          (''cache.t4g.small'', Tnum 0.032), (''cache.t4g.medium'', Tnum 0.065),
          (''cache.m5.large'', Tnum 0.155), (''cache.m5.xlarge'', Tnum 0.31),
          (''cache.m6g.large'', Tnum 0.14), (''cache.r5.large'', Tnum 0.218),
          (''cache.r6g.large'', Tnum 0.196)]),
      (''sns'', Tobj
         [(''requestsPerMillion'', Tnum 0.50), (''smsPerMessage'', Tnum 0.00645)]),
      (''sqs'', Tobj
         [(''requestsPerMillion'', Tnum 0.40)]),
      (''apiGateway'', Tobj
         [(''restApiPerMillion'', Tnum 3.50), (''httpApiPerMillion'', Tnum 1.00),
          (''websocketPerMillion'', Tnum 1.00)]),
      (''cloudwatch'', Tobj
         [(''metricsPerMonth'', Tnum 0.30), (''logsIngestionPerGB'', Tnum 0.50),
          (''logsStoragePerGB'', Tnum 0.03), (''dashboardsPerMonth'', Tnum 3.00),
          (''alarmsPerMonth'', Tnum 0.10)]),
      (''ecs'', Tobj
         [(''fargateVCPUPerHour'', Tnum 0.04048), (''fargateMemoryPerGBHour'', Tnum 0.004445)]),
      (''eks'', Tobj
         [(''clusterPerHour'', Tnum 0.10)]),
      (''nat'', Tobj
         [(''gatewayPerHour'', Tnum 0.045), (''dataProcessedPerGB'', Tnum 0.045)]),
      (''alb'', Tobj
         [(''perHour'', Tnum 0.0225), (''lcuPerHour'', Tnum 0.008)]),
      (''nlb'', Tobj
         [(''perHour'', Tnum 0.0225), (''lcuPerHour'', Tnum 0.006)]),
      (''elasticIP'', Tobj
         [(''perHour'', Tnum 0.005), (''dataTransferPerGB'', Tnum 0.00)]),
      (''secretsManager'', Tobj
         [(''perSecretPerMonth'', Tnum 0.40), (''perAPICallPer10k'', Tnum 0.05)]),
      (''kms'', Tobj
         [(''perKeyPerMonth'', Tnum 1.00), (''perRequestPer10k'', Tnum 0.03)]),
      (''stepFunctions'', Tobj
         [(''standardTransitionsPerMillion'', Tnum 25.00), (''expressPerMillion'', Tnum 1.00)]),
      (''eventBridge'', Tobj
         [(''customEventsPerMillion'', Tnum 1.00), (''archivePerGB'', Tnum 0.023)]),
      (''cognito'', Tobj
         [(''mauFreeLimit'', Tnum 50000), (''perMAUAboveFree'', Tnum 0.0055)]),
      (''route53'', Tobj
         [(''hostedZonePerMonth'', Tnum 0.50), (''queriesPerMillion'', Tnum 0.40)])]"


text \<open>
  \<^verbatim>\<open>REGIONAL_MULTIPLIERS\<close>, an object literal used as a dictionary. \<^verbatim>\<open>REGIONAL_MULTIPLIERS[region]\<close>
  finds an own property, or else a property that the object inherits from
  \<^verbatim>\<open>Object.prototype\<close> (a function, or for \<^verbatim>\<open>__proto__\<close> the prototype itself), or else
  is \<^verbatim>\<open>undefined\<close>.
\<close>

definition REGIONAL_MULTIPLIERS :: "(string \<times> real) list" where
  "REGIONAL_MULTIPLIERS =
     [(''us-east-1'', 1.0), (''us-east-2'', 1.0), (''us-west-1'', 1.1), (''us-west-2'', 1.0),
      (''eu-west-1'', 1.05), (''eu-west-2'', 1.08), (''eu-west-3'', 1.1),
      (''eu-central-1'', 1.08), (''eu-north-1'', 1.05), (''ap-southeast-1'', 1.1),
      (''ap-southeast-2'', 1.15), (''ap-northeast-1'', 1.15), (''ap-northeast-2'', 1.12),
      (''ap-south-1'', 1.05), (''ca-central-1'', 1.05), (''sa-east-1'', 1.5)]"

definition REGIONAL_MULTIPLIERS_get :: "string \<Rightarrow> operand option" where
  "REGIONAL_MULTIPLIERS_get regionName =
     (case map_of REGIONAL_MULTIPLIERS regionName of
        Some m \<Rightarrow> Some (Numeric m)
      | None \<Rightarrow> (if regionName \<in> set Object_prototype then Some NonNumeric else None))"

text \<open>\<^verbatim>\<open>x || d\<close>: the left operand unless it is falsy (\<^verbatim>\<open>undefined\<close>, or the number 0).\<close>

definition orOperand :: "operand option \<Rightarrow> real \<Rightarrow> operand" where
  "orOperand x d =
     (case x of
        Some (Numeric m) \<Rightarrow> (if m = 0 then Numeric d else Numeric m)
      | Some NonNumeric \<Rightarrow> NonNumeric
      | None \<Rightarrow> Numeric d)"

text \<open>
  \<^verbatim>\<open>getRegionalPricing\<close>. The argument \<open>table\<close> is the value of the module's constant
  \<^verbatim>\<open>US_EAST_1_PRICING\<close>: a reference to the object that the literal created when the module
  was loaded.
\<close>

definition getRegionalPricing ::
  "nat \<Rightarrow> heapval \<Rightarrow> string \<Rightarrow> store \<Rightarrow> (exn + heapval \<times> store) option" where
  "getRegionalPricing fuel table regionName h =
     (let multiplier = orOperand (REGIONAL_MULTIPLIERS_get regionName) 1.1 in
      if regionName = ''us-east-1'' then Some (Inr (table, h))
      else applyMultiplier fuel table multiplier h)"

definition loadModule :: "store \<Rightarrow> heapval \<times> store" where
  "loadModule h = construct US_EAST_1_PRICING h"

text \<open>
  Vocabulary. \<open>represents t h v A\<close>: in the store \<open>h\<close> the value \<open>v\<close> is the root of a copy of
  the tree \<open>t\<close> whose objects occupy exactly the addresses \<open>A\<close>, each object a cell of its
  own (no cell is shared between two places of the tree). \<open>scale m t\<close> is \<open>t\<close> with every
  numeric leaf multiplied by \<open>m\<close>. \<open>depth t\<close> is the nesting of objects in \<open>t\<close>.
\<close>

primrec represents :: "tree \<Rightarrow> store \<Rightarrow> heapval \<Rightarrow> addr set \<Rightarrow> bool"
  and represents_fields :: "(string \<times> tree) list \<Rightarrow> store \<Rightarrow> (string \<times> heapval) list \<Rightarrow> addr set \<Rightarrow> bool"
  and represents_field :: "string \<times> tree \<Rightarrow> store \<Rightarrow> string \<times> heapval \<Rightarrow> addr set \<Rightarrow> bool" where
  "represents (Tnum x) h v A = (v = HNum x \<and> A = {})"
| "represents Tnan h v A = (v = HNaN \<and> A = {})"
| "represents (Tstr s) h v A = (v = HStr s \<and> A = {})"
| "represents (Tbool b) h v A = (v = HBool b \<and> A = {})"
| "represents Tnull h v A = (v = HNull \<and> A = {})"
| "represents (Tobj fs) h v A =
     (\<exists>a props B. v = HRef a \<and> cells h a = Some props \<and> distinct (map fst props)
        \<and> represents_fields fs h props B \<and> a \<notin> B \<and> A = insert a B)"
| "represents_fields [] h ps B = (ps = [] \<and> B = {})"
| "represents_fields (f # fs) h ps B =
     (\<exists>p ps' A B'. ps = p # ps' \<and> represents_field f h p A \<and> represents_fields fs h ps' B'
        \<and> A \<inter> B' = {} \<and> B = A \<union> B')"
| "represents_field (k, t) h p A = (\<exists>v. p = (k, v) \<and> represents t h v A)"

primrec scale :: "operand \<Rightarrow> tree \<Rightarrow> tree"
  and scale_fields :: "operand \<Rightarrow> (string \<times> tree) list \<Rightarrow> (string \<times> tree) list"
  and scale_field :: "operand \<Rightarrow> string \<times> tree \<Rightarrow> string \<times> tree" where
  "scale m (Tnum x) = (case m of Numeric f \<Rightarrow> Tnum (x * f) | NonNumeric \<Rightarrow> Tnan)"
| "scale m Tnan = Tnan"
| "scale m (Tstr s) = Tstr s"
| "scale m (Tbool b) = Tbool b"
| "scale m Tnull = Tnull"
| "scale m (Tobj fs) = Tobj (scale_fields m fs)"
| "scale_fields m [] = []"
| "scale_fields m (f # fs) = scale_field m f # scale_fields m fs"
| "scale_field m (k, t) = (k, scale m t)"

primrec depth :: "tree \<Rightarrow> nat"
  and depth_fields :: "(string \<times> tree) list \<Rightarrow> nat"
  and depth_field :: "string \<times> tree \<Rightarrow> nat" where
  "depth (Tnum x) = 0"
| "depth Tnan = 0"
| "depth (Tstr s) = 0"
| "depth (Tbool b) = 0"
| "depth Tnull = 0"
| "depth (Tobj fs) = Suc (depth_fields fs)"
| "depth_fields [] = 0"
| "depth_fields (f # fs) = max (depth_field f) (depth_fields fs)"
| "depth_field (k, t) = depth t"

text \<open>A JSON text: no \<^verbatim>\<open>NaN\<close>, and no key twice in an object.\<close>

primrec document :: "tree \<Rightarrow> bool"
  and document_fields :: "(string \<times> tree) list \<Rightarrow> bool"
  and document_field :: "string \<times> tree \<Rightarrow> bool" where
  "document (Tnum x) = True"
| "document Tnan = False"
| "document (Tstr s) = True"
| "document (Tbool b) = True"
| "document Tnull = True"
| "document (Tobj fs) = (distinct (map fst fs) \<and> document_fields fs)"
| "document_fields [] = True"
| "document_fields (f # fs) = (document_field f \<and> document_fields fs)"
| "document_field (k, t) = document t"

text \<open>The allocator has handed out no address from \<^verbatim>\<open>fresh\<close> on.\<close>

definition allocated :: "store \<Rightarrow> bool" where
  "allocated h = (\<forall>a. fresh h \<le> a \<longrightarrow> cells h a = None)"

text \<open>The property chain \<^verbatim>\<open>v.k1.k2\<close>, in the store and in a tree.\<close>

fun readPath :: "store \<Rightarrow> heapval \<Rightarrow> string list \<Rightarrow> heapval option" where
  "readPath h v [] = Some v"
| "readPath h (HRef a) (k # ks) =
     (case getProp h a k of None \<Rightarrow> None | Some w \<Rightarrow> readPath h w ks)"
| "readPath h v (k # ks) = None"

fun treePath :: "tree \<Rightarrow> string list \<Rightarrow> tree option" where
  "treePath t [] = Some t"
| "treePath (Tobj fs) (k # ks) =
     (case map_of fs k of None \<Rightarrow> None | Some u \<Rightarrow> treePath u ks)"
| "treePath t (k # ks) = None"


section \<open>Properties of the diff engine\<close>

lemma map_of_Map_set: "map_of (Map_set m k v) k' = (if k' = k then Some v else map_of m k')"
  by (induction m) auto

lemma keys_Map_set: "map fst (Map_set m k v) = (if k \<in> set (map fst m) then map fst m else map fst m @ [k])"
  by (induction m) force+

lemma distinct_Map_set: "distinct (map fst m) \<Longrightarrow> distinct (map fst (Map_set m k v))"
  by (simp add: keys_Map_set)

lemma foldl_Map_set_distinct:
  "distinct (map fst m) \<Longrightarrow> distinct (map fst (foldl (\<lambda>m (k, v). Map_set m k v) m es))"
  by (induction es arbitrary: m) (auto simp: distinct_Map_set)

lemma map_of_Map_set_upd: "map_of (Map_set m k v) = (map_of m)(k \<mapsto> v)"
  by (rule ext) (simp add: map_of_Map_set)

lemma foldl_Map_set_map_of:
  "map_of (foldl (\<lambda>m (k, v). Map_set m k v) m es) = map_of m ++ map_of (rev es)"
proof (induction es arbitrary: m)
  case Nil
  then show ?case by simp
next
  case (Cons e es)
  obtain k v where e: "e = (k, v)" by (cases e)
  have "map_of (foldl (\<lambda>m (k, v). Map_set m k v) m (e # es)) =
        map_of (Map_set m k v) ++ map_of (rev es)"
    using Cons.IH [of "Map_set m k v"] e by simp
  also have "\<dots> = (map_of m)(k \<mapsto> v) ++ map_of (rev es)"
    by (simp only: map_of_Map_set_upd)
  also have "\<dots> = map_of m ++ ([k \<mapsto> v] ++ map_of (rev es))"
    by (rule ext) (simp add: map_add_def split: option.splits)
  also have "\<dots> = map_of m ++ map_of (rev (e # es))"
    using e by simp
  finally show ?case .
qed

lemma distinct_new_Map: "distinct (map fst (new_Map es))"
  by (simp add: new_Map_def foldl_Map_set_distinct)

lemma map_of_new_Map: "map_of (new_Map es) k = map_of (rev es) k"
  by (simp add: new_Map_def foldl_Map_set_map_of)

lemma map_of_keyed: "map_of (map (\<lambda>r. (f r, r)) xs) k = find (\<lambda>r. f r = k) xs"
  by (induction xs) auto

lemma Map_get_resources:
  "Map_get (new_Map (map (\<lambda>r. (ResourceCost.resourceId r, r)) (resources est))) rid = resourceOf est rid"
  by (simp add: Map_get_def map_of_new_Map resourceOf_def rev_map map_of_keyed)

lemma filter_key_distinct:
  "distinct (map fst m) \<Longrightarrow>
   filter (\<lambda>e. fst e = k) m = (case map_of m k of None \<Rightarrow> [] | Some v \<Rightarrow> [(k, v)])"
proof (induction m)
  case Nil
  then show ?case by simp
next
  case (Cons e m)
  obtain k' v' where e: "e = (k', v')" by (cases e)
  show ?case
  proof (cases "k' = k")
    case True
    with Cons.prems e have "k \<notin> fst ` set m" by auto
    then have "filter (\<lambda>e. fst e = k) m = []" by (auto simp: filter_empty_conv)
    with True e show ?thesis by simp
  next
    case False
    with Cons e show ?thesis by simp
  qed
qed


lemma resourceId_afterChange: "ResourceChange.resourceId (afterChange m e) = fst e"
  by (cases e) (simp add: afterChange_def split: option.splits)

lemma resourceId_removedChange: "ResourceChange.resourceId (removedChange e) = fst e"
  by (cases e) (simp add: removedChange_def)

lemma sortChanges_short: "length cs \<le> 1 \<Longrightarrow> sortChanges cs = cs"
  by (cases cs) (simp_all add: sortChanges_def)

lemma filter_sortChanges: "filter P (sortChanges cs) = sortChanges (filter P cs)"
  by (simp add: sortChanges_def filter_sort)

lemma changesOf_compareEstimates:
  "changesOf (compareEstimates b a) rid =
     (case resourceOf a rid of
        Some ra \<Rightarrow> [afterChange (new_Map (map (\<lambda>r. (ResourceCost.resourceId r, r)) (resources b))) (rid, ra)]
      | None \<Rightarrow> (case resourceOf b rid of None \<Rightarrow> [] | Some rb \<Rightarrow> [removedChange (rid, rb)]))"
proof -
  define BR where "BR = new_Map (map (\<lambda>r. (ResourceCost.resourceId r, r)) (resources b))"
  define AR where "AR = new_Map (map (\<lambda>r. (ResourceCost.resourceId r, r)) (resources a))"
  have dB: "distinct (map fst BR)" and dA: "distinct (map fst AR)"
    by (simp_all add: BR_def AR_def distinct_new_Map)
  have gB: "map_of BR rid = resourceOf b rid" and gA: "map_of AR rid = resourceOf a rid"
    using Map_get_resources [of b rid] Map_get_resources [of a rid]
    by (simp_all add: BR_def AR_def Map_get_def)
  have f1: "filter (\<lambda>c. ResourceChange.resourceId c = rid) (map (afterChange BR) AR) =
            map (afterChange BR) (filter (\<lambda>e. fst e = rid) AR)"
    by (simp add: filter_map comp_def resourceId_afterChange)
  have f2: "filter (\<lambda>c. ResourceChange.resourceId c = rid)
              (map removedChange (filter (\<lambda>entry. \<not> Map_has AR (fst entry)) BR)) =
            map removedChange (filter (\<lambda>entry. \<not> Map_has AR (fst entry)) (filter (\<lambda>e. fst e = rid) BR))"
    by (simp add: filter_map comp_def resourceId_removedChange conj_commute)
  have u: "filter (\<lambda>c. ResourceChange.resourceId c = rid) (unsortedChanges b a) =
     (case resourceOf a rid of
        Some ra \<Rightarrow> [afterChange BR (rid, ra)]
      | None \<Rightarrow> (case resourceOf b rid of None \<Rightarrow> [] | Some rb \<Rightarrow> [removedChange (rid, rb)]))"
    unfolding unsortedChanges_def Let_def BR_def [symmetric] AR_def [symmetric] filter_append f1 f2
    by (simp add: filter_key_distinct [OF dA] filter_key_distinct [OF dB] gA gB Map_has_def
        split: option.splits)
  have len: "length (filter (\<lambda>c. ResourceChange.resourceId c = rid) (unsortedChanges b a)) \<le> 1"
    by (simp add: u split: option.splits)
  have "changesOf (compareEstimates b a) rid =
        sortChanges (filter (\<lambda>c. ResourceChange.resourceId c = rid) (unsortedChanges b a))"
    by (simp add: changesOf_def compareEstimates_def Let_def filter_sortChanges)
  also have "\<dots> = filter (\<lambda>c. ResourceChange.resourceId c = rid) (unsortedChanges b a)"
    by (rule sortChanges_short [OF len])
  finally show ?thesis
    unfolding u BR_def .
qed


lemma resourceOf_None_iff:
  "resourceOf est rid = None \<longleftrightarrow> rid \<notin> ResourceCost.resourceId ` set (resources est)"
  by (auto simp: resourceOf_def find_None_iff)

lemma resourceOf_SomeD:
  "resourceOf est rid = Some r \<Longrightarrow> r \<in> set (resources est) \<and> ResourceCost.resourceId r = rid"
proof -
  assume "resourceOf est rid = Some r"
  then have f: "find (\<lambda>r. ResourceCost.resourceId r = rid) (rev (resources est)) = Some r"
    by (simp add: resourceOf_def)
  then obtain i where "i < length (rev (resources est))" "r = rev (resources est) ! i"
    "ResourceCost.resourceId r = rid"
    by (auto simp: find_Some_iff)
  then have "r \<in> set (rev (resources est))" by (metis nth_mem)
  with \<open>ResourceCost.resourceId r = rid\<close> show ?thesis by simp
qed

text \<open>
  C3. For an identifier \<open>rid\<close> present in either estimate, \<^verbatim>\<open>compareEstimates\<close> lists
  exactly one change: added (before cost 0, difference the after cost) when only the after
  estimate has it, removed (after cost 0, difference minus the before cost) when only the
  before estimate has it, modified (difference after minus before) when both have it and the
  costs differ by more than 0.01, and unchanged with difference 0 when both have it and the
  costs differ by at most 0.01. An identifier in neither estimate has no change.
\<close>

theorem compareEstimates_classifies:
  "(resourceOf b rid = None \<and> resourceOf a rid = Some ra \<longrightarrow>
      changesOf (compareEstimates b a) rid =
        [\<lparr> ResourceChange.resourceId = rid,
           ResourceChange.resourceType = ResourceCost.resourceType ra,
           changeType = Added, beforeCost = 0,
           afterCost = ResourceCost.monthlyCost ra,
           ResourceChange.costDifference = ResourceCost.monthlyCost ra \<rparr>])
   \<and> (resourceOf b rid = Some rb \<and> resourceOf a rid = None \<longrightarrow>
      changesOf (compareEstimates b a) rid =
        [\<lparr> ResourceChange.resourceId = rid,
           ResourceChange.resourceType = ResourceCost.resourceType rb,
           changeType = Removed, beforeCost = ResourceCost.monthlyCost rb,
           afterCost = 0,
           ResourceChange.costDifference = - ResourceCost.monthlyCost rb \<rparr>])
   \<and> (resourceOf b rid = Some rb \<and> resourceOf a rid = Some ra
        \<and> \<bar>ResourceCost.monthlyCost ra - ResourceCost.monthlyCost rb\<bar> > 0.01 \<longrightarrow>
      changesOf (compareEstimates b a) rid =
        [\<lparr> ResourceChange.resourceId = rid,
           ResourceChange.resourceType = ResourceCost.resourceType ra,
           changeType = Modified, beforeCost = ResourceCost.monthlyCost rb,
           afterCost = ResourceCost.monthlyCost ra,
           ResourceChange.costDifference = ResourceCost.monthlyCost ra - ResourceCost.monthlyCost rb \<rparr>])
   \<and> (resourceOf b rid = Some rb \<and> resourceOf a rid = Some ra
        \<and> \<bar>ResourceCost.monthlyCost ra - ResourceCost.monthlyCost rb\<bar> \<le> 0.01 \<longrightarrow>
      changesOf (compareEstimates b a) rid =
        [\<lparr> ResourceChange.resourceId = rid,
           ResourceChange.resourceType = ResourceCost.resourceType ra,
           changeType = Unchanged, beforeCost = ResourceCost.monthlyCost rb,
           afterCost = ResourceCost.monthlyCost ra,
           ResourceChange.costDifference = 0 \<rparr>])
   \<and> (resourceOf b rid = None \<and> resourceOf a rid = None \<longrightarrow>
      changesOf (compareEstimates b a) rid = [])"
proof -
  have sym: "\<bar>ResourceCost.monthlyCost rb - ResourceCost.monthlyCost ra\<bar> =
             \<bar>ResourceCost.monthlyCost ra - ResourceCost.monthlyCost rb\<bar>"
    by (rule abs_minus_commute)
  show ?thesis
    using Map_get_resources [of b rid]
    by (simp add: changesOf_compareEstimates afterChange_def removedChange_def sym)
qed


lemma change_cases:
  assumes "c \<in> set (resourceChanges (compareEstimates b a))"
  shows "(\<exists>ra. resourceOf a (ResourceChange.resourceId c) = Some ra \<and>
            c = afterChange (new_Map (map (\<lambda>r. (ResourceCost.resourceId r, r)) (resources b)))
                  (ResourceChange.resourceId c, ra))
         \<or> (\<exists>rb. resourceOf a (ResourceChange.resourceId c) = None \<and>
            resourceOf b (ResourceChange.resourceId c) = Some rb \<and>
            c = removedChange (ResourceChange.resourceId c, rb))"
proof -
  define rid where "rid = ResourceChange.resourceId c"
  have "c \<in> set (changesOf (compareEstimates b a) rid)"
    using assms by (simp add: changesOf_def rid_def)
  then have "(\<exists>ra. resourceOf a rid = Some ra \<and>
            c = afterChange (new_Map (map (\<lambda>r. (ResourceCost.resourceId r, r)) (resources b))) (rid, ra))
         \<or> (\<exists>rb. resourceOf a rid = None \<and> resourceOf b rid = Some rb \<and> c = removedChange (rid, rb))"
    by (cases "resourceOf a rid"; cases "resourceOf b rid")
       (simp_all add: changesOf_compareEstimates)
  then show ?thesis
    unfolding rid_def .
qed

text \<open>
  C9. Comparing in the two directions gives opposite total differences; a change that is
  added in one direction is the removed change of the other direction with the difference
  negated, and conversely; a modified change is modified in the other direction with
  before and after cost exchanged and the difference negated.
\<close>

theorem compareEstimates_symmetric:
  "CostComparison.costDifference (compareEstimates x y) =
     - CostComparison.costDifference (compareEstimates y x)
   \<and> (\<forall>c \<in> set (resourceChanges (compareEstimates x y)).
        (changeType c = Added \<longrightarrow>
           changesOf (compareEstimates y x) (ResourceChange.resourceId c) =
             [c\<lparr> changeType := Removed, beforeCost := afterCost c, afterCost := 0,
                 ResourceChange.costDifference := - ResourceChange.costDifference c \<rparr>])
      \<and> (changeType c = Removed \<longrightarrow>
           changesOf (compareEstimates y x) (ResourceChange.resourceId c) =
             [c\<lparr> changeType := Added, beforeCost := 0, afterCost := beforeCost c,
                 ResourceChange.costDifference := - ResourceChange.costDifference c \<rparr>])
      \<and> (changeType c = Modified \<longrightarrow>
           (\<exists>c'. changesOf (compareEstimates y x) (ResourceChange.resourceId c) = [c']
               \<and> changeType c' = Modified
               \<and> beforeCost c' = afterCost c \<and> afterCost c' = beforeCost c
               \<and> ResourceChange.costDifference c' = - ResourceChange.costDifference c)))"
proof (intro conjI ballI)
  show "CostComparison.costDifference (compareEstimates x y) =
     - CostComparison.costDifference (compareEstimates y x)"
    by (simp add: compareEstimates_def Let_def)
next
  fix c assume c: "c \<in> set (resourceChanges (compareEstimates x y))"
  define rid where "rid = ResourceChange.resourceId c"
  note cc = change_cases [OF c, folded rid_def]
  show "changeType c = Added \<longrightarrow>
           changesOf (compareEstimates y x) (ResourceChange.resourceId c) =
             [c\<lparr> changeType := Removed, beforeCost := afterCost c, afterCost := 0,
                 ResourceChange.costDifference := - ResourceChange.costDifference c \<rparr>]"
    using cc Map_get_resources [of x rid] Map_get_resources [of y rid]
    unfolding rid_def [symmetric]
    by (auto simp: changesOf_compareEstimates afterChange_def removedChange_def
        split: option.splits if_splits)
  show "changeType c = Removed \<longrightarrow>
           changesOf (compareEstimates y x) (ResourceChange.resourceId c) =
             [c\<lparr> changeType := Added, beforeCost := 0, afterCost := beforeCost c,
                 ResourceChange.costDifference := - ResourceChange.costDifference c \<rparr>]"
    using cc Map_get_resources [of x rid] Map_get_resources [of y rid]
    unfolding rid_def [symmetric]
    by (auto simp: changesOf_compareEstimates afterChange_def removedChange_def
        split: option.splits if_splits)
  show "changeType c = Modified \<longrightarrow>
           (\<exists>c'. changesOf (compareEstimates y x) (ResourceChange.resourceId c) = [c']
               \<and> changeType c' = Modified
               \<and> beforeCost c' = afterCost c \<and> afterCost c' = beforeCost c
               \<and> ResourceChange.costDifference c' = - ResourceChange.costDifference c)"
    using cc Map_get_resources [of x rid] Map_get_resources [of y rid]
    unfolding rid_def [symmetric]
    by (auto simp: changesOf_compareEstimates afterChange_def removedChange_def abs_minus_commute
        split: option.splits if_splits)
qed

lemma resourceOf_samples:
  "resourceOf estimateBefore ''Web'' = Some (sampleCost ''Web'' ''AWS::EC2::Instance'' 10)"
  "resourceOf estimateBefore ''Db'' = Some (sampleCost ''Db'' ''AWS::RDS::DBInstance'' 50)"
  "resourceOf estimateBefore ''Old'' = Some (sampleCost ''Old'' ''AWS::EC2::NatGateway'' 37)"
  "resourceOf estimateBefore ''New'' = None"
  "resourceOf estimateAfter ''Web'' = Some (sampleCost ''Web'' ''AWS::EC2::Instance'' (10 + 5 / 1000))"
  "resourceOf estimateAfter ''Db'' = Some (sampleCost ''Db'' ''AWS::RDS::DBInstance'' 80)"
  "resourceOf estimateAfter ''New'' = Some (sampleCost ''New'' ''AWS::EKS::Cluster'' 73)"
  "resourceOf estimateAfter ''Old'' = None"
  by (simp_all add: resourceOf_def estimateBefore_def estimateAfter_def sampleEstimate_def
      sampleCost_def)

theorem compareEstimates_classifies_witness:
  "changesOf (compareEstimates estimateBefore estimateAfter) ''New'' =
     [\<lparr> ResourceChange.resourceId = ''New'', ResourceChange.resourceType = ''AWS::EKS::Cluster'',
        changeType = Added, beforeCost = 0, afterCost = 73, ResourceChange.costDifference = 73 \<rparr>]
   \<and> changesOf (compareEstimates estimateBefore estimateAfter) ''Old'' =
     [\<lparr> ResourceChange.resourceId = ''Old'', ResourceChange.resourceType = ''AWS::EC2::NatGateway'',
        changeType = Removed, beforeCost = 37, afterCost = 0, ResourceChange.costDifference = - 37 \<rparr>]
   \<and> changesOf (compareEstimates estimateBefore estimateAfter) ''Db'' =
     [\<lparr> ResourceChange.resourceId = ''Db'', ResourceChange.resourceType = ''AWS::RDS::DBInstance'',
        changeType = Modified, beforeCost = 50, afterCost = 80, ResourceChange.costDifference = 30 \<rparr>]
   \<and> changesOf (compareEstimates estimateBefore estimateAfter) ''Web'' =
     [\<lparr> ResourceChange.resourceId = ''Web'', ResourceChange.resourceType = ''AWS::EC2::Instance'',
        changeType = Unchanged, beforeCost = 10, afterCost = 10 + 5 / 1000,
        ResourceChange.costDifference = 0 \<rparr>]"
  using
    compareEstimates_classifies [where b = estimateBefore and a = estimateAfter and rid = "''New''"
      and ra = "sampleCost ''New'' ''AWS::EKS::Cluster'' 73"]
    compareEstimates_classifies [where b = estimateBefore and a = estimateAfter and rid = "''Old''"
      and rb = "sampleCost ''Old'' ''AWS::EC2::NatGateway'' 37"]
    compareEstimates_classifies [where b = estimateBefore and a = estimateAfter and rid = "''Db''"
      and rb = "sampleCost ''Db'' ''AWS::RDS::DBInstance'' 50"
      and ra = "sampleCost ''Db'' ''AWS::RDS::DBInstance'' 80"]
    compareEstimates_classifies [where b = estimateBefore and a = estimateAfter and rid = "''Web''"
      and rb = "sampleCost ''Web'' ''AWS::EC2::Instance'' 10"
      and ra = "sampleCost ''Web'' ''AWS::EC2::Instance'' (10 + 5 / 1000)"]
  by (simp add: resourceOf_samples sampleCost_def)

lemma resourceChanges_sample:
  "set (resourceChanges (compareEstimates estimateBefore estimateAfter)) =
     {\<lparr> ResourceChange.resourceId = ''New'', ResourceChange.resourceType = ''AWS::EKS::Cluster'',
        changeType = Added, beforeCost = 0, afterCost = 73, ResourceChange.costDifference = 73 \<rparr>,
      \<lparr> ResourceChange.resourceId = ''Old'', ResourceChange.resourceType = ''AWS::EC2::NatGateway'',
        changeType = Removed, beforeCost = 37, afterCost = 0, ResourceChange.costDifference = - 37 \<rparr>,
      \<lparr> ResourceChange.resourceId = ''Db'', ResourceChange.resourceType = ''AWS::RDS::DBInstance'',
        changeType = Modified, beforeCost = 50, afterCost = 80, ResourceChange.costDifference = 30 \<rparr>,
      \<lparr> ResourceChange.resourceId = ''Web'', ResourceChange.resourceType = ''AWS::EC2::Instance'',
        changeType = Unchanged, beforeCost = 10, afterCost = 10 + 5 / 1000,
        ResourceChange.costDifference = 0 \<rparr>}"
  by (simp add: compareEstimates_def Let_def sortChanges_def unsortedChanges_def new_Map_def
      Map_get_def Map_has_def afterChange_def removedChange_def estimateBefore_def estimateAfter_def
      sampleEstimate_def sampleCost_def insert_commute)

theorem compareEstimates_symmetric_witness:
  "CostComparison.costDifference (compareEstimates estimateBefore estimateAfter) = 66 + 5 / 1000
   \<and> CostComparison.costDifference (compareEstimates estimateAfter estimateBefore) = - (66 + 5 / 1000)
   \<and> changesOf (compareEstimates estimateAfter estimateBefore) ''New'' =
     [\<lparr> ResourceChange.resourceId = ''New'', ResourceChange.resourceType = ''AWS::EKS::Cluster'',
        changeType = Removed, beforeCost = 73, afterCost = 0, ResourceChange.costDifference = - 73 \<rparr>]
   \<and> changesOf (compareEstimates estimateAfter estimateBefore) ''Old'' =
     [\<lparr> ResourceChange.resourceId = ''Old'', ResourceChange.resourceType = ''AWS::EC2::NatGateway'',
        changeType = Added, beforeCost = 0, afterCost = 37, ResourceChange.costDifference = 37 \<rparr>]
   \<and> (\<exists>c'. changesOf (compareEstimates estimateAfter estimateBefore) ''Db'' = [c']
         \<and> changeType c' = Modified \<and> beforeCost c' = 80 \<and> afterCost c' = 50
         \<and> ResourceChange.costDifference c' = - 30)"
proof -
  have tot: "CostComparison.costDifference (compareEstimates estimateBefore estimateAfter) = 66 + 5 / 1000"
    by (simp add: compareEstimates_def Let_def estimateBefore_def estimateAfter_def
        sampleEstimate_def sampleCost_def)
  show ?thesis
    using compareEstimates_symmetric [of estimateBefore estimateAfter]
    by (simp add: resourceChanges_sample tot)
qed

text \<open>
  C4 (as amended). The comparison's difference is the after total minus the before total.
  The percentage is 0 when both totals are 0 and 100 when the before total is 0 and the after
  total is positive; when the before total is positive it is the difference divided by the
  before total, times 100; when the before total is not positive (the guard
  \<^verbatim>\<open>before.totalMonthlyCost > 0\<close> fails) it is 100 if the difference is positive and 0
  otherwise, and no division takes place.
\<close>

theorem compareEstimates_percentage:
  "CostComparison.costDifference (compareEstimates b a) = totalMonthlyCost a - totalMonthlyCost b
   \<and> (totalMonthlyCost b = 0 \<and> totalMonthlyCost a = 0 \<longrightarrow>
        percentageChange (compareEstimates b a) = 0)
   \<and> (totalMonthlyCost b = 0 \<and> totalMonthlyCost a > 0 \<longrightarrow>
        percentageChange (compareEstimates b a) = 100)
   \<and> (totalMonthlyCost b > 0 \<longrightarrow>
        percentageChange (compareEstimates b a) =
          CostComparison.costDifference (compareEstimates b a) / totalMonthlyCost b * 100)
   \<and> (totalMonthlyCost b \<le> 0 \<longrightarrow>
        percentageChange (compareEstimates b a) =
          (if CostComparison.costDifference (compareEstimates b a) > 0 then 100 else 0))"
  by (simp add: compareEstimates_def Let_def)

lemma sample_totals:
  "totalMonthlyCost estimateBefore = 97"
  "totalMonthlyCost estimateAfter = 163 + 5 / 1000"
  "totalMonthlyCost estimateNegative = - 10"
  "totalMonthlyCost estimateEmpty = 0"
  by (simp_all add: estimateBefore_def estimateAfter_def estimateNegative_def estimateEmpty_def
      sampleEstimate_def sampleCost_def)

theorem compareEstimates_percentage_witness:
  "CostComparison.costDifference (compareEstimates estimateBefore estimateAfter) = 66 + 5 / 1000
   \<and> percentageChange (compareEstimates estimateBefore estimateAfter) = (66 + 5 / 1000) / 97 * 100
   \<and> percentageChange (compareEstimates estimateEmpty estimateEmpty) = 0
   \<and> percentageChange (compareEstimates estimateEmpty estimateAfter) = 100
   \<and> percentageChange (compareEstimates estimateNegative estimateEmpty) = 100
   \<and> percentageChange (compareEstimates estimateEmpty estimateNegative) = 0"
  using compareEstimates_percentage [of estimateBefore estimateAfter]
    compareEstimates_percentage [of estimateEmpty estimateEmpty]
    compareEstimates_percentage [of estimateEmpty estimateAfter]
    compareEstimates_percentage [of estimateNegative estimateEmpty]
    compareEstimates_percentage [of estimateEmpty estimateNegative]
  by (simp add: sample_totals)

text \<open>
  The claim as first stated gives the quotient in every case but the two it names. With a
  before total of \<open>- 10\<close> and an after total of \<open>0\<close> neither named case applies, the quotient
  is \<open>- 100\<close>, and the code answers \<open>100\<close>.
\<close>

theorem compareEstimates_percentage_counterexample:
  "totalMonthlyCost estimateNegative \<noteq> 0
   \<and> percentageChange (compareEstimates estimateNegative estimateEmpty) \<noteq>
       CostComparison.costDifference (compareEstimates estimateNegative estimateEmpty)
         / totalMonthlyCost estimateNegative * 100
   \<and> percentageChange (compareEstimates estimateNegative estimateEmpty) = 100
   \<and> CostComparison.costDifference (compareEstimates estimateNegative estimateEmpty)
        / totalMonthlyCost estimateNegative * 100 = - 100"
  by (simp add: compareEstimates_def Let_def sample_totals)


section \<open>Properties of the intrinsic resolver\<close>

lemma resolve_Ref:
  "map_of fs ''Ref'' = Some (JStr refName) \<Longrightarrow>
   resolveBasicIntrinsics rt template (JObj fs) ctx = resolveRef template ctx refName"
  by simp

text \<open>
  C5 (as amended). Resolving \<^verbatim>\<open>{Ref: name}\<close>, for a name that is not the name of a property
  that every object inherits from \<^verbatim>\<open>Object.prototype\<close> (\<^verbatim>\<open>toString\<close>, \<^verbatim>\<open>constructor\<close>, ...),
  never fails. When the template declares a parameter of that name (a truthy entry of
  \<^verbatim>\<open>Parameters\<close>) the result is the context's override when one is supplied, otherwise the
  parameter's \<^verbatim>\<open>Default\<close> when it has one, otherwise the placeholder \<^verbatim>\<open>{{Ref:name}}\<close>. When
  the template declares no such parameter the result is the placeholder, whatever the context
  supplies. For an inherited name the two lookups \<^verbatim>\<open>template.Parameters[refName]\<close> and
  \<^verbatim>\<open>context.parameters[refName]\<close> of the source find the inherited property where the record
  has no entry of its own, which \<open>declaredParameter\<close> and \<open>contextParameter\<close> do not
  describe: of such a name nothing is stated.
\<close>

theorem resolve_reference:
  assumes "map_of fs ''Ref'' = Some (JStr name)" and "name \<notin> set Object_prototype"
  shows
  "(truthy (declaredParameter template name) \<and> contextParameter ctx name \<noteq> JUndefined \<longrightarrow>
      resolveBasicIntrinsics rt template (JObj fs) ctx = contextParameter ctx name)
   \<and> (truthy (declaredParameter template name) \<and> contextParameter ctx name = JUndefined
        \<and> member (declaredParameter template name) ''Default'' \<noteq> JUndefined \<longrightarrow>
      resolveBasicIntrinsics rt template (JObj fs) ctx =
        member (declaredParameter template name) ''Default'')
   \<and> (truthy (declaredParameter template name) \<and> contextParameter ctx name = JUndefined
        \<and> member (declaredParameter template name) ''Default'' = JUndefined \<longrightarrow>
      resolveBasicIntrinsics rt template (JObj fs) ctx = JStr (''{{Ref:'' @ name @ ''}}''))
   \<and> (\<not> truthy (declaredParameter template name) \<longrightarrow>
      resolveBasicIntrinsics rt template (JObj fs) ctx = JStr (''{{Ref:'' @ name @ ''}}''))"
  using assms(1) by (simp add: resolveRef_def Let_def)

theorem resolve_reference_witness:
  "resolveBasicIntrinsics sampleRuntime templateWithParameters
      (JObj [(''Ref'', JStr ''InstanceTypeParam'')]) contextWithOverrides = JStr ''t3.nano''
   \<and> resolveBasicIntrinsics sampleRuntime templateWithParameters
      (JObj [(''Ref'', JStr ''InstanceTypeParam'')]) emptyContext = JStr ''m5.large''
   \<and> resolveBasicIntrinsics sampleRuntime templateWithParameters
      (JObj [(''Ref'', JStr ''KeyName'')]) emptyContext = JStr ''{{Ref:KeyName}}''
   \<and> resolveBasicIntrinsics sampleRuntime templateWithParameters
      (JObj [(''Ref'', JStr ''Env'')]) contextWithOverrides = JStr ''{{Ref:Env}}''"
  using
    resolve_reference [where fs = "[(''Ref'', JStr ''InstanceTypeParam'')]"
      and name = "''InstanceTypeParam''" and template = templateWithParameters
      and ctx = contextWithOverrides and rt = sampleRuntime]
    resolve_reference [where fs = "[(''Ref'', JStr ''InstanceTypeParam'')]"
      and name = "''InstanceTypeParam''" and template = templateWithParameters
      and ctx = emptyContext and rt = sampleRuntime]
    resolve_reference [where fs = "[(''Ref'', JStr ''KeyName'')]"
      and name = "''KeyName''" and template = templateWithParameters
      and ctx = emptyContext and rt = sampleRuntime]
    resolve_reference [where fs = "[(''Ref'', JStr ''Env'')]"
      and name = "''Env''" and template = templateWithParameters
      and ctx = contextWithOverrides and rt = sampleRuntime]
  by (simp add: declaredParameter_def contextParameter_def templateWithParameters_def
      contextWithOverrides_def emptyContext_def Object_prototype_def)

text \<open>
  The claim as first stated puts the override first without condition. A context that
  supplies \<^verbatim>\<open>Env\<close> to a template that declares no parameters gets the placeholder.
\<close>

theorem resolve_reference_counterexample:
  "contextParameter contextWithOverrides ''Env'' = JStr ''prod''
   \<and> resolveBasicIntrinsics sampleRuntime templateWithoutParameters
        (JObj [(''Ref'', JStr ''Env'')]) contextWithOverrides = JStr ''{{Ref:Env}}''"
  by (simp add: resolveRef_def declaredParameter_def contextParameter_def
      templateWithoutParameters_def contextWithOverrides_def)

text \<open>
  Through \<^verbatim>\<open>getPropertyValue\<close> no context is passed: a property holding a reference
  resolves to the declared default or to the placeholder.
\<close>

lemma getPropertyValue_reference_sample:
  "getPropertyValue sampleRuntime templateWithParameters
     (JObj [(''Type'', JStr ''AWS::EC2::Instance''),
            (''Properties'', JObj [(''InstanceType'', JObj [(''Ref'', JStr ''InstanceTypeParam'')])])])
     ''InstanceType'' (JStr ''t3.micro'') = JStr ''m5.large''"
  by (simp add: getPropertyValue_def resolveRef_def declaredParameter_def contextParameter_def
      templateWithParameters_def emptyContext_def)

text \<open>
  C6. A property holding \<^verbatim>\<open>Fn::Select\<close> with a numeric index and an array: with the index in
  range \<^verbatim>\<open>getPropertyValue\<close> returns the element; with the index out of range it returns
  \<^verbatim>\<open>undefined\<close>, not the caller's default, since the default is applied only before the
  value is resolved.
\<close>

theorem getPropertyValue_select_sample:
  "getPropertyValue sampleRuntime templateWithoutParameters resourceWithSelect ''Iops'' (JNum 3000)
     = JNum 5000
   \<and> getPropertyValue sampleRuntime templateWithoutParameters resourceWithSelect ''Size'' (JNum 100)
     = JUndefined"
  by (simp add: getPropertyValue_def resourceWithSelect_def array_at_def)


section \<open>Properties of the calculators\<close>

text \<open>
  Each registered calculator, where it returns a cost record, gives it the resource's logical
  identifier and a monthly cost that is the sum of its detail lines. Its hourly cost is the
  monthly cost divided by \<open>HOURS_PER_MONTH\<close>, except for the three calculators that add a
  data-processing charge to the monthly cost only.
\<close>

lemma rulesIsArray_length:
  "rulesIsArray resource \<Longrightarrow>
   0 \<le> toNumberJS rt (member (orValue (qdot (member resource ''Properties'') ''Rules'') (JArr [])) ''length'')"
  by (auto simp: rulesIsArray_def Let_def orValue_def toNumberJS_def is_JArr_def)

lemma calc_EC2_Instance_cost:
  "(case calc_EC2_Instance rt logicalId resource template table of
      Inr (Some rc) \<Rightarrow> ResourceCost.resourceId rc = logicalId
        \<and> ResourceCost.monthlyCost rc = detailsTotal rc
        \<and> hourlyConsistent rc
    | _ \<Rightarrow> True)"
  by (simp add: calc_EC2_Instance_def Let_def bindE_def HOURS_PER_MONTH_def detailsTotal_def hourlyConsistent_def algebra_simps
      split: sum.splits if_splits prod.splits option.splits)

lemma calc_EC2_Instance_sound: "soundCalculator ''AWS::EC2::Instance'' calc_EC2_Instance"
  unfolding soundCalculator_def
proof (intro allI impI)
  fix rt logicalId resource template table rc
  assume "calc_EC2_Instance rt logicalId resource template table = Inr (Some rc)"
  then show "ResourceCost.resourceId rc = logicalId
          \<and> ((''AWS::EC2::Instance'' = ''AWS::WAFv2::WebACL'' \<longrightarrow> rulesIsArray resource) \<longrightarrow>
                ResourceCost.monthlyCost rc = detailsTotal rc)
          \<and> (''AWS::EC2::Instance'' \<notin> set dataProcessingTypes \<longrightarrow> hourlyConsistent rc)"
    using calc_EC2_Instance_cost [where rt = rt and logicalId = logicalId and resource = resource
        and template = template and table = table]
    by (simp add: dataProcessingTypes_def)
qed

lemma calc_AutoScaling_AutoScalingGroup_cost:
  "(case calc_AutoScaling_AutoScalingGroup rt logicalId resource template table of
      Inr (Some rc) \<Rightarrow> ResourceCost.resourceId rc = logicalId
        \<and> ResourceCost.monthlyCost rc = detailsTotal rc
        \<and> hourlyConsistent rc
    | _ \<Rightarrow> True)"
  by (simp add: calc_AutoScaling_AutoScalingGroup_def Let_def bindE_def HOURS_PER_MONTH_def detailsTotal_def hourlyConsistent_def algebra_simps
      split: sum.splits if_splits prod.splits option.splits)

lemma calc_AutoScaling_AutoScalingGroup_sound: "soundCalculator ''AWS::AutoScaling::AutoScalingGroup'' calc_AutoScaling_AutoScalingGroup"
  unfolding soundCalculator_def
proof (intro allI impI)
  fix rt logicalId resource template table rc
  assume "calc_AutoScaling_AutoScalingGroup rt logicalId resource template table = Inr (Some rc)"
  then show "ResourceCost.resourceId rc = logicalId
          \<and> ((''AWS::AutoScaling::AutoScalingGroup'' = ''AWS::WAFv2::WebACL'' \<longrightarrow> rulesIsArray resource) \<longrightarrow>
                ResourceCost.monthlyCost rc = detailsTotal rc)
          \<and> (''AWS::AutoScaling::AutoScalingGroup'' \<notin> set dataProcessingTypes \<longrightarrow> hourlyConsistent rc)"
    using calc_AutoScaling_AutoScalingGroup_cost [where rt = rt and logicalId = logicalId and resource = resource
        and template = template and table = table]
    by (simp add: dataProcessingTypes_def)
qed

lemma calc_EC2_Volume_cost:
  "(case calc_EC2_Volume rt logicalId resource template table of
      Inr (Some rc) \<Rightarrow> ResourceCost.resourceId rc = logicalId
        \<and> ResourceCost.monthlyCost rc = detailsTotal rc
        \<and> hourlyConsistent rc
    | _ \<Rightarrow> True)"
  by (simp add: calc_EC2_Volume_def Let_def bindE_def HOURS_PER_MONTH_def detailsTotal_def hourlyConsistent_def algebra_simps
      split: sum.splits if_splits prod.splits option.splits)

lemma calc_EC2_Volume_sound: "soundCalculator ''AWS::EC2::Volume'' calc_EC2_Volume"
  unfolding soundCalculator_def
proof (intro allI impI)
  fix rt logicalId resource template table rc
  assume "calc_EC2_Volume rt logicalId resource template table = Inr (Some rc)"
  then show "ResourceCost.resourceId rc = logicalId
          \<and> ((''AWS::EC2::Volume'' = ''AWS::WAFv2::WebACL'' \<longrightarrow> rulesIsArray resource) \<longrightarrow>
                ResourceCost.monthlyCost rc = detailsTotal rc)
          \<and> (''AWS::EC2::Volume'' \<notin> set dataProcessingTypes \<longrightarrow> hourlyConsistent rc)"
    using calc_EC2_Volume_cost [where rt = rt and logicalId = logicalId and resource = resource
        and template = template and table = table]
    by (simp add: dataProcessingTypes_def)
qed

lemma calc_RDS_DBInstance_cost:
  "(case calc_RDS_DBInstance rt logicalId resource template table of
      Inr (Some rc) \<Rightarrow> ResourceCost.resourceId rc = logicalId
        \<and> ResourceCost.monthlyCost rc = detailsTotal rc
        \<and> hourlyConsistent rc
    | _ \<Rightarrow> True)"
  by (simp add: calc_RDS_DBInstance_def Let_def bindE_def HOURS_PER_MONTH_def detailsTotal_def hourlyConsistent_def algebra_simps
      split: sum.splits if_splits prod.splits option.splits)

lemma calc_RDS_DBInstance_sound: "soundCalculator ''AWS::RDS::DBInstance'' calc_RDS_DBInstance"
  unfolding soundCalculator_def
proof (intro allI impI)
  fix rt logicalId resource template table rc
  assume "calc_RDS_DBInstance rt logicalId resource template table = Inr (Some rc)"
  then show "ResourceCost.resourceId rc = logicalId
          \<and> ((''AWS::RDS::DBInstance'' = ''AWS::WAFv2::WebACL'' \<longrightarrow> rulesIsArray resource) \<longrightarrow>
                ResourceCost.monthlyCost rc = detailsTotal rc)
          \<and> (''AWS::RDS::DBInstance'' \<notin> set dataProcessingTypes \<longrightarrow> hourlyConsistent rc)"
    using calc_RDS_DBInstance_cost [where rt = rt and logicalId = logicalId and resource = resource
        and template = template and table = table]
    by (simp add: dataProcessingTypes_def)
qed

lemma calc_RDS_DBCluster_cost:
  "(case calc_RDS_DBCluster rt logicalId resource template table of
      Inr (Some rc) \<Rightarrow> ResourceCost.resourceId rc = logicalId
        \<and> ResourceCost.monthlyCost rc = detailsTotal rc
        \<and> hourlyConsistent rc
    | _ \<Rightarrow> True)"
  by (simp add: calc_RDS_DBCluster_def Let_def bindE_def HOURS_PER_MONTH_def detailsTotal_def hourlyConsistent_def algebra_simps
      split: sum.splits if_splits prod.splits option.splits)

lemma calc_RDS_DBCluster_sound: "soundCalculator ''AWS::RDS::DBCluster'' calc_RDS_DBCluster"
  unfolding soundCalculator_def
proof (intro allI impI)
  fix rt logicalId resource template table rc
  assume "calc_RDS_DBCluster rt logicalId resource template table = Inr (Some rc)"
  then show "ResourceCost.resourceId rc = logicalId
          \<and> ((''AWS::RDS::DBCluster'' = ''AWS::WAFv2::WebACL'' \<longrightarrow> rulesIsArray resource) \<longrightarrow>
                ResourceCost.monthlyCost rc = detailsTotal rc)
          \<and> (''AWS::RDS::DBCluster'' \<notin> set dataProcessingTypes \<longrightarrow> hourlyConsistent rc)"
    using calc_RDS_DBCluster_cost [where rt = rt and logicalId = logicalId and resource = resource
        and template = template and table = table]
    by (simp add: dataProcessingTypes_def)
qed

lemma calc_ElastiCache_CacheCluster_cost:
  "(case calc_ElastiCache_CacheCluster rt logicalId resource template table of
      Inr (Some rc) \<Rightarrow> ResourceCost.resourceId rc = logicalId
        \<and> ResourceCost.monthlyCost rc = detailsTotal rc
        \<and> hourlyConsistent rc
    | _ \<Rightarrow> True)"
  by (simp add: calc_ElastiCache_CacheCluster_def Let_def bindE_def HOURS_PER_MONTH_def detailsTotal_def hourlyConsistent_def algebra_simps
      split: sum.splits if_splits prod.splits option.splits)

lemma calc_ElastiCache_CacheCluster_sound: "soundCalculator ''AWS::ElastiCache::CacheCluster'' calc_ElastiCache_CacheCluster"
  unfolding soundCalculator_def
proof (intro allI impI)
  fix rt logicalId resource template table rc
  assume "calc_ElastiCache_CacheCluster rt logicalId resource template table = Inr (Some rc)"
  then show "ResourceCost.resourceId rc = logicalId
          \<and> ((''AWS::ElastiCache::CacheCluster'' = ''AWS::WAFv2::WebACL'' \<longrightarrow> rulesIsArray resource) \<longrightarrow>
                ResourceCost.monthlyCost rc = detailsTotal rc)
          \<and> (''AWS::ElastiCache::CacheCluster'' \<notin> set dataProcessingTypes \<longrightarrow> hourlyConsistent rc)"
    using calc_ElastiCache_CacheCluster_cost [where rt = rt and logicalId = logicalId and resource = resource
        and template = template and table = table]
    by (simp add: dataProcessingTypes_def)
qed

lemma calc_ElastiCache_ReplicationGroup_cost:
  "(case calc_ElastiCache_ReplicationGroup rt logicalId resource template table of
      Inr (Some rc) \<Rightarrow> ResourceCost.resourceId rc = logicalId
        \<and> ResourceCost.monthlyCost rc = detailsTotal rc
        \<and> hourlyConsistent rc
    | _ \<Rightarrow> True)"
  by (simp add: calc_ElastiCache_ReplicationGroup_def Let_def bindE_def HOURS_PER_MONTH_def detailsTotal_def hourlyConsistent_def algebra_simps
      split: sum.splits if_splits prod.splits option.splits)

lemma calc_ElastiCache_ReplicationGroup_sound: "soundCalculator ''AWS::ElastiCache::ReplicationGroup'' calc_ElastiCache_ReplicationGroup"
  unfolding soundCalculator_def
proof (intro allI impI)
  fix rt logicalId resource template table rc
  assume "calc_ElastiCache_ReplicationGroup rt logicalId resource template table = Inr (Some rc)"
  then show "ResourceCost.resourceId rc = logicalId
          \<and> ((''AWS::ElastiCache::ReplicationGroup'' = ''AWS::WAFv2::WebACL'' \<longrightarrow> rulesIsArray resource) \<longrightarrow>
                ResourceCost.monthlyCost rc = detailsTotal rc)
          \<and> (''AWS::ElastiCache::ReplicationGroup'' \<notin> set dataProcessingTypes \<longrightarrow> hourlyConsistent rc)"
    using calc_ElastiCache_ReplicationGroup_cost [where rt = rt and logicalId = logicalId and resource = resource
        and template = template and table = table]
    by (simp add: dataProcessingTypes_def)
qed

lemma calc_EC2_NatGateway_cost:
  "(case calc_EC2_NatGateway rt logicalId resource template table of
      Inr (Some rc) \<Rightarrow> ResourceCost.resourceId rc = logicalId
        \<and> ResourceCost.monthlyCost rc = detailsTotal rc
    | _ \<Rightarrow> True)"
  by (simp add: calc_EC2_NatGateway_def Let_def bindE_def HOURS_PER_MONTH_def detailsTotal_def hourlyConsistent_def algebra_simps
      split: sum.splits if_splits prod.splits option.splits)

lemma calc_EC2_NatGateway_sound: "soundCalculator ''AWS::EC2::NatGateway'' calc_EC2_NatGateway"
  unfolding soundCalculator_def
proof (intro allI impI)
  fix rt logicalId resource template table rc
  assume "calc_EC2_NatGateway rt logicalId resource template table = Inr (Some rc)"
  then show "ResourceCost.resourceId rc = logicalId
          \<and> ((''AWS::EC2::NatGateway'' = ''AWS::WAFv2::WebACL'' \<longrightarrow> rulesIsArray resource) \<longrightarrow>
                ResourceCost.monthlyCost rc = detailsTotal rc)
          \<and> (''AWS::EC2::NatGateway'' \<notin> set dataProcessingTypes \<longrightarrow> hourlyConsistent rc)"
    using calc_EC2_NatGateway_cost [where rt = rt and logicalId = logicalId and resource = resource
        and template = template and table = table]
    by (simp add: dataProcessingTypes_def)
qed

lemma calc_ElasticLoadBalancingV2_LoadBalancer_cost:
  "(case calc_ElasticLoadBalancingV2_LoadBalancer rt logicalId resource template table of
      Inr (Some rc) \<Rightarrow> ResourceCost.resourceId rc = logicalId
        \<and> ResourceCost.monthlyCost rc = detailsTotal rc
        \<and> hourlyConsistent rc
    | _ \<Rightarrow> True)"
  by (simp add: calc_ElasticLoadBalancingV2_LoadBalancer_def Let_def bindE_def HOURS_PER_MONTH_def detailsTotal_def hourlyConsistent_def algebra_simps
      split: sum.splits if_splits prod.splits option.splits)

lemma calc_ElasticLoadBalancingV2_LoadBalancer_sound: "soundCalculator ''AWS::ElasticLoadBalancingV2::LoadBalancer'' calc_ElasticLoadBalancingV2_LoadBalancer"
  unfolding soundCalculator_def
proof (intro allI impI)
  fix rt logicalId resource template table rc
  assume "calc_ElasticLoadBalancingV2_LoadBalancer rt logicalId resource template table = Inr (Some rc)"
  then show "ResourceCost.resourceId rc = logicalId
          \<and> ((''AWS::ElasticLoadBalancingV2::LoadBalancer'' = ''AWS::WAFv2::WebACL'' \<longrightarrow> rulesIsArray resource) \<longrightarrow>
                ResourceCost.monthlyCost rc = detailsTotal rc)
          \<and> (''AWS::ElasticLoadBalancingV2::LoadBalancer'' \<notin> set dataProcessingTypes \<longrightarrow> hourlyConsistent rc)"
    using calc_ElasticLoadBalancingV2_LoadBalancer_cost [where rt = rt and logicalId = logicalId and resource = resource
        and template = template and table = table]
    by (simp add: dataProcessingTypes_def)
qed

lemma calc_ElasticLoadBalancing_LoadBalancer_cost:
  "(case calc_ElasticLoadBalancing_LoadBalancer rt logicalId resource template table of
      Inr (Some rc) \<Rightarrow> ResourceCost.resourceId rc = logicalId
        \<and> ResourceCost.monthlyCost rc = detailsTotal rc
        \<and> hourlyConsistent rc
    | _ \<Rightarrow> True)"
  by (simp add: calc_ElasticLoadBalancing_LoadBalancer_def Let_def bindE_def HOURS_PER_MONTH_def detailsTotal_def hourlyConsistent_def algebra_simps
      split: sum.splits if_splits prod.splits option.splits)

lemma calc_ElasticLoadBalancing_LoadBalancer_sound: "soundCalculator ''AWS::ElasticLoadBalancing::LoadBalancer'' calc_ElasticLoadBalancing_LoadBalancer"
  unfolding soundCalculator_def
proof (intro allI impI)
  fix rt logicalId resource template table rc
  assume "calc_ElasticLoadBalancing_LoadBalancer rt logicalId resource template table = Inr (Some rc)"
  then show "ResourceCost.resourceId rc = logicalId
          \<and> ((''AWS::ElasticLoadBalancing::LoadBalancer'' = ''AWS::WAFv2::WebACL'' \<longrightarrow> rulesIsArray resource) \<longrightarrow>
                ResourceCost.monthlyCost rc = detailsTotal rc)
          \<and> (''AWS::ElasticLoadBalancing::LoadBalancer'' \<notin> set dataProcessingTypes \<longrightarrow> hourlyConsistent rc)"
    using calc_ElasticLoadBalancing_LoadBalancer_cost [where rt = rt and logicalId = logicalId and resource = resource
        and template = template and table = table]
    by (simp add: dataProcessingTypes_def)
qed

lemma calc_ECS_Service_cost:
  "(case calc_ECS_Service rt logicalId resource template table of
      Inr (Some rc) \<Rightarrow> ResourceCost.resourceId rc = logicalId
        \<and> ResourceCost.monthlyCost rc = detailsTotal rc
        \<and> hourlyConsistent rc
    | _ \<Rightarrow> True)"
  by (simp add: calc_ECS_Service_def Let_def bindE_def HOURS_PER_MONTH_def detailsTotal_def hourlyConsistent_def algebra_simps
      split: sum.splits if_splits prod.splits option.splits)

lemma calc_ECS_Service_sound: "soundCalculator ''AWS::ECS::Service'' calc_ECS_Service"
  unfolding soundCalculator_def
proof (intro allI impI)
  fix rt logicalId resource template table rc
  assume "calc_ECS_Service rt logicalId resource template table = Inr (Some rc)"
  then show "ResourceCost.resourceId rc = logicalId
          \<and> ((''AWS::ECS::Service'' = ''AWS::WAFv2::WebACL'' \<longrightarrow> rulesIsArray resource) \<longrightarrow>
                ResourceCost.monthlyCost rc = detailsTotal rc)
          \<and> (''AWS::ECS::Service'' \<notin> set dataProcessingTypes \<longrightarrow> hourlyConsistent rc)"
    using calc_ECS_Service_cost [where rt = rt and logicalId = logicalId and resource = resource
        and template = template and table = table]
    by (simp add: dataProcessingTypes_def)
qed

lemma calc_EKS_Cluster_cost:
  "(case calc_EKS_Cluster rt logicalId resource template table of
      Inr (Some rc) \<Rightarrow> ResourceCost.resourceId rc = logicalId
        \<and> ResourceCost.monthlyCost rc = detailsTotal rc
        \<and> hourlyConsistent rc
    | _ \<Rightarrow> True)"
  by (simp add: calc_EKS_Cluster_def Let_def bindE_def HOURS_PER_MONTH_def detailsTotal_def hourlyConsistent_def algebra_simps
      split: sum.splits if_splits prod.splits option.splits)

lemma calc_EKS_Cluster_sound: "soundCalculator ''AWS::EKS::Cluster'' calc_EKS_Cluster"
  unfolding soundCalculator_def
proof (intro allI impI)
  fix rt logicalId resource template table rc
  assume "calc_EKS_Cluster rt logicalId resource template table = Inr (Some rc)"
  then show "ResourceCost.resourceId rc = logicalId
          \<and> ((''AWS::EKS::Cluster'' = ''AWS::WAFv2::WebACL'' \<longrightarrow> rulesIsArray resource) \<longrightarrow>
                ResourceCost.monthlyCost rc = detailsTotal rc)
          \<and> (''AWS::EKS::Cluster'' \<notin> set dataProcessingTypes \<longrightarrow> hourlyConsistent rc)"
    using calc_EKS_Cluster_cost [where rt = rt and logicalId = logicalId and resource = resource
        and template = template and table = table]
    by (simp add: dataProcessingTypes_def)
qed

lemma calc_SecretsManager_Secret_cost:
  "(case calc_SecretsManager_Secret rt logicalId resource template table of
      Inr (Some rc) \<Rightarrow> ResourceCost.resourceId rc = logicalId
        \<and> ResourceCost.monthlyCost rc = detailsTotal rc
        \<and> hourlyConsistent rc
    | _ \<Rightarrow> True)"
  by (simp add: calc_SecretsManager_Secret_def Let_def bindE_def HOURS_PER_MONTH_def detailsTotal_def hourlyConsistent_def algebra_simps
      split: sum.splits if_splits prod.splits option.splits)

lemma calc_SecretsManager_Secret_sound: "soundCalculator ''AWS::SecretsManager::Secret'' calc_SecretsManager_Secret"
  unfolding soundCalculator_def
proof (intro allI impI)
  fix rt logicalId resource template table rc
  assume "calc_SecretsManager_Secret rt logicalId resource template table = Inr (Some rc)"
  then show "ResourceCost.resourceId rc = logicalId
          \<and> ((''AWS::SecretsManager::Secret'' = ''AWS::WAFv2::WebACL'' \<longrightarrow> rulesIsArray resource) \<longrightarrow>
                ResourceCost.monthlyCost rc = detailsTotal rc)
          \<and> (''AWS::SecretsManager::Secret'' \<notin> set dataProcessingTypes \<longrightarrow> hourlyConsistent rc)"
    using calc_SecretsManager_Secret_cost [where rt = rt and logicalId = logicalId and resource = resource
        and template = template and table = table]
    by (simp add: dataProcessingTypes_def)
qed

lemma calc_KMS_Key_cost:
  "(case calc_KMS_Key rt logicalId resource template table of
      Inr (Some rc) \<Rightarrow> ResourceCost.resourceId rc = logicalId
        \<and> ResourceCost.monthlyCost rc = detailsTotal rc
        \<and> hourlyConsistent rc
    | _ \<Rightarrow> True)"
  by (simp add: calc_KMS_Key_def Let_def bindE_def HOURS_PER_MONTH_def detailsTotal_def hourlyConsistent_def algebra_simps
      split: sum.splits if_splits prod.splits option.splits)

lemma calc_KMS_Key_sound: "soundCalculator ''AWS::KMS::Key'' calc_KMS_Key"
  unfolding soundCalculator_def
proof (intro allI impI)
  fix rt logicalId resource template table rc
  assume "calc_KMS_Key rt logicalId resource template table = Inr (Some rc)"
  then show "ResourceCost.resourceId rc = logicalId
          \<and> ((''AWS::KMS::Key'' = ''AWS::WAFv2::WebACL'' \<longrightarrow> rulesIsArray resource) \<longrightarrow>
                ResourceCost.monthlyCost rc = detailsTotal rc)
          \<and> (''AWS::KMS::Key'' \<notin> set dataProcessingTypes \<longrightarrow> hourlyConsistent rc)"
    using calc_KMS_Key_cost [where rt = rt and logicalId = logicalId and resource = resource
        and template = template and table = table]
    by (simp add: dataProcessingTypes_def)
qed

lemma calc_Route53_HostedZone_cost:
  "(case calc_Route53_HostedZone rt logicalId resource template table of
      Inr (Some rc) \<Rightarrow> ResourceCost.resourceId rc = logicalId
        \<and> ResourceCost.monthlyCost rc = detailsTotal rc
        \<and> hourlyConsistent rc
    | _ \<Rightarrow> True)"
  by (simp add: calc_Route53_HostedZone_def Let_def bindE_def HOURS_PER_MONTH_def detailsTotal_def hourlyConsistent_def algebra_simps
      split: sum.splits if_splits prod.splits option.splits)

lemma calc_Route53_HostedZone_sound: "soundCalculator ''AWS::Route53::HostedZone'' calc_Route53_HostedZone"
  unfolding soundCalculator_def
proof (intro allI impI)
  fix rt logicalId resource template table rc
  assume "calc_Route53_HostedZone rt logicalId resource template table = Inr (Some rc)"
  then show "ResourceCost.resourceId rc = logicalId
          \<and> ((''AWS::Route53::HostedZone'' = ''AWS::WAFv2::WebACL'' \<longrightarrow> rulesIsArray resource) \<longrightarrow>
                ResourceCost.monthlyCost rc = detailsTotal rc)
          \<and> (''AWS::Route53::HostedZone'' \<notin> set dataProcessingTypes \<longrightarrow> hourlyConsistent rc)"
    using calc_Route53_HostedZone_cost [where rt = rt and logicalId = logicalId and resource = resource
        and template = template and table = table]
    by (simp add: dataProcessingTypes_def)
qed

lemma calc_CloudWatch_Alarm_cost:
  "(case calc_CloudWatch_Alarm rt logicalId resource template table of
      Inr (Some rc) \<Rightarrow> ResourceCost.resourceId rc = logicalId
        \<and> ResourceCost.monthlyCost rc = detailsTotal rc
        \<and> hourlyConsistent rc
    | _ \<Rightarrow> True)"
  by (simp add: calc_CloudWatch_Alarm_def Let_def bindE_def HOURS_PER_MONTH_def detailsTotal_def hourlyConsistent_def algebra_simps
      split: sum.splits if_splits prod.splits option.splits)

lemma calc_CloudWatch_Alarm_sound: "soundCalculator ''AWS::CloudWatch::Alarm'' calc_CloudWatch_Alarm"
  unfolding soundCalculator_def
proof (intro allI impI)
  fix rt logicalId resource template table rc
  assume "calc_CloudWatch_Alarm rt logicalId resource template table = Inr (Some rc)"
  then show "ResourceCost.resourceId rc = logicalId
          \<and> ((''AWS::CloudWatch::Alarm'' = ''AWS::WAFv2::WebACL'' \<longrightarrow> rulesIsArray resource) \<longrightarrow>
                ResourceCost.monthlyCost rc = detailsTotal rc)
          \<and> (''AWS::CloudWatch::Alarm'' \<notin> set dataProcessingTypes \<longrightarrow> hourlyConsistent rc)"
    using calc_CloudWatch_Alarm_cost [where rt = rt and logicalId = logicalId and resource = resource
        and template = template and table = table]
    by (simp add: dataProcessingTypes_def)
qed

lemma calc_CloudWatch_Dashboard_cost:
  "(case calc_CloudWatch_Dashboard rt logicalId resource template table of
      Inr (Some rc) \<Rightarrow> ResourceCost.resourceId rc = logicalId
        \<and> ResourceCost.monthlyCost rc = detailsTotal rc
        \<and> hourlyConsistent rc
    | _ \<Rightarrow> True)"
  by (simp add: calc_CloudWatch_Dashboard_def Let_def bindE_def HOURS_PER_MONTH_def detailsTotal_def hourlyConsistent_def algebra_simps
      split: sum.splits if_splits prod.splits option.splits)

lemma calc_CloudWatch_Dashboard_sound: "soundCalculator ''AWS::CloudWatch::Dashboard'' calc_CloudWatch_Dashboard"
  unfolding soundCalculator_def
proof (intro allI impI)
  fix rt logicalId resource template table rc
  assume "calc_CloudWatch_Dashboard rt logicalId resource template table = Inr (Some rc)"
  then show "ResourceCost.resourceId rc = logicalId
          \<and> ((''AWS::CloudWatch::Dashboard'' = ''AWS::WAFv2::WebACL'' \<longrightarrow> rulesIsArray resource) \<longrightarrow>
                ResourceCost.monthlyCost rc = detailsTotal rc)
          \<and> (''AWS::CloudWatch::Dashboard'' \<notin> set dataProcessingTypes \<longrightarrow> hourlyConsistent rc)"
    using calc_CloudWatch_Dashboard_cost [where rt = rt and logicalId = logicalId and resource = resource
        and template = template and table = table]
    by (simp add: dataProcessingTypes_def)
qed

lemma calc_EC2_EIP_cost:
  "(case calc_EC2_EIP rt logicalId resource template table of
      Inr (Some rc) \<Rightarrow> ResourceCost.resourceId rc = logicalId
        \<and> ResourceCost.monthlyCost rc = detailsTotal rc
        \<and> hourlyConsistent rc
    | _ \<Rightarrow> True)"
  by (simp add: calc_EC2_EIP_def Let_def bindE_def HOURS_PER_MONTH_def detailsTotal_def hourlyConsistent_def algebra_simps
      split: sum.splits if_splits prod.splits option.splits)

lemma calc_EC2_EIP_sound: "soundCalculator ''AWS::EC2::EIP'' calc_EC2_EIP"
  unfolding soundCalculator_def
proof (intro allI impI)
  fix rt logicalId resource template table rc
  assume "calc_EC2_EIP rt logicalId resource template table = Inr (Some rc)"
  then show "ResourceCost.resourceId rc = logicalId
          \<and> ((''AWS::EC2::EIP'' = ''AWS::WAFv2::WebACL'' \<longrightarrow> rulesIsArray resource) \<longrightarrow>
                ResourceCost.monthlyCost rc = detailsTotal rc)
          \<and> (''AWS::EC2::EIP'' \<notin> set dataProcessingTypes \<longrightarrow> hourlyConsistent rc)"
    using calc_EC2_EIP_cost [where rt = rt and logicalId = logicalId and resource = resource
        and template = template and table = table]
    by (simp add: dataProcessingTypes_def)
qed

lemma calc_EC2_VPCEndpoint_cost:
  "(case calc_EC2_VPCEndpoint rt logicalId resource template table of
      Inr (Some rc) \<Rightarrow> ResourceCost.resourceId rc = logicalId
        \<and> ResourceCost.monthlyCost rc = detailsTotal rc
        \<and> hourlyConsistent rc
    | _ \<Rightarrow> True)"
  by (simp add: calc_EC2_VPCEndpoint_def Let_def bindE_def HOURS_PER_MONTH_def detailsTotal_def hourlyConsistent_def algebra_simps
      split: sum.splits if_splits prod.splits option.splits)

lemma calc_EC2_VPCEndpoint_sound: "soundCalculator ''AWS::EC2::VPCEndpoint'' calc_EC2_VPCEndpoint"
  unfolding soundCalculator_def
proof (intro allI impI)
  fix rt logicalId resource template table rc
  assume "calc_EC2_VPCEndpoint rt logicalId resource template table = Inr (Some rc)"
  then show "ResourceCost.resourceId rc = logicalId
          \<and> ((''AWS::EC2::VPCEndpoint'' = ''AWS::WAFv2::WebACL'' \<longrightarrow> rulesIsArray resource) \<longrightarrow>
                ResourceCost.monthlyCost rc = detailsTotal rc)
          \<and> (''AWS::EC2::VPCEndpoint'' \<notin> set dataProcessingTypes \<longrightarrow> hourlyConsistent rc)"
    using calc_EC2_VPCEndpoint_cost [where rt = rt and logicalId = logicalId and resource = resource
        and template = template and table = table]
    by (simp add: dataProcessingTypes_def)
qed

lemma calc_EC2_Snapshot_cost:
  "(case calc_EC2_Snapshot rt logicalId resource template table of
      Inr (Some rc) \<Rightarrow> ResourceCost.resourceId rc = logicalId
        \<and> ResourceCost.monthlyCost rc = detailsTotal rc
        \<and> hourlyConsistent rc
    | _ \<Rightarrow> True)"
  by (simp add: calc_EC2_Snapshot_def Let_def bindE_def HOURS_PER_MONTH_def detailsTotal_def hourlyConsistent_def algebra_simps
      split: sum.splits if_splits prod.splits option.splits)

lemma calc_EC2_Snapshot_sound: "soundCalculator ''AWS::EC2::Snapshot'' calc_EC2_Snapshot"
  unfolding soundCalculator_def
proof (intro allI impI)
  fix rt logicalId resource template table rc
  assume "calc_EC2_Snapshot rt logicalId resource template table = Inr (Some rc)"
  then show "ResourceCost.resourceId rc = logicalId
          \<and> ((''AWS::EC2::Snapshot'' = ''AWS::WAFv2::WebACL'' \<longrightarrow> rulesIsArray resource) \<longrightarrow>
                ResourceCost.monthlyCost rc = detailsTotal rc)
          \<and> (''AWS::EC2::Snapshot'' \<notin> set dataProcessingTypes \<longrightarrow> hourlyConsistent rc)"
    using calc_EC2_Snapshot_cost [where rt = rt and logicalId = logicalId and resource = resource
        and template = template and table = table]
    by (simp add: dataProcessingTypes_def)
qed

lemma calc_Neptune_DBCluster_cost:
  "(case calc_Neptune_DBCluster rt logicalId resource template table of
      Inr (Some rc) \<Rightarrow> ResourceCost.resourceId rc = logicalId
        \<and> ResourceCost.monthlyCost rc = detailsTotal rc
        \<and> hourlyConsistent rc
    | _ \<Rightarrow> True)"
  by (simp add: calc_Neptune_DBCluster_def Let_def bindE_def HOURS_PER_MONTH_def detailsTotal_def hourlyConsistent_def algebra_simps
      split: sum.splits if_splits prod.splits option.splits)

lemma calc_Neptune_DBCluster_sound: "soundCalculator ''AWS::Neptune::DBCluster'' calc_Neptune_DBCluster"
  unfolding soundCalculator_def
proof (intro allI impI)
  fix rt logicalId resource template table rc
  assume "calc_Neptune_DBCluster rt logicalId resource template table = Inr (Some rc)"
  then show "ResourceCost.resourceId rc = logicalId
          \<and> ((''AWS::Neptune::DBCluster'' = ''AWS::WAFv2::WebACL'' \<longrightarrow> rulesIsArray resource) \<longrightarrow>
                ResourceCost.monthlyCost rc = detailsTotal rc)
          \<and> (''AWS::Neptune::DBCluster'' \<notin> set dataProcessingTypes \<longrightarrow> hourlyConsistent rc)"
    using calc_Neptune_DBCluster_cost [where rt = rt and logicalId = logicalId and resource = resource
        and template = template and table = table]
    by (simp add: dataProcessingTypes_def)
qed

lemma calc_Neptune_DBInstance_cost:
  "(case calc_Neptune_DBInstance rt logicalId resource template table of
      Inr (Some rc) \<Rightarrow> ResourceCost.resourceId rc = logicalId
        \<and> ResourceCost.monthlyCost rc = detailsTotal rc
        \<and> hourlyConsistent rc
    | _ \<Rightarrow> True)"
  by (simp add: calc_Neptune_DBInstance_def Let_def bindE_def HOURS_PER_MONTH_def detailsTotal_def hourlyConsistent_def algebra_simps
      split: sum.splits if_splits prod.splits option.splits)

lemma calc_Neptune_DBInstance_sound: "soundCalculator ''AWS::Neptune::DBInstance'' calc_Neptune_DBInstance"
  unfolding soundCalculator_def
proof (intro allI impI)
  fix rt logicalId resource template table rc
  assume "calc_Neptune_DBInstance rt logicalId resource template table = Inr (Some rc)"
  then show "ResourceCost.resourceId rc = logicalId
          \<and> ((''AWS::Neptune::DBInstance'' = ''AWS::WAFv2::WebACL'' \<longrightarrow> rulesIsArray resource) \<longrightarrow>
                ResourceCost.monthlyCost rc = detailsTotal rc)
          \<and> (''AWS::Neptune::DBInstance'' \<notin> set dataProcessingTypes \<longrightarrow> hourlyConsistent rc)"
    using calc_Neptune_DBInstance_cost [where rt = rt and logicalId = logicalId and resource = resource
        and template = template and table = table]
    by (simp add: dataProcessingTypes_def)
qed

lemma calc_DocDB_DBCluster_cost:
  "(case calc_DocDB_DBCluster rt logicalId resource template table of
      Inr (Some rc) \<Rightarrow> ResourceCost.resourceId rc = logicalId
        \<and> ResourceCost.monthlyCost rc = detailsTotal rc
        \<and> hourlyConsistent rc
    | _ \<Rightarrow> True)"
  by (simp add: calc_DocDB_DBCluster_def Let_def bindE_def HOURS_PER_MONTH_def detailsTotal_def hourlyConsistent_def algebra_simps
      split: sum.splits if_splits prod.splits option.splits)

lemma calc_DocDB_DBCluster_sound: "soundCalculator ''AWS::DocDB::DBCluster'' calc_DocDB_DBCluster"
  unfolding soundCalculator_def
proof (intro allI impI)
  fix rt logicalId resource template table rc
  assume "calc_DocDB_DBCluster rt logicalId resource template table = Inr (Some rc)"
  then show "ResourceCost.resourceId rc = logicalId
          \<and> ((''AWS::DocDB::DBCluster'' = ''AWS::WAFv2::WebACL'' \<longrightarrow> rulesIsArray resource) \<longrightarrow>
                ResourceCost.monthlyCost rc = detailsTotal rc)
          \<and> (''AWS::DocDB::DBCluster'' \<notin> set dataProcessingTypes \<longrightarrow> hourlyConsistent rc)"
    using calc_DocDB_DBCluster_cost [where rt = rt and logicalId = logicalId and resource = resource
        and template = template and table = table]
    by (simp add: dataProcessingTypes_def)
qed

lemma calc_DocDB_DBInstance_cost:
  "(case calc_DocDB_DBInstance rt logicalId resource template table of
      Inr (Some rc) \<Rightarrow> ResourceCost.resourceId rc = logicalId
        \<and> ResourceCost.monthlyCost rc = detailsTotal rc
        \<and> hourlyConsistent rc
    | _ \<Rightarrow> True)"
  by (simp add: calc_DocDB_DBInstance_def Let_def bindE_def HOURS_PER_MONTH_def detailsTotal_def hourlyConsistent_def algebra_simps
      split: sum.splits if_splits prod.splits option.splits)

lemma calc_DocDB_DBInstance_sound: "soundCalculator ''AWS::DocDB::DBInstance'' calc_DocDB_DBInstance"
  unfolding soundCalculator_def
proof (intro allI impI)
  fix rt logicalId resource template table rc
  assume "calc_DocDB_DBInstance rt logicalId resource template table = Inr (Some rc)"
  then show "ResourceCost.resourceId rc = logicalId
          \<and> ((''AWS::DocDB::DBInstance'' = ''AWS::WAFv2::WebACL'' \<longrightarrow> rulesIsArray resource) \<longrightarrow>
                ResourceCost.monthlyCost rc = detailsTotal rc)
          \<and> (''AWS::DocDB::DBInstance'' \<notin> set dataProcessingTypes \<longrightarrow> hourlyConsistent rc)"
    using calc_DocDB_DBInstance_cost [where rt = rt and logicalId = logicalId and resource = resource
        and template = template and table = table]
    by (simp add: dataProcessingTypes_def)
qed

lemma calc_Redshift_Cluster_cost:
  "(case calc_Redshift_Cluster rt logicalId resource template table of
      Inr (Some rc) \<Rightarrow> ResourceCost.resourceId rc = logicalId
        \<and> ResourceCost.monthlyCost rc = detailsTotal rc
        \<and> hourlyConsistent rc
    | _ \<Rightarrow> True)"
  by (simp add: calc_Redshift_Cluster_def Let_def bindE_def HOURS_PER_MONTH_def detailsTotal_def hourlyConsistent_def algebra_simps
      split: sum.splits if_splits prod.splits option.splits)

lemma calc_Redshift_Cluster_sound: "soundCalculator ''AWS::Redshift::Cluster'' calc_Redshift_Cluster"
  unfolding soundCalculator_def
proof (intro allI impI)
  fix rt logicalId resource template table rc
  assume "calc_Redshift_Cluster rt logicalId resource template table = Inr (Some rc)"
  then show "ResourceCost.resourceId rc = logicalId
          \<and> ((''AWS::Redshift::Cluster'' = ''AWS::WAFv2::WebACL'' \<longrightarrow> rulesIsArray resource) \<longrightarrow>
                ResourceCost.monthlyCost rc = detailsTotal rc)
          \<and> (''AWS::Redshift::Cluster'' \<notin> set dataProcessingTypes \<longrightarrow> hourlyConsistent rc)"
    using calc_Redshift_Cluster_cost [where rt = rt and logicalId = logicalId and resource = resource
        and template = template and table = table]
    by (simp add: dataProcessingTypes_def)
qed

lemma calc_EC2_VPNConnection_cost:
  "(case calc_EC2_VPNConnection rt logicalId resource template table of
      Inr (Some rc) \<Rightarrow> ResourceCost.resourceId rc = logicalId
        \<and> ResourceCost.monthlyCost rc = detailsTotal rc
        \<and> hourlyConsistent rc
    | _ \<Rightarrow> True)"
  by (simp add: calc_EC2_VPNConnection_def Let_def bindE_def HOURS_PER_MONTH_def detailsTotal_def hourlyConsistent_def algebra_simps
      split: sum.splits if_splits prod.splits option.splits)

lemma calc_EC2_VPNConnection_sound: "soundCalculator ''AWS::EC2::VPNConnection'' calc_EC2_VPNConnection"
  unfolding soundCalculator_def
proof (intro allI impI)
  fix rt logicalId resource template table rc
  assume "calc_EC2_VPNConnection rt logicalId resource template table = Inr (Some rc)"
  then show "ResourceCost.resourceId rc = logicalId
          \<and> ((''AWS::EC2::VPNConnection'' = ''AWS::WAFv2::WebACL'' \<longrightarrow> rulesIsArray resource) \<longrightarrow>
                ResourceCost.monthlyCost rc = detailsTotal rc)
          \<and> (''AWS::EC2::VPNConnection'' \<notin> set dataProcessingTypes \<longrightarrow> hourlyConsistent rc)"
    using calc_EC2_VPNConnection_cost [where rt = rt and logicalId = logicalId and resource = resource
        and template = template and table = table]
    by (simp add: dataProcessingTypes_def)
qed

lemma calc_EC2_TransitGateway_cost:
  "(case calc_EC2_TransitGateway rt logicalId resource template table of
      Inr (Some rc) \<Rightarrow> ResourceCost.resourceId rc = logicalId
        \<and> ResourceCost.monthlyCost rc = detailsTotal rc
        \<and> hourlyConsistent rc
    | _ \<Rightarrow> True)"
  by (simp add: calc_EC2_TransitGateway_def Let_def bindE_def HOURS_PER_MONTH_def detailsTotal_def hourlyConsistent_def algebra_simps
      split: sum.splits if_splits prod.splits option.splits)

lemma calc_EC2_TransitGateway_sound: "soundCalculator ''AWS::EC2::TransitGateway'' calc_EC2_TransitGateway"
  unfolding soundCalculator_def
proof (intro allI impI)
  fix rt logicalId resource template table rc
  assume "calc_EC2_TransitGateway rt logicalId resource template table = Inr (Some rc)"
  then show "ResourceCost.resourceId rc = logicalId
          \<and> ((''AWS::EC2::TransitGateway'' = ''AWS::WAFv2::WebACL'' \<longrightarrow> rulesIsArray resource) \<longrightarrow>
                ResourceCost.monthlyCost rc = detailsTotal rc)
          \<and> (''AWS::EC2::TransitGateway'' \<notin> set dataProcessingTypes \<longrightarrow> hourlyConsistent rc)"
    using calc_EC2_TransitGateway_cost [where rt = rt and logicalId = logicalId and resource = resource
        and template = template and table = table]
    by (simp add: dataProcessingTypes_def)
qed

lemma calc_EC2_TransitGatewayAttachment_cost:
  "(case calc_EC2_TransitGatewayAttachment rt logicalId resource template table of
      Inr (Some rc) \<Rightarrow> ResourceCost.resourceId rc = logicalId
        \<and> ResourceCost.monthlyCost rc = detailsTotal rc
    | _ \<Rightarrow> True)"
  by (simp add: calc_EC2_TransitGatewayAttachment_def Let_def bindE_def HOURS_PER_MONTH_def detailsTotal_def hourlyConsistent_def algebra_simps
      split: sum.splits if_splits prod.splits option.splits)

lemma calc_EC2_TransitGatewayAttachment_sound: "soundCalculator ''AWS::EC2::TransitGatewayAttachment'' calc_EC2_TransitGatewayAttachment"
  unfolding soundCalculator_def
proof (intro allI impI)
  fix rt logicalId resource template table rc
  assume "calc_EC2_TransitGatewayAttachment rt logicalId resource template table = Inr (Some rc)"
  then show "ResourceCost.resourceId rc = logicalId
          \<and> ((''AWS::EC2::TransitGatewayAttachment'' = ''AWS::WAFv2::WebACL'' \<longrightarrow> rulesIsArray resource) \<longrightarrow>
                ResourceCost.monthlyCost rc = detailsTotal rc)
          \<and> (''AWS::EC2::TransitGatewayAttachment'' \<notin> set dataProcessingTypes \<longrightarrow> hourlyConsistent rc)"
    using calc_EC2_TransitGatewayAttachment_cost [where rt = rt and logicalId = logicalId and resource = resource
        and template = template and table = table]
    by (simp add: dataProcessingTypes_def)
qed

lemma calc_DirectConnect_Connection_cost:
  "(case calc_DirectConnect_Connection rt logicalId resource template table of
      Inr (Some rc) \<Rightarrow> ResourceCost.resourceId rc = logicalId
        \<and> ResourceCost.monthlyCost rc = detailsTotal rc
        \<and> hourlyConsistent rc
    | _ \<Rightarrow> True)"
  by (simp add: calc_DirectConnect_Connection_def Let_def bindE_def HOURS_PER_MONTH_def detailsTotal_def hourlyConsistent_def algebra_simps
      split: sum.splits if_splits prod.splits option.splits)

lemma calc_DirectConnect_Connection_sound: "soundCalculator ''AWS::DirectConnect::Connection'' calc_DirectConnect_Connection"
  unfolding soundCalculator_def
proof (intro allI impI)
  fix rt logicalId resource template table rc
  assume "calc_DirectConnect_Connection rt logicalId resource template table = Inr (Some rc)"
  then show "ResourceCost.resourceId rc = logicalId
          \<and> ((''AWS::DirectConnect::Connection'' = ''AWS::WAFv2::WebACL'' \<longrightarrow> rulesIsArray resource) \<longrightarrow>
                ResourceCost.monthlyCost rc = detailsTotal rc)
          \<and> (''AWS::DirectConnect::Connection'' \<notin> set dataProcessingTypes \<longrightarrow> hourlyConsistent rc)"
    using calc_DirectConnect_Connection_cost [where rt = rt and logicalId = logicalId and resource = resource
        and template = template and table = table]
    by (simp add: dataProcessingTypes_def)
qed

lemma calc_GlobalAccelerator_Accelerator_cost:
  "(case calc_GlobalAccelerator_Accelerator rt logicalId resource template table of
      Inr (Some rc) \<Rightarrow> ResourceCost.resourceId rc = logicalId
        \<and> ResourceCost.monthlyCost rc = detailsTotal rc
        \<and> hourlyConsistent rc
    | _ \<Rightarrow> True)"
  by (simp add: calc_GlobalAccelerator_Accelerator_def Let_def bindE_def HOURS_PER_MONTH_def detailsTotal_def hourlyConsistent_def algebra_simps
      split: sum.splits if_splits prod.splits option.splits)

lemma calc_GlobalAccelerator_Accelerator_sound: "soundCalculator ''AWS::GlobalAccelerator::Accelerator'' calc_GlobalAccelerator_Accelerator"
  unfolding soundCalculator_def
proof (intro allI impI)
  fix rt logicalId resource template table rc
  assume "calc_GlobalAccelerator_Accelerator rt logicalId resource template table = Inr (Some rc)"
  then show "ResourceCost.resourceId rc = logicalId
          \<and> ((''AWS::GlobalAccelerator::Accelerator'' = ''AWS::WAFv2::WebACL'' \<longrightarrow> rulesIsArray resource) \<longrightarrow>
                ResourceCost.monthlyCost rc = detailsTotal rc)
          \<and> (''AWS::GlobalAccelerator::Accelerator'' \<notin> set dataProcessingTypes \<longrightarrow> hourlyConsistent rc)"
    using calc_GlobalAccelerator_Accelerator_cost [where rt = rt and logicalId = logicalId and resource = resource
        and template = template and table = table]
    by (simp add: dataProcessingTypes_def)
qed

lemma calc_AmazonMQ_Broker_cost:
  "(case calc_AmazonMQ_Broker rt logicalId resource template table of
      Inr (Some rc) \<Rightarrow> ResourceCost.resourceId rc = logicalId
        \<and> ResourceCost.monthlyCost rc = detailsTotal rc
        \<and> hourlyConsistent rc
    | _ \<Rightarrow> True)"
  by (simp add: calc_AmazonMQ_Broker_def Let_def bindE_def HOURS_PER_MONTH_def detailsTotal_def hourlyConsistent_def algebra_simps
      split: sum.splits if_splits prod.splits option.splits)

lemma calc_AmazonMQ_Broker_sound: "soundCalculator ''AWS::AmazonMQ::Broker'' calc_AmazonMQ_Broker"
  unfolding soundCalculator_def
proof (intro allI impI)
  fix rt logicalId resource template table rc
  assume "calc_AmazonMQ_Broker rt logicalId resource template table = Inr (Some rc)"
  then show "ResourceCost.resourceId rc = logicalId
          \<and> ((''AWS::AmazonMQ::Broker'' = ''AWS::WAFv2::WebACL'' \<longrightarrow> rulesIsArray resource) \<longrightarrow>
                ResourceCost.monthlyCost rc = detailsTotal rc)
          \<and> (''AWS::AmazonMQ::Broker'' \<notin> set dataProcessingTypes \<longrightarrow> hourlyConsistent rc)"
    using calc_AmazonMQ_Broker_cost [where rt = rt and logicalId = logicalId and resource = resource
        and template = template and table = table]
    by (simp add: dataProcessingTypes_def)
qed

lemma calc_MSK_Cluster_cost:
  "(case calc_MSK_Cluster rt logicalId resource template table of
      Inr (Some rc) \<Rightarrow> ResourceCost.resourceId rc = logicalId
        \<and> ResourceCost.monthlyCost rc = detailsTotal rc
        \<and> hourlyConsistent rc
    | _ \<Rightarrow> True)"
  by (simp add: calc_MSK_Cluster_def Let_def bindE_def HOURS_PER_MONTH_def detailsTotal_def hourlyConsistent_def algebra_simps
      split: sum.splits if_splits prod.splits option.splits)

lemma calc_MSK_Cluster_sound: "soundCalculator ''AWS::MSK::Cluster'' calc_MSK_Cluster"
  unfolding soundCalculator_def
proof (intro allI impI)
  fix rt logicalId resource template table rc
  assume "calc_MSK_Cluster rt logicalId resource template table = Inr (Some rc)"
  then show "ResourceCost.resourceId rc = logicalId
          \<and> ((''AWS::MSK::Cluster'' = ''AWS::WAFv2::WebACL'' \<longrightarrow> rulesIsArray resource) \<longrightarrow>
                ResourceCost.monthlyCost rc = detailsTotal rc)
          \<and> (''AWS::MSK::Cluster'' \<notin> set dataProcessingTypes \<longrightarrow> hourlyConsistent rc)"
    using calc_MSK_Cluster_cost [where rt = rt and logicalId = logicalId and resource = resource
        and template = template and table = table]
    by (simp add: dataProcessingTypes_def)
qed

lemma calc_Kinesis_Stream_cost:
  "(case calc_Kinesis_Stream rt logicalId resource template table of
      Inr (Some rc) \<Rightarrow> ResourceCost.resourceId rc = logicalId
        \<and> ResourceCost.monthlyCost rc = detailsTotal rc
        \<and> hourlyConsistent rc
    | _ \<Rightarrow> True)"
  by (simp add: calc_Kinesis_Stream_def Let_def bindE_def HOURS_PER_MONTH_def detailsTotal_def hourlyConsistent_def algebra_simps
      split: sum.splits if_splits prod.splits option.splits)

lemma calc_Kinesis_Stream_sound: "soundCalculator ''AWS::Kinesis::Stream'' calc_Kinesis_Stream"
  unfolding soundCalculator_def
proof (intro allI impI)
  fix rt logicalId resource template table rc
  assume "calc_Kinesis_Stream rt logicalId resource template table = Inr (Some rc)"
  then show "ResourceCost.resourceId rc = logicalId
          \<and> ((''AWS::Kinesis::Stream'' = ''AWS::WAFv2::WebACL'' \<longrightarrow> rulesIsArray resource) \<longrightarrow>
                ResourceCost.monthlyCost rc = detailsTotal rc)
          \<and> (''AWS::Kinesis::Stream'' \<notin> set dataProcessingTypes \<longrightarrow> hourlyConsistent rc)"
    using calc_Kinesis_Stream_cost [where rt = rt and logicalId = logicalId and resource = resource
        and template = template and table = table]
    by (simp add: dataProcessingTypes_def)
qed

lemma calc_KinesisFirehose_DeliveryStream_cost:
  "(case calc_KinesisFirehose_DeliveryStream rt logicalId resource template table of
      Inr (Some rc) \<Rightarrow> ResourceCost.resourceId rc = logicalId
        \<and> ResourceCost.monthlyCost rc = detailsTotal rc
        \<and> hourlyConsistent rc
    | _ \<Rightarrow> True)"
  by (simp add: calc_KinesisFirehose_DeliveryStream_def Let_def bindE_def HOURS_PER_MONTH_def detailsTotal_def hourlyConsistent_def algebra_simps
      split: sum.splits if_splits prod.splits option.splits)

lemma calc_KinesisFirehose_DeliveryStream_sound: "soundCalculator ''AWS::KinesisFirehose::DeliveryStream'' calc_KinesisFirehose_DeliveryStream"
  unfolding soundCalculator_def
proof (intro allI impI)
  fix rt logicalId resource template table rc
  assume "calc_KinesisFirehose_DeliveryStream rt logicalId resource template table = Inr (Some rc)"
  then show "ResourceCost.resourceId rc = logicalId
          \<and> ((''AWS::KinesisFirehose::DeliveryStream'' = ''AWS::WAFv2::WebACL'' \<longrightarrow> rulesIsArray resource) \<longrightarrow>
                ResourceCost.monthlyCost rc = detailsTotal rc)
          \<and> (''AWS::KinesisFirehose::DeliveryStream'' \<notin> set dataProcessingTypes \<longrightarrow> hourlyConsistent rc)"
    using calc_KinesisFirehose_DeliveryStream_cost [where rt = rt and logicalId = logicalId and resource = resource
        and template = template and table = table]
    by (simp add: dataProcessingTypes_def)
qed

lemma calc_EFS_FileSystem_cost:
  "(case calc_EFS_FileSystem rt logicalId resource template table of
      Inr (Some rc) \<Rightarrow> ResourceCost.resourceId rc = logicalId
        \<and> ResourceCost.monthlyCost rc = detailsTotal rc
        \<and> hourlyConsistent rc
    | _ \<Rightarrow> True)"
  by (simp add: calc_EFS_FileSystem_def Let_def bindE_def HOURS_PER_MONTH_def detailsTotal_def hourlyConsistent_def algebra_simps
      split: sum.splits if_splits prod.splits option.splits)

lemma calc_EFS_FileSystem_sound: "soundCalculator ''AWS::EFS::FileSystem'' calc_EFS_FileSystem"
  unfolding soundCalculator_def
proof (intro allI impI)
  fix rt logicalId resource template table rc
  assume "calc_EFS_FileSystem rt logicalId resource template table = Inr (Some rc)"
  then show "ResourceCost.resourceId rc = logicalId
          \<and> ((''AWS::EFS::FileSystem'' = ''AWS::WAFv2::WebACL'' \<longrightarrow> rulesIsArray resource) \<longrightarrow>
                ResourceCost.monthlyCost rc = detailsTotal rc)
          \<and> (''AWS::EFS::FileSystem'' \<notin> set dataProcessingTypes \<longrightarrow> hourlyConsistent rc)"
    using calc_EFS_FileSystem_cost [where rt = rt and logicalId = logicalId and resource = resource
        and template = template and table = table]
    by (simp add: dataProcessingTypes_def)
qed

lemma calc_FSx_FileSystem_cost:
  "(case calc_FSx_FileSystem rt logicalId resource template table of
      Inr (Some rc) \<Rightarrow> ResourceCost.resourceId rc = logicalId
        \<and> ResourceCost.monthlyCost rc = detailsTotal rc
        \<and> hourlyConsistent rc
    | _ \<Rightarrow> True)"
  by (simp add: calc_FSx_FileSystem_def Let_def bindE_def HOURS_PER_MONTH_def detailsTotal_def hourlyConsistent_def algebra_simps
      split: sum.splits if_splits prod.splits option.splits)

lemma calc_FSx_FileSystem_sound: "soundCalculator ''AWS::FSx::FileSystem'' calc_FSx_FileSystem"
  unfolding soundCalculator_def
proof (intro allI impI)
  fix rt logicalId resource template table rc
  assume "calc_FSx_FileSystem rt logicalId resource template table = Inr (Some rc)"
  then show "ResourceCost.resourceId rc = logicalId
          \<and> ((''AWS::FSx::FileSystem'' = ''AWS::WAFv2::WebACL'' \<longrightarrow> rulesIsArray resource) \<longrightarrow>
                ResourceCost.monthlyCost rc = detailsTotal rc)
          \<and> (''AWS::FSx::FileSystem'' \<notin> set dataProcessingTypes \<longrightarrow> hourlyConsistent rc)"
    using calc_FSx_FileSystem_cost [where rt = rt and logicalId = logicalId and resource = resource
        and template = template and table = table]
    by (simp add: dataProcessingTypes_def)
qed

lemma calc_Backup_BackupVault_cost:
  "(case calc_Backup_BackupVault rt logicalId resource template table of
      Inr (Some rc) \<Rightarrow> ResourceCost.resourceId rc = logicalId
        \<and> ResourceCost.monthlyCost rc = detailsTotal rc
        \<and> hourlyConsistent rc
    | _ \<Rightarrow> True)"
  by (simp add: calc_Backup_BackupVault_def Let_def bindE_def HOURS_PER_MONTH_def detailsTotal_def hourlyConsistent_def algebra_simps
      split: sum.splits if_splits prod.splits option.splits)

lemma calc_Backup_BackupVault_sound: "soundCalculator ''AWS::Backup::BackupVault'' calc_Backup_BackupVault"
  unfolding soundCalculator_def
proof (intro allI impI)
  fix rt logicalId resource template table rc
  assume "calc_Backup_BackupVault rt logicalId resource template table = Inr (Some rc)"
  then show "ResourceCost.resourceId rc = logicalId
          \<and> ((''AWS::Backup::BackupVault'' = ''AWS::WAFv2::WebACL'' \<longrightarrow> rulesIsArray resource) \<longrightarrow>
                ResourceCost.monthlyCost rc = detailsTotal rc)
          \<and> (''AWS::Backup::BackupVault'' \<notin> set dataProcessingTypes \<longrightarrow> hourlyConsistent rc)"
    using calc_Backup_BackupVault_cost [where rt = rt and logicalId = logicalId and resource = resource
        and template = template and table = table]
    by (simp add: dataProcessingTypes_def)
qed

lemma calc_CloudFront_Distribution_cost:
  "(case calc_CloudFront_Distribution rt logicalId resource template table of
      Inr (Some rc) \<Rightarrow> ResourceCost.resourceId rc = logicalId
        \<and> ResourceCost.monthlyCost rc = detailsTotal rc
        \<and> hourlyConsistent rc
    | _ \<Rightarrow> True)"
  by (simp add: calc_CloudFront_Distribution_def Let_def bindE_def HOURS_PER_MONTH_def detailsTotal_def hourlyConsistent_def algebra_simps
      split: sum.splits if_splits prod.splits option.splits)

lemma calc_CloudFront_Distribution_sound: "soundCalculator ''AWS::CloudFront::Distribution'' calc_CloudFront_Distribution"
  unfolding soundCalculator_def
proof (intro allI impI)
  fix rt logicalId resource template table rc
  assume "calc_CloudFront_Distribution rt logicalId resource template table = Inr (Some rc)"
  then show "ResourceCost.resourceId rc = logicalId
          \<and> ((''AWS::CloudFront::Distribution'' = ''AWS::WAFv2::WebACL'' \<longrightarrow> rulesIsArray resource) \<longrightarrow>
                ResourceCost.monthlyCost rc = detailsTotal rc)
          \<and> (''AWS::CloudFront::Distribution'' \<notin> set dataProcessingTypes \<longrightarrow> hourlyConsistent rc)"
    using calc_CloudFront_Distribution_cost [where rt = rt and logicalId = logicalId and resource = resource
        and template = template and table = table]
    by (simp add: dataProcessingTypes_def)
qed

lemma calc_ACMPCA_CertificateAuthority_cost:
  "(case calc_ACMPCA_CertificateAuthority rt logicalId resource template table of
      Inr (Some rc) \<Rightarrow> ResourceCost.resourceId rc = logicalId
        \<and> ResourceCost.monthlyCost rc = detailsTotal rc
        \<and> hourlyConsistent rc
    | _ \<Rightarrow> True)"
  by (simp add: calc_ACMPCA_CertificateAuthority_def Let_def bindE_def HOURS_PER_MONTH_def detailsTotal_def hourlyConsistent_def algebra_simps
      split: sum.splits if_splits prod.splits option.splits)

lemma calc_ACMPCA_CertificateAuthority_sound: "soundCalculator ''AWS::ACMPCA::CertificateAuthority'' calc_ACMPCA_CertificateAuthority"
  unfolding soundCalculator_def
proof (intro allI impI)
  fix rt logicalId resource template table rc
  assume "calc_ACMPCA_CertificateAuthority rt logicalId resource template table = Inr (Some rc)"
  then show "ResourceCost.resourceId rc = logicalId
          \<and> ((''AWS::ACMPCA::CertificateAuthority'' = ''AWS::WAFv2::WebACL'' \<longrightarrow> rulesIsArray resource) \<longrightarrow>
                ResourceCost.monthlyCost rc = detailsTotal rc)
          \<and> (''AWS::ACMPCA::CertificateAuthority'' \<notin> set dataProcessingTypes \<longrightarrow> hourlyConsistent rc)"
    using calc_ACMPCA_CertificateAuthority_cost [where rt = rt and logicalId = logicalId and resource = resource
        and template = template and table = table]
    by (simp add: dataProcessingTypes_def)
qed

lemma calc_Config_ConfigRule_cost:
  "(case calc_Config_ConfigRule rt logicalId resource template table of
      Inr (Some rc) \<Rightarrow> ResourceCost.resourceId rc = logicalId
        \<and> ResourceCost.monthlyCost rc = detailsTotal rc
        \<and> hourlyConsistent rc
    | _ \<Rightarrow> True)"
  by (simp add: calc_Config_ConfigRule_def Let_def bindE_def HOURS_PER_MONTH_def detailsTotal_def hourlyConsistent_def algebra_simps
      split: sum.splits if_splits prod.splits option.splits)

lemma calc_Config_ConfigRule_sound: "soundCalculator ''AWS::Config::ConfigRule'' calc_Config_ConfigRule"
  unfolding soundCalculator_def
proof (intro allI impI)
  fix rt logicalId resource template table rc
  assume "calc_Config_ConfigRule rt logicalId resource template table = Inr (Some rc)"
  then show "ResourceCost.resourceId rc = logicalId
          \<and> ((''AWS::Config::ConfigRule'' = ''AWS::WAFv2::WebACL'' \<longrightarrow> rulesIsArray resource) \<longrightarrow>
                ResourceCost.monthlyCost rc = detailsTotal rc)
          \<and> (''AWS::Config::ConfigRule'' \<notin> set dataProcessingTypes \<longrightarrow> hourlyConsistent rc)"
    using calc_Config_ConfigRule_cost [where rt = rt and logicalId = logicalId and resource = resource
        and template = template and table = table]
    by (simp add: dataProcessingTypes_def)
qed

lemma calc_CloudTrail_Trail_cost:
  "(case calc_CloudTrail_Trail rt logicalId resource template table of
      Inr (Some rc) \<Rightarrow> ResourceCost.resourceId rc = logicalId
        \<and> ResourceCost.monthlyCost rc = detailsTotal rc
        \<and> hourlyConsistent rc
    | _ \<Rightarrow> True)"
  by (simp add: calc_CloudTrail_Trail_def Let_def bindE_def HOURS_PER_MONTH_def detailsTotal_def hourlyConsistent_def algebra_simps
      split: sum.splits if_splits prod.splits option.splits)

lemma calc_CloudTrail_Trail_sound: "soundCalculator ''AWS::CloudTrail::Trail'' calc_CloudTrail_Trail"
  unfolding soundCalculator_def
proof (intro allI impI)
  fix rt logicalId resource template table rc
  assume "calc_CloudTrail_Trail rt logicalId resource template table = Inr (Some rc)"
  then show "ResourceCost.resourceId rc = logicalId
          \<and> ((''AWS::CloudTrail::Trail'' = ''AWS::WAFv2::WebACL'' \<longrightarrow> rulesIsArray resource) \<longrightarrow>
                ResourceCost.monthlyCost rc = detailsTotal rc)
          \<and> (''AWS::CloudTrail::Trail'' \<notin> set dataProcessingTypes \<longrightarrow> hourlyConsistent rc)"
    using calc_CloudTrail_Trail_cost [where rt = rt and logicalId = logicalId and resource = resource
        and template = template and table = table]
    by (simp add: dataProcessingTypes_def)
qed

lemma calc_CodeBuild_Project_cost:
  "(case calc_CodeBuild_Project rt logicalId resource template table of
      Inr (Some rc) \<Rightarrow> ResourceCost.resourceId rc = logicalId
        \<and> ResourceCost.monthlyCost rc = detailsTotal rc
        \<and> hourlyConsistent rc
    | _ \<Rightarrow> True)"
  by (simp add: calc_CodeBuild_Project_def Let_def bindE_def HOURS_PER_MONTH_def detailsTotal_def hourlyConsistent_def algebra_simps
      split: sum.splits if_splits prod.splits option.splits)

lemma calc_CodeBuild_Project_sound: "soundCalculator ''AWS::CodeBuild::Project'' calc_CodeBuild_Project"
  unfolding soundCalculator_def
proof (intro allI impI)
  fix rt logicalId resource template table rc
  assume "calc_CodeBuild_Project rt logicalId resource template table = Inr (Some rc)"
  then show "ResourceCost.resourceId rc = logicalId
          \<and> ((''AWS::CodeBuild::Project'' = ''AWS::WAFv2::WebACL'' \<longrightarrow> rulesIsArray resource) \<longrightarrow>
                ResourceCost.monthlyCost rc = detailsTotal rc)
          \<and> (''AWS::CodeBuild::Project'' \<notin> set dataProcessingTypes \<longrightarrow> hourlyConsistent rc)"
    using calc_CodeBuild_Project_cost [where rt = rt and logicalId = logicalId and resource = resource
        and template = template and table = table]
    by (simp add: dataProcessingTypes_def)
qed

lemma calc_Glue_Job_cost:
  "(case calc_Glue_Job rt logicalId resource template table of
      Inr (Some rc) \<Rightarrow> ResourceCost.resourceId rc = logicalId
        \<and> ResourceCost.monthlyCost rc = detailsTotal rc
        \<and> hourlyConsistent rc
    | _ \<Rightarrow> True)"
  by (simp add: calc_Glue_Job_def Let_def bindE_def HOURS_PER_MONTH_def detailsTotal_def hourlyConsistent_def algebra_simps
      split: sum.splits if_splits prod.splits option.splits)

lemma calc_Glue_Job_sound: "soundCalculator ''AWS::Glue::Job'' calc_Glue_Job"
  unfolding soundCalculator_def
proof (intro allI impI)
  fix rt logicalId resource template table rc
  assume "calc_Glue_Job rt logicalId resource template table = Inr (Some rc)"
  then show "ResourceCost.resourceId rc = logicalId
          \<and> ((''AWS::Glue::Job'' = ''AWS::WAFv2::WebACL'' \<longrightarrow> rulesIsArray resource) \<longrightarrow>
                ResourceCost.monthlyCost rc = detailsTotal rc)
          \<and> (''AWS::Glue::Job'' \<notin> set dataProcessingTypes \<longrightarrow> hourlyConsistent rc)"
    using calc_Glue_Job_cost [where rt = rt and logicalId = logicalId and resource = resource
        and template = template and table = table]
    by (simp add: dataProcessingTypes_def)
qed

lemma calc_Glue_Crawler_cost:
  "(case calc_Glue_Crawler rt logicalId resource template table of
      Inr (Some rc) \<Rightarrow> ResourceCost.resourceId rc = logicalId
        \<and> ResourceCost.monthlyCost rc = detailsTotal rc
        \<and> hourlyConsistent rc
    | _ \<Rightarrow> True)"
  by (simp add: calc_Glue_Crawler_def Let_def bindE_def HOURS_PER_MONTH_def detailsTotal_def hourlyConsistent_def algebra_simps
      split: sum.splits if_splits prod.splits option.splits)

lemma calc_Glue_Crawler_sound: "soundCalculator ''AWS::Glue::Crawler'' calc_Glue_Crawler"
  unfolding soundCalculator_def
proof (intro allI impI)
  fix rt logicalId resource template table rc
  assume "calc_Glue_Crawler rt logicalId resource template table = Inr (Some rc)"
  then show "ResourceCost.resourceId rc = logicalId
          \<and> ((''AWS::Glue::Crawler'' = ''AWS::WAFv2::WebACL'' \<longrightarrow> rulesIsArray resource) \<longrightarrow>
                ResourceCost.monthlyCost rc = detailsTotal rc)
          \<and> (''AWS::Glue::Crawler'' \<notin> set dataProcessingTypes \<longrightarrow> hourlyConsistent rc)"
    using calc_Glue_Crawler_cost [where rt = rt and logicalId = logicalId and resource = resource
        and template = template and table = table]
    by (simp add: dataProcessingTypes_def)
qed

lemma calc_WAFv2_WebACL_cost:
  "(case calc_WAFv2_WebACL rt logicalId resource template table of
      Inr (Some rc) \<Rightarrow> ResourceCost.resourceId rc = logicalId
        \<and> (0 \<le> toNumberJS rt (member (orValue (qdot (member resource ''Properties'') ''Rules'') (JArr [])) ''length'') \<longrightarrow>
             ResourceCost.monthlyCost rc = detailsTotal rc)
        \<and> hourlyConsistent rc
    | _ \<Rightarrow> True)"
  by (simp add: calc_WAFv2_WebACL_def Let_def bindE_def HOURS_PER_MONTH_def detailsTotal_def hourlyConsistent_def algebra_simps
      split: sum.splits if_splits prod.splits option.splits)

lemma calc_WAFv2_WebACL_sound: "soundCalculator ''AWS::WAFv2::WebACL'' calc_WAFv2_WebACL"
  unfolding soundCalculator_def
proof (intro allI impI)
  fix rt logicalId resource template table rc
  assume "calc_WAFv2_WebACL rt logicalId resource template table = Inr (Some rc)"
  then show "ResourceCost.resourceId rc = logicalId
          \<and> ((''AWS::WAFv2::WebACL'' = ''AWS::WAFv2::WebACL'' \<longrightarrow> rulesIsArray resource) \<longrightarrow>
                ResourceCost.monthlyCost rc = detailsTotal rc)
          \<and> (''AWS::WAFv2::WebACL'' \<notin> set dataProcessingTypes \<longrightarrow> hourlyConsistent rc)"
    using calc_WAFv2_WebACL_cost [where rt = rt and logicalId = logicalId and resource = resource
        and template = template and table = table] rulesIsArray_length [where resource = resource and rt = rt]
    by (simp add: dataProcessingTypes_def)
qed

lemma calc_WAF_WebACL_cost:
  "(case calc_WAF_WebACL rt logicalId resource template table of
      Inr (Some rc) \<Rightarrow> ResourceCost.resourceId rc = logicalId
        \<and> ResourceCost.monthlyCost rc = detailsTotal rc
        \<and> hourlyConsistent rc
    | _ \<Rightarrow> True)"
  by (simp add: calc_WAF_WebACL_def Let_def bindE_def HOURS_PER_MONTH_def detailsTotal_def hourlyConsistent_def algebra_simps
      split: sum.splits if_splits prod.splits option.splits)

lemma calc_WAF_WebACL_sound: "soundCalculator ''AWS::WAF::WebACL'' calc_WAF_WebACL"
  unfolding soundCalculator_def
proof (intro allI impI)
  fix rt logicalId resource template table rc
  assume "calc_WAF_WebACL rt logicalId resource template table = Inr (Some rc)"
  then show "ResourceCost.resourceId rc = logicalId
          \<and> ((''AWS::WAF::WebACL'' = ''AWS::WAFv2::WebACL'' \<longrightarrow> rulesIsArray resource) \<longrightarrow>
                ResourceCost.monthlyCost rc = detailsTotal rc)
          \<and> (''AWS::WAF::WebACL'' \<notin> set dataProcessingTypes \<longrightarrow> hourlyConsistent rc)"
    using calc_WAF_WebACL_cost [where rt = rt and logicalId = logicalId and resource = resource
        and template = template and table = table]
    by (simp add: dataProcessingTypes_def)
qed

lemma calc_OpenSearchService_Domain_cost:
  "(case calc_OpenSearchService_Domain rt logicalId resource template table of
      Inr (Some rc) \<Rightarrow> ResourceCost.resourceId rc = logicalId
        \<and> ResourceCost.monthlyCost rc = detailsTotal rc
        \<and> hourlyConsistent rc
    | _ \<Rightarrow> True)"
  by (simp add: calc_OpenSearchService_Domain_def Let_def bindE_def HOURS_PER_MONTH_def detailsTotal_def hourlyConsistent_def algebra_simps
      split: sum.splits if_splits prod.splits option.splits)

lemma calc_OpenSearchService_Domain_sound: "soundCalculator ''AWS::OpenSearchService::Domain'' calc_OpenSearchService_Domain"
  unfolding soundCalculator_def
proof (intro allI impI)
  fix rt logicalId resource template table rc
  assume "calc_OpenSearchService_Domain rt logicalId resource template table = Inr (Some rc)"
  then show "ResourceCost.resourceId rc = logicalId
          \<and> ((''AWS::OpenSearchService::Domain'' = ''AWS::WAFv2::WebACL'' \<longrightarrow> rulesIsArray resource) \<longrightarrow>
                ResourceCost.monthlyCost rc = detailsTotal rc)
          \<and> (''AWS::OpenSearchService::Domain'' \<notin> set dataProcessingTypes \<longrightarrow> hourlyConsistent rc)"
    using calc_OpenSearchService_Domain_cost [where rt = rt and logicalId = logicalId and resource = resource
        and template = template and table = table]
    by (simp add: dataProcessingTypes_def)
qed

lemma calc_Elasticsearch_Domain_cost:
  "(case calc_Elasticsearch_Domain rt logicalId resource template table of
      Inr (Some rc) \<Rightarrow> ResourceCost.resourceId rc = logicalId
        \<and> ResourceCost.monthlyCost rc = detailsTotal rc
        \<and> hourlyConsistent rc
    | _ \<Rightarrow> True)"
  by (simp add: calc_Elasticsearch_Domain_def Let_def bindE_def HOURS_PER_MONTH_def detailsTotal_def hourlyConsistent_def algebra_simps
      split: sum.splits if_splits prod.splits option.splits)

lemma calc_Elasticsearch_Domain_sound: "soundCalculator ''AWS::Elasticsearch::Domain'' calc_Elasticsearch_Domain"
  unfolding soundCalculator_def
proof (intro allI impI)
  fix rt logicalId resource template table rc
  assume "calc_Elasticsearch_Domain rt logicalId resource template table = Inr (Some rc)"
  then show "ResourceCost.resourceId rc = logicalId
          \<and> ((''AWS::Elasticsearch::Domain'' = ''AWS::WAFv2::WebACL'' \<longrightarrow> rulesIsArray resource) \<longrightarrow>
                ResourceCost.monthlyCost rc = detailsTotal rc)
          \<and> (''AWS::Elasticsearch::Domain'' \<notin> set dataProcessingTypes \<longrightarrow> hourlyConsistent rc)"
    using calc_Elasticsearch_Domain_cost [where rt = rt and logicalId = logicalId and resource = resource
        and template = template and table = table]
    by (simp add: dataProcessingTypes_def)
qed

lemma calc_Lightsail_Instance_cost:
  "(case calc_Lightsail_Instance rt logicalId resource template table of
      Inr (Some rc) \<Rightarrow> ResourceCost.resourceId rc = logicalId
        \<and> ResourceCost.monthlyCost rc = detailsTotal rc
        \<and> hourlyConsistent rc
    | _ \<Rightarrow> True)"
  by (simp add: calc_Lightsail_Instance_def Let_def bindE_def HOURS_PER_MONTH_def detailsTotal_def hourlyConsistent_def algebra_simps
      split: sum.splits if_splits prod.splits option.splits)

lemma calc_Lightsail_Instance_sound: "soundCalculator ''AWS::Lightsail::Instance'' calc_Lightsail_Instance"
  unfolding soundCalculator_def
proof (intro allI impI)
  fix rt logicalId resource template table rc
  assume "calc_Lightsail_Instance rt logicalId resource template table = Inr (Some rc)"
  then show "ResourceCost.resourceId rc = logicalId
          \<and> ((''AWS::Lightsail::Instance'' = ''AWS::WAFv2::WebACL'' \<longrightarrow> rulesIsArray resource) \<longrightarrow>
                ResourceCost.monthlyCost rc = detailsTotal rc)
          \<and> (''AWS::Lightsail::Instance'' \<notin> set dataProcessingTypes \<longrightarrow> hourlyConsistent rc)"
    using calc_Lightsail_Instance_cost [where rt = rt and logicalId = logicalId and resource = resource
        and template = template and table = table]
    by (simp add: dataProcessingTypes_def)
qed

lemma calc_DMS_ReplicationInstance_cost:
  "(case calc_DMS_ReplicationInstance rt logicalId resource template table of
      Inr (Some rc) \<Rightarrow> ResourceCost.resourceId rc = logicalId
        \<and> ResourceCost.monthlyCost rc = detailsTotal rc
        \<and> hourlyConsistent rc
    | _ \<Rightarrow> True)"
  by (simp add: calc_DMS_ReplicationInstance_def Let_def bindE_def HOURS_PER_MONTH_def detailsTotal_def hourlyConsistent_def algebra_simps
      split: sum.splits if_splits prod.splits option.splits)

lemma calc_DMS_ReplicationInstance_sound: "soundCalculator ''AWS::DMS::ReplicationInstance'' calc_DMS_ReplicationInstance"
  unfolding soundCalculator_def
proof (intro allI impI)
  fix rt logicalId resource template table rc
  assume "calc_DMS_ReplicationInstance rt logicalId resource template table = Inr (Some rc)"
  then show "ResourceCost.resourceId rc = logicalId
          \<and> ((''AWS::DMS::ReplicationInstance'' = ''AWS::WAFv2::WebACL'' \<longrightarrow> rulesIsArray resource) \<longrightarrow>
                ResourceCost.monthlyCost rc = detailsTotal rc)
          \<and> (''AWS::DMS::ReplicationInstance'' \<notin> set dataProcessingTypes \<longrightarrow> hourlyConsistent rc)"
    using calc_DMS_ReplicationInstance_cost [where rt = rt and logicalId = logicalId and resource = resource
        and template = template and table = table]
    by (simp add: dataProcessingTypes_def)
qed

lemma calc_Transfer_Server_cost:
  "(case calc_Transfer_Server rt logicalId resource template table of
      Inr (Some rc) \<Rightarrow> ResourceCost.resourceId rc = logicalId
        \<and> ResourceCost.monthlyCost rc = detailsTotal rc
        \<and> hourlyConsistent rc
    | _ \<Rightarrow> True)"
  by (simp add: calc_Transfer_Server_def Let_def bindE_def HOURS_PER_MONTH_def detailsTotal_def hourlyConsistent_def algebra_simps
      split: sum.splits if_splits prod.splits option.splits)

lemma calc_Transfer_Server_sound: "soundCalculator ''AWS::Transfer::Server'' calc_Transfer_Server"
  unfolding soundCalculator_def
proof (intro allI impI)
  fix rt logicalId resource template table rc
  assume "calc_Transfer_Server rt logicalId resource template table = Inr (Some rc)"
  then show "ResourceCost.resourceId rc = logicalId
          \<and> ((''AWS::Transfer::Server'' = ''AWS::WAFv2::WebACL'' \<longrightarrow> rulesIsArray resource) \<longrightarrow>
                ResourceCost.monthlyCost rc = detailsTotal rc)
          \<and> (''AWS::Transfer::Server'' \<notin> set dataProcessingTypes \<longrightarrow> hourlyConsistent rc)"
    using calc_Transfer_Server_cost [where rt = rt and logicalId = logicalId and resource = resource
        and template = template and table = table]
    by (simp add: dataProcessingTypes_def)
qed

lemma calc_CodePipeline_Pipeline_cost:
  "(case calc_CodePipeline_Pipeline rt logicalId resource template table of
      Inr (Some rc) \<Rightarrow> ResourceCost.resourceId rc = logicalId
        \<and> ResourceCost.monthlyCost rc = detailsTotal rc
        \<and> hourlyConsistent rc
    | _ \<Rightarrow> True)"
  by (simp add: calc_CodePipeline_Pipeline_def Let_def bindE_def HOURS_PER_MONTH_def detailsTotal_def hourlyConsistent_def algebra_simps
      split: sum.splits if_splits prod.splits option.splits)

lemma calc_CodePipeline_Pipeline_sound: "soundCalculator ''AWS::CodePipeline::Pipeline'' calc_CodePipeline_Pipeline"
  unfolding soundCalculator_def
proof (intro allI impI)
  fix rt logicalId resource template table rc
  assume "calc_CodePipeline_Pipeline rt logicalId resource template table = Inr (Some rc)"
  then show "ResourceCost.resourceId rc = logicalId
          \<and> ((''AWS::CodePipeline::Pipeline'' = ''AWS::WAFv2::WebACL'' \<longrightarrow> rulesIsArray resource) \<longrightarrow>
                ResourceCost.monthlyCost rc = detailsTotal rc)
          \<and> (''AWS::CodePipeline::Pipeline'' \<notin> set dataProcessingTypes \<longrightarrow> hourlyConsistent rc)"
    using calc_CodePipeline_Pipeline_cost [where rt = rt and logicalId = logicalId and resource = resource
        and template = template and table = table]
    by (simp add: dataProcessingTypes_def)
qed

lemma calc_NetworkFirewall_Firewall_cost:
  "(case calc_NetworkFirewall_Firewall rt logicalId resource template table of
      Inr (Some rc) \<Rightarrow> ResourceCost.resourceId rc = logicalId
        \<and> ResourceCost.monthlyCost rc = detailsTotal rc
    | _ \<Rightarrow> True)"
  by (simp add: calc_NetworkFirewall_Firewall_def Let_def bindE_def HOURS_PER_MONTH_def detailsTotal_def hourlyConsistent_def algebra_simps
      split: sum.splits if_splits prod.splits option.splits)

lemma calc_NetworkFirewall_Firewall_sound: "soundCalculator ''AWS::NetworkFirewall::Firewall'' calc_NetworkFirewall_Firewall"
  unfolding soundCalculator_def
proof (intro allI impI)
  fix rt logicalId resource template table rc
  assume "calc_NetworkFirewall_Firewall rt logicalId resource template table = Inr (Some rc)"
  then show "ResourceCost.resourceId rc = logicalId
          \<and> ((''AWS::NetworkFirewall::Firewall'' = ''AWS::WAFv2::WebACL'' \<longrightarrow> rulesIsArray resource) \<longrightarrow>
                ResourceCost.monthlyCost rc = detailsTotal rc)
          \<and> (''AWS::NetworkFirewall::Firewall'' \<notin> set dataProcessingTypes \<longrightarrow> hourlyConsistent rc)"
    using calc_NetworkFirewall_Firewall_cost [where rt = rt and logicalId = logicalId and resource = resource
        and template = template and table = table]
    by (simp add: dataProcessingTypes_def)
qed

lemma calc_Grafana_Workspace_cost:
  "(case calc_Grafana_Workspace rt logicalId resource template table of
      Inr (Some rc) \<Rightarrow> ResourceCost.resourceId rc = logicalId
        \<and> ResourceCost.monthlyCost rc = detailsTotal rc
        \<and> hourlyConsistent rc
    | _ \<Rightarrow> True)"
  by (simp add: calc_Grafana_Workspace_def Let_def bindE_def HOURS_PER_MONTH_def detailsTotal_def hourlyConsistent_def algebra_simps
      split: sum.splits if_splits prod.splits option.splits)

lemma calc_Grafana_Workspace_sound: "soundCalculator ''AWS::Grafana::Workspace'' calc_Grafana_Workspace"
  unfolding soundCalculator_def
proof (intro allI impI)
  fix rt logicalId resource template table rc
  assume "calc_Grafana_Workspace rt logicalId resource template table = Inr (Some rc)"
  then show "ResourceCost.resourceId rc = logicalId
          \<and> ((''AWS::Grafana::Workspace'' = ''AWS::WAFv2::WebACL'' \<longrightarrow> rulesIsArray resource) \<longrightarrow>
                ResourceCost.monthlyCost rc = detailsTotal rc)
          \<and> (''AWS::Grafana::Workspace'' \<notin> set dataProcessingTypes \<longrightarrow> hourlyConsistent rc)"
    using calc_Grafana_Workspace_cost [where rt = rt and logicalId = logicalId and resource = resource
        and template = template and table = table]
    by (simp add: dataProcessingTypes_def)
qed

lemma calc_SageMaker_NotebookInstance_cost:
  "(case calc_SageMaker_NotebookInstance rt logicalId resource template table of
      Inr (Some rc) \<Rightarrow> ResourceCost.resourceId rc = logicalId
        \<and> ResourceCost.monthlyCost rc = detailsTotal rc
        \<and> hourlyConsistent rc
    | _ \<Rightarrow> True)"
  by (simp add: calc_SageMaker_NotebookInstance_def Let_def bindE_def HOURS_PER_MONTH_def detailsTotal_def hourlyConsistent_def algebra_simps
      split: sum.splits if_splits prod.splits option.splits)

lemma calc_SageMaker_NotebookInstance_sound: "soundCalculator ''AWS::SageMaker::NotebookInstance'' calc_SageMaker_NotebookInstance"
  unfolding soundCalculator_def
proof (intro allI impI)
  fix rt logicalId resource template table rc
  assume "calc_SageMaker_NotebookInstance rt logicalId resource template table = Inr (Some rc)"
  then show "ResourceCost.resourceId rc = logicalId
          \<and> ((''AWS::SageMaker::NotebookInstance'' = ''AWS::WAFv2::WebACL'' \<longrightarrow> rulesIsArray resource) \<longrightarrow>
                ResourceCost.monthlyCost rc = detailsTotal rc)
          \<and> (''AWS::SageMaker::NotebookInstance'' \<notin> set dataProcessingTypes \<longrightarrow> hourlyConsistent rc)"
    using calc_SageMaker_NotebookInstance_cost [where rt = rt and logicalId = logicalId and resource = resource
        and template = template and table = table]
    by (simp add: dataProcessingTypes_def)
qed

lemma calc_DirectoryService_SimpleAD_cost:
  "(case calc_DirectoryService_SimpleAD rt logicalId resource template table of
      Inr (Some rc) \<Rightarrow> ResourceCost.resourceId rc = logicalId
        \<and> ResourceCost.monthlyCost rc = detailsTotal rc
        \<and> hourlyConsistent rc
    | _ \<Rightarrow> True)"
  by (simp add: calc_DirectoryService_SimpleAD_def Let_def bindE_def HOURS_PER_MONTH_def detailsTotal_def hourlyConsistent_def algebra_simps
      split: sum.splits if_splits prod.splits option.splits)

lemma calc_DirectoryService_SimpleAD_sound: "soundCalculator ''AWS::DirectoryService::SimpleAD'' calc_DirectoryService_SimpleAD"
  unfolding soundCalculator_def
proof (intro allI impI)
  fix rt logicalId resource template table rc
  assume "calc_DirectoryService_SimpleAD rt logicalId resource template table = Inr (Some rc)"
  then show "ResourceCost.resourceId rc = logicalId
          \<and> ((''AWS::DirectoryService::SimpleAD'' = ''AWS::WAFv2::WebACL'' \<longrightarrow> rulesIsArray resource) \<longrightarrow>
                ResourceCost.monthlyCost rc = detailsTotal rc)
          \<and> (''AWS::DirectoryService::SimpleAD'' \<notin> set dataProcessingTypes \<longrightarrow> hourlyConsistent rc)"
    using calc_DirectoryService_SimpleAD_cost [where rt = rt and logicalId = logicalId and resource = resource
        and template = template and table = table]
    by (simp add: dataProcessingTypes_def)
qed

lemma calc_DirectoryService_MicrosoftAD_cost:
  "(case calc_DirectoryService_MicrosoftAD rt logicalId resource template table of
      Inr (Some rc) \<Rightarrow> ResourceCost.resourceId rc = logicalId
        \<and> ResourceCost.monthlyCost rc = detailsTotal rc
        \<and> hourlyConsistent rc
    | _ \<Rightarrow> True)"
  by (simp add: calc_DirectoryService_MicrosoftAD_def Let_def bindE_def HOURS_PER_MONTH_def detailsTotal_def hourlyConsistent_def algebra_simps
      split: sum.splits if_splits prod.splits option.splits)

lemma calc_DirectoryService_MicrosoftAD_sound: "soundCalculator ''AWS::DirectoryService::MicrosoftAD'' calc_DirectoryService_MicrosoftAD"
  unfolding soundCalculator_def
proof (intro allI impI)
  fix rt logicalId resource template table rc
  assume "calc_DirectoryService_MicrosoftAD rt logicalId resource template table = Inr (Some rc)"
  then show "ResourceCost.resourceId rc = logicalId
          \<and> ((''AWS::DirectoryService::MicrosoftAD'' = ''AWS::WAFv2::WebACL'' \<longrightarrow> rulesIsArray resource) \<longrightarrow>
                ResourceCost.monthlyCost rc = detailsTotal rc)
          \<and> (''AWS::DirectoryService::MicrosoftAD'' \<notin> set dataProcessingTypes \<longrightarrow> hourlyConsistent rc)"
    using calc_DirectoryService_MicrosoftAD_cost [where rt = rt and logicalId = logicalId and resource = resource
        and template = template and table = table]
    by (simp add: dataProcessingTypes_def)
qed

lemma calc_MWAA_Environment_cost:
  "(case calc_MWAA_Environment rt logicalId resource template table of
      Inr (Some rc) \<Rightarrow> ResourceCost.resourceId rc = logicalId
        \<and> ResourceCost.monthlyCost rc = detailsTotal rc
        \<and> hourlyConsistent rc
    | _ \<Rightarrow> True)"
  by (simp add: calc_MWAA_Environment_def Let_def bindE_def HOURS_PER_MONTH_def detailsTotal_def hourlyConsistent_def algebra_simps
      split: sum.splits if_splits prod.splits option.splits)

lemma calc_MWAA_Environment_sound: "soundCalculator ''AWS::MWAA::Environment'' calc_MWAA_Environment"
  unfolding soundCalculator_def
proof (intro allI impI)
  fix rt logicalId resource template table rc
  assume "calc_MWAA_Environment rt logicalId resource template table = Inr (Some rc)"
  then show "ResourceCost.resourceId rc = logicalId
          \<and> ((''AWS::MWAA::Environment'' = ''AWS::WAFv2::WebACL'' \<longrightarrow> rulesIsArray resource) \<longrightarrow>
                ResourceCost.monthlyCost rc = detailsTotal rc)
          \<and> (''AWS::MWAA::Environment'' \<notin> set dataProcessingTypes \<longrightarrow> hourlyConsistent rc)"
    using calc_MWAA_Environment_cost [where rt = rt and logicalId = logicalId and resource = resource
        and template = template and table = table]
    by (simp add: dataProcessingTypes_def)
qed

lemma calc_KinesisAnalyticsV2_Application_cost:
  "(case calc_KinesisAnalyticsV2_Application rt logicalId resource template table of
      Inr (Some rc) \<Rightarrow> ResourceCost.resourceId rc = logicalId
        \<and> ResourceCost.monthlyCost rc = detailsTotal rc
        \<and> hourlyConsistent rc
    | _ \<Rightarrow> True)"
  by (simp add: calc_KinesisAnalyticsV2_Application_def Let_def bindE_def HOURS_PER_MONTH_def detailsTotal_def hourlyConsistent_def algebra_simps
      split: sum.splits if_splits prod.splits option.splits)

lemma calc_KinesisAnalyticsV2_Application_sound: "soundCalculator ''AWS::KinesisAnalyticsV2::Application'' calc_KinesisAnalyticsV2_Application"
  unfolding soundCalculator_def
proof (intro allI impI)
  fix rt logicalId resource template table rc
  assume "calc_KinesisAnalyticsV2_Application rt logicalId resource template table = Inr (Some rc)"
  then show "ResourceCost.resourceId rc = logicalId
          \<and> ((''AWS::KinesisAnalyticsV2::Application'' = ''AWS::WAFv2::WebACL'' \<longrightarrow> rulesIsArray resource) \<longrightarrow>
                ResourceCost.monthlyCost rc = detailsTotal rc)
          \<and> (''AWS::KinesisAnalyticsV2::Application'' \<notin> set dataProcessingTypes \<longrightarrow> hourlyConsistent rc)"
    using calc_KinesisAnalyticsV2_Application_cost [where rt = rt and logicalId = logicalId and resource = resource
        and template = template and table = table]
    by (simp add: dataProcessingTypes_def)
qed

lemma calc_CloudFront_Function_cost:
  "(case calc_CloudFront_Function rt logicalId resource template table of
      Inr (Some rc) \<Rightarrow> ResourceCost.resourceId rc = logicalId
        \<and> ResourceCost.monthlyCost rc = detailsTotal rc
        \<and> hourlyConsistent rc
    | _ \<Rightarrow> True)"
  by (simp add: calc_CloudFront_Function_def Let_def bindE_def HOURS_PER_MONTH_def detailsTotal_def hourlyConsistent_def algebra_simps
      split: sum.splits if_splits prod.splits option.splits)

lemma calc_CloudFront_Function_sound: "soundCalculator ''AWS::CloudFront::Function'' calc_CloudFront_Function"
  unfolding soundCalculator_def
proof (intro allI impI)
  fix rt logicalId resource template table rc
  assume "calc_CloudFront_Function rt logicalId resource template table = Inr (Some rc)"
  then show "ResourceCost.resourceId rc = logicalId
          \<and> ((''AWS::CloudFront::Function'' = ''AWS::WAFv2::WebACL'' \<longrightarrow> rulesIsArray resource) \<longrightarrow>
                ResourceCost.monthlyCost rc = detailsTotal rc)
          \<and> (''AWS::CloudFront::Function'' \<notin> set dataProcessingTypes \<longrightarrow> hourlyConsistent rc)"
    using calc_CloudFront_Function_cost [where rt = rt and logicalId = logicalId and resource = resource
        and template = template and table = table]
    by (simp add: dataProcessingTypes_def)
qed

lemma calc_Route53Resolver_ResolverEndpoint_cost:
  "(case calc_Route53Resolver_ResolverEndpoint rt logicalId resource template table of
      Inr (Some rc) \<Rightarrow> ResourceCost.resourceId rc = logicalId
        \<and> ResourceCost.monthlyCost rc = detailsTotal rc
        \<and> hourlyConsistent rc
    | _ \<Rightarrow> True)"
  by (simp add: calc_Route53Resolver_ResolverEndpoint_def Let_def bindE_def HOURS_PER_MONTH_def detailsTotal_def hourlyConsistent_def algebra_simps
      split: sum.splits if_splits prod.splits option.splits)

lemma calc_Route53Resolver_ResolverEndpoint_sound: "soundCalculator ''AWS::Route53Resolver::ResolverEndpoint'' calc_Route53Resolver_ResolverEndpoint"
  unfolding soundCalculator_def
proof (intro allI impI)
  fix rt logicalId resource template table rc
  assume "calc_Route53Resolver_ResolverEndpoint rt logicalId resource template table = Inr (Some rc)"
  then show "ResourceCost.resourceId rc = logicalId
          \<and> ((''AWS::Route53Resolver::ResolverEndpoint'' = ''AWS::WAFv2::WebACL'' \<longrightarrow> rulesIsArray resource) \<longrightarrow>
                ResourceCost.monthlyCost rc = detailsTotal rc)
          \<and> (''AWS::Route53Resolver::ResolverEndpoint'' \<notin> set dataProcessingTypes \<longrightarrow> hourlyConsistent rc)"
    using calc_Route53Resolver_ResolverEndpoint_cost [where rt = rt and logicalId = logicalId and resource = resource
        and template = template and table = table]
    by (simp add: dataProcessingTypes_def)
qed

lemma calc_Route53_HealthCheck_cost:
  "(case calc_Route53_HealthCheck rt logicalId resource template table of
      Inr (Some rc) \<Rightarrow> ResourceCost.resourceId rc = logicalId
        \<and> ResourceCost.monthlyCost rc = detailsTotal rc
        \<and> hourlyConsistent rc
    | _ \<Rightarrow> True)"
  by (simp add: calc_Route53_HealthCheck_def Let_def bindE_def HOURS_PER_MONTH_def detailsTotal_def hourlyConsistent_def algebra_simps
      split: sum.splits if_splits prod.splits option.splits)

lemma calc_Route53_HealthCheck_sound: "soundCalculator ''AWS::Route53::HealthCheck'' calc_Route53_HealthCheck"
  unfolding soundCalculator_def
proof (intro allI impI)
  fix rt logicalId resource template table rc
  assume "calc_Route53_HealthCheck rt logicalId resource template table = Inr (Some rc)"
  then show "ResourceCost.resourceId rc = logicalId
          \<and> ((''AWS::Route53::HealthCheck'' = ''AWS::WAFv2::WebACL'' \<longrightarrow> rulesIsArray resource) \<longrightarrow>
                ResourceCost.monthlyCost rc = detailsTotal rc)
          \<and> (''AWS::Route53::HealthCheck'' \<notin> set dataProcessingTypes \<longrightarrow> hourlyConsistent rc)"
    using calc_Route53_HealthCheck_cost [where rt = rt and logicalId = logicalId and resource = resource
        and template = template and table = table]
    by (simp add: dataProcessingTypes_def)
qed

lemma calc_EC2_ClientVpnEndpoint_cost:
  "(case calc_EC2_ClientVpnEndpoint rt logicalId resource template table of
      Inr (Some rc) \<Rightarrow> ResourceCost.resourceId rc = logicalId
        \<and> ResourceCost.monthlyCost rc = detailsTotal rc
        \<and> hourlyConsistent rc
    | _ \<Rightarrow> True)"
  by (simp add: calc_EC2_ClientVpnEndpoint_def Let_def bindE_def HOURS_PER_MONTH_def detailsTotal_def hourlyConsistent_def algebra_simps
      split: sum.splits if_splits prod.splits option.splits)

lemma calc_EC2_ClientVpnEndpoint_sound: "soundCalculator ''AWS::EC2::ClientVpnEndpoint'' calc_EC2_ClientVpnEndpoint"
  unfolding soundCalculator_def
proof (intro allI impI)
  fix rt logicalId resource template table rc
  assume "calc_EC2_ClientVpnEndpoint rt logicalId resource template table = Inr (Some rc)"
  then show "ResourceCost.resourceId rc = logicalId
          \<and> ((''AWS::EC2::ClientVpnEndpoint'' = ''AWS::WAFv2::WebACL'' \<longrightarrow> rulesIsArray resource) \<longrightarrow>
                ResourceCost.monthlyCost rc = detailsTotal rc)
          \<and> (''AWS::EC2::ClientVpnEndpoint'' \<notin> set dataProcessingTypes \<longrightarrow> hourlyConsistent rc)"
    using calc_EC2_ClientVpnEndpoint_cost [where rt = rt and logicalId = logicalId and resource = resource
        and template = template and table = table]
    by (simp add: dataProcessingTypes_def)
qed

lemma calc_EC2_TrafficMirrorSession_cost:
  "(case calc_EC2_TrafficMirrorSession rt logicalId resource template table of
      Inr (Some rc) \<Rightarrow> ResourceCost.resourceId rc = logicalId
        \<and> ResourceCost.monthlyCost rc = detailsTotal rc
        \<and> hourlyConsistent rc
    | _ \<Rightarrow> True)"
  by (simp add: calc_EC2_TrafficMirrorSession_def Let_def bindE_def HOURS_PER_MONTH_def detailsTotal_def hourlyConsistent_def algebra_simps
      split: sum.splits if_splits prod.splits option.splits)

lemma calc_EC2_TrafficMirrorSession_sound: "soundCalculator ''AWS::EC2::TrafficMirrorSession'' calc_EC2_TrafficMirrorSession"
  unfolding soundCalculator_def
proof (intro allI impI)
  fix rt logicalId resource template table rc
  assume "calc_EC2_TrafficMirrorSession rt logicalId resource template table = Inr (Some rc)"
  then show "ResourceCost.resourceId rc = logicalId
          \<and> ((''AWS::EC2::TrafficMirrorSession'' = ''AWS::WAFv2::WebACL'' \<longrightarrow> rulesIsArray resource) \<longrightarrow>
                ResourceCost.monthlyCost rc = detailsTotal rc)
          \<and> (''AWS::EC2::TrafficMirrorSession'' \<notin> set dataProcessingTypes \<longrightarrow> hourlyConsistent rc)"
    using calc_EC2_TrafficMirrorSession_cost [where rt = rt and logicalId = logicalId and resource = resource
        and template = template and table = table]
    by (simp add: dataProcessingTypes_def)
qed

lemma calc_EC2_TransitGatewayPeeringAttachment_cost:
  "(case calc_EC2_TransitGatewayPeeringAttachment rt logicalId resource template table of
      Inr (Some rc) \<Rightarrow> ResourceCost.resourceId rc = logicalId
        \<and> ResourceCost.monthlyCost rc = detailsTotal rc
        \<and> hourlyConsistent rc
    | _ \<Rightarrow> True)"
  by (simp add: calc_EC2_TransitGatewayPeeringAttachment_def Let_def bindE_def HOURS_PER_MONTH_def detailsTotal_def hourlyConsistent_def algebra_simps
      split: sum.splits if_splits prod.splits option.splits)

lemma calc_EC2_TransitGatewayPeeringAttachment_sound: "soundCalculator ''AWS::EC2::TransitGatewayPeeringAttachment'' calc_EC2_TransitGatewayPeeringAttachment"
  unfolding soundCalculator_def
proof (intro allI impI)
  fix rt logicalId resource template table rc
  assume "calc_EC2_TransitGatewayPeeringAttachment rt logicalId resource template table = Inr (Some rc)"
  then show "ResourceCost.resourceId rc = logicalId
          \<and> ((''AWS::EC2::TransitGatewayPeeringAttachment'' = ''AWS::WAFv2::WebACL'' \<longrightarrow> rulesIsArray resource) \<longrightarrow>
                ResourceCost.monthlyCost rc = detailsTotal rc)
          \<and> (''AWS::EC2::TransitGatewayPeeringAttachment'' \<notin> set dataProcessingTypes \<longrightarrow> hourlyConsistent rc)"
    using calc_EC2_TransitGatewayPeeringAttachment_cost [where rt = rt and logicalId = logicalId and resource = resource
        and template = template and table = table]
    by (simp add: dataProcessingTypes_def)
qed

lemma calc_EC2_Host_cost:
  "(case calc_EC2_Host rt logicalId resource template table of
      Inr (Some rc) \<Rightarrow> ResourceCost.resourceId rc = logicalId
        \<and> ResourceCost.monthlyCost rc = detailsTotal rc
        \<and> hourlyConsistent rc
    | _ \<Rightarrow> True)"
  by (simp add: calc_EC2_Host_def Let_def bindE_def HOURS_PER_MONTH_def detailsTotal_def hourlyConsistent_def algebra_simps
      split: sum.splits if_splits prod.splits option.splits)

lemma calc_EC2_Host_sound: "soundCalculator ''AWS::EC2::Host'' calc_EC2_Host"
  unfolding soundCalculator_def
proof (intro allI impI)
  fix rt logicalId resource template table rc
  assume "calc_EC2_Host rt logicalId resource template table = Inr (Some rc)"
  then show "ResourceCost.resourceId rc = logicalId
          \<and> ((''AWS::EC2::Host'' = ''AWS::WAFv2::WebACL'' \<longrightarrow> rulesIsArray resource) \<longrightarrow>
                ResourceCost.monthlyCost rc = detailsTotal rc)
          \<and> (''AWS::EC2::Host'' \<notin> set dataProcessingTypes \<longrightarrow> hourlyConsistent rc)"
    using calc_EC2_Host_cost [where rt = rt and logicalId = logicalId and resource = resource
        and template = template and table = table]
    by (simp add: dataProcessingTypes_def)
qed

lemma calc_EKS_Nodegroup_cost:
  "(case calc_EKS_Nodegroup rt logicalId resource template table of
      Inr (Some rc) \<Rightarrow> ResourceCost.resourceId rc = logicalId
        \<and> ResourceCost.monthlyCost rc = detailsTotal rc
        \<and> hourlyConsistent rc
    | _ \<Rightarrow> True)"
  by (simp add: calc_EKS_Nodegroup_def Let_def bindE_def HOURS_PER_MONTH_def detailsTotal_def hourlyConsistent_def algebra_simps
      split: sum.splits if_splits prod.splits option.splits)

lemma calc_EKS_Nodegroup_sound: "soundCalculator ''AWS::EKS::Nodegroup'' calc_EKS_Nodegroup"
  unfolding soundCalculator_def
proof (intro allI impI)
  fix rt logicalId resource template table rc
  assume "calc_EKS_Nodegroup rt logicalId resource template table = Inr (Some rc)"
  then show "ResourceCost.resourceId rc = logicalId
          \<and> ((''AWS::EKS::Nodegroup'' = ''AWS::WAFv2::WebACL'' \<longrightarrow> rulesIsArray resource) \<longrightarrow>
                ResourceCost.monthlyCost rc = detailsTotal rc)
          \<and> (''AWS::EKS::Nodegroup'' \<notin> set dataProcessingTypes \<longrightarrow> hourlyConsistent rc)"
    using calc_EKS_Nodegroup_cost [where rt = rt and logicalId = logicalId and resource = resource
        and template = template and table = table]
    by (simp add: dataProcessingTypes_def)
qed

lemma calc_EKS_FargateProfile_cost:
  "(case calc_EKS_FargateProfile rt logicalId resource template table of
      Inr (Some rc) \<Rightarrow> ResourceCost.resourceId rc = logicalId
        \<and> ResourceCost.monthlyCost rc = detailsTotal rc
        \<and> hourlyConsistent rc
    | _ \<Rightarrow> True)"
  by (simp add: calc_EKS_FargateProfile_def Let_def bindE_def HOURS_PER_MONTH_def detailsTotal_def hourlyConsistent_def algebra_simps
      split: sum.splits if_splits prod.splits option.splits)

lemma calc_EKS_FargateProfile_sound: "soundCalculator ''AWS::EKS::FargateProfile'' calc_EKS_FargateProfile"
  unfolding soundCalculator_def
proof (intro allI impI)
  fix rt logicalId resource template table rc
  assume "calc_EKS_FargateProfile rt logicalId resource template table = Inr (Some rc)"
  then show "ResourceCost.resourceId rc = logicalId
          \<and> ((''AWS::EKS::FargateProfile'' = ''AWS::WAFv2::WebACL'' \<longrightarrow> rulesIsArray resource) \<longrightarrow>
                ResourceCost.monthlyCost rc = detailsTotal rc)
          \<and> (''AWS::EKS::FargateProfile'' \<notin> set dataProcessingTypes \<longrightarrow> hourlyConsistent rc)"
    using calc_EKS_FargateProfile_cost [where rt = rt and logicalId = logicalId and resource = resource
        and template = template and table = table]
    by (simp add: dataProcessingTypes_def)
qed

lemma calc_Glue_Database_cost:
  "(case calc_Glue_Database rt logicalId resource template table of
      Inr (Some rc) \<Rightarrow> ResourceCost.resourceId rc = logicalId
        \<and> ResourceCost.monthlyCost rc = detailsTotal rc
        \<and> hourlyConsistent rc
    | _ \<Rightarrow> True)"
  by (simp add: calc_Glue_Database_def Let_def bindE_def HOURS_PER_MONTH_def detailsTotal_def hourlyConsistent_def algebra_simps
      split: sum.splits if_splits prod.splits option.splits)

lemma calc_Glue_Database_sound: "soundCalculator ''AWS::Glue::Database'' calc_Glue_Database"
  unfolding soundCalculator_def
proof (intro allI impI)
  fix rt logicalId resource template table rc
  assume "calc_Glue_Database rt logicalId resource template table = Inr (Some rc)"
  then show "ResourceCost.resourceId rc = logicalId
          \<and> ((''AWS::Glue::Database'' = ''AWS::WAFv2::WebACL'' \<longrightarrow> rulesIsArray resource) \<longrightarrow>
                ResourceCost.monthlyCost rc = detailsTotal rc)
          \<and> (''AWS::Glue::Database'' \<notin> set dataProcessingTypes \<longrightarrow> hourlyConsistent rc)"
    using calc_Glue_Database_cost [where rt = rt and logicalId = logicalId and resource = resource
        and template = template and table = table]
    by (simp add: dataProcessingTypes_def)
qed

lemma calc_Config_ConfigurationRecorder_cost:
  "(case calc_Config_ConfigurationRecorder rt logicalId resource template table of
      Inr (Some rc) \<Rightarrow> ResourceCost.resourceId rc = logicalId
        \<and> ResourceCost.monthlyCost rc = detailsTotal rc
        \<and> hourlyConsistent rc
    | _ \<Rightarrow> True)"
  by (simp add: calc_Config_ConfigurationRecorder_def Let_def bindE_def HOURS_PER_MONTH_def detailsTotal_def hourlyConsistent_def algebra_simps
      split: sum.splits if_splits prod.splits option.splits)

lemma calc_Config_ConfigurationRecorder_sound: "soundCalculator ''AWS::Config::ConfigurationRecorder'' calc_Config_ConfigurationRecorder"
  unfolding soundCalculator_def
proof (intro allI impI)
  fix rt logicalId resource template table rc
  assume "calc_Config_ConfigurationRecorder rt logicalId resource template table = Inr (Some rc)"
  then show "ResourceCost.resourceId rc = logicalId
          \<and> ((''AWS::Config::ConfigurationRecorder'' = ''AWS::WAFv2::WebACL'' \<longrightarrow> rulesIsArray resource) \<longrightarrow>
                ResourceCost.monthlyCost rc = detailsTotal rc)
          \<and> (''AWS::Config::ConfigurationRecorder'' \<notin> set dataProcessingTypes \<longrightarrow> hourlyConsistent rc)"
    using calc_Config_ConfigurationRecorder_cost [where rt = rt and logicalId = logicalId and resource = resource
        and template = template and table = table]
    by (simp add: dataProcessingTypes_def)
qed

lemma calc_SSM_Activation_cost:
  "(case calc_SSM_Activation rt logicalId resource template table of
      Inr (Some rc) \<Rightarrow> ResourceCost.resourceId rc = logicalId
        \<and> ResourceCost.monthlyCost rc = detailsTotal rc
        \<and> hourlyConsistent rc
    | _ \<Rightarrow> True)"
  by (simp add: calc_SSM_Activation_def Let_def bindE_def HOURS_PER_MONTH_def detailsTotal_def hourlyConsistent_def algebra_simps
      split: sum.splits if_splits prod.splits option.splits)

lemma calc_SSM_Activation_sound: "soundCalculator ''AWS::SSM::Activation'' calc_SSM_Activation"
  unfolding soundCalculator_def
proof (intro allI impI)
  fix rt logicalId resource template table rc
  assume "calc_SSM_Activation rt logicalId resource template table = Inr (Some rc)"
  then show "ResourceCost.resourceId rc = logicalId
          \<and> ((''AWS::SSM::Activation'' = ''AWS::WAFv2::WebACL'' \<longrightarrow> rulesIsArray resource) \<longrightarrow>
                ResourceCost.monthlyCost rc = detailsTotal rc)
          \<and> (''AWS::SSM::Activation'' \<notin> set dataProcessingTypes \<longrightarrow> hourlyConsistent rc)"
    using calc_SSM_Activation_cost [where rt = rt and logicalId = logicalId and resource = resource
        and template = template and table = table]
    by (simp add: dataProcessingTypes_def)
qed

lemma registry_sound: "list_all (\<lambda>(k, c). soundCalculator k c) initializeCalculators"
  unfolding initializeCalculators_def
  by (simp add:
      calc_EC2_Instance_sound
      calc_AutoScaling_AutoScalingGroup_sound
      calc_EC2_Volume_sound
      calc_RDS_DBInstance_sound
      calc_RDS_DBCluster_sound
      calc_ElastiCache_CacheCluster_sound
      calc_ElastiCache_ReplicationGroup_sound
      calc_EC2_NatGateway_sound
      calc_ElasticLoadBalancingV2_LoadBalancer_sound
      calc_ElasticLoadBalancing_LoadBalancer_sound
      calc_ECS_Service_sound
      calc_EKS_Cluster_sound
      calc_SecretsManager_Secret_sound
      calc_KMS_Key_sound
      calc_Route53_HostedZone_sound
      calc_CloudWatch_Alarm_sound
      calc_CloudWatch_Dashboard_sound
      calc_EC2_EIP_sound
      calc_EC2_VPCEndpoint_sound
      calc_EC2_Snapshot_sound
      calc_Neptune_DBCluster_sound
      calc_Neptune_DBInstance_sound
      calc_DocDB_DBCluster_sound
      calc_DocDB_DBInstance_sound
      calc_Redshift_Cluster_sound
      calc_EC2_VPNConnection_sound
      calc_EC2_TransitGateway_sound
      calc_EC2_TransitGatewayAttachment_sound
      calc_DirectConnect_Connection_sound
      calc_GlobalAccelerator_Accelerator_sound
      calc_AmazonMQ_Broker_sound
      calc_MSK_Cluster_sound
      calc_Kinesis_Stream_sound
      calc_KinesisFirehose_DeliveryStream_sound
      calc_EFS_FileSystem_sound
      calc_FSx_FileSystem_sound
      calc_Backup_BackupVault_sound
      calc_CloudFront_Distribution_sound
      calc_ACMPCA_CertificateAuthority_sound
      calc_Config_ConfigRule_sound
      calc_CloudTrail_Trail_sound
      calc_CodeBuild_Project_sound
      calc_Glue_Job_sound
      calc_Glue_Crawler_sound
      calc_WAFv2_WebACL_sound
      calc_WAF_WebACL_sound
      calc_OpenSearchService_Domain_sound
      calc_Elasticsearch_Domain_sound
      calc_Lightsail_Instance_sound
      calc_DMS_ReplicationInstance_sound
      calc_Transfer_Server_sound
      calc_CodePipeline_Pipeline_sound
      calc_NetworkFirewall_Firewall_sound
      calc_Grafana_Workspace_sound
      calc_SageMaker_NotebookInstance_sound
      calc_DirectoryService_SimpleAD_sound
      calc_DirectoryService_MicrosoftAD_sound
      calc_MWAA_Environment_sound
      calc_KinesisAnalyticsV2_Application_sound
      calc_CloudFront_Function_sound
      calc_Route53Resolver_ResolverEndpoint_sound
      calc_Route53_HealthCheck_sound
      calc_EC2_ClientVpnEndpoint_sound
      calc_EC2_TrafficMirrorSession_sound
      calc_EC2_TransitGatewayPeeringAttachment_sound
      calc_EC2_Host_sound
      calc_EKS_Nodegroup_sound
      calc_EKS_FargateProfile_sound
      calc_Glue_Database_sound
      calc_Config_ConfigurationRecorder_sound
      calc_SSM_Activation_sound)


section \<open>Properties of the usage-based estimators\<close>

lemma calculateLambdaCost_cost:
  "(case calculateLambdaCost rt this logicalId resource template of
      Inr (Some rc) \<Rightarrow> ResourceCost.resourceId rc = logicalId
        \<and> ResourceCost.monthlyCost rc = detailsTotal rc
        \<and> hourlyConsistent rc
    | _ \<Rightarrow> True)"
  by (simp add: calculateLambdaCost_def groupField_def Let_def bindE_def HOURS_PER_MONTH_def detailsTotal_def hourlyConsistent_def algebra_simps
      split: sum.splits if_splits prod.splits option.splits jsval.splits)

lemma calculateDynamoDBCost_cost:
  "(case calculateDynamoDBCost rt this logicalId resource template of
      Inr (Some rc) \<Rightarrow> ResourceCost.resourceId rc = logicalId
        \<and> ResourceCost.monthlyCost rc = detailsTotal rc
        \<and> hourlyConsistent rc
    | _ \<Rightarrow> True)"
  by (simp add: calculateDynamoDBCost_def groupField_def Let_def bindE_def HOURS_PER_MONTH_def detailsTotal_def hourlyConsistent_def algebra_simps
      split: sum.splits if_splits prod.splits option.splits jsval.splits)

lemma calculateS3Cost_cost:
  "(case calculateS3Cost rt this logicalId resource template of
      Inr (Some rc) \<Rightarrow> ResourceCost.resourceId rc = logicalId
        \<and> ResourceCost.monthlyCost rc = detailsTotal rc
        \<and> hourlyConsistent rc
    | _ \<Rightarrow> True)"
  by (simp add: calculateS3Cost_def groupField_def Let_def bindE_def HOURS_PER_MONTH_def detailsTotal_def hourlyConsistent_def algebra_simps
      split: sum.splits if_splits prod.splits option.splits jsval.splits)

lemma calculateSQSCost_cost:
  "(case calculateSQSCost rt this logicalId resource template of
      Inr (Some rc) \<Rightarrow> ResourceCost.resourceId rc = logicalId
        \<and> ResourceCost.monthlyCost rc = detailsTotal rc
        \<and> hourlyConsistent rc
    | _ \<Rightarrow> True)"
  by (simp add: calculateSQSCost_def groupField_def Let_def bindE_def HOURS_PER_MONTH_def detailsTotal_def hourlyConsistent_def algebra_simps
      split: sum.splits if_splits prod.splits option.splits jsval.splits)

lemma calculateApiGatewayCost_cost:
  "(case calculateApiGatewayCost rt this logicalId resource template of
      Inr (Some rc) \<Rightarrow> ResourceCost.resourceId rc = logicalId
        \<and> ResourceCost.monthlyCost rc = detailsTotal rc
        \<and> hourlyConsistent rc
    | _ \<Rightarrow> True)"
  by (simp add: calculateApiGatewayCost_def groupField_def Let_def bindE_def HOURS_PER_MONTH_def detailsTotal_def hourlyConsistent_def algebra_simps
      split: sum.splits if_splits prod.splits option.splits jsval.splits)

lemma calculateStepFunctionsCost_cost:
  "(case calculateStepFunctionsCost rt this logicalId resource template of
      Inr (Some rc) \<Rightarrow> ResourceCost.resourceId rc = logicalId
        \<and> ResourceCost.monthlyCost rc = detailsTotal rc
        \<and> hourlyConsistent rc
    | _ \<Rightarrow> True)"
  by (simp add: calculateStepFunctionsCost_def groupField_def Let_def bindE_def HOURS_PER_MONTH_def detailsTotal_def hourlyConsistent_def algebra_simps
      split: sum.splits if_splits prod.splits option.splits jsval.splits)

lemma calculateSNSCost_cost:
  "(case calculateSNSCost rt this logicalId resource template of
      Inr (Some rc) \<Rightarrow> ResourceCost.resourceId rc = logicalId
        \<and> ResourceCost.monthlyCost rc = detailsTotal rc
        \<and> hourlyConsistent rc
    | _ \<Rightarrow> True)"
  by (simp add: calculateSNSCost_def groupField_def Let_def bindE_def HOURS_PER_MONTH_def detailsTotal_def hourlyConsistent_def algebra_simps
      split: sum.splits if_splits prod.splits option.splits jsval.splits)

lemma calculateCloudWatchLogsCost_cost:
  "(case calculateCloudWatchLogsCost rt this logicalId resource template of
      Inr (Some rc) \<Rightarrow> ResourceCost.resourceId rc = logicalId
        \<and> ResourceCost.monthlyCost rc = detailsTotal rc
        \<and> hourlyConsistent rc
    | _ \<Rightarrow> True)"
  by (simp add: calculateCloudWatchLogsCost_def groupField_def Let_def bindE_def HOURS_PER_MONTH_def detailsTotal_def hourlyConsistent_def algebra_simps
      split: sum.splits if_splits prod.splits option.splits jsval.splits)

lemma calculateSSMParameterCost_cost:
  "(case calculateSSMParameterCost rt this logicalId resource template of
      Inr (Some rc) \<Rightarrow> ResourceCost.resourceId rc = logicalId
        \<and> ResourceCost.monthlyCost rc = detailsTotal rc
        \<and> hourlyConsistent rc
    | _ \<Rightarrow> True)"
  by (simp add: calculateSSMParameterCost_def groupField_def Let_def bindE_def HOURS_PER_MONTH_def detailsTotal_def hourlyConsistent_def algebra_simps
      split: sum.splits if_splits prod.splits option.splits jsval.splits)

lemma calculateECRCost_cost:
  "(case calculateECRCost rt this logicalId resource template of
      Inr (Some rc) \<Rightarrow> ResourceCost.resourceId rc = logicalId
        \<and> ResourceCost.monthlyCost rc = detailsTotal rc
        \<and> hourlyConsistent rc
    | _ \<Rightarrow> True)"
  by (simp add: calculateECRCost_def groupField_def Let_def bindE_def HOURS_PER_MONTH_def detailsTotal_def hourlyConsistent_def algebra_simps
      split: sum.splits if_splits prod.splits option.splits jsval.splits)

lemma calculateRoute53RecordSetCost_cost:
  "(case calculateRoute53RecordSetCost rt this logicalId resource template of
      Inr (Some rc) \<Rightarrow> ResourceCost.resourceId rc = logicalId
        \<and> ResourceCost.monthlyCost rc = detailsTotal rc
        \<and> hourlyConsistent rc
    | _ \<Rightarrow> True)"
  by (simp add: calculateRoute53RecordSetCost_def groupField_def Let_def bindE_def HOURS_PER_MONTH_def detailsTotal_def hourlyConsistent_def algebra_simps
      split: sum.splits if_splits prod.splits option.splits jsval.splits)

lemma calculateUsageBasedResource_cost:
  assumes "calculateUsageBasedResource rt this logicalId resource template = Inr (Some rc)"
  shows "ResourceCost.resourceId rc = logicalId \<and> ResourceCost.monthlyCost rc = detailsTotal rc
         \<and> hourlyConsistent rc"
  using assms
    calculateLambdaCost_cost [where rt = rt and this = this and logicalId = logicalId and resource = resource
      and template = template]
    calculateDynamoDBCost_cost [where rt = rt and this = this and logicalId = logicalId and resource = resource
      and template = template]
    calculateS3Cost_cost [where rt = rt and this = this and logicalId = logicalId and resource = resource
      and template = template]
    calculateSQSCost_cost [where rt = rt and this = this and logicalId = logicalId and resource = resource
      and template = template]
    calculateApiGatewayCost_cost [where rt = rt and this = this and logicalId = logicalId and resource = resource
      and template = template]
    calculateStepFunctionsCost_cost [where rt = rt and this = this and logicalId = logicalId and resource = resource
      and template = template]
    calculateSNSCost_cost [where rt = rt and this = this and logicalId = logicalId and resource = resource
      and template = template]
    calculateCloudWatchLogsCost_cost [where rt = rt and this = this and logicalId = logicalId and resource = resource
      and template = template]
    calculateSSMParameterCost_cost [where rt = rt and this = this and logicalId = logicalId and resource = resource
      and template = template]
    calculateECRCost_cost [where rt = rt and this = this and logicalId = logicalId and resource = resource
      and template = template]
    calculateRoute53RecordSetCost_cost [where rt = rt and this = this and logicalId = logicalId and resource = resource
      and template = template]
  by (simp add: calculateUsageBasedResource_def Let_def split: if_splits)


section \<open>Independence of the conversion of values that are not numbers\<close>

text \<open>
  The runtime's \<open>toNumber\<close> stands for \<^verbatim>\<open>Number(v)\<close> on the values that are not numbers,
  booleans or \<^verbatim>\<open>null\<close>, where the source may compute \<^verbatim>\<open>NaN\<close>. For a typed resource and a
  typed table no calculator and no estimator depends on it: every value converted to a number
  is one of those that the typing names.
\<close>

lemma toStringJS_toNumber [simp]:
  "toStringJS (rt\<lparr>toNumber := f\<rparr>) v = toStringJS rt v"
proof (induction rt v rule: toStringJS.induct)
  case (6 rt xs)
  have "map (\<lambda>x. if x = JNull \<or> x = JUndefined then [] else toStringJS (rt\<lparr>toNumber := f\<rparr>) x) xs
        = map (\<lambda>x. if x = JNull \<or> x = JUndefined then [] else toStringJS rt x) xs"
    by (rule map_cong) (use 6 in auto)
  then show ?case by (simp only: toStringJS.simps)
qed simp_all

lemma resolveBasicIntrinsics_toNumber [simp]:
  "resolveBasicIntrinsics (rt\<lparr>toNumber := f\<rparr>) template v ctx
     = resolveBasicIntrinsics rt template v ctx"
proof (induction rt template v ctx rule: resolveBasicIntrinsics.induct)
  case (6 rt template xs ctx)
  then show ?case by (simp cong: map_cong)
next
  case (7 rt template fs ctx)
  note IH = 7[OF refl refl refl refl refl]
  define c1 where "c1 \<longleftrightarrow> has_key (JObj fs) ''Ref'' \<and> is_JStr (member (JObj fs) ''Ref'')"
  define c2 where "c2 \<longleftrightarrow> has_key (JObj fs) ''Fn::GetAtt'' \<and> is_JArr (member (JObj fs) ''Fn::GetAtt'')
      \<and> length (the_items (member (JObj fs) ''Fn::GetAtt'')) = 2"
  define c3 where "c3 \<longleftrightarrow> has_key (JObj fs) ''Fn::Sub'' \<and> is_JStr (member (JObj fs) ''Fn::Sub'')"
  define c4 where "c4 \<longleftrightarrow> has_key (JObj fs) ''Fn::If'' \<and> is_JArr (member (JObj fs) ''Fn::If'')
      \<and> length (the_items (member (JObj fs) ''Fn::If'')) \<ge> 2"
  define c5 where "c5 \<longleftrightarrow> has_key (JObj fs) ''Fn::Select'' \<and> is_JArr (member (JObj fs) ''Fn::Select'')
      \<and> length (the_items (member (JObj fs) ''Fn::Select'')) = 2
      \<and> is_JNum (the_items (member (JObj fs) ''Fn::Select'') ! 0)"
  define inner where "inner r = resolveBasicIntrinsics r template (the_items (member (JObj fs) ''Fn::Select'') ! 1) ctx" for r
  define rt' where "rt' = rt\<lparr>toNumber := f\<rparr>"
  have unfold: "resolveBasicIntrinsics r template (JObj fs) ctx =
      (if c1 then resolveRef template ctx (the_string (member (JObj fs) ''Ref''))
       else if c2 then JStr (''{{GetAtt:'' @ toStringJS r (the_items (member (JObj fs) ''Fn::GetAtt'') ! 0) @ ''.''
                @ toStringJS r (the_items (member (JObj fs) ''Fn::GetAtt'') ! 1) @ ''}}'')
       else if c3 then JStr (the_string (member (JObj fs) ''Fn::Sub''))
       else if c4 then resolveBasicIntrinsics r template (the_items (member (JObj fs) ''Fn::If'') ! 1) ctx
       else if c5 \<and> is_JArr (inner r) then
          array_at (the_items (inner r)) (the_number (the_items (member (JObj fs) ''Fn::Select'') ! 0))
       else JObj (map (\<lambda>(key, val). (key, resolveBasicIntrinsics r template val ctx)) fs))" for r
    unfolding c1_def c2_def c3_def c4_def c5_def inner_def
    by (simp only: resolveBasicIntrinsics.simps Let_def conj_assoc)
  have ifs: "resolveBasicIntrinsics rt' template (the_items (member (JObj fs) ''Fn::If'') ! 1) ctx
      = resolveBasicIntrinsics rt template (the_items (member (JObj fs) ''Fn::If'') ! 1) ctx"
    if "\<not> c1" "\<not> c2" "\<not> c3" c4
    using IH(1) that unfolding c1_def c2_def c3_def c4_def rt'_def by blast
  have sel: "inner rt' = inner rt" if "\<not> c1" "\<not> c2" "\<not> c3" "\<not> c4" c5
    using IH(2) that unfolding c1_def c2_def c3_def c4_def c5_def rt'_def inner_def by blast
  have fields: "map (\<lambda>(key, val). (key, resolveBasicIntrinsics rt' template val ctx)) fs
      = map (\<lambda>(key, val). (key, resolveBasicIntrinsics rt template val ctx)) fs"
    if "\<not> c1" "\<not> c2" "\<not> c3" "\<not> c4" "\<not> (c5 \<and> is_JArr (inner rt))"
  proof (rule map_cong [OF refl])
    fix kv assume kv: "kv \<in> set fs"
    obtain key val where eq: "kv = (key, val)" by (cases kv)
    have "resolveBasicIntrinsics rt' template val ctx = resolveBasicIntrinsics rt template val ctx"
      using IH(4) [of kv key val] that kv eq
      unfolding c1_def c2_def c3_def c4_def c5_def rt'_def inner_def by blast
    then show "(case kv of (key, val) \<Rightarrow> (key, resolveBasicIntrinsics rt' template val ctx))
        = (case kv of (key, val) \<Rightarrow> (key, resolveBasicIntrinsics rt template val ctx))"
      using eq by simp
  qed
  have str: "toStringJS rt' x = toStringJS rt x" for x by (simp add: rt'_def)
  have "resolveBasicIntrinsics rt' template (JObj fs) ctx = resolveBasicIntrinsics rt template (JObj fs) ctx"
  proof (cases c1)
    case True
    then show ?thesis by (simp only: unfold if_True)
  next
    case n1: False
    show ?thesis
    proof (cases c2)
      case True
      with n1 show ?thesis by (simp only: unfold if_True if_False str)
    next
      case n2: False
      show ?thesis
      proof (cases c3)
        case True
        with n1 n2 show ?thesis by (simp only: unfold if_True if_False)
      next
        case n3: False
        show ?thesis
        proof (cases c4)
          case True
          with n1 n2 n3 have "resolveBasicIntrinsics rt' template (the_items (member (JObj fs) ''Fn::If'') ! 1) ctx
              = resolveBasicIntrinsics rt template (the_items (member (JObj fs) ''Fn::If'') ! 1) ctx"
            by (rule ifs)
          with n1 n2 n3 True show ?thesis by (simp only: unfold if_True if_False)
        next
          case n4: False
          show ?thesis
          proof (cases c5)
            case True
            with n1 n2 n3 n4 have i: "inner rt' = inner rt" by (rule sel)
            show ?thesis
            proof (cases "is_JArr (inner rt)")
              case True
              with n1 n2 n3 n4 \<open>c5\<close> i show ?thesis by (simp only: unfold if_True if_False simp_thms)
            next
              case False
              with n1 n2 n3 n4 have "map (\<lambda>(key, val). (key, resolveBasicIntrinsics rt' template val ctx)) fs
                  = map (\<lambda>(key, val). (key, resolveBasicIntrinsics rt template val ctx)) fs"
                by (intro fields) simp_all
              with n1 n2 n3 n4 i False show ?thesis by (simp only: unfold if_True if_False simp_thms)
            qed
          next
            case False
            with n1 n2 n3 n4 have "map (\<lambda>(key, val). (key, resolveBasicIntrinsics rt' template val ctx)) fs
                = map (\<lambda>(key, val). (key, resolveBasicIntrinsics rt template val ctx)) fs"
              by (intro fields) simp_all
            with n1 n2 n3 n4 False show ?thesis by (simp only: unfold if_True if_False simp_thms)
          qed
        qed
      qed
    qed
  qed
  then show ?case by (simp only: rt'_def)
qed simp_all

lemma getPropertyValue_toNumber [simp]:
  "getPropertyValue (rt\<lparr>toNumber := f\<rparr>) template resource path d
     = getPropertyValue rt template resource path d"
  by (simp add: getPropertyValue_def Let_def split: option.split)

lemma toLowerCase_toNumber [simp]: "toLowerCase (rt\<lparr>toNumber := f\<rparr>) v = toLowerCase rt v"
  by (simp add: toLowerCase_def cong: jsval.case_cong)

lemma js_includes_toNumber [simp]: "js_includes (rt\<lparr>toNumber := f\<rparr>) v s = js_includes rt v s"
  by (simp add: js_includes_def cong: jsval.case_cong)

lemma dot_toNumber [simp]: "dot (rt\<lparr>toNumber := f\<rparr>) v k = dot rt v k"
  by (simp add: dot_def cong: jsval.case_cong)

lemma isFreeResource_toNumber [simp]: "isFreeResource (rt\<lparr>toNumber := f\<rparr>) v = isFreeResource rt v"
  by (simp add: isFreeResource_def cong: jsval.case_cong)































































































section \<open>Properties of the stack cost aggregation\<close>

lemma foldl_plus: "foldl (\<lambda>sum r. sum + f r) a xs = a + sum_list (map f xs)"
  for a :: real
  by (induction xs arbitrary: a) simp_all

lemma pushedBy_Inr: "processEntry rt this template e = Inr p \<Longrightarrow> pushedBy rt this template e = p"
  by (simp add: pushedBy_def)

lemma processResources_Inr:
  "processResources rt this template es acc = Inr res \<Longrightarrow>
   fst res = fst acc @ concat (map (\<lambda>e. fst (pushedBy rt this template e)) es)
   \<and> snd res = snd acc @ concat (map (\<lambda>e. snd (pushedBy rt this template e)) es)"
proof (induction es arbitrary: acc)
  case Nil
  then show ?case by simp
next
  case (Cons e es)
  from Cons.prems obtain p where p: "processEntry rt this template e = Inr p"
    and rest: "processResources rt this template es (fst acc @ fst p, snd acc @ snd p) = Inr res"
    by (cases "processEntry rt this template e") (simp_all add: bindE_def)
  from Cons.IH [OF rest] pushedBy_Inr [OF p] show ?case by simp
qed

lemma processResources_Inl:
  "processResources rt this template es acc = Inl x \<Longrightarrow>
   \<exists>e \<in> set es. processEntry rt this template e = Inl x"
proof (induction es arbitrary: acc)
  case Nil
  then show ?case by simp
next
  case (Cons e es)
  show ?case
  proof (cases "processEntry rt this template e")
    case (Inl y)
    with Cons.prems show ?thesis by (simp add: bindE_def)
  next
    case (Inr p)
    with Cons.prems have "processResources rt this template es (fst acc @ fst p, snd acc @ snd p) = Inl x"
      by (simp add: bindE_def)
    from Cons.IH [OF this] show ?thesis by auto
  qed
qed

lemma processResources_append:
  "processResources rt this template (es1 @ es2) acc =
     bindE (processResources rt this template es1 acc) (\<lambda>a. processResources rt this template es2 a)"
proof (induction es1 arbitrary: acc)
  case Nil
  then show ?case by (simp add: bindE_def)
next
  case (Cons e es1)
  then show ?case
    by (cases "processEntry rt this template e") (simp_all add: bindE_def)
qed

lemma calculateStackCost_Inr:
  assumes "calculateStackCost rt this name template source now = Inr est"
  shows "resources est = concat (map (\<lambda>e. fst (pushedBy rt this template e)) (extractResources template))"
    and "unsupportedResources est =
           concat (map (\<lambda>e. snd (pushedBy rt this template e)) (extractResources template))"
    and "totalMonthlyCost est = sum_list (map ResourceCost.monthlyCost (resources est))"
    and "totalHourlyCost est = sum_list (map hourlyCost (resources est))"
proof -
  from assms obtain lists where
    l: "processResources rt this template (extractResources template) ([], []) = Inr lists"
    and est: "est = \<lparr> StackCostEstimate.stackName = name, templateSource = source,
        totalMonthlyCost = foldl (\<lambda>sum r. sum + ResourceCost.monthlyCost r) 0 (fst lists),
        totalHourlyCost = foldl (\<lambda>sum r. sum + hourlyCost r) 0 (fst lists),
        resources = fst lists, unsupportedResources = snd lists, timestamp = now \<rparr>"
    by (cases "processResources rt this template (extractResources template) ([], [])")
       (auto simp: calculateStackCost_def Let_def bindE_def)
  from processResources_Inr [OF l] est
  show "resources est = concat (map (\<lambda>e. fst (pushedBy rt this template e)) (extractResources template))"
    and "unsupportedResources est =
           concat (map (\<lambda>e. snd (pushedBy rt this template e)) (extractResources template))"
    by simp_all
  from est show "totalMonthlyCost est = sum_list (map ResourceCost.monthlyCost (resources est))"
    and "totalHourlyCost est = sum_list (map hourlyCost (resources est))"
    by (simp_all add: foldl_plus)
qed

lemma calculateStackCost_Inl:
  assumes "calculateStackCost rt this name template source now = Inl x"
  shows "\<exists>e \<in> set (extractResources template). processEntry rt this template e = Inl x"
proof -
  from assms have "processResources rt this template (extractResources template) ([], []) = Inl x"
    by (cases "processResources rt this template (extractResources template) ([], [])")
       (auto simp: calculateStackCost_def Let_def bindE_def)
  then show ?thesis by (rule processResources_Inl)
qed

text \<open>
  An exception that leaves an iteration comes from the test of the type or from the
  usage-based estimator, which stand outside the \<^verbatim>\<open>try\<close> block.
\<close>

lemma processEntry_Inl:
  assumes "processEntry rt this template e = Inl x"
  shows "isFreeResource rt (member (snd e) ''Type'') = Inl x
         \<or> (calculators_get this (member (snd e) ''Type'') = None
            \<and> calculateUsageBasedResource rt this (fst e) (snd e) template = Inl x)"
  using assms
  by (cases e)
     (auto simp: processEntry_def Let_def bindE_def split: sum.splits if_splits option.splits)

lemma processEntry_free:
  assumes "isFreeResource rt (member resource ''Type'') = Inr True"
  shows "processEntry rt this template (logicalId, resource) = Inr ([], [])"
  using assms by (simp add: processEntry_def Let_def bindE_def)

lemma processEntry_throw:
  assumes "member resource ''Type'' = JStr ty"
    and "isFreeResource rt (JStr ty) = Inr False"
    and "calculators_get this (JStr ty) = Some calculator"
    and "calculator rt logicalId resource template (pricing this) = Inl error"
  shows "processEntry rt this template (logicalId, resource) =
     Inr ([], [\<lparr> UnsupportedResource.resourceId = logicalId, UnsupportedResource.resourceType = ty,
                  reason = ''Calculation error: '' @ errorText error \<rparr>])"
  using assms by (simp add: processEntry_def Let_def bindE_def)


section \<open>The registry as the constructor installs it\<close>

lemma registry_lookup:
  "calculators_get (new_CostCalculator table regionName) (JStr k) =
     map_of (rev initializeCalculators) k"
  by (simp add: calculators_get_def new_CostCalculator_def Map_get_def map_of_new_Map)

lemma registry_lookup_sound:
  assumes "calculators_get (new_CostCalculator table regionName) (JStr k) = Some c"
  shows "soundCalculator k c"
proof -
  from assms have "map_of (rev initializeCalculators) k = Some c"
    by (simp add: registry_lookup)
  then have "(k, c) \<in> set initializeCalculators"
    by (auto dest: map_of_SomeD)
  with registry_sound show ?thesis
    by (auto simp: list_all_iff)
qed

lemma calculators_get_not_string:
  "\<not> is_JStr v \<Longrightarrow> calculators_get this v = None"
  by (cases v) (simp_all add: calculators_get_def)

text \<open>
  What an iteration pushes for a resource carries the resource's logical identifier; a cost
  record it pushes has a monthly cost equal to the sum of its detail lines (for a WAFv2 web
  ACL, when \<^verbatim>\<open>Rules\<close> is typed as cast).
\<close>

lemma processEntry_pushed:
  assumes "processEntry rt (new_CostCalculator table regionName) template (logicalId, resource) = Inr (cs, us)"
  shows "(\<forall>c \<in> set cs. ResourceCost.resourceId c = logicalId
            \<and> ((member resource ''Type'' = JStr ''AWS::WAFv2::WebACL'' \<longrightarrow> rulesIsArray resource) \<longrightarrow>
                 ResourceCost.monthlyCost c = detailsTotal c))
         \<and> (\<forall>u \<in> set us. UnsupportedResource.resourceId u = logicalId)"
proof -
  define this where "this = new_CostCalculator table regionName"
  define v where "v = member resource ''Type''"
  note pe = assms [folded this_def, unfolded processEntry_def Let_def bindE_def, simplified, folded v_def]
  show ?thesis
  proof (cases "isFreeResource rt v")
    case (Inl e)
    with pe show ?thesis by simp
  next
    case (Inr free)
    show ?thesis
    proof (cases free)
      case True
      with Inr pe show ?thesis by auto
    next
      case False
      show ?thesis
      proof (cases "calculators_get this v")
        case None
        with Inr False pe calculateUsageBasedResource_cost [of rt this logicalId resource template]
        show ?thesis
          by (auto split: if_splits sum.splits option.splits)
      next
        case (Some calculator)
        then obtain k where k: "v = JStr k"
          using calculators_get_not_string [of v this] by (cases v) auto
        with Some have "soundCalculator k calculator"
          using registry_lookup_sound [of table regionName k calculator] by (simp add: this_def)
        then have sound: "\<And>rc. calculator rt logicalId resource template (pricing this) = Inr (Some rc) \<Longrightarrow>
            ResourceCost.resourceId rc = logicalId
            \<and> ((k = ''AWS::WAFv2::WebACL'' \<longrightarrow> rulesIsArray resource) \<longrightarrow>
                  ResourceCost.monthlyCost rc = detailsTotal rc)"
          by (simp add: soundCalculator_def)
        from Inr False Some pe k sound show ?thesis
          by (auto simp: v_def [symmetric] split: sum.splits option.splits)
      qed
    qed
  qed
qed


section \<open>Evaluation at the sample templates\<close>

lemma lookup_NatGateway:
  "map_of (rev initializeCalculators) ''AWS::EC2::NatGateway'' = Some calc_EC2_NatGateway"
  by (simp add: initializeCalculators_def)

lemma lookup_TransitGatewayAttachment:
  "map_of (rev initializeCalculators) ''AWS::EC2::TransitGatewayAttachment''
     = Some calc_EC2_TransitGatewayAttachment"
  by (simp add: initializeCalculators_def)

lemma lookup_NetworkFirewall:
  "map_of (rev initializeCalculators) ''AWS::NetworkFirewall::Firewall''
     = Some calc_NetworkFirewall_Firewall"
  by (simp add: initializeCalculators_def)

lemma lookup_Volume:
  "map_of (rev initializeCalculators) ''AWS::EC2::Volume'' = Some calc_EC2_Volume"
  by (simp add: initializeCalculators_def)


lemma lookup_unknown:
  "map_of (rev initializeCalculators) ''AWS::Foo::Bar'' = None"
  by (simp add: initializeCalculators_def)

lemma lookup_Topic:
  "map_of (rev initializeCalculators) ''AWS::SNS::Topic'' = None"
  by (simp add: initializeCalculators_def)

lemma registered_not_free_all:
  "list_all (\<lambda>(k, c). isFreeResource rt (JStr k) = Inr False) initializeCalculators"
  unfolding initializeCalculators_def
  by (simp add: isFreeResource_def Set_has_def FREE_RESOURCES_def)

lemma registered_not_free:
  assumes "calculators_get (new_CostCalculator table regionName) (JStr k) = Some c"
  shows "isFreeResource rt (JStr k) = Inr False"
proof -
  from assms have "map_of (rev initializeCalculators) k = Some c"
    by (simp add: registry_lookup)
  then have "(k, c) \<in> set initializeCalculators"
    by (auto dest: map_of_SomeD)
  with registered_not_free_all [of rt] show ?thesis
    by (auto simp: list_all_iff)
qed

lemma natGateway_sample:
  "calc_EC2_NatGateway sampleRuntime ''Nat'' natGatewayResource sampleTemplate samplePricing
     = Inr (Some natGatewayCost)"
  by (simp add: calc_EC2_NatGateway_def Let_def samplePricing_def orElse_def HOURS_PER_MONTH_def
      natGatewayCost_def)

lemma brokenVolume_sample:
  "calc_EC2_Volume sampleRuntime ''Vol'' brokenVolumeResource sampleTemplate samplePricing
     = Inl (Error ''toLowerCase is not a function'')"
  by (simp add: calc_EC2_Volume_def Let_def bindE_def toLowerCase_def getPropertyValue_def
      brokenVolumeResource_def sampleRuntime_def)


lemma extractResources_sample:
  "extractResources sampleTemplate = Resources sampleTemplate"
  by (simp add: extractResources_def sampleTemplate_def natGatewayResource_def topicResource_def
      brokenVolumeResource_def)

lemma Resources_sample:
  "Resources sampleTemplate =
     [(''Nat'', natGatewayResource), (''Topic'', topicResource), (''Vol'', brokenVolumeResource),
      (''Mystery'', JObj [(''Type'', JStr ''AWS::Foo::Bar'')])]"
  by (simp add: sampleTemplate_def)

lemma processEntry_Nat:
  "processEntry sampleRuntime sampleCalculator sampleTemplate (''Nat'', natGatewayResource)
     = Inr ([natGatewayCost], [])"
proof -
  have ty: "member natGatewayResource ''Type'' = JStr ''AWS::EC2::NatGateway''"
    by (simp add: natGatewayResource_def)
  have free: "isFreeResource sampleRuntime (JStr ''AWS::EC2::NatGateway'') = Inr False"
    by (simp add: isFreeResource_def Set_has_def FREE_RESOURCES_def)
  have reg: "calculators_get sampleCalculator (JStr ''AWS::EC2::NatGateway'') = Some calc_EC2_NatGateway"
    by (simp add: sampleCalculator_def registry_lookup lookup_NatGateway)
  have pr: "pricing sampleCalculator = samplePricing"
    by (simp add: sampleCalculator_def new_CostCalculator_def)
  show ?thesis
    by (simp add: processEntry_def Let_def bindE_def ty free reg pr natGateway_sample)
qed

lemma processEntry_Topic:
  "processEntry sampleRuntime sampleCalculator sampleTemplate (''Topic'', topicResource)
     = Inr ([], [])"
  by (rule processEntry_free)
     (simp add: topicResource_def isFreeResource_def Set_has_def FREE_RESOURCES_def)

lemma pricing_sampleCalculator: "pricing sampleCalculator = samplePricing"
  by (simp add: sampleCalculator_def new_CostCalculator_def)

lemma brokenVolume_registered:
  "member brokenVolumeResource ''Type'' = JStr ''AWS::EC2::Volume''
   \<and> calculators_get sampleCalculator (JStr ''AWS::EC2::Volume'') = Some calc_EC2_Volume"
  by (simp add: brokenVolumeResource_def sampleCalculator_def registry_lookup lookup_Volume)

lemma processEntry_Vol:
  "processEntry sampleRuntime sampleCalculator sampleTemplate (''Vol'', brokenVolumeResource)
     = Inr ([], [brokenVolumeRecord])"
proof -
  have free: "isFreeResource sampleRuntime (JStr ''AWS::EC2::Volume'') = Inr False"
    by (simp add: isFreeResource_def Set_has_def FREE_RESOURCES_def)
  show ?thesis
    using processEntry_throw [of brokenVolumeResource "''AWS::EC2::Volume''" sampleRuntime
        sampleCalculator calc_EC2_Volume "''Vol''" sampleTemplate "Error ''toLowerCase is not a function''"]
    by (simp add: brokenVolume_registered pricing_sampleCalculator free brokenVolume_sample
        errorText_def brokenVolumeRecord_def)
qed

lemma processEntry_Mystery:
  "processEntry sampleRuntime sampleCalculator sampleTemplate
     (''Mystery'', JObj [(''Type'', JStr ''AWS::Foo::Bar'')])
     = Inr ([], [mysteryRecord])"
proof -
  have free: "isFreeResource sampleRuntime (JStr ''AWS::Foo::Bar'') = Inr False"
    by (simp add: isFreeResource_def Set_has_def FREE_RESOURCES_def)
  have reg: "calculators_get sampleCalculator (JStr ''AWS::Foo::Bar'') = None"
    by (simp add: sampleCalculator_def registry_lookup lookup_unknown)
  have usage: "\<not> Set_has USAGE_BASED_RESOURCES (JStr ''AWS::Foo::Bar'')"
    by (simp add: Set_has_def USAGE_BASED_RESOURCES_def)
  show ?thesis
    by (simp add: processEntry_def Let_def bindE_def free reg usage mysteryRecord_def)
qed

lemma sample_stack:
  "calculateStackCost sampleRuntime sampleCalculator ''sample'' sampleTemplate Local
     ''2024-01-01T00:00:00.000Z'' = Inr sampleStackEstimate"
proof -
  have "processResources sampleRuntime sampleCalculator sampleTemplate
          (extractResources sampleTemplate) ([], [])
        = Inr ([natGatewayCost], [brokenVolumeRecord, mysteryRecord])"
    unfolding extractResources_sample Resources_sample
    by (simp add: bindE_def processEntry_Nat processEntry_Topic processEntry_Vol
        processEntry_Mystery)
  then show ?thesis
    by (simp add: calculateStackCost_def Let_def bindE_def sampleStackEstimate_def
        natGatewayCost_def)
qed




section \<open>The claims about the stack cost\<close>


lemma pushedBy_cases:
  "pushedBy rt this template e = ([], [])
   \<or> processEntry rt this template e = Inr (pushedBy rt this template e)"
  by (cases "processEntry rt this template e") (simp_all add: pushedBy_def)

lemma pushedBy_cost:
  assumes "rc \<in> set (fst (pushedBy rt (new_CostCalculator table regionName) template (logicalId, resource)))"
  shows "ResourceCost.resourceId rc = logicalId
         \<and> ((member resource ''Type'' = JStr ''AWS::WAFv2::WebACL'' \<longrightarrow> rulesIsArray resource) \<longrightarrow>
              ResourceCost.monthlyCost rc = detailsTotal rc)"
proof -
  define this where "this = new_CostCalculator table regionName"
  define p where "p = pushedBy rt this template (logicalId, resource)"
  from assms have "p \<noteq> ([], [])"
    by (auto simp: p_def this_def)
  with pushedBy_cases [of rt this template "(logicalId, resource)"]
  have "processEntry rt this template (logicalId, resource) = Inr (fst p, snd p)"
    by (simp add: p_def)
  from processEntry_pushed [OF this [unfolded this_def]] assms show ?thesis
    by (simp add: p_def this_def)
qed

lemma pushedBy_unsupported:
  assumes "u \<in> set (snd (pushedBy rt (new_CostCalculator table regionName) template (logicalId, resource)))"
  shows "UnsupportedResource.resourceId u = logicalId"
proof -
  define this where "this = new_CostCalculator table regionName"
  define p where "p = pushedBy rt this template (logicalId, resource)"
  from assms have "p \<noteq> ([], [])"
    by (auto simp: p_def this_def)
  with pushedBy_cases [of rt this template "(logicalId, resource)"]
  have "processEntry rt this template (logicalId, resource) = Inr (fst p, snd p)"
    by (simp add: p_def)
  from processEntry_pushed [OF this [unfolded this_def]] assms show ?thesis
    by (simp add: p_def this_def)
qed

lemma distinct_extractResources:
  "distinct (map fst (Resources template)) \<Longrightarrow> distinct (map fst (extractResources template))"
  by (simp add: extractResources_def distinct_map_filter)




text \<open>
  C1. A cost record returned by a calculator of the registry has an hourly cost equal to its
  monthly cost divided by \<^verbatim>\<open>HOURS_PER_MONTH\<close>, for every registered type but three; so has a
  record returned by a usage-based estimator. For a NAT gateway, a transit-gateway attachment
  and a network firewall, the hourly cost is the quotient of the monthly cost
  \<^emph>\<open>less the data-processing charge\<close>: it differs from the quotient of the monthly cost
  whenever that charge is not zero.
\<close>

theorem registry_hourlyCost:
  assumes "calculators_get (new_CostCalculator table regionName) (JStr ty) = Some calculator"
    and "calculator rt logicalId resource template table = Inr (Some rc)"
  shows "(ty \<notin> set dataProcessingTypes \<longrightarrow>
            hourlyCost rc = ResourceCost.monthlyCost rc / HOURS_PER_MONTH)
       \<and> (ty = ''AWS::EC2::NatGateway'' \<longrightarrow>
            hourlyCost rc =
              (ResourceCost.monthlyCost rc
                 - orElse (price table [''natGateway'', ''perGB'']) 0.045 * 100) / HOURS_PER_MONTH)
       \<and> (ty = ''AWS::EC2::TransitGatewayAttachment'' \<longrightarrow>
            hourlyCost rc =
              (ResourceCost.monthlyCost rc
                 - 100 * orElse (price table [''transitGateway'', ''dataProcessed'']) 0.02) / HOURS_PER_MONTH)
       \<and> (ty = ''AWS::NetworkFirewall::Firewall'' \<longrightarrow>
            hourlyCost rc = (ResourceCost.monthlyCost rc - 100 * 0.065) / HOURS_PER_MONTH)
       \<and> (\<forall>this rc'. calculateUsageBasedResource rt this logicalId resource template = Inr (Some rc') \<longrightarrow>
            hourlyCost rc' = ResourceCost.monthlyCost rc' / HOURS_PER_MONTH)"
proof -
  from assms(1) have lookup: "map_of (rev initializeCalculators) ty = Some calculator"
    by (simp add: registry_lookup)
  from registry_lookup_sound [OF assms(1)] assms(2)
  have "ty \<notin> set dataProcessingTypes \<longrightarrow> hourlyConsistent rc"
    by (simp add: soundCalculator_def)
  then have others: "ty \<notin> set dataProcessingTypes \<longrightarrow>
      hourlyCost rc = ResourceCost.monthlyCost rc / HOURS_PER_MONTH"
    by (simp add: hourlyConsistent_def)
  have nat: "ty = ''AWS::EC2::NatGateway'' \<longrightarrow>
      hourlyCost rc =
        (ResourceCost.monthlyCost rc
           - orElse (price table [''natGateway'', ''perGB'']) 0.045 * 100) / HOURS_PER_MONTH"
  proof
    assume "ty = ''AWS::EC2::NatGateway''"
    with lookup have "calculator = calc_EC2_NatGateway"
      by (simp add: lookup_NatGateway)
    with assms(2) show "hourlyCost rc =
        (ResourceCost.monthlyCost rc
           - orElse (price table [''natGateway'', ''perGB'']) 0.045 * 100) / HOURS_PER_MONTH"
      by (auto simp: calc_EC2_NatGateway_def Let_def HOURS_PER_MONTH_def)
  qed
  have tgw: "ty = ''AWS::EC2::TransitGatewayAttachment'' \<longrightarrow>
      hourlyCost rc =
        (ResourceCost.monthlyCost rc
           - 100 * orElse (price table [''transitGateway'', ''dataProcessed'']) 0.02) / HOURS_PER_MONTH"
  proof
    assume "ty = ''AWS::EC2::TransitGatewayAttachment''"
    with lookup have "calculator = calc_EC2_TransitGatewayAttachment"
      by (simp add: lookup_TransitGatewayAttachment)
    with assms(2) show "hourlyCost rc =
        (ResourceCost.monthlyCost rc
           - 100 * orElse (price table [''transitGateway'', ''dataProcessed'']) 0.02) / HOURS_PER_MONTH"
      by (auto simp: calc_EC2_TransitGatewayAttachment_def Let_def HOURS_PER_MONTH_def)
  qed
  have fw: "ty = ''AWS::NetworkFirewall::Firewall'' \<longrightarrow>
      hourlyCost rc = (ResourceCost.monthlyCost rc - 100 * 0.065) / HOURS_PER_MONTH"
  proof
    assume "ty = ''AWS::NetworkFirewall::Firewall''"
    with lookup have "calculator = calc_NetworkFirewall_Firewall"
      by (simp add: lookup_NetworkFirewall)
    with assms(2) show "hourlyCost rc = (ResourceCost.monthlyCost rc - 100 * 0.065) / HOURS_PER_MONTH"
      by (auto simp: calc_NetworkFirewall_Firewall_def Let_def HOURS_PER_MONTH_def)
  qed
  have usage: "\<forall>this rc'. calculateUsageBasedResource rt this logicalId resource template = Inr (Some rc') \<longrightarrow>
      hourlyCost rc' = ResourceCost.monthlyCost rc' / HOURS_PER_MONTH"
    using calculateUsageBasedResource_cost [of rt _ logicalId resource template]
    by (auto simp: hourlyConsistent_def)
  from others nat tgw fw usage show ?thesis
    by blast
qed

text \<open>
  The NAT gateway of the sample template, at 0.045 an hour and 0.045 a GB: the monthly cost is
  \<open>0.045 * 730 + 0.045 * 100 = 37.35\<close>, the hourly cost is \<open>0.045\<close>, and \<open>37.35 / 730\<close> is
  not \<open>0.045\<close>.
\<close>

theorem registry_hourlyCost_witness:
  "calculators_get sampleCalculator (JStr ''AWS::EC2::NatGateway'') = Some calc_EC2_NatGateway
   \<and> calc_EC2_NatGateway sampleRuntime ''Nat'' natGatewayResource sampleTemplate samplePricing
       = Inr (Some natGatewayCost)
   \<and> ResourceCost.monthlyCost natGatewayCost = 37.35
   \<and> hourlyCost natGatewayCost = 0.045
   \<and> hourlyCost natGatewayCost = (ResourceCost.monthlyCost natGatewayCost - 4.5) / HOURS_PER_MONTH
   \<and> hourlyCost natGatewayCost \<noteq> ResourceCost.monthlyCost natGatewayCost / HOURS_PER_MONTH"
proof -
  have reg: "calculators_get (new_CostCalculator samplePricing ''us-east-1'') (JStr ''AWS::EC2::NatGateway'')
      = Some calc_EC2_NatGateway"
    by (simp add: registry_lookup lookup_NatGateway)
  have pr: "orElse (price samplePricing [''natGateway'', ''perGB'']) 0.045 = 0.045"
    by (simp add: samplePricing_def orElse_def)
  show ?thesis
    using registry_hourlyCost [of samplePricing "''us-east-1''" "''AWS::EC2::NatGateway''"
        calc_EC2_NatGateway sampleRuntime "''Nat''" natGatewayResource sampleTemplate natGatewayCost]
    by (simp add: reg natGateway_sample pr sampleCalculator_def)
       (simp add: natGatewayCost_def HOURS_PER_MONTH_def)
qed





lemma processResources_skip:
  assumes "processEntry rt this template e = Inr (cs, us)"
  shows "processResources rt this template (front @ e # rest) acc =
     bindE (processResources rt this template front acc) (\<lambda>a.
       processResources rt this template rest (fst a @ cs, snd a @ us))"
  using assms by (simp add: processResources_append bindE_def)

lemma processResources_nothing:
  assumes "processEntry rt this template e = Inr ([], [])"
  shows "processResources rt this template (front @ e # rest) acc =
     processResources rt this template (front @ rest) acc"
  using assms by (simp add: processResources_append bindE_def split: sum.splits)

lemma processEntry_returns:
  assumes "\<not> isl (isFreeResource rt (member (snd e) ''Type''))"
    and "calculators_get this (member (snd e) ''Type'') = None \<longrightarrow>
           \<not> isl (calculateUsageBasedResource rt this (fst e) (snd e) template)"
  shows "\<not> isl (processEntry rt this template e)"
proof
  assume "isl (processEntry rt this template e)"
  then obtain x where "processEntry rt this template e = Inl x"
    by (cases "processEntry rt this template e") simp_all
  from processEntry_Inl [OF this] assms show False
    by auto
qed

lemma processResources_returns:
  "\<forall>e \<in> set es. \<not> isl (processEntry rt this template e) \<Longrightarrow>
   \<exists>res. processResources rt this template es acc = Inr res"
proof (induction es arbitrary: acc)
  case Nil
  then show ?case by simp
next
  case (Cons e es)
  from Cons.prems obtain p where "processEntry rt this template e = Inr p"
    by (cases "processEntry rt this template e") simp_all
  with Cons.IH [of "(fst acc @ fst p, snd acc @ snd p)"] Cons.prems show ?case
    by (simp add: bindE_def)
qed

lemma calculateStackCost_returns:
  assumes "\<forall>e \<in> set (extractResources template). \<not> isl (processEntry rt this template e)"
  shows "\<exists>est. calculateStackCost rt this name template source now = Inr est"
proof -
  from processResources_returns [OF assms, of "([], [])"] obtain res
    where "processResources rt this template (extractResources template) ([], []) = Inr res"
    by blast
  then show ?thesis
    by (simp add: calculateStackCost_def Let_def bindE_def)
qed

text \<open>
  C8 (as amended). Let the template hold, between the entries \<open>front\<close> and \<open>rest\<close>, a resource
  whose type has a registered calculator, and let that calculator throw \<open>error\<close> on it. Then
  the iteration of the resource pushes exactly one record, on \<^verbatim>\<open>unsupportedResources\<close>, with
  the reason \<^verbatim>\<open>Calculation error: \<close> followed by the message, and no cost record, and the
  loop goes on with the entries of \<open>rest\<close>. The calculator is applied once, in the scrutinee
  of the \<^verbatim>\<open>try\<close>. If for no other entry the test of the type throws (it does on a
  \<^verbatim>\<open>Type\<close> that is not a string) and for no other entry a usage-based estimator that the
  dispatch reaches throws, then \<^verbatim>\<open>calculateStackCost\<close> returns an estimate; an estimate that
  it returns holds the record, and its cost records and totals are those of the other
  entries. An exception that leaves \<^verbatim>\<open>calculateStackCost\<close> is one raised for another entry,
  by the test of its type or by a usage-based estimator, outside the \<^verbatim>\<open>try\<close> block: never
  the calculator's.
\<close>

theorem calculator_error_recovered:
  assumes "extractResources template = front @ (logicalId, resource) # rest"
    and "member resource ''Type'' = JStr ty"
    and "calculators_get (new_CostCalculator table regionName) (JStr ty) = Some calculator"
    and "calculator rt logicalId resource template table = Inl error"
    and "u = \<lparr> UnsupportedResource.resourceId = logicalId, UnsupportedResource.resourceType = ty,
               reason = ''Calculation error: '' @ errorText error \<rparr>"
    and "this = new_CostCalculator table regionName"
  shows "processEntry rt this template (logicalId, resource) = Inr ([], [u])
       \<and> processResources rt this template (extractResources template) ([], []) =
           bindE (processResources rt this template front ([], [])) (\<lambda>a.
             processResources rt this template rest (fst a, snd a @ [u]))
       \<and> ((\<forall>e \<in> set (front @ rest).
               \<not> isl (isFreeResource rt (member (snd e) ''Type''))
               \<and> (calculators_get this (member (snd e) ''Type'') = None \<longrightarrow>
                    \<not> isl (calculateUsageBasedResource rt this (fst e) (snd e) template))) \<longrightarrow>
            (\<exists>est. calculateStackCost rt this name template source now = Inr est))
       \<and> (\<forall>est. calculateStackCost rt this name template source now = Inr est \<longrightarrow>
             u \<in> set (unsupportedResources est)
             \<and> resources est = concat (map (\<lambda>e. fst (pushedBy rt this template e)) (front @ rest))
             \<and> totalMonthlyCost est =
                 sum_list (map ResourceCost.monthlyCost
                   (concat (map (\<lambda>e. fst (pushedBy rt this template e)) (front @ rest))))
             \<and> totalHourlyCost est =
                 sum_list (map hourlyCost
                   (concat (map (\<lambda>e. fst (pushedBy rt this template e)) (front @ rest)))))
       \<and> (\<forall>x. calculateStackCost rt this name template source now = Inl x \<longrightarrow>
             (\<exists>e \<in> set (front @ rest).
                isFreeResource rt (member (snd e) ''Type'') = Inl x
                \<or> (calculators_get this (member (snd e) ''Type'') = None
                    \<and> calculateUsageBasedResource rt this (fst e) (snd e) template = Inl x)))"
proof -
  have pr: "pricing this = table"
    by (simp add: assms(6) new_CostCalculator_def)
  have free: "isFreeResource rt (JStr ty) = Inr False"
    using registered_not_free [OF assms(3)] .
  have pe: "processEntry rt this template (logicalId, resource) = Inr ([], [u])"
    using processEntry_throw [of resource ty rt this calculator logicalId template error]
      assms(2) assms(3) assms(4) free pr
    by (simp add: assms(5) assms(6))
  have loop: "processResources rt this template (extractResources template) ([], []) =
      bindE (processResources rt this template front ([], [])) (\<lambda>a.
        processResources rt this template rest (fst a, snd a @ [u]))"
    unfolding assms(1) using processResources_skip [OF pe, of front rest "([], [])"]
    by simp
  have pushed: "pushedBy rt this template (logicalId, resource) = ([], [u])"
    by (simp add: pushedBy_def pe)
  have completes: "(\<forall>e \<in> set (front @ rest).
        \<not> isl (isFreeResource rt (member (snd e) ''Type''))
        \<and> (calculators_get this (member (snd e) ''Type'') = None \<longrightarrow>
             \<not> isl (calculateUsageBasedResource rt this (fst e) (snd e) template))) \<longrightarrow>
      (\<exists>est. calculateStackCost rt this name template source now = Inr est)"
  proof
    assume others: "\<forall>e \<in> set (front @ rest).
        \<not> isl (isFreeResource rt (member (snd e) ''Type''))
        \<and> (calculators_get this (member (snd e) ''Type'') = None \<longrightarrow>
             \<not> isl (calculateUsageBasedResource rt this (fst e) (snd e) template))"
    have "\<forall>e \<in> set (extractResources template). \<not> isl (processEntry rt this template e)"
    proof
      fix e
      assume "e \<in> set (extractResources template)"
      then have "e = (logicalId, resource) \<or> e \<in> set (front @ rest)"
        by (auto simp: assms(1))
      then show "\<not> isl (processEntry rt this template e)"
      proof
        assume "e = (logicalId, resource)"
        with pe show ?thesis
          by simp
      next
        assume "e \<in> set (front @ rest)"
        with others show ?thesis
          by (intro processEntry_returns) blast+
      qed
    qed
    then show "\<exists>est. calculateStackCost rt this name template source now = Inr est"
      by (rule calculateStackCost_returns)
  qed
  have returned: "\<forall>est. calculateStackCost rt this name template source now = Inr est \<longrightarrow>
      u \<in> set (unsupportedResources est)
      \<and> resources est = concat (map (\<lambda>e. fst (pushedBy rt this template e)) (front @ rest))
      \<and> totalMonthlyCost est =
          sum_list (map ResourceCost.monthlyCost
            (concat (map (\<lambda>e. fst (pushedBy rt this template e)) (front @ rest))))
      \<and> totalHourlyCost est =
          sum_list (map hourlyCost
            (concat (map (\<lambda>e. fst (pushedBy rt this template e)) (front @ rest))))"
  proof (intro allI impI)
    fix est
    assume "calculateStackCost rt this name template source now = Inr est"
    note est = calculateStackCost_Inr [OF this]
    from est(1) have res: "resources est =
        concat (map (\<lambda>e. fst (pushedBy rt this template e)) (front @ rest))"
      by (simp add: assms(1) pushed)
    from est(2) have "u \<in> set (unsupportedResources est)"
      by (simp add: assms(1) pushed)
    with res est(3) est(4) show "u \<in> set (unsupportedResources est)
      \<and> resources est = concat (map (\<lambda>e. fst (pushedBy rt this template e)) (front @ rest))
      \<and> totalMonthlyCost est =
          sum_list (map ResourceCost.monthlyCost
            (concat (map (\<lambda>e. fst (pushedBy rt this template e)) (front @ rest))))
      \<and> totalHourlyCost est =
          sum_list (map hourlyCost
            (concat (map (\<lambda>e. fst (pushedBy rt this template e)) (front @ rest))))"
      by simp
  qed
  have thrown: "\<forall>x. calculateStackCost rt this name template source now = Inl x \<longrightarrow>
      (\<exists>e \<in> set (front @ rest).
         isFreeResource rt (member (snd e) ''Type'') = Inl x
         \<or> (calculators_get this (member (snd e) ''Type'') = None
             \<and> calculateUsageBasedResource rt this (fst e) (snd e) template = Inl x))"
  proof (intro allI impI)
    fix x
    assume "calculateStackCost rt this name template source now = Inl x"
    from calculateStackCost_Inl [OF this] obtain e
      where e: "e \<in> set (extractResources template)" and x: "processEntry rt this template e = Inl x"
      by blast
    from x pe have "e \<noteq> (logicalId, resource)"
      by auto
    with e have "e \<in> set (front @ rest)"
      by (simp add: assms(1))
    with processEntry_Inl [OF x]
    show "\<exists>e \<in> set (front @ rest).
         isFreeResource rt (member (snd e) ''Type'') = Inl x
         \<or> (calculators_get this (member (snd e) ''Type'') = None
             \<and> calculateUsageBasedResource rt this (fst e) (snd e) template = Inl x)"
      by blast
  qed
  from pe loop completes returned thrown show ?thesis
    by blast
qed

text \<open>
  The volume of the sample template has the number 5 as its \<^verbatim>\<open>VolumeType\<close>; the calculator
  calls \<^verbatim>\<open>toLowerCase\<close> on it and throws a \<^verbatim>\<open>TypeError\<close>, whose message is the engine's
  (here the one \<open>sampleRuntime\<close> gives for the missing method). No other entry of the
  template throws: the estimate is returned, with the NAT gateway that precedes the volume
  and the unsupported resource that follows it.
\<close>

theorem calculator_error_recovered_witness:
  "calc_EC2_Volume sampleRuntime ''Vol'' brokenVolumeResource sampleTemplate samplePricing
     = Inl (Error (typeErrorMessage sampleRuntime ''toLowerCase''))
   \<and> processEntry sampleRuntime sampleCalculator sampleTemplate (''Vol'', brokenVolumeResource)
       = Inr ([], [\<lparr> UnsupportedResource.resourceId = ''Vol'',
                       UnsupportedResource.resourceType = ''AWS::EC2::Volume'',
                       reason = ''Calculation error: '' @ typeErrorMessage sampleRuntime ''toLowerCase'' \<rparr>])
   \<and> \<not> isl (calculateStackCost sampleRuntime sampleCalculator ''sample'' sampleTemplate Local
       ''2024-01-01T00:00:00.000Z'')
   \<and> calculateStackCost sampleRuntime sampleCalculator ''sample'' sampleTemplate Local
       ''2024-01-01T00:00:00.000Z'' = Inr sampleStackEstimate
   \<and> brokenVolumeRecord \<in> set (unsupportedResources sampleStackEstimate)
   \<and> reason brokenVolumeRecord = ''Calculation error: '' @ typeErrorMessage sampleRuntime ''toLowerCase''
   \<and> resources sampleStackEstimate =
       concat (map (\<lambda>e. fst (pushedBy sampleRuntime sampleCalculator sampleTemplate e))
         ([(''Nat'', natGatewayResource), (''Topic'', topicResource)]
           @ [(''Mystery'', JObj [(''Type'', JStr ''AWS::Foo::Bar'')])]))
   \<and> resources sampleStackEstimate = [natGatewayCost]
   \<and> totalMonthlyCost sampleStackEstimate = 37.35"
proof -
  have entries: "extractResources sampleTemplate =
      [(''Nat'', natGatewayResource), (''Topic'', topicResource)]
        @ (''Vol'', brokenVolumeResource) # [(''Mystery'', JObj [(''Type'', JStr ''AWS::Foo::Bar'')])]"
    by (simp add: extractResources_sample Resources_sample)
  have reg: "calculators_get (new_CostCalculator samplePricing ''us-east-1'') (JStr ''AWS::EC2::Volume'')
      = Some calc_EC2_Volume"
    using brokenVolume_registered by (simp add: sampleCalculator_def)
  have rec: "brokenVolumeRecord =
      \<lparr> UnsupportedResource.resourceId = ''Vol'', UnsupportedResource.resourceType = ''AWS::EC2::Volume'',
        reason = ''Calculation error: '' @ errorText (Error ''toLowerCase is not a function'') \<rparr>"
    by (simp add: brokenVolumeRecord_def errorText_def)
  have msg: "typeErrorMessage sampleRuntime ''toLowerCase'' = ''toLowerCase is not a function''"
    by (simp add: sampleRuntime_def)
  have others: "\<forall>e \<in> set ([(''Nat'', natGatewayResource), (''Topic'', topicResource)]
        @ [(''Mystery'', JObj [(''Type'', JStr ''AWS::Foo::Bar'')])]).
      \<not> isl (isFreeResource sampleRuntime (member (snd e) ''Type''))
      \<and> (calculators_get sampleCalculator (member (snd e) ''Type'') = None \<longrightarrow>
           \<not> isl (calculateUsageBasedResource sampleRuntime sampleCalculator (fst e) (snd e) sampleTemplate))"
    by (simp add: natGatewayResource_def topicResource_def isFreeResource_def Set_has_def
        FREE_RESOURCES_def calculateUsageBasedResource_def Let_def calculateSNSCost_def)
  from calculator_error_recovered [OF entries _ reg brokenVolume_sample rec sampleCalculator_def,
      of "''sample''" Local "''2024-01-01T00:00:00.000Z''"]
    brokenVolume_registered sample_stack others
  have "processEntry sampleRuntime sampleCalculator sampleTemplate (''Vol'', brokenVolumeResource)
       = Inr ([], [brokenVolumeRecord])
     \<and> (\<exists>est. calculateStackCost sampleRuntime sampleCalculator ''sample'' sampleTemplate Local
           ''2024-01-01T00:00:00.000Z'' = Inr est)
     \<and> brokenVolumeRecord \<in> set (unsupportedResources sampleStackEstimate)
     \<and> resources sampleStackEstimate =
       concat (map (\<lambda>e. fst (pushedBy sampleRuntime sampleCalculator sampleTemplate e))
         ([(''Nat'', natGatewayResource), (''Topic'', topicResource)]
           @ [(''Mystery'', JObj [(''Type'', JStr ''AWS::Foo::Bar'')])]))"
    by blast
  with brokenVolume_sample sample_stack msg show ?thesis
    by (auto simp: sampleStackEstimate_def brokenVolumeRecord_def)
qed

text \<open>
  The claim as first stated has the stack-level computation complete whenever a registered
  calculator throws. In \<open>throwingTemplate\<close> the calculator of the volume throws and is
  recovered from, and then the estimator of the queue throws outside the \<^verbatim>\<open>try\<close> block:
  \<^verbatim>\<open>calculateStackCost\<close> returns no estimate, the exception of the estimator leaves it.
\<close>

theorem calculator_error_recovered_counterexample:
  "extractResources throwingTemplate = [(''Vol'', brokenVolumeResource), (''Queue'', queueResource)]
   \<and> calculators_get sampleCalculator (member brokenVolumeResource ''Type'') = Some calc_EC2_Volume
   \<and> calc_EC2_Volume sampleRuntime ''Vol'' brokenVolumeResource throwingTemplate samplePricing
       = Inl (Error (typeErrorMessage sampleRuntime ''toLowerCase''))
   \<and> processEntry sampleRuntime sampleCalculator throwingTemplate (''Vol'', brokenVolumeResource)
       = Inr ([], [brokenVolumeRecord])
   \<and> calculateUsageBasedResource sampleRuntime sampleCalculator ''Queue'' queueResource throwingTemplate
       = Inl (Error (typeErrorMessage sampleRuntime ''endsWith''))
   \<and> calculateStackCost sampleRuntime sampleCalculator ''throwing'' throwingTemplate Local
       ''2024-01-01T00:00:00.000Z'' = Inl (Error (typeErrorMessage sampleRuntime ''endsWith''))"
proof -
  have entries: "extractResources throwingTemplate
      = [(''Vol'', brokenVolumeResource), (''Queue'', queueResource)]"
    by (simp add: extractResources_def throwingTemplate_def brokenVolumeResource_def queueResource_def)
  have vol: "calc_EC2_Volume sampleRuntime ''Vol'' brokenVolumeResource throwingTemplate samplePricing
       = Inl (Error (typeErrorMessage sampleRuntime ''toLowerCase''))"
    by (simp add: calc_EC2_Volume_def Let_def bindE_def toLowerCase_def getPropertyValue_def
        brokenVolumeResource_def)
  have free: "isFreeResource sampleRuntime (JStr ''AWS::EC2::Volume'') = Inr False"
    by (simp add: isFreeResource_def Set_has_def FREE_RESOURCES_def)
  have msg: "typeErrorMessage sampleRuntime ''toLowerCase'' = ''toLowerCase is not a function''"
    by (simp add: sampleRuntime_def)
  have pv: "processEntry sampleRuntime sampleCalculator throwingTemplate (''Vol'', brokenVolumeResource)
       = Inr ([], [brokenVolumeRecord])"
    using processEntry_throw [of brokenVolumeResource "''AWS::EC2::Volume''" sampleRuntime
        sampleCalculator calc_EC2_Volume "''Vol''" throwingTemplate
        "Error (typeErrorMessage sampleRuntime ''toLowerCase'')"]
    by (simp add: brokenVolume_registered pricing_sampleCalculator free vol errorText_def
        brokenVolumeRecord_def msg)
  have qty: "member queueResource ''Type'' = JStr ''AWS::SQS::Queue''"
    by (simp add: queueResource_def)
  have usage: "calculateUsageBasedResource sampleRuntime sampleCalculator ''Queue'' queueResource
      throwingTemplate = Inl (Error (typeErrorMessage sampleRuntime ''endsWith''))"
    by (simp add: calculateUsageBasedResource_def Let_def qty calculateSQSCost_def bindE_def
        queueResource_def qdot_def)
  have qfree: "isFreeResource sampleRuntime (JStr ''AWS::SQS::Queue'') = Inr False"
    by (simp add: isFreeResource_def Set_has_def FREE_RESOURCES_def)
  have qreg: "calculators_get sampleCalculator (JStr ''AWS::SQS::Queue'') = None"
    by (simp add: sampleCalculator_def registry_lookup initializeCalculators_def)
  have qusage: "Set_has USAGE_BASED_RESOURCES (JStr ''AWS::SQS::Queue'')"
    by (simp add: Set_has_def USAGE_BASED_RESOURCES_def)
  have pq: "processEntry sampleRuntime sampleCalculator throwingTemplate (''Queue'', queueResource)
       = Inl (Error (typeErrorMessage sampleRuntime ''endsWith''))"
    by (simp add: processEntry_def Let_def bindE_def qty qfree qreg qusage usage)
  have "calculateStackCost sampleRuntime sampleCalculator ''throwing'' throwingTemplate Local
       ''2024-01-01T00:00:00.000Z'' = Inl (Error (typeErrorMessage sampleRuntime ''endsWith''))"
    by (simp add: calculateStackCost_def Let_def entries bindE_def pv pq)
  with entries vol pv usage brokenVolume_registered show ?thesis
    by simp
qed

text \<open>
  C10. A resource of one of the three types is found free by \<^verbatim>\<open>isFreeResource\<close>, and its
  iteration ends there (\<^verbatim>\<open>continue\<close>): it pushes nothing, and the loop over the template
  gives what the loop without the resource gives, so that the resource adds nothing to the
  totals. \<^verbatim>\<open>calculateUsageBasedResource\<close>, were it called for the resource, would return a
  cost record: its branch for the type is never reached from \<^verbatim>\<open>calculateStackCost\<close>. In an
  estimate returned for a template whose logical identifiers are distinct (they are the keys of
  an object), no cost record and no unsupported resource carries the identifier of the
  resource.
\<close>

theorem free_types_skipped:
  assumes "ty \<in> {''AWS::SNS::Topic'', ''AWS::Logs::LogGroup'', ''AWS::SSM::Parameter''}"
    and "member resource ''Type'' = JStr ty"
    and "extractResources template = front @ (logicalId, resource) # rest"
    and "this = new_CostCalculator table regionName"
  shows "isFreeResource rt (member resource ''Type'') = Inr True
       \<and> processEntry rt this template (logicalId, resource) = Inr ([], [])
       \<and> processResources rt this template (extractResources template) ([], []) =
           processResources rt this template (front @ rest) ([], [])
       \<and> (\<exists>c. calculateUsageBasedResource rt this logicalId resource template = Inr (Some c)
               \<and> ResourceCost.resourceId c = logicalId \<and> ResourceCost.resourceType c = ty)
       \<and> (\<forall>est. calculateStackCost rt this name template source now = Inr est
                  \<and> distinct (map fst (Resources template)) \<longrightarrow>
             logicalId \<notin> set (map ResourceCost.resourceId (resources est))
             \<and> logicalId \<notin> set (map UnsupportedResource.resourceId (unsupportedResources est))
             \<and> totalMonthlyCost est =
                 sum_list (map ResourceCost.monthlyCost
                   (concat (map (\<lambda>e. fst (pushedBy rt this template e)) (front @ rest))))
             \<and> totalHourlyCost est =
                 sum_list (map hourlyCost
                   (concat (map (\<lambda>e. fst (pushedBy rt this template e)) (front @ rest)))))"
proof -
  from assms(1) have free: "isFreeResource rt (JStr ty) = Inr True"
    by (auto simp: isFreeResource_def Set_has_def FREE_RESOURCES_def)
  with assms(2) have free': "isFreeResource rt (member resource ''Type'') = Inr True"
    by simp
  have pe: "processEntry rt this template (logicalId, resource) = Inr ([], [])"
    using free' by (rule processEntry_free)
  have loop: "processResources rt this template (extractResources template) ([], []) =
      processResources rt this template (front @ rest) ([], [])"
    unfolding assms(3) using pe by (rule processResources_nothing)
  have usage: "\<exists>c. calculateUsageBasedResource rt this logicalId resource template = Inr (Some c)
      \<and> ResourceCost.resourceId c = logicalId \<and> ResourceCost.resourceType c = ty"
    using assms(1) assms(2)
    by (auto simp: calculateUsageBasedResource_def Let_def calculateSNSCost_def
        calculateCloudWatchLogsCost_def calculateSSMParameterCost_def)
  have pushed: "pushedBy rt this template (logicalId, resource) = ([], [])"
    by (simp add: pushedBy_def pe)
  have returned: "\<forall>est. calculateStackCost rt this name template source now = Inr est
        \<and> distinct (map fst (Resources template)) \<longrightarrow>
      logicalId \<notin> set (map ResourceCost.resourceId (resources est))
      \<and> logicalId \<notin> set (map UnsupportedResource.resourceId (unsupportedResources est))
      \<and> totalMonthlyCost est =
          sum_list (map ResourceCost.monthlyCost
            (concat (map (\<lambda>e. fst (pushedBy rt this template e)) (front @ rest))))
      \<and> totalHourlyCost est =
          sum_list (map hourlyCost
            (concat (map (\<lambda>e. fst (pushedBy rt this template e)) (front @ rest))))"
  proof (intro allI impI, elim conjE)
    fix est
    assume "calculateStackCost rt this name template source now = Inr est"
      and "distinct (map fst (Resources template))"
    note est = calculateStackCost_Inr [OF this(1)]
    from \<open>distinct (map fst (Resources template))\<close>
    have dist: "distinct (map fst (front @ (logicalId, resource) # rest))"
      using distinct_extractResources [of template] by (simp add: assms(3))
    have other: "fst e \<noteq> logicalId" if "e \<in> set (front @ rest)" for e
    proof -
      from dist have "logicalId \<notin> fst ` set (front @ rest)"
        by auto
      with that show ?thesis
        by force
    qed
    from est(1) have res: "resources est =
        concat (map (\<lambda>e. fst (pushedBy rt this template e)) (front @ rest))"
      by (simp add: assms(3) pushed)
    from est(2) have uns: "unsupportedResources est =
        concat (map (\<lambda>e. snd (pushedBy rt this template e)) (front @ rest))"
      by (simp add: assms(3) pushed)
    have no_cost: "logicalId \<notin> set (map ResourceCost.resourceId (resources est))"
    proof
      assume "logicalId \<in> set (map ResourceCost.resourceId (resources est))"
      then obtain rc e where "e \<in> set (front @ rest)"
        and "rc \<in> set (fst (pushedBy rt this template e))"
        and "ResourceCost.resourceId rc = logicalId"
        unfolding res by auto
      with pushedBy_cost [of rc rt table regionName template "fst e" "snd e"] other [of e]
      show False
        by (simp add: assms(4))
    qed
    have no_unsupported:
      "logicalId \<notin> set (map UnsupportedResource.resourceId (unsupportedResources est))"
    proof
      assume "logicalId \<in> set (map UnsupportedResource.resourceId (unsupportedResources est))"
      then obtain v e where "e \<in> set (front @ rest)"
        and "v \<in> set (snd (pushedBy rt this template e))"
        and "UnsupportedResource.resourceId v = logicalId"
        unfolding uns by auto
      with pushedBy_unsupported [of v rt table regionName template "fst e" "snd e"] other [of e]
      show False
        by (simp add: assms(4))
    qed
    from no_cost no_unsupported est(3) est(4) res
    show "logicalId \<notin> set (map ResourceCost.resourceId (resources est))
      \<and> logicalId \<notin> set (map UnsupportedResource.resourceId (unsupportedResources est))
      \<and> totalMonthlyCost est =
          sum_list (map ResourceCost.monthlyCost
            (concat (map (\<lambda>e. fst (pushedBy rt this template e)) (front @ rest))))
      \<and> totalHourlyCost est =
          sum_list (map hourlyCost
            (concat (map (\<lambda>e. fst (pushedBy rt this template e)) (front @ rest))))"
      by simp
  qed
  from free' pe loop usage returned show ?thesis
    by blast
qed

text \<open>
  The topic of the sample template: the estimate names it nowhere, and the estimator, called
  directly, prices it at 0.50 a month.
\<close>

theorem free_types_skipped_witness:
  "isFreeResource sampleRuntime (member topicResource ''Type'') = Inr True
   \<and> processEntry sampleRuntime sampleCalculator sampleTemplate (''Topic'', topicResource) = Inr ([], [])
   \<and> calculateStackCost sampleRuntime sampleCalculator ''sample'' sampleTemplate Local
       ''2024-01-01T00:00:00.000Z'' = Inr sampleStackEstimate
   \<and> ''Topic'' \<notin> set (map ResourceCost.resourceId (resources sampleStackEstimate))
   \<and> ''Topic'' \<notin> set (map UnsupportedResource.resourceId (unsupportedResources sampleStackEstimate))
   \<and> map ResourceCost.resourceId (resources sampleStackEstimate) = [''Nat'']
   \<and> map UnsupportedResource.resourceId (unsupportedResources sampleStackEstimate)
       = [''Vol'', ''Mystery'']
   \<and> map_sum id (map_option ResourceCost.monthlyCost)
        (calculateUsageBasedResource sampleRuntime sampleCalculator ''Topic'' topicResource sampleTemplate)
       = Inr (Some 0.5)"
proof -
  have entries: "extractResources sampleTemplate =
      [(''Nat'', natGatewayResource)]
        @ (''Topic'', topicResource) # [(''Vol'', brokenVolumeResource),
            (''Mystery'', JObj [(''Type'', JStr ''AWS::Foo::Bar'')])]"
    by (simp add: extractResources_sample Resources_sample)
  have ty: "member topicResource ''Type'' = JStr ''AWS::SNS::Topic''"
    by (simp add: topicResource_def)
  have dist: "distinct (map fst (Resources sampleTemplate))"
    by (simp add: Resources_sample)
  have usage: "map_sum id (map_option ResourceCost.monthlyCost)
        (calculateUsageBasedResource sampleRuntime sampleCalculator ''Topic'' topicResource sampleTemplate)
       = Inr (Some 0.5)"
    by (simp add: calculateUsageBasedResource_def Let_def ty calculateSNSCost_def groupField_def
        pricing_sampleCalculator samplePricing_def)
  from free_types_skipped [OF _ ty entries sampleCalculator_def,
      of sampleRuntime "''sample''" Local "''2024-01-01T00:00:00.000Z''"]
    sample_stack dist
  have "isFreeResource sampleRuntime (member topicResource ''Type'') = Inr True
     \<and> processEntry sampleRuntime sampleCalculator sampleTemplate (''Topic'', topicResource) = Inr ([], [])
     \<and> ''Topic'' \<notin> set (map ResourceCost.resourceId (resources sampleStackEstimate))
     \<and> ''Topic'' \<notin> set (map UnsupportedResource.resourceId (unsupportedResources sampleStackEstimate))"
    by simp
  with sample_stack usage show ?thesis
    by (simp add: sampleStackEstimate_def natGatewayCost_def brokenVolumeRecord_def mysteryRecord_def)
qed


section \<open>Properties of the regional pricing\<close>

lemma tree_fields_induct:
  assumes "\<And>x. P (Tnum x)" and "P Tnan" and "\<And>s. P (Tstr s)" and "\<And>b. P (Tbool b)"
    and "P Tnull" and "\<And>fs. R fs \<Longrightarrow> P (Tobj fs)" and "\<And>k t. P t \<Longrightarrow> Q (k, t)"
    and "R []" and "\<And>f fs. Q f \<Longrightarrow> R fs \<Longrightarrow> R (f # fs)"
  shows "P t" and "Q f" and "R fs"
proof -
  from assms have "P t \<and> Q f \<and> R fs"
    by (rule construct_construct_fields_construct_field.induct)
  then show "P t" and "Q f" and "R fs"
    by simp_all
qed

lemma represents_frame:
  fixes h h' :: store
  shows "represents t h v A \<Longrightarrow> \<forall>a\<in>A. cells h' a = cells h a \<Longrightarrow> represents t h' v A"
    and "represents_field f h p A \<Longrightarrow> \<forall>a\<in>A. cells h' a = cells h a \<Longrightarrow> represents_field f h' p A"
    and "represents_fields fs h ps A \<Longrightarrow> \<forall>a\<in>A. cells h' a = cells h a \<Longrightarrow> represents_fields fs h' ps A"
proof (induction t and f and fs arbitrary: v A and p A and ps A
    rule: tree_fields_induct)
  case (6 fs)
  from "6.prems"(1) obtain a props B where *: "v = HRef a" "cells h a = Some props"
    "distinct (map fst props)" "represents_fields fs h props B" "a \<notin> B" "A = insert a B"
    by auto
  from "6.prems"(2) * have "cells h' a = Some props" "\<forall>a\<in>B. cells h' a = cells h a"
    by auto
  with "6.IH" [OF *(4)] * show ?case
    by auto
next
  case (9 f fs)
  from "9.prems"(1) obtain p ps' A1 B where *: "ps = p # ps'" "represents_field f h p A1"
    "represents_fields fs h ps' B" "A1 \<inter> B = {}" "A = A1 \<union> B"
    by auto
  from "9.prems"(2) * have "\<forall>a\<in>A1. cells h' a = cells h a" "\<forall>a\<in>B. cells h' a = cells h a"
    by auto
  with "9.IH"(1) [OF *(2)] "9.IH"(2) [OF *(3)] * show ?case
    by auto
qed auto

lemma represents_keys:
  "represents_fields fs h ps B \<Longrightarrow> map fst ps = map fst fs"
proof (induction fs arbitrary: ps B)
  case Nil
  then show ?case by simp
next
  case (Cons f fs)
  then show ?case by (cases f) auto
qed

lemma stringify_represents:
  fixes h :: store
  shows "represents t h v A \<Longrightarrow> document t \<Longrightarrow> depth t \<le> n \<Longrightarrow> JSON_stringify n h v = Some t"
    and "represents_field f h p A \<Longrightarrow> document_field f \<Longrightarrow> depth_field f \<le> n \<Longrightarrow>
           fst p = fst f \<and> JSON_stringify n h (snd p) = Some (snd f)"
    and "represents_fields fs h ps A \<Longrightarrow> document_fields fs \<Longrightarrow> depth_fields fs \<le> n \<Longrightarrow>
           stringify_props n h ps = Some fs"
proof (induction t and f and fs arbitrary: v A n and p A n and ps A n
    rule: tree_fields_induct)
  case (6 fs)
  from "6.prems"(1) obtain a props B where *: "v = HRef a" "cells h a = Some props"
    "represents_fields fs h props B"
    by auto
  from "6.prems"(3) obtain n' where n: "n = Suc n'" "depth_fields fs \<le> n'"
    by (cases n) auto
  from "6.IH" [OF *(3) _ n(2)] "6.prems"(2) have "stringify_props n' h props = Some fs"
    by simp
  with * n show ?case
    by simp
next
  case (9 f fs)
  from "9.prems"(1) obtain p ps' A1 B where *: "ps = p # ps'" "represents_field f h p A1"
    "represents_fields fs h ps' B"
    by auto
  from "9.prems" have "document_field f" "document_fields fs" "depth_field f \<le> n" "depth_fields fs \<le> n"
    by auto
  with "9.IH"(1) [OF *(2), of n] "9.IH"(2) [OF *(3), of n] *(1) show ?case
    by (cases p; cases f) auto
qed auto

lemma construct_represents:
  shows "allocated h \<Longrightarrow> construct t h = (v, h') \<Longrightarrow> document t \<Longrightarrow>
           (\<exists>A. represents t h' v A \<and> A \<subseteq> {fresh h..<fresh h'}) \<and> fresh h \<le> fresh h'
           \<and> (\<forall>a<fresh h. cells h' a = cells h a) \<and> allocated h'"
    and "allocated h \<Longrightarrow> construct_field f h = (p, h') \<Longrightarrow> document_field f \<Longrightarrow>
           (\<exists>A. represents_field f h' p A \<and> A \<subseteq> {fresh h..<fresh h'}) \<and> fresh h \<le> fresh h'
           \<and> (\<forall>a<fresh h. cells h' a = cells h a) \<and> allocated h'"
    and "allocated h \<Longrightarrow> construct_fields fs h = (ps, h') \<Longrightarrow> document_fields fs \<Longrightarrow>
           (\<exists>A. represents_fields fs h' ps A \<and> A \<subseteq> {fresh h..<fresh h'}) \<and> fresh h \<le> fresh h'
           \<and> (\<forall>a<fresh h. cells h' a = cells h a) \<and> allocated h'"
proof (induction t and f and fs arbitrary: h v h' and h p h' and h ps h'
    rule: tree_fields_induct)
  case (6 fs)
  obtain props h1 where c: "construct_fields fs h = (props, h1)"
    by (cases "construct_fields fs h")
  with "6.prems"(2) have v: "v = HRef (fresh h1)"
    and h': "h' = h1 \<lparr> cells := (cells h1)(fresh h1 \<mapsto> props), fresh := Suc (fresh h1) \<rparr>"
    by (simp_all add: allocate_def)
  from "6.prems"(3) have doc: "distinct (map fst fs)" "document_fields fs"
    by simp_all
  from "6.IH" [OF "6.prems"(1) c doc(2)] obtain B where B: "represents_fields fs h1 props B"
    "B \<subseteq> {fresh h..<fresh h1}" "fresh h \<le> fresh h1" "\<forall>a<fresh h. cells h1 a = cells h a"
    "allocated h1"
    by blast
  from B(2) have "\<forall>a\<in>B. cells h' a = cells h1 a"
    by (auto simp: h')
  from represents_frame(3) [OF B(1) this] have r: "represents_fields fs h' props B" .
  from represents_keys [OF B(1)] doc(1) have d: "distinct (map fst props)"
    by simp
  from B(2) have nin: "fresh h1 \<notin> B"
    by auto
  have "represents (Tobj fs) h' v (insert (fresh h1) B)"
    using r d nin by (auto simp: v h')
  moreover have "insert (fresh h1) B \<subseteq> {fresh h..<fresh h'}"
    using B(2) B(3) by (auto simp: h')
  moreover have "fresh h \<le> fresh h'"
    using B(3) by (simp add: h')
  moreover have "\<forall>a<fresh h. cells h' a = cells h a"
    using B(3) B(4) by (auto simp: h')
  moreover have "allocated h'"
    using B(5) by (auto simp: allocated_def h')
  ultimately show ?case
    by blast
next
  case (7 k t)
  obtain v h1 where c: "construct t h = (v, h1)"
    by (cases "construct t h")
  with "7.prems"(2) have p: "p = (k, v)" "h' = h1"
    by simp_all
  from "7.IH" [OF "7.prems"(1) c] "7.prems"(3) p show ?case
    by auto
next
  case (9 f fs)
  obtain p1 h1 where c1: "construct_field f h = (p1, h1)"
    by (cases "construct_field f h")
  obtain ps1 h2 where c2: "construct_fields fs h1 = (ps1, h2)"
    by (cases "construct_fields fs h1")
  from "9.prems"(2) c1 c2 have ps: "ps = p1 # ps1" "h' = h2"
    by simp_all
  from "9.prems"(3) have doc: "document_field f" "document_fields fs"
    by simp_all
  from "9.IH"(1) [OF "9.prems"(1) c1 doc(1)] obtain A where A: "represents_field f h1 p1 A"
    "A \<subseteq> {fresh h..<fresh h1}" "fresh h \<le> fresh h1" "\<forall>a<fresh h. cells h1 a = cells h a"
    "allocated h1"
    by blast
  from "9.IH"(2) [OF A(5) c2 doc(2)] obtain B where B: "represents_fields fs h2 ps1 B"
    "B \<subseteq> {fresh h1..<fresh h2}" "fresh h1 \<le> fresh h2" "\<forall>a<fresh h1. cells h2 a = cells h1 a"
    "allocated h2"
    by blast
  from A(2) B(4) have "\<forall>a\<in>A. cells h2 a = cells h1 a"
    by auto
  from represents_frame(2) [OF A(1) this] have rA: "represents_field f h2 p1 A" .
  from A(2) B(2) have disj: "A \<inter> B = {}"
    by fastforce
  have "represents_fields (f # fs) h' ps (A \<union> B)"
    using rA B(1) disj by (auto simp: ps)
  moreover have "A \<union> B \<subseteq> {fresh h..<fresh h'}"
    using A(2) A(3) B(2) B(3) by (auto simp: ps)
  moreover have "fresh h \<le> fresh h'"
    using A(3) B(3) by (simp add: ps)
  moreover have "\<forall>a<fresh h. cells h' a = cells h a"
    using A(3) A(4) B(4) by (auto simp: ps)
  ultimately show ?case
    using B(5) ps(2) by blast
qed auto

lemma scale_keys: "map fst (scale_fields m fs) = map fst fs"
proof (induction fs)
  case Nil
  then show ?case by simp
next
  case (Cons f fs)
  then show ?case by (cases f) simp
qed

lemma update_mid:
  "k \<notin> fst ` set ps1 \<Longrightarrow> AList.update k w (ps1 @ (k, v) # ps) = ps1 @ (k, w) # ps"
  by (induction ps1) auto

lemma getProp_mid:
  assumes "cells h a = Some (ps1 @ (k, v) # ps)" and "k \<notin> fst ` set ps1"
  shows "getProp h a k = Some v"
proof -
  from assms(2) have "map_of ps1 k = None"
    by (simp add: map_of_eq_None_iff)
  with assms(1) show ?thesis
    by (simp add: getProp_def map_add_def)
qed

lemma setProp_mid:
  assumes "cells h a = Some (ps1 @ (k, v) # ps)" and "k \<notin> fst ` set ps1"
  shows "setProp h a k w = h \<lparr> cells := (cells h)(a \<mapsto> ps1 @ (k, w) # ps) \<rparr>"
  using assms by (simp add: setProp_def update_mid)

lemma leaf_represents:
  assumes "represents t h v A" and "depth t = 0"
  shows "A = {} \<and> (\<forall>h'. represents t h' v {})"
  using assms by (cases t) auto

lemma applyToKeys_step:
  assumes IH: "\<And>h b t A. represents t h (HRef b) A \<Longrightarrow> depth t \<le> n \<Longrightarrow>
      \<exists>h'. applyToObject n m b h = Some h' \<and> represents (scale m t) h' (HRef b) A
        \<and> (\<forall>c. c \<notin> A \<longrightarrow> cells h' c = cells h c) \<and> fresh h' = fresh h"
    and r: "represents t h v A"
    and c: "cells h a = Some (ps1 @ (k, v) # ps)"
    and k: "k \<notin> fst ` set ps1"
    and a: "a \<notin> A"
    and d: "depth t \<le> n"
  shows "\<exists>h1 v1. applyToKeys n m a (k # keys) h = applyToKeys n m a keys h1
      \<and> cells h1 a = Some (ps1 @ (k, v1) # ps)
      \<and> represents (scale m t) h1 v1 A
      \<and> (\<forall>c. c \<notin> insert a A \<longrightarrow> cells h1 c = cells h c)
      \<and> fresh h1 = fresh h"
proof -
  note g = getProp_mid [OF c k]
  note s = setProp_mid [OF c k]
  show ?thesis
  proof (cases t)
    case (Tnum x)
    with r have v: "v = HNum x" "A = {}"
      by simp_all
    let ?h1 = "setProp h a k (multiply (HNum x) m)"
    have "applyToKeys n m a (k # keys) h = applyToKeys n m a keys ?h1"
      using g v by simp
    moreover have "cells ?h1 a = Some (ps1 @ (k, multiply (HNum x) m) # ps)"
      by (simp add: s)
    moreover have "represents (scale m t) ?h1 (multiply (HNum x) m) A"
      using Tnum v by (cases m) simp_all
    moreover have "\<forall>c. c \<notin> insert a A \<longrightarrow> cells ?h1 c = cells h c"
      by (simp add: s)
    moreover have "fresh ?h1 = fresh h"
      by (simp add: s)
    ultimately show ?thesis
      by blast
  next
    case Tnan
    with r have v: "v = HNaN" "A = {}"
      by simp_all
    let ?h1 = "setProp h a k (multiply HNaN m)"
    have "applyToKeys n m a (k # keys) h = applyToKeys n m a keys ?h1"
      using g v by simp
    moreover have "cells ?h1 a = Some (ps1 @ (k, multiply HNaN m) # ps)"
      by (simp add: s)
    moreover have "represents (scale m t) ?h1 (multiply HNaN m) A"
      using Tnan v by simp
    moreover have "\<forall>c. c \<notin> insert a A \<longrightarrow> cells ?h1 c = cells h c"
      by (simp add: s)
    moreover have "fresh ?h1 = fresh h"
      by (simp add: s)
    ultimately show ?thesis
      by blast
  next
    case (Tstr x)
    with r have v: "v = HStr x" "A = {}"
      by simp_all
    have "applyToKeys n m a (k # keys) h = applyToKeys n m a keys h"
      using g v by simp
    with c r Tstr v show ?thesis
      by auto
  next
    case (Tbool x)
    with r have v: "v = HBool x" "A = {}"
      by simp_all
    have "applyToKeys n m a (k # keys) h = applyToKeys n m a keys h"
      using g v by simp
    with c r Tbool v show ?thesis
      by auto
  next
    case Tnull
    with r have v: "v = HNull" "A = {}"
      by simp_all
    have "applyToKeys n m a (k # keys) h = applyToKeys n m a keys h"
      using g v by simp
    with c r Tnull v show ?thesis
      by auto
  next
    case (Tobj gs)
    with r obtain b where v: "v = HRef b"
      by auto
    from IH [OF r [unfolded v] d] obtain h1 where h1: "applyToObject n m b h = Some h1"
      "represents (scale m t) h1 (HRef b) A" "\<forall>c. c \<notin> A \<longrightarrow> cells h1 c = cells h c"
      "fresh h1 = fresh h"
      by blast
    have "applyToKeys n m a (k # keys) h = applyToKeys n m a keys h1"
      using g v h1(1) by simp
    moreover have "cells h1 a = Some (ps1 @ (k, v) # ps)"
      using h1(3) a c by simp
    ultimately show ?thesis
      using h1 v by auto
  qed
qed

lemma applyToKeys_represents:
  assumes IH: "\<And>h b t A. represents t h (HRef b) A \<Longrightarrow> depth t \<le> n \<Longrightarrow>
      \<exists>h'. applyToObject n m b h = Some h' \<and> represents (scale m t) h' (HRef b) A
        \<and> (\<forall>c. c \<notin> A \<longrightarrow> cells h' c = cells h c) \<and> fresh h' = fresh h"
  shows "represents_fields fs h ps B \<Longrightarrow> cells h a = Some (ps1 @ ps) \<Longrightarrow>
     distinct (map fst (ps1 @ ps)) \<Longrightarrow> a \<notin> B \<Longrightarrow> depth_fields fs \<le> n \<Longrightarrow>
     \<exists>h' ps'. applyToKeys n m a (map fst ps) h = Some h' \<and> cells h' a = Some (ps1 @ ps')
       \<and> represents_fields (scale_fields m fs) h' ps' B
       \<and> (\<forall>c. c \<notin> insert a B \<longrightarrow> cells h' c = cells h c) \<and> fresh h' = fresh h"
proof (induction fs arbitrary: h ps B ps1)
  case Nil
  then show ?case by simp
next
  case (Cons f fs)
  obtain k t where f: "f = (k, t)"
    by (cases f)
  from Cons.prems(1) f obtain v ps' A B' where ps: "ps = (k, v) # ps'"
    and rt: "represents t h v A" and rf: "represents_fields fs h ps' B'"
    and disj: "A \<inter> B' = {}" and B: "B = A \<union> B'"
    by auto
  from Cons.prems(3) ps have k: "k \<notin> fst ` set ps1"
    by auto
  from Cons.prems(4) B have a: "a \<notin> A" "a \<notin> B'"
    by simp_all
  from Cons.prems(5) f have d: "depth t \<le> n" "depth_fields fs \<le> n"
    by simp_all
  from applyToKeys_step [OF IH rt Cons.prems(2) [unfolded ps] k a(1) d(1), of "map fst ps'"]
  obtain h1 v1 where step: "applyToKeys n m a (k # map fst ps') h = applyToKeys n m a (map fst ps') h1"
    and c1: "cells h1 a = Some (ps1 @ (k, v1) # ps')"
    and r1: "represents (scale m t) h1 v1 A"
    and fr1: "\<forall>c. c \<notin> insert a A \<longrightarrow> cells h1 c = cells h c"
    and fresh1: "fresh h1 = fresh h"
    by blast
  from fr1 a(2) disj have "\<forall>c\<in>B'. cells h1 c = cells h c"
    by auto
  from represents_frame(3) [OF rf this] have rf1: "represents_fields fs h1 ps' B'" .
  from c1 have c1': "cells h1 a = Some ((ps1 @ [(k, v1)]) @ ps')"
    by simp
  from Cons.prems(3) ps have dist: "distinct (map fst ((ps1 @ [(k, v1)]) @ ps'))"
    by simp
  from Cons.IH [OF rf1 c1' dist a(2) d(2)]
  obtain h' ps'' where rest: "applyToKeys n m a (map fst ps') h1 = Some h'"
    and c': "cells h' a = Some ((ps1 @ [(k, v1)]) @ ps'')"
    and r': "represents_fields (scale_fields m fs) h' ps'' B'"
    and fr': "\<forall>c. c \<notin> insert a B' \<longrightarrow> cells h' c = cells h1 c"
    and fresh': "fresh h' = fresh h1"
    by blast
  from fr' a(1) disj have "\<forall>c\<in>A. cells h' c = cells h1 c"
    by auto
  from represents_frame(1) [OF r1 this] have r1': "represents (scale m t) h' v1 A" .
  have "applyToKeys n m a (map fst ps) h = Some h'"
    using step rest by (simp add: ps)
  moreover have "cells h' a = Some (ps1 @ (k, v1) # ps'')"
    using c' by simp
  moreover have "represents_fields (scale_fields m (f # fs)) h' ((k, v1) # ps'') B"
    using r1' r' disj by (auto simp: f B)
  moreover have "\<forall>c. c \<notin> insert a B \<longrightarrow> cells h' c = cells h c"
    using fr1 fr' by (simp add: B)
  moreover have "fresh h' = fresh h"
    using fresh1 fresh' by simp
  ultimately show ?case
    by blast
qed

lemma applyToObject_represents:
  "represents t h (HRef a) A \<Longrightarrow> depth t \<le> n \<Longrightarrow>
     \<exists>h'. applyToObject n m a h = Some h' \<and> represents (scale m t) h' (HRef a) A
       \<and> (\<forall>c. c \<notin> A \<longrightarrow> cells h' c = cells h c) \<and> fresh h' = fresh h"
proof (induction n arbitrary: t h a A)
  case 0
  then show ?case by (cases t) auto
next
  case (Suc n)
  from Suc.prems(1) obtain fs where t: "t = Tobj fs"
    by (cases t) auto
  with Suc.prems(1) obtain props B where c: "cells h a = Some props"
    and dist: "distinct (map fst props)" and rf: "represents_fields fs h props B"
    and a: "a \<notin> B" and A: "A = insert a B"
    by auto
  from Suc.prems(2) t have d: "depth_fields fs \<le> n"
    by simp
  from c have c0: "cells h a = Some ([] @ props)"
    by simp
  from dist have dist0: "distinct (map fst ([] @ props))"
    by simp
  from applyToKeys_represents [of n m fs h props B a "[]", OF Suc.IH rf c0 dist0 a d]
  obtain h' ps' where keys: "applyToKeys n m a (map fst props) h = Some h'"
    and c': "cells h' a = Some ps'"
    and r': "represents_fields (scale_fields m fs) h' ps' B"
    and fr': "\<forall>c. c \<notin> insert a B \<longrightarrow> cells h' c = cells h c"
    and fresh': "fresh h' = fresh h"
    by auto
  from represents_keys [OF r'] dist represents_keys [OF rf] have "distinct (map fst ps')"
    by (simp add: scale_keys)
  with c' r' a have "represents (scale m t) h' (HRef a) A"
    by (auto simp: t A)
  moreover have "applyToObject (Suc n) m a h = Some h'"
    using keys c by (simp add: Object_keys_def)
  ultimately show ?case
    using fr' fresh' A by auto
qed

lemma fields_lookup:
  "represents_fields fs h ps B \<Longrightarrow> map_of fs k = Some u \<Longrightarrow>
     \<exists>w A. map_of ps k = Some w \<and> represents u h w A"
proof (induction fs arbitrary: ps B)
  case Nil
  then show ?case by simp
next
  case (Cons f fs)
  obtain k' t where f: "f = (k', t)"
    by (cases f)
  from Cons.prems(1) f obtain v ps' A B' where ps: "ps = (k', v) # ps'"
    and rt: "represents t h v A" and rf: "represents_fields fs h ps' B'"
    by auto
  show ?case
  proof (cases "k = k'")
    case True
    with Cons.prems(2) f rt ps show ?thesis
      by auto
  next
    case False
    with Cons.prems(2) f have "map_of fs k = Some u"
      by simp
    from Cons.IH [OF rf this] False ps show ?thesis
      by simp
  qed
qed

lemma readPath_represents:
  "represents t h v A \<Longrightarrow> treePath t ks = Some u \<Longrightarrow>
     \<exists>w B. readPath h v ks = Some w \<and> represents u h w B"
proof (induction ks arbitrary: t v A)
  case Nil
  then show ?case by auto
next
  case (Cons k ks)
  from Cons.prems(2) obtain fs where t: "t = Tobj fs"
    by (cases t) auto
  with Cons.prems(2) obtain u' where u': "map_of fs k = Some u'" "treePath u' ks = Some u"
    by (auto split: option.splits)
  from Cons.prems(1) t obtain a props B where v: "v = HRef a" "cells h a = Some props"
    "represents_fields fs h props B"
    by auto
  from fields_lookup [OF v(3) u'(1)] obtain w A' where w: "map_of props k = Some w"
    "represents u' h w A'"
    by blast
  from Cons.IH [OF w(2) u'(2)] v w(1) show ?case
    by (simp add: getProp_def)
qed

lemma readPath_number:
  assumes "represents t h v A" and "treePath t ks = Some (Tnum x)"
  shows "readPath h v ks = Some (HNum x)"
  using readPath_represents [OF assms] by auto

lemma readPath_NaN:
  assumes "represents t h v A" and "treePath t ks = Some Tnan"
  shows "readPath h v ks = Some HNaN"
  using readPath_represents [OF assms] by auto

lemma allocated_emptyStore: "allocated emptyStore"
  by (simp add: allocated_def emptyStore_def)

lemma document_table: "document US_EAST_1_PRICING"
  by (simp add: US_EAST_1_PRICING_def)

lemma depth_table: "depth US_EAST_1_PRICING = 2"
  by (simp add: US_EAST_1_PRICING_def)

lemma multipliers_truthy: "\<forall>(k, m) \<in> set REGIONAL_MULTIPLIERS. m \<noteq> 0"
  by (simp add: REGIONAL_MULTIPLIERS_def)

lemma multiplier_of_region:
  "orOperand (REGIONAL_MULTIPLIERS_get regionName) 1.1 =
     (case map_of REGIONAL_MULTIPLIERS regionName of
        Some m \<Rightarrow> Numeric m
      | None \<Rightarrow> if regionName \<in> set Object_prototype then NonNumeric else Numeric 1.1)"
proof (cases "map_of REGIONAL_MULTIPLIERS regionName")
  case None
  then show ?thesis
    by (simp add: orOperand_def REGIONAL_MULTIPLIERS_get_def)
next
  case (Some m)
  then have "(regionName, m) \<in> set REGIONAL_MULTIPLIERS"
    by (rule map_of_SomeD)
  with multipliers_truthy have "m \<noteq> 0"
    by auto
  with Some show ?thesis
    by (simp add: orOperand_def REGIONAL_MULTIPLIERS_get_def)
qed

lemma applyMultiplier_represents:
  assumes r: "represents (Tobj fs) h table A"
    and doc: "document (Tobj fs)"
    and d: "depth (Tobj fs) \<le> fuel"
    and al: "allocated h"
    and sub: "A \<subseteq> {..<fresh h}"
  shows "\<exists>v h' A'. applyMultiplier fuel table m h = Some (Inr (v, h'))
      \<and> represents (scale m (Tobj fs)) h' v A'
      \<and> A' \<subseteq> {fresh h..<fresh h'}
      \<and> (\<forall>a<fresh h. cells h' a = cells h a)
      \<and> represents (Tobj fs) h' table A
      \<and> allocated h'"
proof -
  let ?t = "Tobj fs"
  from stringify_represents(1) [OF r doc d] have str: "JSON_stringify fuel h table = Some ?t" .
  obtain v h1 where parse: "construct ?t h = (v, h1)"
    by (cases "construct ?t h")
  from construct_represents(1) [OF al parse doc] obtain A1 where r1: "represents ?t h1 v A1"
    and A1: "A1 \<subseteq> {fresh h..<fresh h1}" and below1: "\<forall>a<fresh h. cells h1 a = cells h a"
    and al1: "allocated h1"
    by blast
  from r1 obtain a where v: "v = HRef a"
    by auto
  from applyToObject_represents [OF r1 [unfolded v] d, of m] obtain h2
    where ap: "applyToObject fuel m a h1 = Some h2"
      and r2: "represents (scale m ?t) h2 (HRef a) A1"
      and fr2: "\<forall>c. c \<notin> A1 \<longrightarrow> cells h2 c = cells h1 c"
      and fresh2: "fresh h2 = fresh h1"
    by blast
  have below2: "\<forall>c<fresh h. cells h2 c = cells h c"
  proof (intro allI impI)
    fix c
    assume "c < fresh h"
    with A1 have "c \<notin> A1"
      by auto
    with fr2 below1 \<open>c < fresh h\<close> show "cells h2 c = cells h c"
      by simp
  qed
  from sub below2 have "\<forall>c\<in>A. cells h2 c = cells h c"
    by auto
  from represents_frame(1) [OF r this] have base: "represents ?t h2 table A" .
  have al2: "allocated h2"
    unfolding allocated_def
  proof (intro allI impI)
    fix c
    assume "fresh h2 \<le> c"
    with fresh2 A1 have "c \<notin> A1" "fresh h1 \<le> c"
      by auto
    with fr2 al1 show "cells h2 c = None"
      by (simp add: allocated_def)
  qed
  have "applyMultiplier fuel table m h = Some (Inr (v, h2))"
    by (simp add: applyMultiplier_def str JSON_parse_def parse v ap del: construct.simps)
  with r2 A1 fresh2 below2 base al2 v show ?thesis
    by auto
qed

text \<open>
  C7. Let the store hold the base table: \<open>table\<close>, the value of \<^verbatim>\<open>US_EAST_1_PRICING\<close>, is the
  root of a copy of the literal that occupies the cells \<open>A\<close>, all of them handed out by the
  allocator. For the regionName \<^verbatim>\<open>us-east-1\<close>, \<^verbatim>\<open>getRegionalPricing\<close> returns \<open>table\<close> itself
  and leaves the store as it is. For every other regionName it returns, given fuel for the two
  levels of the table, the root of a copy of the literal in which every numeric leaf is
  multiplied by \<open>m\<close>; the copy occupies cells that did not exist before the call (so it shares
  none with the base table, nor with anything else), no cell that existed is written, and
  \<open>table\<close> still is the root of the literal. The multiplier \<open>m\<close> is the entry of
  \<^verbatim>\<open>REGIONAL_MULTIPLIERS\<close> for a regionName it lists and 1.1 for a regionName it does not list,
  \<^emph>\<open>unless\<close> the regionName is the name of a property that every object inherits
  (\<^verbatim>\<open>constructor\<close>, \<^verbatim>\<open>toString\<close>, ...): then \<^verbatim>\<open>REGIONAL_MULTIPLIERS[region]\<close> is a function, which
  is truthy, \<^verbatim>\<open>|| 1.1\<close> does not apply, and every numeric leaf of the copy is \<^verbatim>\<open>NaN\<close>.
\<close>

theorem getRegionalPricing_result:
  assumes "represents US_EAST_1_PRICING h table A"
    and "allocated h"
    and "A \<subseteq> {..<fresh h}"
    and "2 \<le> fuel"
    and "m = (case map_of REGIONAL_MULTIPLIERS regionName of
                Some x \<Rightarrow> Numeric x
              | None \<Rightarrow> if regionName \<in> set Object_prototype then NonNumeric else Numeric 1.1)"
  shows "(regionName = ''us-east-1'' \<longrightarrow> getRegionalPricing fuel table regionName h = Some (Inr (table, h)))
       \<and> (regionName \<noteq> ''us-east-1'' \<longrightarrow>
            (\<exists>v h' A'. getRegionalPricing fuel table regionName h = Some (Inr (v, h'))
               \<and> represents (scale m US_EAST_1_PRICING) h' v A'
               \<and> A' \<subseteq> {fresh h..<fresh h'}
               \<and> (\<forall>a<fresh h. cells h' a = cells h a)
               \<and> represents US_EAST_1_PRICING h' table A))"
proof -
  obtain fs where t: "US_EAST_1_PRICING = Tobj fs"
    by (simp add: US_EAST_1_PRICING_def)
  from assms(4) have d: "depth US_EAST_1_PRICING \<le> fuel"
    by (simp add: depth_table)
  from applyMultiplier_represents [OF assms(1) [unfolded t] document_table [unfolded t]
      d [unfolded t] assms(2) assms(3), of m]
  have "\<exists>v h' A'. applyMultiplier fuel table m h = Some (Inr (v, h'))
      \<and> represents (scale m US_EAST_1_PRICING) h' v A'
      \<and> A' \<subseteq> {fresh h..<fresh h'}
      \<and> (\<forall>a<fresh h. cells h' a = cells h a)
      \<and> represents US_EAST_1_PRICING h' table A"
    unfolding t by blast
  then show ?thesis
    by (simp add: getRegionalPricing_def Let_def multiplier_of_region assms(5))
qed

lemma loadModule_represents:
  "\<exists>A. represents US_EAST_1_PRICING (snd (loadModule emptyStore)) (fst (loadModule emptyStore)) A
     \<and> A \<subseteq> {..<fresh (snd (loadModule emptyStore))}
     \<and> allocated (snd (loadModule emptyStore))"
proof -
  obtain table h0 where l: "construct US_EAST_1_PRICING emptyStore = (table, h0)"
    by (cases "construct US_EAST_1_PRICING emptyStore")
  from construct_represents(1) [OF allocated_emptyStore l document_table]
  obtain A where A: "represents US_EAST_1_PRICING h0 table A" "A \<subseteq> {fresh emptyStore..<fresh h0}"
    "allocated h0"
    by blast
  from A(2) have "A \<subseteq> {..<fresh h0}"
    by auto
  with A(1) A(3) show ?thesis
    unfolding loadModule_def l by auto
qed

lemma sample_multipliers:
  "map_of REGIONAL_MULTIPLIERS ''sa-east-1'' = Some 1.5"
  "map_of REGIONAL_MULTIPLIERS ''us-east-2'' = Some 1.0"
  "map_of REGIONAL_MULTIPLIERS ''mars-north-1'' = None"
  "map_of REGIONAL_MULTIPLIERS ''constructor'' = None"
  "''mars-north-1'' \<notin> set Object_prototype"
  "''constructor'' \<in> set Object_prototype"
  by (simp_all add: REGIONAL_MULTIPLIERS_def Object_prototype_def)

lemma sample_paths:
  "treePath US_EAST_1_PRICING [''nat'', ''gatewayPerHour''] = Some (Tnum 0.045)"
  "treePath (scale (Numeric 1.5) US_EAST_1_PRICING) [''nat'', ''gatewayPerHour''] = Some (Tnum (0.045 * 1.5))"
  "treePath (scale (Numeric 1.1) US_EAST_1_PRICING) [''nat'', ''gatewayPerHour''] = Some (Tnum (0.045 * 1.1))"
  "treePath (scale NonNumeric US_EAST_1_PRICING) [''nat'', ''gatewayPerHour''] = Some Tnan"
  by (simp_all add: US_EAST_1_PRICING_def)

text \<open>
  The store right after the module is loaded, with fuel 2: the hourly price of a NAT gateway
  is 0.045 in the base table, \<open>0.045 * 1.5\<close> for \<^verbatim>\<open>sa-east-1\<close>, \<open>0.045 * 1.1\<close> for the unknown
  regionName \<^verbatim>\<open>mars-north-1\<close>, and \<^verbatim>\<open>NaN\<close> for the regionName \<^verbatim>\<open>constructor\<close>; and it still is 0.045
  in the base table after each call.
\<close>

theorem getRegionalPricing_result_witness:
  "getRegionalPricing 2 (fst (loadModule emptyStore)) ''us-east-1'' (snd (loadModule emptyStore))
     = Some (Inr (loadModule emptyStore))
   \<and> (\<exists>v h'. getRegionalPricing 2 (fst (loadModule emptyStore)) ''sa-east-1'' (snd (loadModule emptyStore))
                = Some (Inr (v, h'))
         \<and> readPath h' v [''nat'', ''gatewayPerHour''] = Some (HNum (0.045 * 1.5))
         \<and> readPath h' (fst (loadModule emptyStore)) [''nat'', ''gatewayPerHour''] = Some (HNum 0.045))
   \<and> (\<exists>v h'. getRegionalPricing 2 (fst (loadModule emptyStore)) ''mars-north-1'' (snd (loadModule emptyStore))
                = Some (Inr (v, h'))
         \<and> readPath h' v [''nat'', ''gatewayPerHour''] = Some (HNum (0.045 * 1.1))
         \<and> readPath h' (fst (loadModule emptyStore)) [''nat'', ''gatewayPerHour''] = Some (HNum 0.045))
   \<and> (\<exists>v h'. getRegionalPricing 2 (fst (loadModule emptyStore)) ''constructor'' (snd (loadModule emptyStore))
                = Some (Inr (v, h'))
         \<and> readPath h' v [''nat'', ''gatewayPerHour''] = Some HNaN
         \<and> readPath h' (fst (loadModule emptyStore)) [''nat'', ''gatewayPerHour''] = Some (HNum 0.045))"
proof -
  define table where "table = fst (loadModule emptyStore)"
  define h where "h = snd (loadModule emptyStore)"
  from loadModule_represents obtain A where r: "represents US_EAST_1_PRICING h table A"
    and sub: "A \<subseteq> {..<fresh h}" and al: "allocated h"
    unfolding table_def h_def by blast
  note result = getRegionalPricing_result [OF r al sub order_refl refl]
  have canonical: "getRegionalPricing 2 table ''us-east-1'' h = Some (Inr (loadModule emptyStore))"
    using result [of "''us-east-1''"] by (simp add: table_def h_def)
  have scaled: "\<exists>v h'. getRegionalPricing 2 table ''sa-east-1'' h = Some (Inr (v, h'))
         \<and> readPath h' v [''nat'', ''gatewayPerHour''] = Some (HNum (0.045 * 1.5))
         \<and> readPath h' table [''nat'', ''gatewayPerHour''] = Some (HNum 0.045)"
  proof -
    from result [of "''sa-east-1''"] obtain v h' A'
      where "getRegionalPricing 2 table ''sa-east-1'' h = Some (Inr (v, h'))"
        and "represents (scale (Numeric 1.5) US_EAST_1_PRICING) h' v A'"
        and "represents US_EAST_1_PRICING h' table A"
      by (auto simp: sample_multipliers)
    with readPath_number [OF _ sample_paths(2)] readPath_number [OF _ sample_paths(1)]
    show ?thesis
      by blast
  qed
  have unknown: "\<exists>v h'. getRegionalPricing 2 table ''mars-north-1'' h = Some (Inr (v, h'))
         \<and> readPath h' v [''nat'', ''gatewayPerHour''] = Some (HNum (0.045 * 1.1))
         \<and> readPath h' table [''nat'', ''gatewayPerHour''] = Some (HNum 0.045)"
  proof -
    from result [of "''mars-north-1''"] obtain v h' A'
      where "getRegionalPricing 2 table ''mars-north-1'' h = Some (Inr (v, h'))"
        and "represents (scale (Numeric 1.1) US_EAST_1_PRICING) h' v A'"
        and "represents US_EAST_1_PRICING h' table A"
      by (auto simp: sample_multipliers)
    with readPath_number [OF _ sample_paths(3)] readPath_number [OF _ sample_paths(1)]
    show ?thesis
      by blast
  qed
  have inherited: "\<exists>v h'. getRegionalPricing 2 table ''constructor'' h = Some (Inr (v, h'))
         \<and> readPath h' v [''nat'', ''gatewayPerHour''] = Some HNaN
         \<and> readPath h' table [''nat'', ''gatewayPerHour''] = Some (HNum 0.045)"
  proof -
    from result [of "''constructor''"] obtain v h' A'
      where "getRegionalPricing 2 table ''constructor'' h = Some (Inr (v, h'))"
        and "represents (scale NonNumeric US_EAST_1_PRICING) h' v A'"
        and "represents US_EAST_1_PRICING h' table A"
      by (auto simp: sample_multipliers)
    with readPath_NaN [OF _ sample_paths(4)] readPath_number [OF _ sample_paths(1)]
    show ?thesis
      by blast
  qed
  from canonical scaled unknown inherited show ?thesis
    unfolding table_def h_def by blast
qed


end
